(* ===== verification/Prelude.thy ===== *)
theory Prelude
  imports Main "HOL-Library.State_Monad" "HOL-Library.Word"
begin

text \<open>
  What every component shares: the part of Go's standard library that the sources use on
  strings, error values and their wrapping, interface values, HTTP requests and replies, and the
  rules for reasoning about code that calls out of the process.

  Code that calls the Kubernetes API, Zitadel or the clock is written in the state monad of
  \<^verbatim>\<open>HOL-Library.State_Monad\<close>: an action of type \<^verbatim>\<open>('w, 'a) state\<close> maps the state of the world
  outside the process to a result and the next state. The type \<^verbatim>\<open>'w\<close> of worlds stays a type
  variable: the sources do not define it.

  Strings are lists of bytes. \<^verbatim>\<open>strings.TrimSpace\<close>, \<^verbatim>\<open>strings.ToLower\<close> and \<^verbatim>\<open>strings.EqualFold\<close> are
  modelled on the ASCII range; bytes from 128 on are left as they are.
\<close>

section \<open>Automation\<close>

named_theorems go_str \<open>definitions of the string functions of the Go standard library\<close>
named_theorems triple_intro \<open>introduction rules for triples\<close>

section \<open>Strings\<close>

definition is_space :: "char \<Rightarrow> bool" where
  "is_space c \<longleftrightarrow> (of_char c :: nat) \<in> {9, 10, 11, 12, 13, 32}"

definition TrimSpace :: "string \<Rightarrow> string" where
  [go_str]: "TrimSpace s = rev (dropWhile is_space (rev (dropWhile is_space s)))"

definition to_lower_char :: "char \<Rightarrow> char" where
  "to_lower_char c =
     (if 65 \<le> (of_char c :: nat) \<and> (of_char c :: nat) \<le> 90 then char_of ((of_char c :: nat) + 32) else c)"

definition ToLower :: "string \<Rightarrow> string" where
  [go_str]: "ToLower s = map to_lower_char s"

definition EqualFold :: "string \<Rightarrow> string \<Rightarrow> bool" where
  [go_str]: "EqualFold s t \<longleftrightarrow> ToLower s = ToLower t"

definition HasPrefix :: "string \<Rightarrow> string \<Rightarrow> bool" where
  [go_str]: "HasPrefix s p \<longleftrightarrow> take (length p) s = p"

definition TrimPrefix :: "string \<Rightarrow> string \<Rightarrow> string" where
  [go_str]: "TrimPrefix s p = (if HasPrefix s p then drop (length p) s else s)"

fun Contains :: "string \<Rightarrow> string \<Rightarrow> bool" where
  "Contains [] p \<longleftrightarrow> p = []"
| "Contains (c # s) p \<longleftrightarrow> HasPrefix (c # s) p \<or> Contains s p"

fun Split :: "string \<Rightarrow> char \<Rightarrow> string list" where
  "Split [] sep = [[]]"
| "Split (c # s) sep =
     (if c = sep then [] # Split s sep
      else (case Split s sep of [] \<Rightarrow> [[c]] | p # ps \<Rightarrow> (c # p) # ps))"

definition TrimRight :: "string \<Rightarrow> char \<Rightarrow> string" where
  [go_str]: "TrimRight s c = rev (dropWhile (\<lambda>x. x = c) (rev s))"

definition TrimLeft :: "string \<Rightarrow> char \<Rightarrow> string" where
  [go_str]: "TrimLeft s c = dropWhile (\<lambda>x. x = c) s"

definition digit_char :: "nat \<Rightarrow> char" where
  "digit_char d = char_of (if d < 10 then 48 + d else 87 + d)"

fun digits_base :: "nat \<Rightarrow> nat \<Rightarrow> string" where
  "digits_base b n =
     (if b < 2 \<or> n < b then [digit_char n] else digits_base b (n div b) @ [digit_char (n mod b)])"

declare digits_base.simps [simp del]

definition Itoa :: "int \<Rightarrow> string" where
  "Itoa i = (if i < 0 then CHR ''-'' # digits_base 10 (nat (- i)) else digits_base 10 (nat i))"

definition hex_nat :: "nat \<Rightarrow> string" where
  "hex_nat n = digits_base 16 n"

text \<open>
  The verb \<^verbatim>\<open>%q\<close> of package fmt: a double-quoted literal with the escapes of \<^verbatim>\<open>strconv.Quote\<close>.
\<close>

definition quote_char :: "char \<Rightarrow> string" where
  "quote_char c =
     (let n = (of_char c :: nat) in
      if n = 34 then [char_of (92::nat), char_of (34::nat)]
      else if n = 92 then [char_of (92::nat), char_of (92::nat)]
      else if n = 7 then char_of (92::nat) # ''a''
      else if n = 8 then char_of (92::nat) # ''b''
      else if n = 9 then char_of (92::nat) # ''t''
      else if n = 10 then char_of (92::nat) # ''n''
      else if n = 11 then char_of (92::nat) # ''v''
      else if n = 12 then char_of (92::nat) # ''f''
      else if n = 13 then char_of (92::nat) # ''r''
      else if n < 32 \<or> n = 127
        then char_of (92::nat) # CHR ''x'' # [digit_char (n div 16), digit_char (n mod 16)]
      else [c])"

definition Quote :: "string \<Rightarrow> string" where
  "Quote s = [CHR 0x22] @ concat (map quote_char s) @ [CHR 0x22]"

lemma HasPrefix_append [simp]: "HasPrefix (p @ s) p"
  by (simp add: HasPrefix_def)

lemma HasPrefixE: "HasPrefix s p \<Longrightarrow> \<exists>t. s = p @ t"
  unfolding HasPrefix_def by (metis append_take_drop_id)

lemma TrimPrefix_append [simp]: "TrimPrefix (p @ s) p = s"
  by (simp add: TrimPrefix_def)

lemma length_ToLower [simp]: "length (ToLower s) = length s"
  by (simp add: ToLower_def)

lemma ToLower_Nil_iff [simp]: "ToLower s = [] \<longleftrightarrow> s = []"
  by (simp add: ToLower_def)

lemma to_lower_char_idem [simp]: "to_lower_char (to_lower_char c) = to_lower_char c"
proof (cases "65 \<le> (of_char c :: nat) \<and> (of_char c :: nat) \<le> 90")
  case True
  then have "(of_char (to_lower_char c) :: nat) = of_char c + 32"
    by (simp add: to_lower_char_def of_char_of)
  with True show ?thesis by (simp add: to_lower_char_def [of "to_lower_char c"])
next
  case False
  then have "to_lower_char c = c" by (auto simp: to_lower_char_def)
  then show ?thesis by simp
qed

lemma ToLower_idem [simp]: "ToLower (ToLower s) = ToLower s"
  by (simp add: ToLower_def)

lemma is_space_to_lower [simp]: "is_space (to_lower_char c) = is_space c"
  by (auto simp: is_space_def to_lower_char_def of_char_of)

lemma dropWhile_space_ToLower: "dropWhile is_space (map to_lower_char s) = map to_lower_char (dropWhile is_space s)"
  by (induction s) auto

lemma TrimSpace_ToLower: "TrimSpace (ToLower s) = ToLower (TrimSpace s)"
  by (simp add: TrimSpace_def ToLower_def dropWhile_space_ToLower rev_map)

lemma dropWhile_rev_idem:
  "dropWhile P (rev (dropWhile P (rev (dropWhile P s)))) = rev (dropWhile P (rev (dropWhile P s)))"
proof (cases "dropWhile P s")
  case Nil
  then show ?thesis by (metis dropWhile.simps(1) rev.simps(1))
next
  case (Cons c t)
  then have nc: "\<not> P c" by (simp add: dropWhile_eq_Cons_conv)
  then have "dropWhile P (rev (c # t)) = dropWhile P (rev t) @ [c]"
    by (induction t rule: rev_induct) (auto simp: dropWhile_append)
  with Cons nc show ?thesis by simp
qed

lemma TrimSpace_idem [simp]: "TrimSpace (TrimSpace s) = TrimSpace s"
  by (simp add: TrimSpace_def dropWhile_rev_idem)

lemma Contains_iff: "Contains s p \<longleftrightarrow> (\<exists>a b. s = a @ p @ b)"
proof (induction s)
  case Nil
  show ?case by auto
next
  case (Cons c s)
  have pre: "HasPrefix (c # s) p \<longleftrightarrow> (\<exists>b. c # s = p @ b)"
    using HasPrefixE [of "c # s" p] by auto
  show ?case
  proof
    assume "Contains (c # s) p"
    then consider "HasPrefix (c # s) p" | "Contains s p" by auto
    then show "\<exists>a b. c # s = a @ p @ b"
    proof cases
      case 1
      with pre show ?thesis by (metis append_Nil)
    next
      case 2
      with Cons.IH obtain a b where "s = a @ p @ b" by blast
      then show ?thesis by (metis append_Cons)
    qed
  next
    assume "\<exists>a b. c # s = a @ p @ b"
    then obtain a b where ab: "c # s = a @ p @ b" by blast
    show "Contains (c # s) p"
    proof (cases a)
      case Nil
      with ab pre have "HasPrefix (c # s) p" by auto
      then show ?thesis by simp
    next
      case (Cons d a')
      with ab have "s = a' @ p @ b" by simp
      with Cons.IH show ?thesis by auto
    qed
  qed
qed

lemma ToLower_append [simp]: "ToLower (s @ t) = ToLower s @ ToLower t"
  by (simp add: ToLower_def)

lemma TrimSpace_Nil [simp]: "TrimSpace [] = []"
  by (simp add: TrimSpace_def)

lemma EqualFold_refl [simp]: "EqualFold s s"
  by (simp add: EqualFold_def)

lemma EqualFold_sym: "EqualFold s t \<Longrightarrow> EqualFold t s"
  by (simp add: EqualFold_def)

section \<open>Errors\<close>

text \<open>The status codes of gRPC, as package \<^verbatim>\<open>google.golang.org/grpc/codes\<close> lists them.\<close>

datatype code =
    OK | Canceled | Unknown | InvalidArgument | DeadlineExceeded | NotFound | AlreadyExists
  | PermissionDenied | ResourceExhausted | FailedPrecondition | Aborted | OutOfRange
  | Unimplemented | Internal | Unavailable | DataLoss | Unauthenticated

text \<open>
  What the predicates of \<^verbatim>\<open>apierrors\<close>, \<^verbatim>\<open>status\<close> and \<^verbatim>\<open>errors\<close> can find in an error or in what it
  wraps: a Kubernetes API status, a gRPC status or neither. The optional text of a gRPC status is
  its description when the error is the status itself, and absent when the status is wrapped, as
  \<^verbatim>\<open>status.FromError\<close> then reports the text of the whole error.
\<close>

datatype err_kind =
    KNotFound | KAlreadyExists | KConflict | KBadRequest | KForbidden | KUnauthorized
  | KServiceUnavailable | KTooManyRequests | KInternal
  | KStatus string int
  | KGrpc code "string option"
  | KCanceled
  | KPlain

datatype go_error = GoErr (err_kind: err_kind) (Error: string)

definition errorf :: "string \<Rightarrow> go_error" where
  "errorf msg = GoErr KPlain msg"

fun wrapped_kind :: "err_kind \<Rightarrow> err_kind" where
  "wrapped_kind (KGrpc c _) = KGrpc c None"
| "wrapped_kind k = k"

text \<open>\<^verbatim>\<open>fmt.Errorf\<close> with a prefix and the verb \<^verbatim>\<open>%w\<close>.\<close>

definition wrapf :: "string \<Rightarrow> go_error \<Rightarrow> go_error" where
  "wrapf prefix e = GoErr (wrapped_kind (err_kind e)) (prefix @ Error e)"

definition IsNotFound :: "go_error \<Rightarrow> bool" where
  "IsNotFound e \<longleftrightarrow> err_kind e = KNotFound"

definition IsAlreadyExists :: "go_error \<Rightarrow> bool" where
  "IsAlreadyExists e \<longleftrightarrow> err_kind e = KAlreadyExists"

definition IsConflict :: "go_error \<Rightarrow> bool" where
  "IsConflict e \<longleftrightarrow> err_kind e = KConflict"

fun FromError :: "go_error \<Rightarrow> (code \<times> string) option" where
  "FromError (GoErr (KGrpc c (Some d)) _) = Some (c, d)"
| "FromError (GoErr (KGrpc c None) m) = Some (c, m)"
| "FromError _ = None"

definition status_code :: "go_error \<Rightarrow> code" where
  "status_code e = (case FromError e of Some (c, _) \<Rightarrow> c | None \<Rightarrow> Unknown)"

lemma wrapped_kind_eq [simp]:
  "wrapped_kind k = KNotFound \<longleftrightarrow> k = KNotFound"
  "wrapped_kind k = KAlreadyExists \<longleftrightarrow> k = KAlreadyExists"
  "wrapped_kind k = KConflict \<longleftrightarrow> k = KConflict"
  by (cases k; simp)+

lemma IsNotFound_wrapf [simp]: "IsNotFound (wrapf p e) = IsNotFound e"
  by (simp add: IsNotFound_def wrapf_def)

lemma IsConflict_wrapf [simp]: "IsConflict (wrapf p e) = IsConflict e"
  by (simp add: IsConflict_def wrapf_def)

lemma status_code_wrapf [simp]: "status_code (wrapf p e) = status_code e"
proof (cases e)
  case (GoErr k m)
  show ?thesis
  proof (cases k)
    case (KGrpc c d)
    with GoErr show ?thesis by (cases d) (simp_all add: wrapf_def status_code_def)
  qed (use GoErr in \<open>simp_all add: wrapf_def status_code_def\<close>)
qed

text \<open>
  A Go interface value: nil, a value whose dynamic type is a pointer that is nil, or a live value.
  The comparison \<^verbatim>\<open>x == nil\<close> holds for the first only.
\<close>

datatype 'a iface = NilInterface | NilPointer | Live 'a

definition is_nil :: "'a iface \<Rightarrow> bool" where
  "is_nil x \<longleftrightarrow> (case x of NilInterface \<Rightarrow> True | _ \<Rightarrow> False)"

lemma is_nil_simps [simp]:
  "is_nil NilInterface" "\<not> is_nil NilPointer" "\<not> is_nil (Live a)"
  by (simp_all add: is_nil_def)

section \<open>HTTP\<close>

text \<open>
  The client certificate of a request: the common name of its subject and the text of its URI
  SANs. A request served without TLS has no certificate list.
\<close>

record certificate =
  cert_common_name :: string
  cert_uris :: "string list"

record http_request =
  req_method :: string
  req_header :: "string \<Rightarrow> string"
  req_body :: "go_error + string"
  req_peer_certificates :: "certificate list option"

text \<open>
  A reply has a status, headers and a body. A handler that panics sends none: the HTTP server
  drops the connection.
\<close>

datatype http_result =
    Reply (reply_status: nat) (reply_headers: "(string \<times> string) list") (reply_body: string)
  | Panicked

definition http_Error :: "string \<Rightarrow> nat \<Rightarrow> http_result" where
  "http_Error msg code =
     Reply code [(''Content-Type'', ''text/plain; charset=utf-8''), (''X-Content-Type-Options'', ''nosniff'')]
       (msg @ [CHR 0x0A])"

text \<open>An error reply to which the handler has added headers of its own.\<close>

definition http_Error_with :: "(string \<times> string) list \<Rightarrow> string \<Rightarrow> nat \<Rightarrow> http_result" where
  "http_Error_with hs msg code =
     Reply code (hs @ reply_headers (http_Error msg code)) (reply_body (http_Error msg code))"

definition MethodPost :: string where
  "MethodPost = ''POST''"

abbreviation StatusOK :: nat where "StatusOK \<equiv> 200"
abbreviation StatusCreated :: nat where "StatusCreated \<equiv> 201"
abbreviation StatusBadRequest :: nat where "StatusBadRequest \<equiv> 400"
abbreviation StatusUnauthorized :: nat where "StatusUnauthorized \<equiv> 401"
abbreviation StatusForbidden :: nat where "StatusForbidden \<equiv> 403"
abbreviation StatusNotFound :: nat where "StatusNotFound \<equiv> 404"
abbreviation StatusMethodNotAllowed :: nat where "StatusMethodNotAllowed \<equiv> 405"
abbreviation StatusUnprocessableEntity :: nat where "StatusUnprocessableEntity \<equiv> 422"
abbreviation StatusTooManyRequests :: nat where "StatusTooManyRequests \<equiv> 429"
abbreviation StatusInternalServerError :: nat where "StatusInternalServerError \<equiv> 500"
abbreviation StatusServiceUnavailable :: nat where "StatusServiceUnavailable \<equiv> 503"

lemma http_Error_simps [simp]:
  "reply_status (http_Error m c) = c" "http_Error m c \<noteq> Panicked" "Panicked \<noteq> http_Error m c"
  "http_Error m c = http_Error m' c' \<longleftrightarrow> m = m' \<and> c = c'"
  by (auto simp: http_Error_def)

section \<open>Time\<close>

text \<open>
  An instant is its distance in nanoseconds from the Unix epoch; the zero value of \<^verbatim>\<open>time.Time\<close> is
  the first of January of year one. Durations are in nanoseconds.
\<close>

definition zero_time :: int where
  "zero_time = -62135596800 * 1000000000"

definition IsZero :: "int \<Rightarrow> bool" where
  "IsZero t \<longleftrightarrow> t = zero_time"

text \<open>\<^verbatim>\<open>Time.Sub\<close> saturates at the bounds of a 64-bit duration.\<close>

definition time_Sub :: "int \<Rightarrow> int \<Rightarrow> int" where
  "time_Sub t u = max (- (2 ^ 63)) (min (2 ^ 63 - 1) (t - u))"

abbreviation Second :: int where "Second \<equiv> 1000000000"
abbreviation Minute :: int where "Minute \<equiv> 60 * 1000000000"
abbreviation Hour :: int where "Hour \<equiv> 3600 * 1000000000"

text \<open>The runtime services the code calls: the clock, random identifiers and sleeping.\<close>

record 'w runtime =
  Now :: "('w, int) state"
  NewUUID :: "('w, string) state"
  Sleep :: "int \<Rightarrow> ('w, unit) state"

section \<open>Reasoning about actions\<close>

text \<open>
  A triple: from every world that satisfies the first predicate, the action ends with a result and
  a world that satisfy the second. Every action of the model is a total function, so a triple also
  says that the code returns.
\<close>

definition triple :: "('w \<Rightarrow> bool) \<Rightarrow> ('w, 'a) state \<Rightarrow> ('a \<Rightarrow> 'w \<Rightarrow> bool) \<Rightarrow> bool" where
  "triple P m Q \<longleftrightarrow> (\<forall>w. P w \<longrightarrow> (case run_state m w of (a, w') \<Rightarrow> Q a w'))"

lemma tripleI: "(\<And>w a w'. P w \<Longrightarrow> run_state m w = (a, w') \<Longrightarrow> Q a w') \<Longrightarrow> triple P m Q"
  unfolding triple_def by (metis (no_types, lifting) case_prodI2)

lemma tripleD: "triple P m Q \<Longrightarrow> P w \<Longrightarrow> run_state m w = (a, w') \<Longrightarrow> Q a w'"
  unfolding triple_def by (auto split: prod.splits)

lemma triple_return [triple_intro]: "(\<And>w. P w \<Longrightarrow> Q a w) \<Longrightarrow> triple P (State_Monad.return a) Q"
  by (rule tripleI) simp

lemma triple_bind:
  assumes "triple P m R" and "\<And>a. triple (R a) (f a) Q"
  shows "triple P (State_Monad.bind m f) Q"
  using assms unfolding triple_def by (fastforce split: prod.splits)

lemma triple_conseq:
  assumes "triple P m Q" and "\<And>w. P' w \<Longrightarrow> P w" and "\<And>a w. Q a w \<Longrightarrow> Q' a w"
  shows "triple P' m Q'"
  using assms unfolding triple_def by (fastforce split: prod.splits)

lemma triple_if [triple_intro]:
  "(b \<Longrightarrow> triple P m Q) \<Longrightarrow> (\<not> b \<Longrightarrow> triple P n Q) \<Longrightarrow> triple P (if b then m else n) Q"
  by simp

lemma triple_sum [triple_intro]:
  "(\<And>e. r = Inl e \<Longrightarrow> triple P (f e) Q) \<Longrightarrow> (\<And>a. r = Inr a \<Longrightarrow> triple P (g a) Q) \<Longrightarrow>
   triple P (case r of Inl e \<Rightarrow> f e | Inr a \<Rightarrow> g a) Q"
  by (cases r) auto

lemma triple_option [triple_intro]:
  "(r = None \<Longrightarrow> triple P m Q) \<Longrightarrow> (\<And>a. r = Some a \<Longrightarrow> triple P (g a) Q) \<Longrightarrow>
   triple P (case r of None \<Rightarrow> m | Some a \<Rightarrow> g a) Q"
  by (cases r) auto

lemma triple_prod [triple_intro]:
  "(\<And>a b. p = (a, b) \<Longrightarrow> triple P (f a b) Q) \<Longrightarrow> triple P (case p of (a, b) \<Rightarrow> f a b) Q"
  by (cases p) auto

lemma triple_iface [triple_intro]:
  "(r = NilInterface \<Longrightarrow> triple P m Q) \<Longrightarrow> (r = NilPointer \<Longrightarrow> triple P n Q) \<Longrightarrow>
   (\<And>a. r = Live a \<Longrightarrow> triple P (g a) Q) \<Longrightarrow>
   triple P (case r of NilInterface \<Rightarrow> m | NilPointer \<Rightarrow> n | Live a \<Rightarrow> g a) Q"
  by (cases r) auto

text \<open>
  An action that keeps an invariant. The rules of \<^verbatim>\<open>keeps_intro\<close> follow the structure of an action
  down to the calls it is made of.
\<close>

named_theorems keeps_intro \<open>introduction rules for actions that keep an invariant\<close>

definition keeps :: "('w \<Rightarrow> bool) \<Rightarrow> ('w, 'a) state \<Rightarrow> bool" where
  "keeps I m \<longleftrightarrow> triple I m (\<lambda>_. I)"

lemma keepsD: "keeps I m \<Longrightarrow> I w \<Longrightarrow> run_state m w = (a, w') \<Longrightarrow> I w'"
  unfolding keeps_def by (rule tripleD)

lemma keepsI: "(\<And>w a w'. I w \<Longrightarrow> run_state m w = (a, w') \<Longrightarrow> I w') \<Longrightarrow> keeps I m"
  unfolding keeps_def by (rule tripleI)

lemma keeps_return [keeps_intro]: "keeps I (State_Monad.return a)"
  unfolding keeps_def by (rule triple_return)

lemma keeps_bind [keeps_intro]: "keeps I m \<Longrightarrow> (\<And>a. keeps I (f a)) \<Longrightarrow> keeps I (State_Monad.bind m f)"
  unfolding keeps_def by (rule triple_bind)

lemma keeps_if [keeps_intro]:
  "(b \<Longrightarrow> keeps I m) \<Longrightarrow> (\<not> b \<Longrightarrow> keeps I n) \<Longrightarrow> keeps I (if b then m else n)"
  by simp

lemma keeps_cases [keeps_intro]:
  "(\<And>e. r = Inl e \<Longrightarrow> keeps I (f e)) \<Longrightarrow> (\<And>a. r = Inr a \<Longrightarrow> keeps I (g a)) \<Longrightarrow>
   keeps I (case r of Inl e \<Rightarrow> f e | Inr a \<Rightarrow> g a)"
  "(q = None \<Longrightarrow> keeps I m) \<Longrightarrow> (\<And>c. q = Some c \<Longrightarrow> keeps I (h c)) \<Longrightarrow>
   keeps I (case q of None \<Rightarrow> m | Some c \<Rightarrow> h c)"
  "(\<And>b c. p = (b, c) \<Longrightarrow> keeps I (k b c)) \<Longrightarrow> keeps I (case p of (b, c) \<Rightarrow> k b c)"
  "(i = NilInterface \<Longrightarrow> keeps I m) \<Longrightarrow> (i = NilPointer \<Longrightarrow> keeps I n) \<Longrightarrow>
   (\<And>d. i = Live d \<Longrightarrow> keeps I (l d)) \<Longrightarrow>
   keeps I (case i of NilInterface \<Rightarrow> m | NilPointer \<Rightarrow> n | Live d \<Rightarrow> l d)"
  by (auto split: sum.split option.split prod.split iface.split)

text \<open>A step whose result is known to satisfy a condition.\<close>

lemma keeps_bind_when:
  assumes "keeps I m" and "\<And>w a w'. run_state m w = (a, w') \<Longrightarrow> C a" and "\<And>a. C a \<Longrightarrow> keeps I (f a)"
  shows "keeps I (State_Monad.bind m f)"
proof (rule keepsI)
  fix w b w'
  assume "I w" and run: "run_state (State_Monad.bind m f) w = (b, w')"
  obtain a w1 where a: "run_state m w = (a, w1)" by fastforce
  with run have "run_state (f a) w1 = (b, w')" by simp
  with keepsD [OF assms(1) \<open>I w\<close> a] keepsD [OF assms(3) [OF assms(2) [OF a]]] show "I w'" by blast
qed

text \<open>A step that keeps the precondition leads on to the rest of a triple.\<close>

lemma triple_step: "keeps P m \<Longrightarrow> (\<And>a. triple P (f a) Q) \<Longrightarrow> triple P (State_Monad.bind m f) Q"
  unfolding keeps_def by (rule triple_bind)

text \<open>An action that only reads: the world is the same after it.\<close>

definition reads :: "('w, 'a) state \<Rightarrow> bool" where
  "reads m \<longleftrightarrow> (\<forall>w. snd (run_state m w) = w)"

lemma reads_return [simp]: "reads (State_Monad.return a)"
  by (simp add: reads_def)

lemma reads_run: "reads m \<Longrightarrow> run_state m w = (a, w') \<Longrightarrow> w' = w"
  unfolding reads_def by (metis snd_conv)

text \<open>An action that leaves a view of the world as it is.\<close>

definition silent :: "('w \<Rightarrow> 'v) \<Rightarrow> ('w, 'a) state \<Rightarrow> bool" where
  "silent view m \<longleftrightarrow> (\<forall>w. view (snd (run_state m w)) = view w)"

lemma silent_bind: "silent v m \<Longrightarrow> (\<And>a. silent v (f a)) \<Longrightarrow> silent v (State_Monad.bind m f)"
  unfolding silent_def by (auto split: prod.splits) (metis snd_conv)

lemma silent_return: "silent v (State_Monad.return a)"
  by (simp add: silent_def)

lemma silent_if: "silent v m \<Longrightarrow> silent v n \<Longrightarrow> silent v (if b then m else n)"
  by simp

lemma silent_run: "silent view m \<Longrightarrow> run_state m w = (a, w') \<Longrightarrow> view w' = view w"
  unfolding silent_def by (metis snd_conv)

lemma silent_cases:
  "(\<And>e. silent v (f e)) \<Longrightarrow> (\<And>a. silent v (g a)) \<Longrightarrow> silent v (case r of Inl e \<Rightarrow> f e | Inr a \<Rightarrow> g a)"
  "silent v m \<Longrightarrow> (\<And>c. silent v (h c)) \<Longrightarrow> silent v (case q of None \<Rightarrow> m | Some c \<Rightarrow> h c)"
  "(\<And>b c. silent v (k b c)) \<Longrightarrow> silent v (case p of (b, c) \<Rightarrow> k b c)"
  by (auto split: sum.split option.split prod.split)

lemma keeps_silent: "silent v m \<Longrightarrow> keeps (\<lambda>w. P (v w)) m"
  unfolding silent_def keeps_def triple_def by (auto split: prod.splits) (metis snd_conv)

end
