(* ===== verification/Go_Url.thy ===== *)
theory Go_Url
  imports Prelude "HOL-Library.Char_ord" "HOL-Library.List_Lexorder"
begin

text \<open>
  The part of \<^verbatim>\<open>net/url\<close> that the mail links use: escaping of query components, the values of a
  query, and the parts of a URL. Parsing a URL and writing the part of it before the query are
  library code that the links only pass through; they are fields of the record \<^verbatim>\<open>golib\<close>.
\<close>

record url =
  url_scheme :: string
  url_user :: "string option"
  url_host :: string
  url_path :: string
  url_rawQuery :: string
  url_fragment :: string

section \<open>Escaping\<close>

definition unreserved :: "char \<Rightarrow> bool" where
  "unreserved c \<longleftrightarrow> (let n = (of_char c :: nat) in
     48 \<le> n \<and> n \<le> 57 \<or> 65 \<le> n \<and> n \<le> 90 \<or> 97 \<le> n \<and> n \<le> 122 \<or> n \<in> {45, 46, 95, 126})"

definition upperhex :: "nat \<Rightarrow> char" where
  "upperhex d = char_of (if d < 10 then 48 + d else 55 + d)"

definition unhex :: "char \<Rightarrow> nat option" where
  "unhex c = (let n = (of_char c :: nat) in
     if 48 \<le> n \<and> n \<le> 57 then Some (n - 48)
     else if 65 \<le> n \<and> n \<le> 70 then Some (n - 55)
     else if 97 \<le> n \<and> n \<le> 102 then Some (n - 87)
     else None)"

definition escape_char :: "char \<Rightarrow> string" where
  "escape_char c =
     (if unreserved c then [c]
      else if c = CHR '' '' then ''+''
      else [CHR 0x25, upperhex (of_char c div 16), upperhex (of_char c mod 16)])"

definition QueryEscape :: "string \<Rightarrow> string" where
  "QueryEscape s = concat (map escape_char s)"

fun QueryUnescape :: "string \<Rightarrow> string option" where
  "QueryUnescape [] = Some []"
| "QueryUnescape (c # s) =
     (if c = CHR 0x25 then
        (case s of
           a # b # t \<Rightarrow> (case (unhex a, unhex b) of
               (Some x, Some y) \<Rightarrow> map_option ((#) (char_of (16 * x + y))) (QueryUnescape t)
             | _ \<Rightarrow> None)
         | _ \<Rightarrow> None)
      else map_option ((#) (if c = CHR ''+'' then CHR '' '' else c)) (QueryUnescape s))"

lemma unhex_upperhex: "d < 16 \<Longrightarrow> unhex (upperhex d) = Some d"
  by (auto simp: unhex_def upperhex_def of_char_of Let_def)

lemma QueryUnescape_escape_char:
  "QueryUnescape (escape_char c @ s) = map_option ((#) c) (QueryUnescape s)"
proof -
  consider "unreserved c" | "c = CHR '' ''" | "\<not> unreserved c" "c \<noteq> CHR '' ''" by blast
  then show ?thesis
  proof cases
    case 1
    then have "c \<noteq> CHR 0x25" "c \<noteq> CHR ''+''" by (auto simp: unreserved_def)
    with 1 show ?thesis by (simp add: escape_char_def)
  next
    case 2
    then show ?thesis by (simp add: escape_char_def unreserved_def)
  next
    case 3
    have "(of_char c :: nat) div 16 < 16" "(of_char c :: nat) mod 16 < 16"
      using nat_of_char_less_256 [of c] by linarith+
    moreover have "16 * ((of_char c :: nat) div 16) + of_char c mod 16 = of_char c" by simp
    ultimately show ?thesis using 3 by (simp add: escape_char_def unhex_upperhex)
  qed
qed

lemma QueryUnescape_Escape [simp]: "QueryUnescape (QueryEscape s) = Some s"
  unfolding QueryEscape_def by (induction s) (simp_all add: QueryUnescape_escape_char)

lemma escape_char_chars: "d \<in> set (escape_char c) \<Longrightarrow> unreserved d \<or> d = CHR ''+'' \<or> d = CHR 0x25"
proof -
  have "unreserved (upperhex n)" if "n < 16" for n
    using that by (auto simp: unreserved_def upperhex_def of_char_of Let_def)
  moreover have "(of_char c :: nat) div 16 < 16" using nat_of_char_less_256 [of c] by linarith
  ultimately show "d \<in> set (escape_char c) \<Longrightarrow> ?thesis"
    by (auto simp: escape_char_def split: if_splits)
qed

lemma QueryEscape_chars: "d \<in> set (QueryEscape s) \<Longrightarrow> unreserved d \<or> d = CHR ''+'' \<or> d = CHR 0x25"
  unfolding QueryEscape_def by (auto dest: escape_char_chars)

section \<open>Values\<close>

text \<open>\<^verbatim>\<open>url.Values\<close>, a map from keys to lists of values.\<close>

type_synonym url_values = "(string \<times> string list) list"

definition Values_Set :: "string \<Rightarrow> string \<Rightarrow> url_values \<Rightarrow> url_values" where
  "Values_Set k v m = (k, [v]) # filter (\<lambda>(k', _). k' \<noteq> k) m"

definition Values_Add :: "string \<Rightarrow> string \<Rightarrow> url_values \<Rightarrow> url_values" where
  "Values_Add k v m =
     (case map_of m k of
        None \<Rightarrow> m @ [(k, [v])]
      | Some vs \<Rightarrow> map (\<lambda>(k', vs'). (k', if k' = k then vs' @ [v] else vs')) m)"

definition encode_pair :: "string \<Rightarrow> string \<Rightarrow> string" where
  "encode_pair k v = QueryEscape k @ ''='' @ QueryEscape v"

fun join_amp :: "string list \<Rightarrow> string" where
  "join_amp [] = []"
| "join_amp [s] = s"
| "join_amp (s # ss) = s @ ''&'' @ join_amp ss"

definition Values_Encode :: "url_values \<Rightarrow> string" where
  "Values_Encode m = join_amp (concat (map (\<lambda>(k, vs). map (encode_pair k) vs) (sort_key fst m)))"

definition Cut :: "char \<Rightarrow> string \<Rightarrow> string \<times> string" where
  "Cut c s = (takeWhile (\<lambda>x. x \<noteq> c) s, drop 1 (dropWhile (\<lambda>x. x \<noteq> c) s))"

definition parse_segment :: "string \<Rightarrow> url_values \<Rightarrow> url_values" where
  "parse_segment seg m =
     (if Contains seg '';'' \<or> seg = [] then m
      else case Cut (CHR ''='') seg of (k, v) \<Rightarrow>
        (case (QueryUnescape k, QueryUnescape v) of
           (Some k, Some v) \<Rightarrow> Values_Add k v m
         | _ \<Rightarrow> m))"

text \<open>\<^verbatim>\<open>url.ParseQuery\<close> as \<^verbatim>\<open>URL.Query\<close> uses it: malformed segments are skipped.\<close>

definition ParseQuery :: "string \<Rightarrow> url_values" where
  "ParseQuery q = fold parse_segment (Split q (CHR ''&'')) []"

section \<open>Round trips\<close>

definition values_of :: "url_values \<Rightarrow> string \<Rightarrow> string list" where
  "values_of m k = (case map_of m k of None \<Rightarrow> [] | Some vs \<Rightarrow> vs)"

lemma Split_no_sep: "c \<notin> set s \<Longrightarrow> Split s c = [s]"
  by (induction s) auto

lemma Split_append_sep: "c \<notin> set s \<Longrightarrow> Split (s @ c # t) c = s # Split t c"
  by (induction s) auto

lemma Split_join_amp:
  "ss \<noteq> [] \<Longrightarrow> \<forall>s \<in> set ss. CHR ''&'' \<notin> set s \<Longrightarrow> Split (join_amp ss) (CHR ''&'') = ss"
  by (induction ss rule: join_amp.induct) (simp_all add: Split_no_sep Split_append_sep)

lemma QueryEscape_no_sep [simp]:
  "CHR ''&'' \<notin> set (QueryEscape s)" "CHR ''='' \<notin> set (QueryEscape s)" "CHR '';'' \<notin> set (QueryEscape s)"
  "CHR ''#'' \<notin> set (QueryEscape s)"
  using QueryEscape_chars [of _ s] by (fastforce simp: unreserved_def Let_def)+

lemma encode_pair_chars [simp]:
  "CHR ''&'' \<notin> set (encode_pair k v)" "CHR '';'' \<notin> set (encode_pair k v)" "encode_pair k v \<noteq> []"
  "CHR ''#'' \<notin> set (encode_pair k v)"
  by (simp_all add: encode_pair_def)

lemma Contains_char: "Contains s [c] \<longleftrightarrow> c \<in> set s"
  unfolding Contains_iff by (auto simp: in_set_conv_decomp)

lemma takeWhile_sep: "c \<notin> set a \<Longrightarrow> takeWhile (\<lambda>x. x \<noteq> c) (a @ c # b) = a"
  by (induction a) auto

lemma dropWhile_sep: "c \<notin> set a \<Longrightarrow> dropWhile (\<lambda>x. x \<noteq> c) (a @ c # b) = c # b"
  by (induction a) auto

lemma parse_segment_pair [simp]: "parse_segment (encode_pair k v) = Values_Add k v"
proof
  have "Cut (CHR ''='') (encode_pair k v) = (QueryEscape k, QueryEscape v)"
    by (simp add: Cut_def encode_pair_def takeWhile_sep dropWhile_sep)
  then show "parse_segment (encode_pair k v) m = Values_Add k v m" for m
    by (simp add: parse_segment_def Contains_char)
qed

lemma values_of_Add:
  "values_of (Values_Add k v m) k' = (if k' = k then values_of m k @ [v] else values_of m k')"
proof -
  have "map_of (map (\<lambda>(k', vs'). (k', if k' = k then vs' @ [v] else vs')) m) k' =
      map_option (\<lambda>vs. if k' = k then vs @ [v] else vs) (map_of m k')"
    by (induction m) auto
  then show ?thesis
    by (auto simp: Values_Add_def values_of_def map_add_def split: option.splits)
qed

lemma values_of_Set: "values_of (Values_Set k v m) k' = (if k' = k then [v] else values_of m k')"
proof -
  have "k' \<noteq> k \<Longrightarrow> map_of (filter (\<lambda>(k', _). k' \<noteq> k) m) k' = map_of m k'"
    by (induction m) auto
  then show ?thesis by (simp add: Values_Set_def values_of_def)
qed

lemma keys_Add:
  assumes "distinct (map fst m)"
  shows "distinct (map fst (Values_Add k v m))"
proof -
  have "map fst (map (\<lambda>(k', vs'). (k', if k' = k then vs' @ [v] else vs')) m) = map fst m" by (induction m) auto
  with assms show ?thesis
    by (auto simp: Values_Add_def map_of_eq_None_iff simp del: map_map split: option.split)
qed

lemma keys_Set: "distinct (map fst m) \<Longrightarrow> distinct (map fst (Values_Set k v m))"
  by (auto simp: Values_Set_def distinct_map_filter)

lemma keys_ParseQuery: "distinct (map fst (ParseQuery q))"
proof -
  have "distinct (map fst m) \<Longrightarrow> distinct (map fst (fold parse_segment segs m))" for segs m
    by (induction segs arbitrary: m) (auto simp: parse_segment_def keys_Add split: prod.split option.split)
  then show ?thesis by (simp add: ParseQuery_def)
qed

lemma values_of_pairs:
  "values_of (fold (\<lambda>(k, v). Values_Add k v) ps m) k = values_of m k @ map snd (filter (\<lambda>(k', _). k' = k) ps)"
  by (induction ps arbitrary: m) (auto simp: values_of_Add)

lemma filter_pairs:
  "distinct (map fst m) \<Longrightarrow>
   map snd (filter (\<lambda>(k', _). k' = k) (concat (map (\<lambda>(k, vs). map (Pair k) vs) m))) = values_of m k"
proof (induction m)
  case (Cons a m)
  obtain k0 vs where a: "a = (k0, vs)" by fastforce
  have "values_of m k0 = []" using Cons.prems a by (simp add: values_of_def map_of_eq_None_iff [THEN iffD2])
  moreover have "filter (\<lambda>(k', _). k' = k) (map (Pair k0) vs) = (if k0 = k then map (Pair k0) vs else [])"
    by (induction vs) auto
  ultimately show ?case using Cons a by (auto simp: values_of_def comp_def)
qed (simp add: values_of_def)

text \<open>Reading back what \<^verbatim>\<open>Encode\<close> has written gives every key its values.\<close>

lemma ParseQuery_Encode:
  assumes "distinct (map fst m)"
  shows "values_of (ParseQuery (Values_Encode m)) k = values_of m k"
proof -
  let ?ps = "concat (map (\<lambda>(k, vs). map (Pair k) vs) (sort_key fst m))"
  have enc: "concat (map (\<lambda>(k, vs). map (encode_pair k) vs) (sort_key fst m)) = map (\<lambda>(k, v). encode_pair k v) ?ps"
    by (simp add: map_concat comp_def split_def)
  have sorted: "distinct (map fst (sort_key fst m))" "map_of (sort_key fst m) = map_of m"
    using assms by (simp_all add: distinct_map map_of_inject_set)
  have "values_of (ParseQuery (Values_Encode m)) k = map snd (filter (\<lambda>(k', _). k' = k) ?ps)"
  proof (cases "?ps = []")
    case True
    then have "Values_Encode m = []" unfolding Values_Encode_def enc by (simp only: list.map join_amp.simps)
    then show ?thesis unfolding True by (simp add: ParseQuery_def parse_segment_def values_of_def)
  next
    case False
    then have "Split (Values_Encode m) (CHR ''&'') = map (\<lambda>(k, v). encode_pair k v) ?ps"
      unfolding Values_Encode_def enc by (intro Split_join_amp) auto
    then have "ParseQuery (Values_Encode m) = fold (\<lambda>(k, v). Values_Add k v) ?ps []"
      by (simp add: ParseQuery_def fold_map comp_def split_def)
    then show ?thesis by (simp add: values_of_pairs) (simp add: values_of_def)
  qed
  also have "\<dots> = values_of (sort_key fst m) k" using sorted(1) by (rule filter_pairs)
  finally show ?thesis using sorted(2) by (simp add: values_of_def)
qed

end
