(* ===== verification/Go_Json.thy ===== *)
theory Go_Json
  imports Go_Url
begin

text \<open>
  Decoding of JSON into Go structs, as \<^verbatim>\<open>encoding/json\<close> does it for the struct tags of the
  sources. The scanner that turns text into a JSON value is an argument (the field \<^verbatim>\<open>ParseJSON\<close> of
  the record below); what the decoder does with the value is defined here:
  the keys of an object are handled in order and the last duplicate wins, a key selects the field
  with that name or else the field whose name is equal to it up to case, an unknown key is
  ignored, \<^verbatim>\<open>null\<close> leaves a field as it is, and a value of the wrong type makes the whole decoding
  fail.
\<close>

datatype json =
    JNull | JBool bool | JInt int | JFrac string | JStr string
  | JArr "json list" | JObj "(string \<times> json) list"

text \<open>
  The parts of Go's standard library that the model takes as arguments: the JSON scanner on a
  whole text and on the first value of a stream (with the text of its errors), the encoder, the text of a type
  error, reformatting of a time stamp for display, SHA-256 in hexadecimal, base64, URL parsing,
  the text of a URL before its query (from scheme, user, host and path), and the escaping of a fragment.
\<close>

record golib =
  ParseJSON :: "string \<Rightarrow> string + json"
  ParseFirstJSON :: "string \<Rightarrow> string + json"
  EncodeJSON :: "json \<Rightarrow> string"
  TypeErrorText :: "string \<Rightarrow> string"
  DisplayTime :: "string \<Rightarrow> string option"
  Sha256Hex :: "string \<Rightarrow> string"
  Base64Decode :: "string \<Rightarrow> string option"
  ParseURL :: "string \<Rightarrow> url option"
  URLPrefix :: "string \<Rightarrow> string option \<Rightarrow> string \<Rightarrow> string \<Rightarrow> string"
  EscapeFragment :: "string \<Rightarrow> string"

section \<open>Struct decoding\<close>

type_synonym 'r decoder = "json \<Rightarrow> 'r \<Rightarrow> 'r option"

definition json_string :: "(string \<Rightarrow> 'r \<Rightarrow> 'r) \<Rightarrow> 'r decoder" where
  "json_string upd v r = (case v of JNull \<Rightarrow> Some r | JStr s \<Rightarrow> Some (upd s r) | _ \<Rightarrow> None)"

definition json_bool :: "(bool \<Rightarrow> 'r \<Rightarrow> 'r) \<Rightarrow> 'r decoder" where
  "json_bool upd v r = (case v of JNull \<Rightarrow> Some r | JBool b \<Rightarrow> Some (upd b r) | _ \<Rightarrow> None)"

definition json_int :: "(int \<Rightarrow> 'r \<Rightarrow> 'r) \<Rightarrow> 'r decoder" where
  "json_int upd v r =
     (case v of JNull \<Rightarrow> Some r
      | JInt i \<Rightarrow> if - (2 ^ 63) \<le> i \<and> i < 2 ^ 63 then Some (upd i r) else None
      | _ \<Rightarrow> None)"

fun find_fold :: "(string \<times> 'a) list \<Rightarrow> string \<Rightarrow> 'a option" where
  "find_fold [] k = None"
| "find_fold ((n, d) # fs) k = (if EqualFold n k then Some d else find_fold fs k)"

definition find_field :: "(string \<times> 'a) list \<Rightarrow> string \<Rightarrow> 'a option" where
  "find_field fs k = (case map_of fs k of Some d \<Rightarrow> Some d | None \<Rightarrow> find_fold fs k)"

fun decode_pairs :: "(string \<times> 'r decoder) list \<Rightarrow> (string \<times> json) list \<Rightarrow> 'r \<Rightarrow> 'r option" where
  "decode_pairs fs [] r = Some r"
| "decode_pairs fs ((k, v) # kvs) r =
     (case find_field fs k of
        None \<Rightarrow> decode_pairs fs kvs r
      | Some d \<Rightarrow> (case d v r of None \<Rightarrow> None | Some r' \<Rightarrow> decode_pairs fs kvs r'))"

definition decode_struct :: "(string \<times> 'r decoder) list \<Rightarrow> 'r decoder" where
  "decode_struct fs v r =
     (case v of JNull \<Rightarrow> Some r | JObj kvs \<Rightarrow> decode_pairs fs kvs r | _ \<Rightarrow> None)"

text \<open>A field that is a struct, and a field that is a pointer to a struct.\<close>

definition json_struct ::
  "(string \<times> 's decoder) list \<Rightarrow> ('r \<Rightarrow> 's) \<Rightarrow> ('s \<Rightarrow> 'r \<Rightarrow> 'r) \<Rightarrow> 'r decoder" where
  "json_struct fs sel upd v r = map_option (\<lambda>s. upd s r) (decode_struct fs v (sel r))"

definition json_pointer ::
  "(string \<times> 's decoder) list \<Rightarrow> 's \<Rightarrow> ('r \<Rightarrow> 's option) \<Rightarrow> ('s option \<Rightarrow> 'r \<Rightarrow> 'r) \<Rightarrow> 'r decoder" where
  "json_pointer fs zero sel upd v r =
     (case v of JNull \<Rightarrow> Some (upd None r)
      | _ \<Rightarrow> map_option (\<lambda>s. upd (Some s) r)
               (decode_struct fs v (case sel r of None \<Rightarrow> zero | Some s \<Rightarrow> s)))"

definition decode_text ::
  "golib \<Rightarrow> (string \<Rightarrow> string + json) \<Rightarrow> (string \<times> 'r decoder) list \<Rightarrow> 'r \<Rightarrow> string \<Rightarrow> go_error + 'r" where
  "decode_text lib parse fs zero body =
     (case parse body of
        Inl m \<Rightarrow> Inl (errorf m)
      | Inr v \<Rightarrow> (case decode_struct fs v zero of
                    None \<Rightarrow> Inl (errorf (TypeErrorText lib body))
                  | Some r \<Rightarrow> Inr r))"

definition Unmarshal :: "golib \<Rightarrow> (string \<times> 'r decoder) list \<Rightarrow> 'r \<Rightarrow> string \<Rightarrow> go_error + 'r" where
  "Unmarshal lib fs zero body = decode_text lib (ParseJSON lib) fs zero body"

definition DecodeFirst :: "golib \<Rightarrow> (string \<times> 'r decoder) list \<Rightarrow> 'r \<Rightarrow> string \<Rightarrow> go_error + 'r" where
  "DecodeFirst lib fs zero body = decode_text lib (ParseFirstJSON lib) fs zero body"

text \<open>
  Decoding into \<^verbatim>\<open>map[string]any\<close>: an object becomes a map in which the last duplicate wins, and
  \<^verbatim>\<open>null\<close> the nil map; its values are read with type assertions.
\<close>

definition UnmarshalMap :: "golib \<Rightarrow> string \<Rightarrow> go_error + (string \<times> json) list" where
  "UnmarshalMap lib body =
     (case ParseJSON lib body of
        Inl m \<Rightarrow> Inl (errorf m)
      | Inr (JObj kvs) \<Rightarrow> Inr kvs
      | Inr JNull \<Rightarrow> Inr []
      | Inr _ \<Rightarrow> Inl (errorf (TypeErrorText lib body)))"

definition map_lookup :: "(string \<times> json) list \<Rightarrow> string \<Rightarrow> json option" where
  "map_lookup kvs k = map_of (rev kvs) k"

definition as_string :: "json option \<Rightarrow> string option" where
  "as_string v = (case v of Some (JStr s) \<Rightarrow> Some s | _ \<Rightarrow> None)"

definition as_object :: "json option \<Rightarrow> (string \<times> json) list option" where
  "as_object v = (case v of Some (JObj kvs) \<Rightarrow> Some kvs | _ \<Rightarrow> None)"

lemmas json_decode_simps =
  decode_text_def Unmarshal_def DecodeFirst_def decode_struct_def json_struct_def json_pointer_def
  json_string_def json_bool_def json_int_def find_field_def

lemma json_valid_Unmarshal_ok:
  assumes "ParseJSON lib body = Inr (JObj kvs)" and "decode_pairs fs kvs zero = Some r"
  shows "Unmarshal lib fs zero body = Inr r"
  using assms by (simp add: Unmarshal_def decode_text_def decode_struct_def)

text \<open>\<^verbatim>\<open>URL.String\<close>.\<close>

definition URLString :: "golib \<Rightarrow> url \<Rightarrow> string" where
  "URLString lib u =
     URLPrefix lib (url_scheme u) (url_user u) (url_host u) (url_path u) @
     (if url_rawQuery u \<noteq> [] then ''?'' @ url_rawQuery u else []) @
     (if url_fragment u \<noteq> [] then ''#'' @ EscapeFragment lib (url_fragment u) else [])"

text \<open>A concrete library, for witnesses: a table of the texts that parse, and trivial codecs.\<close>

definition table_lib :: "(string \<times> json) list \<Rightarrow> golib" where
  "table_lib tab =
     \<lparr>ParseJSON = (\<lambda>s. case map_of tab s of Some v \<Rightarrow> Inr v | None \<Rightarrow> Inl ''invalid character''),
      ParseFirstJSON = (\<lambda>s. case map_of tab s of Some v \<Rightarrow> Inr v | None \<Rightarrow> Inl ''invalid character''),
      EncodeJSON = (\<lambda>v. ''{}''), TypeErrorText = (\<lambda>s. ''type error''), DisplayTime = (\<lambda>s. None),
      Sha256Hex = (\<lambda>s. s), Base64Decode = (\<lambda>s. None), ParseURL = (\<lambda>s. None), 
      URLPrefix = (\<lambda>scheme usr host path. scheme @ ''://'' @ host @ path), EscapeFragment = (\<lambda>s. s)\<rparr>"

end
