(* ===== verification/Milo_Api.thy ===== *)
theory Milo_Api
  imports Prelude
begin

text \<open>
  The objects of the Milo API that the provider reads and writes, and the Kubernetes client it
  reads and writes them with. Neither is defined under src/: the objects carry the fields the
  sources name, and the client is a record of operations that every definition using it takes as
  an argument. What the code relies on is stated as the laws at the end, each a fact the
  Kubernetes API documents; a property that needs one names it as a hypothesis.
\<close>

section \<open>Objects\<close>

datatype email_verification = VerificationUnset | Verified | Unverified

datatype auth_provider = NoProvider | Google | GitHub

text \<open>The states of platform access the sources name; any other value is carried as its text.\<close>

datatype platform_access_state =
  PlatformAccessApproved | PlatformAccessRejected | PlatformAccessSuspended | PlatformAccessOther string

record user_status =
  us_emailVerification :: email_verification
  us_avatarURL :: string
  us_lastLoginProvider :: auth_provider

record user =
  user_name :: string
  user_uid :: string
  user_resourceVersion :: string
  user_finalizers :: "string list"
  user_deletionTimestamp :: "int option"
  user_email :: string
  user_givenName :: string
  user_familyName :: string
  user_status :: user_status

datatype recipient = UserRef string | EmailAddress string

datatype email_priority = PriorityNormal | PriorityHigh

record email =
  email_name :: string
  email_namespace :: string
  email_labels :: "(string \<times> string) list"
  email_annotations :: "(string \<times> string) list"
  email_creationTimestamp :: int
  email_template :: string
  email_recipient :: recipient
  email_variables :: "(string \<times> string) list"
  email_priority :: email_priority

record event =
  event_name :: string
  event_namespace :: string
  event_apiVersion :: string
  event_kind :: string
  event_involvedName :: string
  event_involvedUID :: string
  event_reason :: string
  event_message :: string
  event_type :: string
  event_component :: string
  event_reportingController :: string
  event_firstTimestamp :: int
  event_lastTimestamp :: int
  event_count :: int

section \<open>The client\<close>

text \<open>
  A create returns the object as the server stored it. A write that returns an error is
  \<^verbatim>\<open>Inl\<close> or \<^verbatim>\<open>Some\<close> of that error.
\<close>

record 'w kube =
  GetUser :: "string \<Rightarrow> ('w, go_error + user) state"
  ListUsers :: "('w, go_error + user list) state"
  CreateUser :: "user \<Rightarrow> ('w, go_error + user) state"
  UpdateUser :: "user \<Rightarrow> ('w, go_error option) state"
  UpdateUserStatus :: "user \<Rightarrow> ('w, go_error option) state"
  PatchUserStatus :: "user \<Rightarrow> user \<Rightarrow> string \<Rightarrow> ('w, go_error option) state"
  DeleteUserObject :: "string \<Rightarrow> ('w, go_error option) state"
  CreateEmail :: "email \<Rightarrow> ('w, go_error option) state"
  ListEmails :: "string \<Rightarrow> (string \<times> string) list \<Rightarrow> ('w, go_error + email list) state"
  CreateEvent :: "event \<Rightarrow> ('w, go_error option) state"

section \<open>What the code relies on\<close>

text \<open>
  The laws are about a view of the world: \<^verbatim>\<open>users w\<close> maps the name of every stored User to it.
  A read changes nothing, a successful read returns the stored object, and \<^verbatim>\<open>NotFound\<close> means that
  there is none.
\<close>

definition get_user_law :: "'w kube \<Rightarrow> ('w \<Rightarrow> string \<Rightarrow> user option) \<Rightarrow> bool" where
  "get_user_law K users \<longleftrightarrow>
     (\<forall>n w. case run_state (GetUser K n) w of (r, w') \<Rightarrow>
        users w' = users w \<and>
        (case r of Inr u \<Rightarrow> users w n = Some u \<and> user_name u = n
                 | Inl e \<Rightarrow> IsNotFound e \<longrightarrow> users w n = None))"

text \<open>
  A successful create stores the object under its name, with the name, specification and status
  given; \<^verbatim>\<open>AlreadyExists\<close> means that the name is taken; a failed create stores nothing.
\<close>

definition create_user_law :: "'w kube \<Rightarrow> ('w \<Rightarrow> string \<Rightarrow> user option) \<Rightarrow> bool" where
  "create_user_law K users \<longleftrightarrow>
     (\<forall>u w. case run_state (CreateUser K u) w of (r, w') \<Rightarrow>
        (case r of
           Inr u' \<Rightarrow> users w (user_name u) = None \<and> users w' = (users w)(user_name u \<mapsto> u') \<and>
             user_name u' = user_name u \<and> user_email u' = user_email u \<and>
             user_givenName u' = user_givenName u \<and> user_familyName u' = user_familyName u \<and>
             user_status u' = user_status u
         | Inl e \<Rightarrow> users w' = users w \<and> (IsAlreadyExists e \<longrightarrow> users w (user_name u) \<noteq> None)))"

text \<open>
  A status update stores the submitted status when the submitted resource version is the stored
  one, and changes nothing else of the object but its resource version; otherwise nothing changes.
\<close>

definition update_status_law :: "'w kube \<Rightarrow> ('w \<Rightarrow> string \<Rightarrow> user option) \<Rightarrow> bool" where
  "update_status_law K users \<longleftrightarrow>
     (\<forall>u w. case run_state (UpdateUserStatus K u) w of (r, w') \<Rightarrow>
        (case r of
           None \<Rightarrow> (\<exists>old rv. users w (user_name u) = Some old \<and>
             user_resourceVersion old = user_resourceVersion u \<and>
             users w' = (users w)(user_name u \<mapsto>
               old\<lparr>user_status := user_status u, user_resourceVersion := rv\<rparr>))
         | Some e \<Rightarrow> users w' = users w))"

text \<open>Recording an Event and creating an Email leave the Users as they are.\<close>

definition create_event_law :: "'w kube \<Rightarrow> ('w \<Rightarrow> string \<Rightarrow> user option) \<Rightarrow> bool" where
  "create_event_law K users \<longleftrightarrow> (\<forall>e w. users (snd (run_state (CreateEvent K e) w)) = users w)"

definition list_users_law :: "'w kube \<Rightarrow> ('w \<Rightarrow> string \<Rightarrow> user option) \<Rightarrow> bool" where
  "list_users_law K users \<longleftrightarrow>
     (\<forall>w. case run_state (ListUsers K) w of (r, w') \<Rightarrow>
        users w' = users w \<and>
        (case r of Inl e \<Rightarrow> True
         | Inr us \<Rightarrow> (\<forall>u \<in> set us. users w (user_name u) = Some u) \<and>
             (\<forall>n u. users w n = Some u \<longrightarrow> u \<in> set us \<and> user_name u = n)))"

definition clock_law :: "'w runtime \<Rightarrow> ('w \<Rightarrow> 'b) \<Rightarrow> bool" where
  "clock_law rt view \<longleftrightarrow> (\<forall>w. view (snd (run_state (Now rt) w)) = view w)"

lemma get_user_run:
  assumes "get_user_law K users" and "run_state (GetUser K n) w = (r, w')"
  shows "users w' = users w"
    and "r = Inr u \<Longrightarrow> users w n = Some u \<and> user_name u = n"
    and "r = Inl e \<Longrightarrow> IsNotFound e \<Longrightarrow> users w n = None"
  using assms unfolding get_user_law_def by (auto dest!: spec [of _ n] spec [of _ w])

lemma create_user_run:
  assumes "create_user_law K users" and "run_state (CreateUser K u) w = (r, w')"
  shows "r = Inr u' \<Longrightarrow> users w (user_name u) = None \<and> users w' = (users w)(user_name u \<mapsto> u') \<and>
             user_name u' = user_name u \<and> user_email u' = user_email u \<and>
             user_givenName u' = user_givenName u \<and> user_familyName u' = user_familyName u \<and>
             user_status u' = user_status u"
    and "r = Inl e \<Longrightarrow> users w' = users w \<and> (IsAlreadyExists e \<longrightarrow> users w (user_name u) \<noteq> None)"
  using assms unfolding create_user_law_def by (auto dest!: spec [of _ u] spec [of _ w])

lemma update_status_run:
  assumes "update_status_law K users" and "run_state (UpdateUserStatus K u) w = (r, w')"
  shows "r = None \<Longrightarrow> \<exists>old rv. users w (user_name u) = Some old \<and>
             user_resourceVersion old = user_resourceVersion u \<and>
             users w' = (users w)(user_name u \<mapsto>
               old\<lparr>user_status := user_status u, user_resourceVersion := rv\<rparr>)"
    and "r = Some e \<Longrightarrow> users w' = users w"
  using assms unfolding update_status_law_def by (auto dest!: spec [of _ u] spec [of _ w])

section \<open>An API server in memory\<close>

text \<open>
  A concrete client, used only to show that the laws can hold together: the world is the stored
  Users by name, the Emails, the Events and a counter that gives every write its resource version
  and every read of the clock its time.
\<close>

record mem_world =
  mem_users :: "user list"
  mem_emails :: "email list"
  mem_events :: "event list"
  mem_clock :: int
  mem_version :: nat

definition mem_find :: "mem_world \<Rightarrow> string \<Rightarrow> user option" where
  "mem_find w n = find (\<lambda>u. user_name u = n) (mem_users w)"

definition mem_put :: "user \<Rightarrow> user list \<Rightarrow> user list" where
  "mem_put u us = map (\<lambda>v. if user_name v = user_name u then u else v) us"

definition not_found :: go_error where
  "not_found = GoErr KNotFound ''not found''"

definition already_exists :: go_error where
  "already_exists = GoErr KAlreadyExists ''already exists''"

definition conflict :: go_error where
  "conflict = GoErr KConflict ''the object has been modified''"

definition mem_create :: "user \<Rightarrow> mem_world \<Rightarrow> (go_error + user) \<times> mem_world" where
  "mem_create u w =
     (case mem_find w (user_name u) of
        Some _ \<Rightarrow> (Inl already_exists, w)
      | None \<Rightarrow> (let u' = u\<lparr>user_uid := ''uid-'' @ user_name u,
                           user_resourceVersion := Itoa (int (mem_version w))\<rparr>
                in (Inr u', w\<lparr>mem_users := mem_users w @ [u'], mem_version := Suc (mem_version w)\<rparr>)))"

definition mem_update_status :: "user \<Rightarrow> mem_world \<Rightarrow> go_error option \<times> mem_world" where
  "mem_update_status u w =
     (case mem_find w (user_name u) of
        None \<Rightarrow> (Some not_found, w)
      | Some old \<Rightarrow>
          if user_resourceVersion old \<noteq> user_resourceVersion u then (Some conflict, w)
          else (None, w\<lparr>mem_users := mem_put (old\<lparr>user_status := user_status u,
                 user_resourceVersion := Itoa (int (mem_version w))\<rparr>) (mem_users w),
                 mem_version := Suc (mem_version w)\<rparr>))"

definition mem_kube :: "mem_world kube" where
  "mem_kube = \<lparr>
     GetUser = (\<lambda>n. State (\<lambda>w. (case mem_find w n of None \<Rightarrow> Inl not_found | Some u \<Rightarrow> Inr u, w))),
     ListUsers = State (\<lambda>w. (Inr (mem_users w), w)),
     CreateUser = (\<lambda>u. State (mem_create u)),
     UpdateUser = (\<lambda>u. State (\<lambda>w. (None, w\<lparr>mem_users := mem_put u (mem_users w)\<rparr>))),
     UpdateUserStatus = (\<lambda>u. State (mem_update_status u)),
     PatchUserStatus = (\<lambda>old new owner. State (\<lambda>w.
       case mem_find w (user_name new) of None \<Rightarrow> (Some not_found, w)
       | Some cur \<Rightarrow> (None, w\<lparr>mem_users := mem_put (cur\<lparr>user_status := user_status new\<rparr>) (mem_users w)\<rparr>))),
     DeleteUserObject = (\<lambda>n. State (\<lambda>w. case mem_find w n of None \<Rightarrow> (Some not_found, w)
       | Some _ \<Rightarrow> (None, w\<lparr>mem_users := filter (\<lambda>u. user_name u \<noteq> n) (mem_users w)\<rparr>))),
     CreateEmail = (\<lambda>e. State (\<lambda>w.
       if \<exists>x \<in> set (mem_emails w). email_name x = email_name e then (Some already_exists, w)
       else (None, w\<lparr>mem_emails := mem_emails w @ [e\<lparr>email_creationTimestamp := mem_clock w\<rparr>]\<rparr>))),
     ListEmails = (\<lambda>ns sel. State (\<lambda>w. (Inr (filter (\<lambda>e. email_namespace e = ns \<and>
       set sel \<subseteq> set (email_labels e)) (mem_emails w)), w))),
     CreateEvent = (\<lambda>e. State (\<lambda>w. (None, w\<lparr>mem_events := mem_events w @ [e]\<rparr>))) \<rparr>"

definition mem_runtime :: "mem_world runtime" where
  "mem_runtime = \<lparr> Now = State (\<lambda>w. (mem_clock w, w)), NewUUID = State (\<lambda>w. (''uuid'', w)),
     Sleep = (\<lambda>d. State (\<lambda>w. ((), w\<lparr>mem_clock := mem_clock w + d\<rparr>))) \<rparr>"

definition empty_world :: mem_world where
  "empty_world = \<lparr>mem_users = [], mem_emails = [], mem_events = [], mem_clock = 0, mem_version = 1\<rparr>"

lemma mem_find_name: "mem_find w n = Some u \<Longrightarrow> user_name u = n"
  unfolding mem_find_def by (auto simp: find_Some_iff)

lemma find_mem_put:
  "find (\<lambda>u. user_name u = n) (mem_put u us) =
     (if n = user_name u \<and> find (\<lambda>u. user_name u = n) us \<noteq> None then Some u
      else find (\<lambda>u. user_name u = n) us)"
  unfolding mem_put_def by (induction us) auto

lemma find_append:
  "find P (xs @ ys) = (case find P xs of None \<Rightarrow> find P ys | Some x \<Rightarrow> Some x)"
  by (induction xs) auto

lemma mem_get_user_law: "get_user_law mem_kube mem_find"
  unfolding get_user_law_def mem_kube_def
  by (auto simp: mem_find_name split: option.splits)

lemma mem_create_user_law: "create_user_law mem_kube mem_find"
  unfolding create_user_law_def mem_kube_def
  by (auto simp: mem_create_def mem_find_def find_append fun_eq_iff Let_def IsAlreadyExists_def
      already_exists_def split: option.splits)

lemma mem_update_status_law: "update_status_law mem_kube mem_find"
proof -
  have "case mem_update_status u w of (r, w') \<Rightarrow>
        (case r of
           None \<Rightarrow> (\<exists>old rv. mem_find w (user_name u) = Some old \<and>
             user_resourceVersion old = user_resourceVersion u \<and>
             mem_find w' = (mem_find w)(user_name u \<mapsto>
               old\<lparr>user_status := user_status u, user_resourceVersion := rv\<rparr>))
         | Some e \<Rightarrow> mem_find w' = mem_find w)" for u w
  proof (cases "mem_find w (user_name u)")
    case None
    then show ?thesis by (simp add: mem_update_status_def)
  next
    case (Some old)
    then have "user_name old = user_name u" by (rule mem_find_name)
    with Some show ?thesis
      by (auto simp: mem_update_status_def mem_find_def find_mem_put fun_eq_iff)
  qed
  then show ?thesis
    unfolding update_status_law_def mem_kube_def by simp
qed

lemma mem_create_event_law: "create_event_law mem_kube mem_find"
  unfolding create_event_law_def mem_kube_def by (simp add: mem_find_def fun_eq_iff)

lemma mem_clock_law: "clock_law mem_runtime mem_find"
  unfolding clock_law_def mem_runtime_def by simp

text \<open>A client whose every call fails with the given error.\<close>

definition down_kube :: "go_error \<Rightarrow> 'w kube" where
  "down_kube e =
     \<lparr>GetUser = (\<lambda>_. State_Monad.return (Inl e)), ListUsers = State_Monad.return (Inl e),
      CreateUser = (\<lambda>_. State_Monad.return (Inl e)), UpdateUser = (\<lambda>_. State_Monad.return (Some e)),
      UpdateUserStatus = (\<lambda>_. State_Monad.return (Some e)), PatchUserStatus = (\<lambda>_ _ _. State_Monad.return (Some e)),
      DeleteUserObject = (\<lambda>_. State_Monad.return (Some e)), CreateEmail = (\<lambda>_. State_Monad.return (Some e)),
      ListEmails = (\<lambda>_ _. State_Monad.return (Inl e)), CreateEvent = (\<lambda>_. State_Monad.return (Some e))\<rparr>"

end
