(* ===== verification/Zitadel_Api.thy ===== *)
theory Zitadel_Api
  imports Milo_Api
begin

text \<open>
  pkg/zitadel/api.go: the types of the Zitadel client and the interface \<^verbatim>\<open>API\<close> that the runtimes
  program against, as a record of its methods. The implementation is in \<^verbatim>\<open>Zitadel_Sdk\<close>.
\<close>

definition OrgIDForProject :: "string \<Rightarrow> string" where
  "OrgIDForProject projectName = ''project-'' @ projectName"

definition OrgDisplayNameForProject :: "string \<Rightarrow> string" where
  "OrgDisplayNameForProject projectName = ''Project - '' @ projectName"

record session =
  sess_ID :: string
  sess_UserID :: string
  sess_IP :: string
  sess_FingerprintID :: string
  sess_CreatedAt :: int
  sess_LastUpdated :: "int option"
  sess_UserAgent :: string
  sess_Metadata :: "(string \<times> string) list"
  sess_PasskeyVerified :: bool

record idp_link =
  idp_IDPID :: string
  idp_IDPName :: string
  idp_UserID :: string
  idp_IDPUserName :: string

record user_metadata =
  meta_Key :: string
  meta_Value :: string
  meta_CreationDate :: int

record passkey =
  pk_ID :: string
  pk_Name :: string
  pk_State :: string

record zuser =
  zu_ID :: string
  zu_Username :: string
  zu_Email :: string
  zu_State :: string
  zu_GivenName :: string
  zu_FamilyName :: string
  zu_IsEmailVerified :: bool
  zu_CreatedAt :: int

record organization =
  org_ID :: string
  org_Name :: string

record machine_key =
  mk_ID :: string
  mk_CreatedDate :: int
  mk_ExpirationDate :: "int option"

text \<open>
  The interface \<^verbatim>\<open>API\<close>. A method that returns only an error has an optional error as its result; a
  nil pointer beside a nil error is \<^verbatim>\<open>Inr None\<close>.
\<close>

record 'w zitadel_api =
  ListSessions :: "string \<Rightarrow> ('w, go_error + session list) state"
  GetSession :: "string \<Rightarrow> ('w, go_error + session) state"
  DeleteSession :: "string \<Rightarrow> string \<Rightarrow> ('w, go_error option) state"
  ListIDPLinks :: "string \<Rightarrow> ('w, go_error + idp_link list) state"
  ListPasskeys :: "string \<Rightarrow> ('w, go_error + passkey list) state"
  CreatePasskeyRegistrationLink :: "string \<Rightarrow> ('w, go_error + string \<times> string) state"
  ListAuthMethodTypes :: "string \<Rightarrow> ('w, go_error + string list) state"
  CreateOrganizationWithID :: "string \<Rightarrow> string \<Rightarrow> ('w, go_error + string) state"
  DeleteOrganization :: "string \<Rightarrow> ('w, go_error option) state"
  GetOrganization :: "string \<Rightarrow> ('w, go_error + organization option) state"
  GetUserByID :: "string \<Rightarrow> ('w, go_error + zuser option) state"
  ListHumanUsers :: "nat \<Rightarrow> nat \<Rightarrow> ('w, go_error + zuser list \<times> nat) state"
  GetMachineUserByUsername :: "string \<Rightarrow> string \<Rightarrow> ('w, go_error + zuser option) state"
  AddMachineUserInOrganization ::
    "string \<Rightarrow> string \<Rightarrow> string \<Rightarrow> string \<Rightarrow> ('w, go_error + string) state"
  DeleteZitadelUser :: "string \<Rightarrow> ('w, go_error option) state"
  ListUserMetadata :: "string \<Rightarrow> ('w, go_error + user_metadata list) state"
  DeactivateUser :: "string \<Rightarrow> string \<Rightarrow> ('w, go_error option) state"
  ReactivateUser :: "string \<Rightarrow> string \<Rightarrow> ('w, go_error option) state"
  ListMachineAccountsInOrganization :: "string \<Rightarrow> ('w, go_error + zuser list) state"
  AddMachineKeyInOrganization ::
    "string \<Rightarrow> string \<Rightarrow> string \<Rightarrow> int option \<Rightarrow> ('w, go_error + string \<times> string) state"
  ListMachineKeysInOrganization :: "string \<Rightarrow> string \<Rightarrow> ('w, go_error + machine_key list) state"
  RemoveMachineKeyInOrganization :: "string \<Rightarrow> string \<Rightarrow> string \<Rightarrow> ('w, go_error option) state"

lemma OrgIDForProject_inj [simp]: "OrgIDForProject p = OrgIDForProject q \<longleftrightarrow> p = q"
  by (simp add: OrgIDForProject_def)

lemma OrgIDForProject_not_Nil [simp]: "OrgIDForProject p \<noteq> []"
  by (simp add: OrgIDForProject_def)

text \<open>A concrete client, for witnesses: every call fails with the given error.\<close>

definition down_api :: "go_error \<Rightarrow> 'w zitadel_api" where
  "down_api e =
     \<lparr>ListSessions = (\<lambda>_. State_Monad.return (Inl e)), GetSession = (\<lambda>_. State_Monad.return (Inl e)),
      DeleteSession = (\<lambda>_ _. State_Monad.return (Some e)), ListIDPLinks = (\<lambda>_. State_Monad.return (Inl e)),
      ListPasskeys = (\<lambda>_. State_Monad.return (Inl e)),
      CreatePasskeyRegistrationLink = (\<lambda>_. State_Monad.return (Inl e)),
      ListAuthMethodTypes = (\<lambda>_. State_Monad.return (Inl e)),
      CreateOrganizationWithID = (\<lambda>_ _. State_Monad.return (Inl e)),
      DeleteOrganization = (\<lambda>_. State_Monad.return (Some e)),
      GetOrganization = (\<lambda>_. State_Monad.return (Inl e)), GetUserByID = (\<lambda>_. State_Monad.return (Inl e)),
      ListHumanUsers = (\<lambda>_ _. State_Monad.return (Inl e)),
      GetMachineUserByUsername = (\<lambda>_ _. State_Monad.return (Inl e)),
      AddMachineUserInOrganization = (\<lambda>_ _ _ _. State_Monad.return (Inl e)),
      DeleteZitadelUser = (\<lambda>_. State_Monad.return (Some e)),
      ListUserMetadata = (\<lambda>_. State_Monad.return (Inl e)),
      DeactivateUser = (\<lambda>_ _. State_Monad.return (Some e)),
      ReactivateUser = (\<lambda>_ _. State_Monad.return (Some e)),
      ListMachineAccountsInOrganization = (\<lambda>_. State_Monad.return (Inl e)),
      AddMachineKeyInOrganization = (\<lambda>_ _ _ _. State_Monad.return (Inl e)),
      ListMachineKeysInOrganization = (\<lambda>_ _. State_Monad.return (Inl e)),
      RemoveMachineKeyInOrganization = (\<lambda>_ _ _. State_Monad.return (Some e))\<rparr>"

end
