(* ===== verification/User_Provision.thy ===== *)
theory User_Provision
  imports Milo_Api
begin

text \<open>
  Packages internal/userprovision and internal/emailverified: the one construction path of User
  resources, the Events recorded against them, and the one writer of the field
  \<^verbatim>\<open>status.emailVerification\<close>.
\<close>

section \<open>internal/userprovision/userprovision.go\<close>

definition empty_status :: user_status where
  "empty_status = \<lparr>us_emailVerification = VerificationUnset, us_avatarURL = [],
     us_lastLoginProvider = NoProvider\<rparr>"

definition NewUser :: "string \<Rightarrow> string \<Rightarrow> string \<Rightarrow> string \<Rightarrow> user" where
  "NewUser zitadelUserID emailAddress givenName familyName =
     \<lparr>user_name = zitadelUserID, user_uid = [], user_resourceVersion = [], user_finalizers = [],
      user_deletionTimestamp = None, user_email = emailAddress, user_givenName = givenName,
      user_familyName = familyName, user_status = empty_status\<rparr>"

text \<open>
  \<^verbatim>\<open>client.Create\<close> fills the object it is given in place; the model returns it: the created User,
  or none when it was there already.
\<close>

definition EnsureUser :: "'w kube \<Rightarrow> user \<Rightarrow> ('w, go_error + user option) state" where
  "EnsureUser K u = do {
     r \<leftarrow> CreateUser K u;
     State_Monad.return (case r of
         Inl e \<Rightarrow> if IsAlreadyExists e then Inr None else Inl e
       | Inr u' \<Rightarrow> Inr (Some u'))
   }"

section \<open>internal/userprovision/events.go\<close>

definition EventReasonAccountCreated :: string where
  "EventReasonAccountCreated = ''AccountCreated''"

definition EventReasonPasskeyEnrolled :: string where
  "EventReasonPasskeyEnrolled = ''PasskeyEnrolled''"

definition EventReasonPasskeyRemoved :: string where
  "EventReasonPasskeyRemoved = ''PasskeyRemoved''"

definition EventComponent :: string where
  "EventComponent = ''auth-provider-zitadel''"

definition EventNamespace :: string where
  "EventNamespace = ''default''"

text \<open>
  The Event of an instant. Its name carries the instant in hexadecimal; the instants of a running
  process are not negative.
\<close>

definition user_event :: "string \<Rightarrow> string \<Rightarrow> string \<Rightarrow> string \<Rightarrow> int \<Rightarrow> event" where
  "user_event userName userUID reason message now =
     \<lparr>event_name = userName @ ''.'' @ hex_nat (nat now), event_namespace = EventNamespace,
      event_apiVersion = ''iam.miloapis.com/v1alpha1'', event_kind = ''User'',
      event_involvedName = userName, event_involvedUID = userUID, event_reason = reason,
      event_message = message, event_type = ''Normal'', event_component = EventComponent,
      event_reportingController = EventComponent, event_firstTimestamp = now,
      event_lastTimestamp = now, event_count = 1\<rparr>"

definition RecordEvent ::
  "'w runtime \<Rightarrow> 'w kube \<Rightarrow> string \<Rightarrow> string \<Rightarrow> string \<Rightarrow> string \<Rightarrow> ('w, unit) state" where
  "RecordEvent rt K userName userUID reason message = do {
     now \<leftarrow> Now rt;
     _ \<leftarrow> CreateEvent K (user_event userName userUID reason message now);
     State_Monad.return ()
   }"

section \<open>internal/emailverified/emailverified.go\<close>

definition Desired :: "bool \<Rightarrow> email_verification" where
  "Desired verified = (if verified then Verified else Unverified)"

definition IsVerified :: "user option \<Rightarrow> bool" where
  "IsVerified u \<longleftrightarrow> (case u of None \<Rightarrow> False | Some u \<Rightarrow> us_emailVerification (user_status u) = Verified)"

definition NeedsUpdate :: "user \<Rightarrow> bool \<Rightarrow> bool" where
  "NeedsUpdate u verified \<longleftrightarrow> us_emailVerification (user_status u) \<noteq> Desired verified"

definition set_verification :: "bool \<Rightarrow> user \<Rightarrow> user" where
  "set_verification verified u =
     u\<lparr>user_status := (user_status u)\<lparr>us_emailVerification := Desired verified\<rparr>\<rparr>"

text \<open>
  One run of the closure that \<^verbatim>\<open>retry.RetryOnConflict\<close> repeats: \<^verbatim>\<open>Inr\<close> carries the final value of
  the captured variable \<^verbatim>\<open>changed\<close>, which an error leaves at false.
\<close>

definition Set_attempt :: "'w kube \<Rightarrow> string \<Rightarrow> bool \<Rightarrow> ('w, go_error + bool) state" where
  "Set_attempt K userName verified = do {
     r \<leftarrow> GetUser K userName;
     (case r of
        Inl e \<Rightarrow> State_Monad.return (Inl e)
      | Inr u \<Rightarrow>
          if \<not> NeedsUpdate u verified then State_Monad.return (Inr False)
          else do {
            e \<leftarrow> UpdateUserStatus K (set_verification verified u);
            State_Monad.return (case e of Some e \<Rightarrow> Inl e | None \<Rightarrow> Inr True)
          })
   }"

text \<open>
  \<^verbatim>\<open>retry.RetryOnConflict\<close> of client-go is an argument. What it documents: it runs the closure, and
  again (after other processes may have run) as long as it returns a conflict and attempts are
  left, and returns the last outcome.
\<close>

type_synonym 'w retrier = "('w, go_error + bool) state \<Rightarrow> ('w, go_error + bool) state"

inductive conflict_runs ::
  "('w \<Rightarrow> 'w \<Rightarrow> bool) \<Rightarrow> ('w, go_error + bool) state \<Rightarrow> 'w \<Rightarrow> go_error + bool \<Rightarrow> 'w \<Rightarrow> bool"
  for others :: "'w \<Rightarrow> 'w \<Rightarrow> bool" and m :: "('w, go_error + bool) state" where
  last_run: "run_state m w = (r, w') \<Longrightarrow> conflict_runs others m w r w'"
| run_again: "run_state m w = (Inl e, w1) \<Longrightarrow> IsConflict e \<Longrightarrow> others w1 w2 \<Longrightarrow>
     conflict_runs others m w2 r w' \<Longrightarrow> conflict_runs others m w r w'"

definition retry_law :: "'w retrier \<Rightarrow> ('w \<Rightarrow> 'w \<Rightarrow> bool) \<Rightarrow> bool" where
  "retry_law retry others \<longleftrightarrow>
     (\<forall>m w r w'. run_state (retry m) w = (r, w') \<longrightarrow> conflict_runs others m w r w')"

definition Set_verified ::
  "'w retrier \<Rightarrow> 'w kube \<Rightarrow> string \<Rightarrow> bool \<Rightarrow> ('w, go_error + bool) state" where
  "Set_verified retry K userName verified = retry (Set_attempt K userName verified)"

section \<open>Names in mails\<close>

text \<open>The name every mail addresses its User by.\<close>

definition display_name :: "user \<Rightarrow> string" where
  "display_name u =
     (let displayName = TrimSpace (user_givenName u @ '' '' @ user_familyName u) in
      if displayName = [] then user_email u else displayName)"

section \<open>Lemmas\<close>

lemma EnsureUser_run:
  assumes "create_user_law K users" and "run_state (EnsureUser K u) w = (r, w')"
  shows "r = Inr (Some u') \<Longrightarrow> users w (user_name u) = None \<and> users w' = (users w)(user_name u \<mapsto> u') \<and>
           user_name u' = user_name u \<and> user_email u' = user_email u"
    and "r = Inr None \<Longrightarrow> users w' = users w \<and> users w (user_name u) \<noteq> None"
    and "r = Inl e \<Longrightarrow> users w' = users w"
proof -
  obtain c w1 where c: "run_state (CreateUser K u) w = (c, w1)" by fastforce
  note law = create_user_run [OF assms(1) c]
  from assms(2) c have r: "r = (case c of Inl e \<Rightarrow> if IsAlreadyExists e then Inr None else Inl e
      | Inr u' \<Rightarrow> Inr (Some u'))" and w': "w' = w1"
    by (simp_all add: EnsureUser_def)
  show "users w (user_name u) = None \<and> users w' = (users w)(user_name u \<mapsto> u') \<and>
      user_name u' = user_name u \<and> user_email u' = user_email u" if "r = Inr (Some u')"
    using that r w' law(1) [of u'] by (auto split: sum.splits if_splits)
  show "users w' = users w \<and> users w (user_name u) \<noteq> None" if "r = Inr None"
    using that r w' law(2) by (auto split: sum.splits if_splits)
  show "users w' = users w" if "r = Inl e"
    using that r w' law(2) by (auto split: sum.splits if_splits)
qed

lemma RecordEvent_run:
  assumes "create_event_law K users" and "clock_law rt users"
  shows "users (snd (run_state (RecordEvent rt K n uid reason msg) w)) = users w"
proof -
  obtain t w1 where t: "run_state (Now rt) w = (t, w1)" by fastforce
  with assms(2) have "users w1 = users w" unfolding clock_law_def by (metis snd_conv)
  with t assms(1) show ?thesis
    by (simp add: RecordEvent_def create_event_law_def split_def)
qed

lemma set_verification_simps [simp]:
  "user_name (set_verification v u) = user_name u"
  "user_resourceVersion (set_verification v u) = user_resourceVersion u"
  "us_emailVerification (user_status (set_verification v u)) = Desired v"
  "user_status (set_verification v u) = (user_status u)\<lparr>us_emailVerification := Desired v\<rparr>"
  by (simp_all add: set_verification_def)

lemma Set_attempt_run:
  assumes get: "get_user_law K users" and upd: "update_status_law K users"
    and run: "run_state (Set_attempt K n v) w = (r, w')"
  shows "r = Inr False \<Longrightarrow> users w' = users w \<and>
           (\<exists>u. users w n = Some u \<and> us_emailVerification (user_status u) = Desired v)"
    and "r = Inr True \<Longrightarrow> \<exists>u rv. users w n = Some u \<and>
           us_emailVerification (user_status u) \<noteq> Desired v \<and>
           users w' = (users w)(n \<mapsto> (set_verification v u)\<lparr>user_resourceVersion := rv\<rparr>)"
    and "r = Inl e \<Longrightarrow> users w' = users w"
proof -
  obtain g w1 where g: "run_state (GetUser K n) w = (g, w1)" by fastforce
  note law = get_user_run [OF get g]
  show "users w' = users w \<and>
      (\<exists>u. users w n = Some u \<and> us_emailVerification (user_status u) = Desired v)" if "r = Inr False"
    using that run g law
    by (auto simp: Set_attempt_def NeedsUpdate_def split: sum.splits if_splits prod.splits option.splits)
  show "users w' = users w" if "r = Inl e"
    using that run g law update_status_run(2) [OF upd]
    by (auto simp: Set_attempt_def split: sum.splits if_splits prod.splits option.splits)
  show "\<exists>u rv. users w n = Some u \<and> us_emailVerification (user_status u) \<noteq> Desired v \<and>
      users w' = (users w)(n \<mapsto> (set_verification v u)\<lparr>user_resourceVersion := rv\<rparr>)" if rT: "r = Inr True"
  proof -
    from rT run g obtain u where u: "g = Inr u" and nu: "NeedsUpdate u v"
      and up: "run_state (UpdateUserStatus K (set_verification v u)) w1 = (None, w')"
      by (auto simp: Set_attempt_def split: sum.splits if_splits prod.splits option.splits)
    from law(2) [OF u] have un: "users w n = Some u" "user_name u = n" by auto
    from update_status_run(1) [OF upd up] law(1) un obtain rv where
      "users w' = (users w)(n \<mapsto> u\<lparr>user_status := user_status (set_verification v u),
         user_resourceVersion := rv\<rparr>)" by auto
    with un nu show ?thesis
      by (auto simp: NeedsUpdate_def set_verification_def)
  qed
qed

end
