(* ===== verification/Actions_Base.thy ===== *)
theory Actions_Base
  imports Go_Json Zitadel_Api User_Provision
begin

text \<open>
  internal/httpactionsserver: the state of the actions server, the avatars that wait for their
  user (avatar_sync.go), the Events of user_events.go and the user lookup with exponential backoff
  of server.go, which the handlers of \<^verbatim>\<open>Actions_Handlers\<close>, \<^verbatim>\<open>Passkey_Handlers\<close> and
  \<^verbatim>\<open>Suspicious_Login\<close> share.
\<close>

section \<open>The server and its state\<close>

record server_config =
  cfg_Addr :: string
  cfg_CertFile :: string
  cfg_KeyFile :: string
  cfg_DisableHTTP2 :: bool
  cfg_Kubeconfig :: string
  cfg_SigningKey :: string
  cfg_DisableSignatureValidation :: bool
  cfg_SuspiciousLoginEmailTemplate :: string
  cfg_PasskeyAddedEmailTemplate :: string
  cfg_PasskeyRemovedEmailTemplate :: string
  cfg_NotificationNamespace :: string
  cfg_GraphQLGatewayURL :: string
  cfg_GraphQLGatewayCACertFile :: string
  cfg_IdpIntentUserLookupAttempts :: int
  cfg_IdpIntentUserLookupBaseWait :: int

definition NewServerConfig :: server_config where
  "NewServerConfig = \<lparr>
     cfg_Addr = '':8082'', cfg_CertFile = [], cfg_KeyFile = [], cfg_DisableHTTP2 = False, cfg_Kubeconfig = [],
     cfg_SigningKey = [], cfg_DisableSignatureValidation = False,
     cfg_SuspiciousLoginEmailTemplate = ''emailtemplates.notification.miloapis.com-usersuspiciousemailtemplate'',
     cfg_PasskeyAddedEmailTemplate = ''emailtemplates.notification.miloapis.com-userpasskeyaddedemailtemplate'',
     cfg_PasskeyRemovedEmailTemplate = ''emailtemplates.notification.miloapis.com-userpasskeyremovedemailtemplate'',
     cfg_NotificationNamespace = ''milo-system'',
     cfg_GraphQLGatewayURL = ''https://graphql-gateway.graphql-gateway.svc.cluster.local:4000/graphql'',
     cfg_GraphQLGatewayCACertFile = ''/etc/ssl/certs/datum-ca.crt'',
     cfg_IdpIntentUserLookupAttempts = 8,
     cfg_IdpIntentUserLookupBaseWait = 250 * 1000000 \<rparr>"

record pending_avatar =
  pa_avatarURL :: string
  pa_provider :: auth_provider
  pa_expiresAt :: int

text \<open>
  What the process keeps: the map of pending avatars and the Zitadel client, which a background
  initializer may install after the server has started. The rest of the state is the world.
\<close>

record 'w server_state =
  st_pendingAvatars :: "string \<Rightarrow> pending_avatar option"
  st_zitadelClient :: "'w zitadel_api iface"
  st_world :: 'w

text \<open>
  The parts of a Server that do not change: its configuration, the Kubernetes client, the signature
  check, the standard library's services, the retry of client-go and the HTTP client of the
  gateway, which posts a query with its variables to a URL and yields the status and the body.
\<close>

record 'w server =
  srv_config :: server_config
  srv_k8s :: "'w kube"
  srv_validateSignature :: "string \<Rightarrow> string \<Rightarrow> string \<Rightarrow> go_error option"
  srv_lib :: golib
  srv_runtime :: "'w runtime"
  srv_retry :: "'w retrier"
  srv_httpClient :: "string \<Rightarrow> string \<Rightarrow> (string \<times> string) list \<Rightarrow> ('w, go_error + nat \<times> string) state"

type_synonym ('w, 'a) server_action = "('w server_state, 'a) state"

definition outside :: "('w, 'a) state \<Rightarrow> ('w, 'a) server_action" where
  "outside m = State (\<lambda>s. case run_state m (st_world s) of (a, w) \<Rightarrow> (a, s\<lparr>st_world := w\<rparr>))"

definition SetZitadelClient :: "'w zitadel_api iface \<Rightarrow> ('w, unit) server_action" where
  "SetZitadelClient c = State (\<lambda>s. ((), s\<lparr>st_zitadelClient := c\<rparr>))"

definition zitadelAPI :: "('w, 'w zitadel_api iface) server_action" where
  "zitadelAPI = State (\<lambda>s. (st_zitadelClient s, s))"

section \<open>avatar_sync.go\<close>

definition pendingAvatarTTL :: int where
  "pendingAvatarTTL = 15 * Minute"

definition normalizeEmail :: "string \<Rightarrow> string" where
  "normalizeEmail email = ToLower (TrimSpace email)"

definition decodeIDPUserPayload :: "golib \<Rightarrow> string \<Rightarrow> go_error + string" where
  "decodeIDPUserPayload lib encoded =
     (let trimmed = TrimSpace encoded;
          valid = (\<lambda>s. case ParseJSON lib s of Inr _ \<Rightarrow> True | Inl _ \<Rightarrow> False)
      in if trimmed = [] then Inl (errorf ''empty idpUser'')
         else if (HasPrefix trimmed ''{'' \<or> HasPrefix trimmed ''['') \<and> valid trimmed then Inr trimmed
         else (case Base64Decode lib trimmed of
                 Some raw \<Rightarrow> if valid raw then Inr raw
                   else Inl (errorf ''idpUser is neither valid JSON nor base64-encoded JSON'')
               | None \<Rightarrow> Inl (errorf ''idpUser is neither valid JSON nor base64-encoded JSON'')))"

definition storePendingAvatar ::
  "'w runtime \<Rightarrow> string \<Rightarrow> string \<Rightarrow> auth_provider \<Rightarrow> ('w, unit) server_action" where
  "storePendingAvatar rt address avatarURL provider =
     (let key = normalizeEmail address in
      if key = [] \<or> avatarURL = [] then State_Monad.return ()
      else do {
        now \<leftarrow> outside (Now rt);
        State (\<lambda>s. ((), s\<lparr>st_pendingAvatars := (st_pendingAvatars s)(key \<mapsto>
          \<lparr>pa_avatarURL = avatarURL, pa_provider = provider, pa_expiresAt = now + pendingAvatarTTL\<rparr>)\<rparr>))
      })"

definition LoadAndDelete :: "string \<Rightarrow> ('w, pending_avatar option) server_action" where
  "LoadAndDelete key =
     State (\<lambda>s. (st_pendingAvatars s key, s\<lparr>st_pendingAvatars := (st_pendingAvatars s)(key := None)\<rparr>))"

definition consumePendingAvatar ::
  "'w runtime \<Rightarrow> string \<Rightarrow> ('w, pending_avatar option) server_action" where
  "consumePendingAvatar rt address =
     (let key = normalizeEmail address in
      if key = [] then State_Monad.return None
      else do {
        v \<leftarrow> LoadAndDelete key;
        (case v of
           None \<Rightarrow> State_Monad.return None
         | Some pending \<Rightarrow> do {
             now \<leftarrow> outside (Now rt);
             State_Monad.return (if now > pa_expiresAt pending then None else Some pending)
           })
      })"

definition extractEmailFromIDPUserData :: "golib \<Rightarrow> string \<Rightarrow> string" where
  "extractEmailFromIDPUserData lib raw =
     (case UnmarshalMap lib raw of
        Inl _ \<Rightarrow> []
      | Inr m \<Rightarrow>
         (case (case as_object (map_lookup m ''User'') of
                  None \<Rightarrow> None | Some usr \<Rightarrow> as_string (map_lookup usr ''email'')) of
            Some address \<Rightarrow> normalizeEmail address
          | None \<Rightarrow> (case as_string (map_lookup m ''email'') of
                      Some address \<Rightarrow> normalizeEmail address
                    | None \<Rightarrow> [])))"

definition patchUserAvatar ::
  "'w server \<Rightarrow> string \<Rightarrow> string \<Rightarrow> auth_provider \<Rightarrow> string \<Rightarrow> ('w, go_error option) server_action" where
  "patchUserAvatar srv userID avatarURL provider fieldManager = do {
     r \<leftarrow> outside (GetUser (srv_k8s srv) userID);
     (case r of
        Inl e \<Rightarrow> State_Monad.return (Some e)
      | Inr original \<Rightarrow>
          outside (PatchUserStatus (srv_k8s srv) original
            (original\<lparr>user_status := (user_status original)\<lparr>us_avatarURL := avatarURL,
               us_lastLoginProvider := provider\<rparr>\<rparr>) fieldManager))
   }"

definition applyPendingAvatarByEmail ::
  "'w server \<Rightarrow> string \<Rightarrow> string \<Rightarrow> string \<Rightarrow> ('w, bool) server_action" where
  "applyPendingAvatarByEmail srv userID address fieldManager = do {
     p \<leftarrow> consumePendingAvatar (srv_runtime srv) address;
     (case p of
        None \<Rightarrow> State_Monad.return False
      | Some pending \<Rightarrow> do {
          e \<leftarrow> patchUserAvatar srv userID (pa_avatarURL pending) (pa_provider pending) fieldManager;
          (case e of
             Some _ \<Rightarrow> do {
               storePendingAvatar (srv_runtime srv) address (pa_avatarURL pending) (pa_provider pending);
               State_Monad.return False
             }
           | None \<Rightarrow> State_Monad.return True)
        })
   }"

section \<open>user_events.go\<close>

definition recordUserEvent :: "'w server \<Rightarrow> string \<Rightarrow> string \<Rightarrow> string \<Rightarrow> ('w, unit) server_action" where
  "recordUserEvent srv userName reason message = do {
     r \<leftarrow> outside (GetUser (srv_k8s srv) userName);
     outside (RecordEvent (srv_runtime srv) (srv_k8s srv) userName
       (case r of Inr u \<Rightarrow> user_uid u | Inl _ \<Rightarrow> []) reason message)
   }"

definition passkeyEventMessage :: "string \<Rightarrow> string \<Rightarrow> string" where
  "passkeyEventMessage verb passkeyName =
     (if passkeyName = [] then ''Passkey '' @ verb
      else ''Passkey '' @ Quote passkeyName @ '' '' @ verb)"

section \<open>getUserWithRetry\<close>

text \<open>
  The wait before the next attempt, \<^verbatim>\<open>baseWait * time.Duration(1<<attempt)\<close>, in the 64-bit integers of
  \<^verbatim>\<open>time.Duration\<close>. \<^verbatim>\<open>time.Sleep\<close> returns at once when it is not positive.
\<close>

definition backoff_wait :: "int \<Rightarrow> nat \<Rightarrow> int" where
  "backoff_wait baseWait attempt =
     sint ((word_of_int baseWait :: 64 word) * push_bit attempt 1)"

text \<open>
  The loop, with the number of attempts that are left. The last equation is not reached: the
  caller starts with at least one attempt.
\<close>

fun getUserLoop :: "'w server \<Rightarrow> string \<Rightarrow> int \<Rightarrow> nat \<Rightarrow> nat \<Rightarrow> ('w, go_error + user) state" where
  "getUserLoop srv userID baseWait attempt (Suc left) = do {
     r \<leftarrow> GetUser (srv_k8s srv) userID;
     (case r of
        Inr u \<Rightarrow> State_Monad.return (Inr u)
      | Inl e \<Rightarrow>
          if \<not> IsNotFound e \<or> left = 0 then State_Monad.return (Inl e)
          else do {
            Sleep (srv_runtime srv) (backoff_wait baseWait attempt);
            getUserLoop srv userID baseWait (Suc attempt) left
          })
   }"
| "getUserLoop srv userID baseWait attempt 0 = State_Monad.return (Inl (errorf []))"

definition getUserWithRetry :: "'w server \<Rightarrow> string \<Rightarrow> ('w, go_error + user) state" where
  "getUserWithRetry srv userID =
     (let attempts = cfg_IdpIntentUserLookupAttempts (srv_config srv);
          attempts = (if attempts < 1 then 1 else attempts);
          baseWait = cfg_IdpIntentUserLookupBaseWait (srv_config srv);
          baseWait = (if baseWait < 0 then 0 else baseWait)
      in getUserLoop srv userID baseWait 0 (nat attempts))"

section \<open>Lemmas\<close>

lemma run_outside [simp]:
  "run_state (outside m) s = (case run_state m (st_world s) of (a, w) \<Rightarrow> (a, s\<lparr>st_world := w\<rparr>))"
  by (simp add: outside_def)

lemma normalizeEmail_idem [simp]: "normalizeEmail (normalizeEmail e) = normalizeEmail e"
  by (simp add: normalizeEmail_def TrimSpace_ToLower)

end
