(* ===== verification/Actions_Handlers.thy ===== *)
theory Actions_Handlers
  imports Actions_Base
begin

text \<open>
  internal/httpactionsserver: the handlers of server.go (create-user-account, customize-jwt and
  idp-intent-succeeded) and of email_verified.go, from the request to the reply, with every call
  they make. Logging is not modelled; a reply that cannot be written to the connection is a reply.
\<close>

section \<open>Requests\<close>

record createUserAccountPayload =
  cup_UserName :: string
  cup_FirstName :: string
  cup_LastName :: string
  cup_DisplayName :: string
  cup_PreferredLanguage :: string
  cup_Email :: string
  cup_EncodedHash :: string
  cup_UserAgentID :: string

record createUserAccountRequest =
  cu_AggregateID :: string
  cu_AggregateType :: string
  cu_ResourceOwner :: string
  cu_InstanceID :: string
  cu_Version :: string
  cu_Sequence :: int
  cu_EventType :: string
  cu_CreatedAt :: string
  cu_UserID :: string
  cu_EventPayload :: createUserAccountPayload

definition zero_createUserAccountRequest :: createUserAccountRequest where
  "zero_createUserAccountRequest =
     \<lparr>cu_AggregateID = [], cu_AggregateType = [], cu_ResourceOwner = [], cu_InstanceID = [],
      cu_Version = [], cu_Sequence = 0, cu_EventType = [], cu_CreatedAt = [], cu_UserID = [],
      cu_EventPayload = \<lparr>cup_UserName = [], cup_FirstName = [], cup_LastName = [],
        cup_DisplayName = [], cup_PreferredLanguage = [], cup_Email = [], cup_EncodedHash = [],
        cup_UserAgentID = []\<rparr>\<rparr>"

definition createUserAccountPayload_fields :: "(string \<times> createUserAccountPayload decoder) list" where
  "createUserAccountPayload_fields = [
     (''userName'', json_string (\<lambda>v r. r\<lparr>cup_UserName := v\<rparr>)),
     (''firstName'', json_string (\<lambda>v r. r\<lparr>cup_FirstName := v\<rparr>)),
     (''lastName'', json_string (\<lambda>v r. r\<lparr>cup_LastName := v\<rparr>)),
     (''displayName'', json_string (\<lambda>v r. r\<lparr>cup_DisplayName := v\<rparr>)),
     (''preferredLanguage'', json_string (\<lambda>v r. r\<lparr>cup_PreferredLanguage := v\<rparr>)),
     (''email'', json_string (\<lambda>v r. r\<lparr>cup_Email := v\<rparr>)),
     (''encodedHash'', json_string (\<lambda>v r. r\<lparr>cup_EncodedHash := v\<rparr>)),
     (''userAgentID'', json_string (\<lambda>v r. r\<lparr>cup_UserAgentID := v\<rparr>))]"

definition createUserAccountRequest_fields :: "(string \<times> createUserAccountRequest decoder) list" where
  "createUserAccountRequest_fields = [
     (''aggregateID'', json_string (\<lambda>v r. r\<lparr>cu_AggregateID := v\<rparr>)),
     (''aggregateType'', json_string (\<lambda>v r. r\<lparr>cu_AggregateType := v\<rparr>)),
     (''resourceOwner'', json_string (\<lambda>v r. r\<lparr>cu_ResourceOwner := v\<rparr>)),
     (''instanceID'', json_string (\<lambda>v r. r\<lparr>cu_InstanceID := v\<rparr>)),
     (''version'', json_string (\<lambda>v r. r\<lparr>cu_Version := v\<rparr>)),
     (''sequence'', json_int (\<lambda>v r. r\<lparr>cu_Sequence := v\<rparr>)),
     (''event_type'', json_string (\<lambda>v r. r\<lparr>cu_EventType := v\<rparr>)),
     (''created_at'', json_string (\<lambda>v r. r\<lparr>cu_CreatedAt := v\<rparr>)),
     (''userID'', json_string (\<lambda>v r. r\<lparr>cu_UserID := v\<rparr>)),
     (''event_payload'', json_struct createUserAccountPayload_fields cu_EventPayload
        (\<lambda>v r. r\<lparr>cu_EventPayload := v\<rparr>))]"

definition SupportedUserCreationEvents :: "string list" where
  "SupportedUserCreationEvents = [''user.human.selfregistered'', ''user.human.added'']"

record customizeJwtRequest =
  cj_Sub :: string
  cj_Function :: string
  cj_Username :: string
  cj_HumanEmail :: "string option"

definition zero_customizeJwtRequest :: customizeJwtRequest where
  "zero_customizeJwtRequest =
     \<lparr>cj_Sub = [], cj_Function = [], cj_Username = [], cj_HumanEmail = None\<rparr>"

definition customizeJwtRequest_fields :: "(string \<times> customizeJwtRequest decoder) list" where
  "customizeJwtRequest_fields = [
     (''userinfo'', decode_struct [(''sub'', json_string (\<lambda>v r. r\<lparr>cj_Sub := v\<rparr>))]),
     (''function'', json_string (\<lambda>v r. r\<lparr>cj_Function := v\<rparr>)),
     (''user'', decode_struct [
        (''username'', json_string (\<lambda>v r. r\<lparr>cj_Username := v\<rparr>)),
        (''human'', json_pointer [(''email'', json_string (\<lambda>v _. v))] []
           cj_HumanEmail (\<lambda>v r. r\<lparr>cj_HumanEmail := v\<rparr>))])]"

record idpIntentRequest =
  ii_EventType :: string
  ii_UserID :: string
  ii_IDPUser :: string
  ii_IDPIdToken :: string
  ii_PayloadUserID :: string

definition zero_idpIntentRequest :: idpIntentRequest where
  "zero_idpIntentRequest =
     \<lparr>ii_EventType = [], ii_UserID = [], ii_IDPUser = [], ii_IDPIdToken = [], ii_PayloadUserID = []\<rparr>"

definition idpIntentRequest_fields :: "(string \<times> idpIntentRequest decoder) list" where
  "idpIntentRequest_fields = [
     (''event_type'', json_string (\<lambda>v r. r\<lparr>ii_EventType := v\<rparr>)),
     (''userId'', json_string (\<lambda>v r. r\<lparr>ii_UserID := v\<rparr>)),
     (''event_payload'', decode_struct [
        (''idpUser'', json_string (\<lambda>v r. r\<lparr>ii_IDPUser := v\<rparr>)),
        (''idpIdToken'', json_string (\<lambda>v r. r\<lparr>ii_IDPIdToken := v\<rparr>)),
        (''userId'', json_string (\<lambda>v r. r\<lparr>ii_PayloadUserID := v\<rparr>))])]"

record emailVerifiedRequest =
  ev_AggregateID :: string
  ev_EventType :: string
  ev_CreatedAt :: string
  ev_UserID :: string

definition zero_emailVerifiedRequest :: emailVerifiedRequest where
  "zero_emailVerifiedRequest =
     \<lparr>ev_AggregateID = [], ev_EventType = [], ev_CreatedAt = [], ev_UserID = []\<rparr>"

definition emailVerifiedRequest_fields :: "(string \<times> emailVerifiedRequest decoder) list" where
  "emailVerifiedRequest_fields = [
     (''aggregateID'', json_string (\<lambda>v r. r\<lparr>ev_AggregateID := v\<rparr>)),
     (''event_type'', json_string (\<lambda>v r. r\<lparr>ev_EventType := v\<rparr>)),
     (''created_at'', json_string (\<lambda>v r. r\<lparr>ev_CreatedAt := v\<rparr>)),
     (''userID'', json_string (\<lambda>v r. r\<lparr>ev_UserID := v\<rparr>))]"

definition EventTypeEmailVerified :: string where
  "EventTypeEmailVerified = ''user.human.email.verified''"

definition EventTypeEmailChanged :: string where
  "EventTypeEmailChanged = ''user.human.email.changed''"

section \<open>Replies\<close>

definition ok_text :: "string \<Rightarrow> http_result" where
  "ok_text body = Reply StatusOK [] body"

text \<open>The check every handler makes on the raw body before it parses anything.\<close>

definition signature_error :: "'w server \<Rightarrow> http_request \<Rightarrow> string \<Rightarrow> go_error option" where
  "signature_error srv r body =
     srv_validateSignature srv body (req_header r ''Zitadel-Signature'') (cfg_SigningKey (srv_config srv))"

section \<open>create-user-account\<close>

definition initial_verification :: "'w server \<Rightarrow> string \<Rightarrow> ('w, bool) server_action" where
  \<comment> \<open>the block after the create: false when the call on the client panics\<close>
  "initial_verification srv userName = do {
     zc \<leftarrow> zitadelAPI;
     (case zc of
        NilInterface \<Rightarrow> State_Monad.return True
      | NilPointer \<Rightarrow> State_Monad.return False
      | Live Z \<Rightarrow> do {
          zu \<leftarrow> outside (GetUserByID Z userName);
          (case zu of
             Inr (Some zu) \<Rightarrow> do {
               _ \<leftarrow> outside (Set_verified (srv_retry srv) (srv_k8s srv) userName (zu_IsEmailVerified zu));
               State_Monad.return True
             }
           | _ \<Rightarrow> State_Monad.return True)
        })
   }"

definition createUserAccountHandler :: "'w server \<Rightarrow> http_request \<Rightarrow> ('w, http_result) server_action" where
  "createUserAccountHandler srv r =
     (if req_method r \<noteq> MethodPost
      then State_Monad.return (http_Error ''method not allowed'' StatusMethodNotAllowed)
      else case req_body r of
        Inl e \<Rightarrow> State_Monad.return
          (http_Error (''failed to read request body: '' @ Error e) StatusBadRequest)
      | Inr body \<Rightarrow>
        (case signature_error srv r body of
           Some e \<Rightarrow> State_Monad.return
             (http_Error (''signature validation failed: '' @ Error e) StatusUnauthorized)
         | None \<Rightarrow>
           (case Unmarshal (srv_lib srv) createUserAccountRequest_fields zero_createUserAccountRequest body of
              Inl e \<Rightarrow> State_Monad.return (http_Error (''invalid request body: '' @ Error e) StatusBadRequest)
            | Inr req \<Rightarrow>
              if cu_EventType req \<notin> set SupportedUserCreationEvents
              then State_Monad.return
                (http_Error (''unsupported event type: '' @ cu_EventType req) StatusBadRequest)
              else do {
                let p = cu_EventPayload req;
                let u = NewUser (cu_AggregateID req) (cup_Email p) (cup_FirstName p) (cup_LastName p);
                created \<leftarrow> outside (EnsureUser (srv_k8s srv) u);
                (case created of
                   Inl e \<Rightarrow> State_Monad.return
                     (http_Error (''failed to create user resource: '' @ Error e) StatusInternalServerError)
                 | Inr None \<Rightarrow> State_Monad.return (ok_text ''already exists'')
                 | Inr (Some u) \<Rightarrow> do {
                     _ \<leftarrow> applyPendingAvatarByEmail srv (cu_AggregateID req) (cup_Email p) ''create-user-account'';
                     outside (RecordEvent (srv_runtime srv) (srv_k8s srv) (user_name u) (user_uid u)
                       EventReasonAccountCreated ''Account created'');
                     survives \<leftarrow> initial_verification srv (user_name u);
                     State_Monad.return
                       (if survives then Reply StatusCreated [] ''created'' else Panicked)
                   })
              })))"

section \<open>customize-jwt\<close>

definition customize_claims :: "string \<Rightarrow> json" where
  "customize_claims address = JObj [
     (''set_user_metadata'', JArr [JObj [(''key'', JStr ''key''), (''value'', JStr ''dmFsdWU='')]]),
     (''append_claims'', JArr [JObj [(''key'', JStr ''email''), (''value'', JStr address)]])]"

definition customizeJwtHandler :: "'w server \<Rightarrow> http_request \<Rightarrow> ('w, http_result) server_action" where
  "customizeJwtHandler srv r =
     (case req_body r of
        Inl e \<Rightarrow> State_Monad.return (http_Error ''Failed to read request body'' StatusBadRequest)
      | Inr body \<Rightarrow>
        (case signature_error srv r body of
           Some e \<Rightarrow> State_Monad.return
             (http_Error (''signature validation failed: '' @ Error e) StatusUnauthorized)
         | None \<Rightarrow>
           (case Unmarshal (srv_lib srv) customizeJwtRequest_fields zero_customizeJwtRequest body of
              Inl e \<Rightarrow> State_Monad.return (http_Error ''Failed to parse request body'' StatusBadRequest)
            | Inr request \<Rightarrow>
              if cj_Function request \<noteq> ''function/preuserinfo'' \<and>
                 cj_Function request \<noteq> ''function/preaccesstoken''
              then State_Monad.return
                (http_Error (''unsupported function: '' @ cj_Function request) StatusBadRequest)
              else State_Monad.return (ok_text (EncodeJSON (srv_lib srv) (customize_claims
                (case cj_HumanEmail request of Some address \<Rightarrow> address | None \<Rightarrow> cj_Username request)))))))"

section \<open>idp-intent-succeeded\<close>

definition parseIDPUserData :: "golib \<Rightarrow> string \<Rightarrow> go_error + auth_provider \<times> string" where
  "parseIDPUserData lib raw =
     (case UnmarshalMap lib raw of
        Inl e \<Rightarrow> Inl e
      | Inr m \<Rightarrow>
        (let field = (\<lambda>kvs k. case as_string (map_lookup kvs k) of
                        Some v \<Rightarrow> if v \<noteq> [] then Some v else None | None \<Rightarrow> None);
             nested = (case as_object (map_lookup m ''User'') of
                None \<Rightarrow> None
              | Some usr \<Rightarrow> (case field usr ''picture'' of
                   Some pic \<Rightarrow> Some (Google, pic)
                 | None \<Rightarrow> (case field usr ''avatar_url'' of
                     Some avatar \<Rightarrow> Some (GitHub, avatar)
                   | None \<Rightarrow> None)))
         in case nested of
              Some res \<Rightarrow> Inr res
            | None \<Rightarrow> (case field m ''avatar_url'' of
                Some avatar \<Rightarrow> Inr (GitHub, avatar)
              | None \<Rightarrow> (case field m ''picture'' of
                  Some pic \<Rightarrow> if Contains pic ''googleusercontent.com'' then Inr (Google, pic)
                             else Inl (errorf ''unknown idp provider'')
                | None \<Rightarrow> Inl (errorf ''unknown idp provider'')))))"

definition miloUserIDFromIdpIntent :: "idpIntentRequest \<Rightarrow> string" where
  "miloUserIDFromIdpIntent req = ii_PayloadUserID req"

definition idpIntentSucceededHandler :: "'w server \<Rightarrow> http_request \<Rightarrow> ('w, http_result) server_action" where
  "idpIntentSucceededHandler srv r =
     (case req_body r of
        Inl e \<Rightarrow> State_Monad.return (http_Error ''failed to read request body'' StatusBadRequest)
      | Inr body \<Rightarrow>
        (case signature_error srv r body of
           Some e \<Rightarrow> State_Monad.return
             (http_Error (''signature validation failed: '' @ Error e) StatusUnauthorized)
         | None \<Rightarrow>
           (case Unmarshal (srv_lib srv) idpIntentRequest_fields zero_idpIntentRequest body of
              Inl e \<Rightarrow> State_Monad.return (http_Error ''invalid body'' StatusBadRequest)
            | Inr req \<Rightarrow>
              if ii_EventType req \<noteq> ''idpintent.succeeded'' \<or> ii_IDPUser req = []
              then State_Monad.return (http_Error ''unexpected event'' StatusBadRequest)
              else case decodeIDPUserPayload (srv_lib srv) (ii_IDPUser req) of
                Inl e \<Rightarrow> State_Monad.return (http_Error ''invalid idpUser'' StatusBadRequest)
              | Inr raw \<Rightarrow>
                (case parseIDPUserData (srv_lib srv) raw of
                   Inl e \<Rightarrow> State_Monad.return (http_Error ''invalid idpUser data'' StatusBadRequest)
                 | Inr (idpProvider, avatarURL) \<Rightarrow>
                   (let userID = miloUserIDFromIdpIntent req;
                        address = extractEmailFromIDPUserData (srv_lib srv) raw;
                        park = do {
                          storePendingAvatar (srv_runtime srv) address avatarURL idpProvider;
                          State_Monad.return (ok_text ''pending'')
                        }
                    in if userID = [] then
                         (if address \<noteq> [] then park
                          else State_Monad.return (http_Error ''userID not found in payload'' StatusBadRequest))
                       else do {
                         current \<leftarrow> outside (getUserWithRetry srv userID);
                         (case current of
                            Inl e \<Rightarrow>
                              if IsNotFound e then
                                (if address \<noteq> [] then park
                                 else State_Monad.return (http_Error ''user not found'' StatusNotFound))
                              else State_Monad.return (http_Error ''failed to get user'' StatusInternalServerError)
                          | Inr original \<Rightarrow> do {
                              e \<leftarrow> outside (PatchUserStatus (srv_k8s srv) original
                                (original\<lparr>user_status := (user_status original)\<lparr>us_avatarURL := avatarURL,
                                   us_lastLoginProvider := idpProvider\<rparr>\<rparr>) ''idp-intent-succeeded'');
                              State_Monad.return (case e of
                                  Some _ \<Rightarrow> http_Error ''failed to patch user'' StatusInternalServerError
                                | None \<Rightarrow> ok_text ''success'')
                            })
                       })))))"

section \<open>email-verified\<close>

definition emailVerifiedHandler :: "'w server \<Rightarrow> http_request \<Rightarrow> ('w, http_result) server_action" where
  "emailVerifiedHandler srv r =
     (if req_method r \<noteq> MethodPost
      then State_Monad.return (http_Error ''method not allowed'' StatusMethodNotAllowed)
      else case req_body r of
        Inl e \<Rightarrow> State_Monad.return
          (http_Error (''failed to read request body: '' @ Error e) StatusBadRequest)
      | Inr body \<Rightarrow>
        (case signature_error srv r body of
           Some e \<Rightarrow> State_Monad.return
             (http_Error (''signature validation failed: '' @ Error e) StatusUnauthorized)
         | None \<Rightarrow>
           (case Unmarshal (srv_lib srv) emailVerifiedRequest_fields zero_emailVerifiedRequest body of
              Inl e \<Rightarrow> State_Monad.return (http_Error (''invalid request body: '' @ Error e) StatusBadRequest)
            | Inr req \<Rightarrow>
              (case (if ev_EventType req = EventTypeEmailVerified then Some True
                     else if ev_EventType req = EventTypeEmailChanged then Some False else None) of
                 None \<Rightarrow> State_Monad.return
                   (http_Error (''unsupported event type: '' @ ev_EventType req) StatusBadRequest)
               | Some verified \<Rightarrow>
                 (let userID = ev_AggregateID req in
                  if userID = []
                  then State_Monad.return (http_Error ''userID not found in payload'' StatusBadRequest)
                  else do {
                    found \<leftarrow> outside (getUserWithRetry srv userID);
                    (case found of
                       Inl e \<Rightarrow> State_Monad.return
                         (if IsNotFound e then http_Error ''user not found'' StatusNotFound
                          else http_Error ''failed to read user'' StatusInternalServerError)
                     | Inr _ \<Rightarrow> do {
                         changed \<leftarrow> outside (Set_verified (srv_retry srv) (srv_k8s srv) userID verified);
                         State_Monad.return (case changed of
                             Inl _ \<Rightarrow> http_Error ''failed to update user'' StatusInternalServerError
                           | Inr _ \<Rightarrow> ok_text ''success'')
                       })
                  })))))"

end
