(* ===== verification/Suspicious_Login.thy ===== *)
theory Suspicious_Login
  imports Actions_Handlers
begin

text \<open>
  internal/httpactionsserver/session_added.go and pkg/gateway/gateway.go: the decision whether a
  login looks unlike the user's earlier sessions, the reduction of a user agent to its browser and
  device family, and the notification mail with its lookups.
\<close>

section \<open>User agents\<close>

definition unknownDevice :: string where
  "unknownDevice = ''Unknown Device''"

definition unknownBrowser :: string where
  "unknownBrowser = ''Unknown Browser''"

text \<open>The switch on one trimmed part of a comma-separated description.\<close>

definition device_part :: "string \<Rightarrow> string option" where
  "device_part p =
     (if p = ''iphone'' then Some ''iPhone''
      else if p = ''ipad'' then Some ''iPad''
      else if p = ''android'' then Some ''Android Device''
      else if p \<in> {''macintosh'', ''mac os'', ''macos'', ''mac os x''} then Some ''Mac''
      else if p = ''windows'' then Some ''Windows PC''
      else if p = ''linux'' then Some ''Linux PC''
      else None)"

definition browser_part :: "string \<Rightarrow> string option" where
  "browser_part p =
     (if p \<in> {''firefox'', ''fxios''} then Some ''Firefox''
      else if p \<in> {''edge'', ''edg''} then Some ''Edge''
      else if p \<in> {''opera'', ''opr''} then Some ''Opera''
      else if p \<in> {''chrome'', ''crios''} then Some ''Chrome''
      else if p = ''safari'' then Some ''Safari''
      else None)"

fun first_part :: "(string \<Rightarrow> string option) \<Rightarrow> string list \<Rightarrow> string option" where
  "first_part f [] = None"
| "first_part f (p # ps) = (case f (TrimSpace p) of Some r \<Rightarrow> Some r | None \<Rightarrow> first_part f ps)"

definition comma_match :: "(string \<Rightarrow> string option) \<Rightarrow> string \<Rightarrow> string option" where
  "comma_match f uaLower =
     (if Contains uaLower '','' then first_part f (Split uaLower (CHR '','')) else None)"

definition parseDevice :: "string \<Rightarrow> string" where
  "parseDevice ua =
     (let uaLower = ToLower ua in
      case comma_match device_part uaLower of
        Some d \<Rightarrow> d
      | None \<Rightarrow>
          if Contains uaLower ''iphone'' then ''iPhone''
          else if Contains uaLower ''ipad'' then ''iPad''
          else if Contains uaLower ''android'' then ''Android Device''
          else if Contains uaLower ''macintosh'' \<or> Contains uaLower ''mac os'' \<or> Contains uaLower ''macos''
            then ''Mac''
          else if Contains uaLower ''windows'' then ''Windows PC''
          else if Contains uaLower ''linux'' then ''Linux PC''
          else unknownDevice)"

definition parseBrowser :: "string \<Rightarrow> string" where
  "parseBrowser ua =
     (let uaLower = ToLower ua in
      case comma_match browser_part uaLower of
        Some b \<Rightarrow> b
      | None \<Rightarrow>
          if Contains uaLower ''firefox/'' \<or> Contains uaLower ''fxios/'' then ''Firefox''
          else if Contains uaLower ''edg/'' \<or> Contains uaLower ''edge/'' then ''Edge''
          else if Contains uaLower ''opr/'' \<or> Contains uaLower ''opera/'' then ''Opera''
          else if Contains uaLower ''chrome/'' \<or> Contains uaLower ''crios/'' then ''Chrome''
          else if Contains uaLower ''safari/'' then ''Safari''
          else unknownBrowser)"

definition userAgentKey :: "string \<Rightarrow> string" where
  "userAgentKey ua =
     (let device = parseDevice ua; browser = parseBrowser ua in
      if device = unknownDevice \<and> browser = unknownBrowser then ua
      else browser @ '' on '' @ device)"

section \<open>The decision\<close>

fun findSessionByID :: "session list \<Rightarrow> string \<Rightarrow> session option" where
  "findSessionByID [] i = None"
| "findSessionByID (s # ss) i = (if sess_ID s = i then Some s else findSessionByID ss i)"

fun getPreviousSessions :: "session list \<Rightarrow> string \<Rightarrow> session list" where
  "getPreviousSessions [] currentSessionID = []"
| "getPreviousSessions (s # ss) currentSessionID =
     (if sess_ID s = currentSessionID then getPreviousSessions ss currentSessionID
      else s # getPreviousSessions ss currentSessionID)"

text \<open>One pass of the loop over the earlier sessions, on the flags ipSeen, userAgentSeen and
  fingerprintSeen.\<close>

definition seen_step ::
  "string \<Rightarrow> string \<Rightarrow> string \<Rightarrow> session \<Rightarrow> bool \<times> bool \<times> bool \<Rightarrow> bool \<times> bool \<times> bool" where
  "seen_step currentIP currentUserAgentKey currentFingerprint sess seen =
     (case seen of (ipSeen, userAgentSeen, fingerprintSeen) \<Rightarrow>
        (if sess_IP sess = currentIP then True else ipSeen,
         if sess_UserAgent sess \<noteq> [] \<and> userAgentKey (sess_UserAgent sess) = currentUserAgentKey
           then True else userAgentSeen,
         if currentFingerprint \<noteq> [] \<and> sess_FingerprintID sess = currentFingerprint
           then True else fingerprintSeen))"

definition isSuspiciousLogin :: "session list \<Rightarrow> string \<Rightarrow> string \<Rightarrow> string \<Rightarrow> bool" where
  "isSuspiciousLogin previousSessions currentIP currentUserAgent currentFingerprint =
     (if previousSessions = [] then False
      else case fold (seen_step currentIP (userAgentKey currentUserAgent) currentFingerprint)
                  previousSessions (False, False, False) of
        (ipSeen, userAgentSeen, fingerprintSeen) \<Rightarrow>
          (currentIP \<noteq> [] \<and> \<not> ipSeen) \<or> (currentUserAgent \<noteq> [] \<and> \<not> userAgentSeen) \<or>
          (currentFingerprint \<noteq> [] \<and> \<not> fingerprintSeen))"

section \<open>pkg/gateway/gateway.go\<close>

record geo_location =
  geo_City :: string
  geo_Country :: string
  geo_CountryCode :: string
  geo_Formatted :: string

record parsed_user_agent =
  pua_Browser :: string
  pua_OS :: string
  pua_Formatted :: string

definition geo_fields :: "(string \<times> geo_location decoder) list" where
  "geo_fields = [
     (''city'', json_string (\<lambda>v r. r\<lparr>geo_City := v\<rparr>)),
     (''country'', json_string (\<lambda>v r. r\<lparr>geo_Country := v\<rparr>)),
     (''countryCode'', json_string (\<lambda>v r. r\<lparr>geo_CountryCode := v\<rparr>)),
     (''formatted'', json_string (\<lambda>v r. r\<lparr>geo_Formatted := v\<rparr>))]"

definition pua_fields :: "(string \<times> parsed_user_agent decoder) list" where
  "pua_fields = [
     (''browser'', json_string (\<lambda>v r. r\<lparr>pua_Browser := v\<rparr>)),
     (''os'', json_string (\<lambda>v r. r\<lparr>pua_OS := v\<rparr>)),
     (''formatted'', json_string (\<lambda>v r. r\<lparr>pua_Formatted := v\<rparr>))]"

text \<open>
  The field \<^verbatim>\<open>errors\<close> of the envelope, an array of objects with a \<^verbatim>\<open>message\<close>: the messages, or no
  decoding at all. A \<^verbatim>\<open>null\<close> entry is an empty message.
\<close>

fun decode_messages :: "json list \<Rightarrow> string list option" where
  "decode_messages [] = Some []"
| "decode_messages (v # vs) =
     (case decode_struct [(''message'', json_string (\<lambda>m _. m))] v [] of
        None \<Rightarrow> None
      | Some m \<Rightarrow> map_option ((#) m) (decode_messages vs))"

definition json_errors :: "string list decoder" where
  "json_errors v r =
     (case v of JNull \<Rightarrow> Some [] | JArr vs \<Rightarrow> decode_messages vs | _ \<Rightarrow> None)"

definition gateway_do ::
  "'w server \<Rightarrow> string \<Rightarrow> string \<Rightarrow> (string \<times> string) list \<Rightarrow> (string \<times> 'r decoder) list \<Rightarrow> 'r \<Rightarrow>
   ('w, go_error + 'r) state" where
  "gateway_do srv gatewayURL query variables flds zero = do {
     resp \<leftarrow> srv_httpClient srv gatewayURL query variables;
     State_Monad.return (case resp of
         Inl e \<Rightarrow> Inl (wrapf ''gateway: http: '' e)
       | Inr (statusCode, body) \<Rightarrow>
           if statusCode \<noteq> StatusOK
           then Inl (errorf (''gateway: unexpected status '' @ Itoa (int statusCode)))
           else (case ParseFirstJSON (srv_lib srv) body of
               Inl m \<Rightarrow> Inl (errorf (''gateway: decode response: '' @ m))
             | Inr v \<Rightarrow>
                 (case decode_struct [(''errors'', json_errors)] v [] of
                    Some (m # ms) \<Rightarrow> Inl (errorf (''gateway: '' @ m))
                  | _ \<Rightarrow> (case decode_struct flds v zero of
                      None \<Rightarrow> Inl (errorf (''gateway: decode data: '' @ TypeErrorText (srv_lib srv) body))
                    | Some r \<Rightarrow> Inr r))))
   }"

definition LookupIP :: "'w server \<Rightarrow> string \<Rightarrow> string \<Rightarrow> ('w, go_error + geo_location option) state" where
  "LookupIP srv gatewayURL ip =
     gateway_do srv gatewayURL ''query GeolocateIP($ip: String!) { geolocateIP(ip: $ip) { city country countryCode formatted } }''
       [(''ip'', ip)]
       [(''data'', decode_struct [(''geolocateIP'', json_pointer geo_fields
          \<lparr>geo_City = [], geo_Country = [], geo_CountryCode = [], geo_Formatted = []\<rparr>
          (\<lambda>r. r) (\<lambda>v _. v))])]
       None"

definition ParseUserAgent ::
  "'w server \<Rightarrow> string \<Rightarrow> string \<Rightarrow> ('w, go_error + parsed_user_agent option) state" where
  "ParseUserAgent srv gatewayURL ua =
     gateway_do srv gatewayURL ''query ParseUserAgent($ua: String!) { parseUserAgent(userAgent: $ua) { browser os formatted } }''
       [(''ua'', ua)]
       [(''data'', decode_struct [(''parseUserAgent'', json_pointer pua_fields
          \<lparr>pua_Browser = [], pua_OS = [], pua_Formatted = []\<rparr>
          (\<lambda>r. r) (\<lambda>v _. v))])]
       None"

section \<open>The notification\<close>

definition resolveLocation :: "'w server \<Rightarrow> string \<Rightarrow> ('w, string) state" where
  "resolveLocation srv ip =
     (if cfg_GraphQLGatewayURL (srv_config srv) = [] \<or> ip = [] then State_Monad.return ip
      else do {
        geo \<leftarrow> LookupIP srv (cfg_GraphQLGatewayURL (srv_config srv)) ip;
        State_Monad.return (case geo of
            Inl _ \<Rightarrow> ip
          | Inr None \<Rightarrow> ip
          | Inr (Some g) \<Rightarrow> if geo_Formatted g = [] then ip else geo_Formatted g)
      })"

definition resolveUserAgent :: "'w server \<Rightarrow> string \<Rightarrow> ('w, string \<times> string) state" where
  "resolveUserAgent srv ua =
     (if cfg_GraphQLGatewayURL (srv_config srv) \<noteq> [] \<and> ua \<noteq> [] then do {
        parsed \<leftarrow> ParseUserAgent srv (cfg_GraphQLGatewayURL (srv_config srv)) ua;
        State_Monad.return (case parsed of
            Inr (Some p) \<Rightarrow> (pua_OS p, pua_Browser p)
          | _ \<Rightarrow> (parseDevice ua, parseBrowser ua))
      }
      else State_Monad.return (parseDevice ua, parseBrowser ua))"

definition display_time :: "golib \<Rightarrow> string \<Rightarrow> string" where
  "display_time lib t = (case DisplayTime lib t of Some s \<Rightarrow> s | None \<Rightarrow> t)"

definition suspiciousLoginEmail ::
  "'w server \<Rightarrow> user \<Rightarrow> string \<Rightarrow> string \<Rightarrow> string \<Rightarrow> string \<Rightarrow> string \<Rightarrow> string \<Rightarrow> email" where
  "suspiciousLoginEmail srv u uuid signInTime ip device browser location =
     \<lparr>email_name = ''suspicious-login-'' @ uuid,
      email_namespace = cfg_NotificationNamespace (srv_config srv),
      email_labels = [], email_annotations = [], email_creationTimestamp = zero_time,
      email_template = cfg_SuspiciousLoginEmailTemplate (srv_config srv),
      email_recipient = UserRef (user_name u),
      email_variables = [
        (''UserName'', display_name u), (''Email'', user_email u), (''Location'', location),
        (''SignInTime'', display_time (srv_lib srv) signInTime), (''Browser'', browser),
        (''Device'', device), (''IpAddress'', ip)],
      email_priority = PriorityHigh\<rparr>"

definition sendSuspiciousLoginEmail ::
  "'w server \<Rightarrow> string \<Rightarrow> string \<Rightarrow> string \<Rightarrow> string \<Rightarrow> string \<Rightarrow> string \<Rightarrow> ('w, go_error option) state" where
  "sendSuspiciousLoginEmail srv userID signInTime ip device browser location =
     (if cfg_SuspiciousLoginEmailTemplate (srv_config srv) = [] then State_Monad.return None
      else do {
        r \<leftarrow> GetUser (srv_k8s srv) userID;
        (case r of
           Inl e \<Rightarrow> State_Monad.return (Some (wrapf (''failed to get user '' @ Quote userID @ '': '') e))
         | Inr u \<Rightarrow> do {
             uuid \<leftarrow> NewUUID (srv_runtime srv);
             e \<leftarrow> CreateEmail (srv_k8s srv)
                   (suspiciousLoginEmail srv u uuid signInTime ip device browser location);
             State_Monad.return
               (map_option (wrapf ''failed to create suspicious login Email resource: '') e)
           })
      })"

definition handleSuspiciousLogin ::
  "'w server \<Rightarrow> string \<Rightarrow> string \<Rightarrow> string \<Rightarrow> string \<Rightarrow> ('w, unit) state" where
  "handleSuspiciousLogin srv userID signInTime ip ua = do {
     (device, browser) \<leftarrow> resolveUserAgent srv ua;
     location \<leftarrow> resolveLocation srv ip;
     _ \<leftarrow> sendSuspiciousLoginEmail srv userID signInTime ip device browser location;
     State_Monad.return ()
   }"

section \<open>The handler\<close>

record userAgent =
  ua_IP :: string
  ua_FingerprintID :: string
  ua_Description :: string

record sessionAddedRequest =
  sa_AggregateID :: string
  sa_AggregateType :: string
  sa_ResourceOwner :: string
  sa_InstanceID :: string
  sa_Version :: string
  sa_Sequence :: int
  sa_EventType :: string
  sa_CreatedAt :: string
  sa_UserID :: string
  sa_PayloadUserID :: string
  sa_PayloadSessionID :: string
  sa_PayloadUserAgent :: "userAgent option"

definition zero_sessionAddedRequest :: sessionAddedRequest where
  "zero_sessionAddedRequest =
     \<lparr>sa_AggregateID = [], sa_AggregateType = [], sa_ResourceOwner = [], sa_InstanceID = [],
      sa_Version = [], sa_Sequence = 0, sa_EventType = [], sa_CreatedAt = [], sa_UserID = [],
      sa_PayloadUserID = [], sa_PayloadSessionID = [], sa_PayloadUserAgent = None\<rparr>"

definition sessionAddedRequest_fields :: "(string \<times> sessionAddedRequest decoder) list" where
  "sessionAddedRequest_fields = [
     (''aggregateID'', json_string (\<lambda>v r. r\<lparr>sa_AggregateID := v\<rparr>)),
     (''aggregateType'', json_string (\<lambda>v r. r\<lparr>sa_AggregateType := v\<rparr>)),
     (''resourceOwner'', json_string (\<lambda>v r. r\<lparr>sa_ResourceOwner := v\<rparr>)),
     (''instanceID'', json_string (\<lambda>v r. r\<lparr>sa_InstanceID := v\<rparr>)),
     (''version'', json_string (\<lambda>v r. r\<lparr>sa_Version := v\<rparr>)),
     (''sequence'', json_int (\<lambda>v r. r\<lparr>sa_Sequence := v\<rparr>)),
     (''event_type'', json_string (\<lambda>v r. r\<lparr>sa_EventType := v\<rparr>)),
     (''created_at'', json_string (\<lambda>v r. r\<lparr>sa_CreatedAt := v\<rparr>)),
     (''userID'', json_string (\<lambda>v r. r\<lparr>sa_UserID := v\<rparr>)),
     (''event_payload'', decode_struct [
        (''userID'', json_string (\<lambda>v r. r\<lparr>sa_PayloadUserID := v\<rparr>)),
        (''sessionID'', json_string (\<lambda>v r. r\<lparr>sa_PayloadSessionID := v\<rparr>)),
        (''userAgent'', json_pointer [
           (''ip'', json_string (\<lambda>v r. r\<lparr>ua_IP := v\<rparr>)),
           (''fingerprint_id'', json_string (\<lambda>v r. r\<lparr>ua_FingerprintID := v\<rparr>)),
           (''description'', json_string (\<lambda>v r. r\<lparr>ua_Description := v\<rparr>))]
           \<lparr>ua_IP = [], ua_FingerprintID = [], ua_Description = []\<rparr>
           sa_PayloadUserAgent (\<lambda>v r. r\<lparr>sa_PayloadUserAgent := v\<rparr>))])]"

text \<open>What the handler does with a valid event and a live client: from line 101 on.\<close>

definition checkSession ::
  "'w server \<Rightarrow> 'w zitadel_api \<Rightarrow> sessionAddedRequest \<Rightarrow> ('w, http_result) server_action" where
  "checkSession srv Z req = do {
     let userID = sa_PayloadUserID req;
     zu \<leftarrow> outside (GetUserByID Z userID);
     _ \<leftarrow> (case zu of
            Inr (Some zu) \<Rightarrow>
              if zu_Email zu \<noteq> [] then applyPendingAvatarByEmail srv userID (zu_Email zu) ''session-added''
              else State_Monad.return False
          | _ \<Rightarrow> State_Monad.return False);
     let (currentIP, currentUserAgent, currentFingerprint) =
       (case sa_PayloadUserAgent req of
          None \<Rightarrow> ([], [], [])
        | Some ua \<Rightarrow> (ua_IP ua, ua_Description ua, ua_FingerprintID ua));
     sessions \<leftarrow> outside (ListSessions Z userID);
     (case sessions of
        Inl e \<Rightarrow> State_Monad.return
          (http_Error (''failed to list sessions: '' @ Error e) StatusInternalServerError)
      | Inr sessions \<Rightarrow>
          (let sessionID = (if sa_PayloadSessionID req = [] then sa_AggregateID req
                            else sa_PayloadSessionID req);
               previousSessions = getPreviousSessions sessions sessionID
           in if (case findSessionByID sessions sessionID of
                    Some current \<Rightarrow> sess_PasskeyVerified current | None \<Rightarrow> False)
              then State_Monad.return (ok_text ''success'')
              else do {
                (if previousSessions \<noteq> [] \<and>
                    isSuspiciousLogin previousSessions currentIP currentUserAgent currentFingerprint
                 then outside (handleSuspiciousLogin srv userID (sa_CreatedAt req) currentIP currentUserAgent)
                 else State_Monad.return ());
                State_Monad.return (ok_text ''success'')
              }))
   }"

definition sessionAddedHandler :: "'w server \<Rightarrow> http_request \<Rightarrow> ('w, http_result) server_action" where
  "sessionAddedHandler srv r =
     (if req_method r \<noteq> MethodPost
      then State_Monad.return (http_Error ''method not allowed'' StatusMethodNotAllowed)
      else case req_body r of
        Inl e \<Rightarrow> State_Monad.return
          (http_Error (''failed to read request body: '' @ Error e) StatusBadRequest)
      | Inr body \<Rightarrow>
        (case signature_error srv r body of
           Some e \<Rightarrow> State_Monad.return
             (http_Error (''signature validation failed: '' @ Error e) StatusUnauthorized)
         | None \<Rightarrow>
           (case Unmarshal (srv_lib srv) sessionAddedRequest_fields zero_sessionAddedRequest body of
              Inl e \<Rightarrow> State_Monad.return (http_Error (''invalid request body: '' @ Error e) StatusBadRequest)
            | Inr req \<Rightarrow>
              if sa_EventType req \<noteq> ''oidc_session.added''
              then State_Monad.return
                (http_Error (''unsupported event type: '' @ sa_EventType req) StatusBadRequest)
              else if sa_PayloadUserID req = []
              then State_Monad.return (http_Error ''userID not found in payload'' StatusBadRequest)
              else do {
                zClient \<leftarrow> zitadelAPI;
                (case zClient of
                   NilInterface \<Rightarrow> State_Monad.return
                     (http_Error ''zitadel sdk client not configured'' StatusServiceUnavailable)
                 | NilPointer \<Rightarrow> State_Monad.return Panicked
                 | Live Z \<Rightarrow> checkSession srv Z req)
              })))"

end
