(* ===== verification/Passkey_Handlers.thy ===== *)
theory Passkey_Handlers
  imports Suspicious_Login
begin

text \<open>
  internal/httpactionsserver/passkey_added.go and passkey_removed.go: the notifications about a
  passkey that was enrolled or removed.
\<close>

definition EventTypePasskeyVerified :: string where
  "EventTypePasskeyVerified = ''user.human.passwordless.token.verified''"

definition EventTypePasskeyRemoved :: string where
  "EventTypePasskeyRemoved = ''user.human.passwordless.token.removed''"

record passkeyAddedRequest =
  pr_AggregateID :: string
  pr_EventType :: string
  pr_CreatedAt :: string
  pr_UserID :: string
  pr_WebAuthNTokenID :: string
  pr_WebAuthNTokenName :: string
  pr_Name :: string

definition zero_passkeyAddedRequest :: passkeyAddedRequest where
  "zero_passkeyAddedRequest =
     \<lparr>pr_AggregateID = [], pr_EventType = [], pr_CreatedAt = [], pr_UserID = [],
      pr_WebAuthNTokenID = [], pr_WebAuthNTokenName = [], pr_Name = []\<rparr>"

definition passkeyAddedRequest_fields :: "(string \<times> passkeyAddedRequest decoder) list" where
  "passkeyAddedRequest_fields = [
     (''aggregateID'', json_string (\<lambda>v r. r\<lparr>pr_AggregateID := v\<rparr>)),
     (''event_type'', json_string (\<lambda>v r. r\<lparr>pr_EventType := v\<rparr>)),
     (''created_at'', json_string (\<lambda>v r. r\<lparr>pr_CreatedAt := v\<rparr>)),
     (''userID'', json_string (\<lambda>v r. r\<lparr>pr_UserID := v\<rparr>)),
     (''event_payload'', decode_struct [
        (''webAuthNTokenId'', json_string (\<lambda>v r. r\<lparr>pr_WebAuthNTokenID := v\<rparr>)),
        (''webAuthNTokenName'', json_string (\<lambda>v r. r\<lparr>pr_WebAuthNTokenName := v\<rparr>)),
        (''name'', json_string (\<lambda>v r. r\<lparr>pr_Name := v\<rparr>))])]"

definition passkeyName :: "passkeyAddedRequest \<Rightarrow> string" where
  "passkeyName req = (if pr_WebAuthNTokenName req \<noteq> [] then pr_WebAuthNTokenName req else pr_Name req)"

section \<open>Mails\<close>

definition passkeyAddedEmail :: "'w server \<Rightarrow> user \<Rightarrow> string \<Rightarrow> string \<Rightarrow> string \<Rightarrow> email" where
  "passkeyAddedEmail srv u uuid addedAt name =
     \<lparr>email_name = ''passkey-added-'' @ uuid,
      email_namespace = cfg_NotificationNamespace (srv_config srv),
      email_labels = [], email_annotations = [], email_creationTimestamp = zero_time,
      email_template = cfg_PasskeyAddedEmailTemplate (srv_config srv),
      email_recipient = UserRef (user_name u),
      email_variables = [(''UserName'', display_name u), (''PasskeyName'', name),
        (''AddedTime'', display_time (srv_lib srv) addedAt), (''Browser'', []), (''Device'', [])],
      email_priority = PriorityHigh\<rparr>"

definition sendPasskeyAddedEmail ::
  "'w server \<Rightarrow> string \<Rightarrow> string \<Rightarrow> string \<Rightarrow> ('w, go_error option) state" where
  "sendPasskeyAddedEmail srv userID addedAt name =
     (if cfg_PasskeyAddedEmailTemplate (srv_config srv) = [] then State_Monad.return None
      else do {
        r \<leftarrow> GetUser (srv_k8s srv) userID;
        (case r of
           Inl e \<Rightarrow> State_Monad.return (Some (wrapf (''failed to get user '' @ Quote userID @ '': '') e))
         | Inr u \<Rightarrow> do {
             uuid \<leftarrow> NewUUID (srv_runtime srv);
             e \<leftarrow> CreateEmail (srv_k8s srv) (passkeyAddedEmail srv u uuid addedAt name);
             State_Monad.return (map_option (wrapf ''failed to create passkey-added Email resource: '') e)
           })
      })"

definition passkeyRemovedEmail :: "'w server \<Rightarrow> user \<Rightarrow> string \<Rightarrow> string \<Rightarrow> string \<Rightarrow> email" where
  "passkeyRemovedEmail srv u uuid removedAt name =
     \<lparr>email_name = ''passkey-removed-'' @ uuid,
      email_namespace = cfg_NotificationNamespace (srv_config srv),
      email_labels = [], email_annotations = [], email_creationTimestamp = zero_time,
      email_template = cfg_PasskeyRemovedEmailTemplate (srv_config srv),
      email_recipient = UserRef (user_name u),
      email_variables = [(''UserName'', display_name u),
        (''RemovedTime'', display_time (srv_lib srv) removedAt), (''PasskeyName'', name)],
      email_priority = PriorityHigh\<rparr>"

definition sendPasskeyRemovedEmail ::
  "'w server \<Rightarrow> string \<Rightarrow> string \<Rightarrow> string \<Rightarrow> ('w, go_error option) state" where
  "sendPasskeyRemovedEmail srv userID removedAt name =
     (if cfg_PasskeyRemovedEmailTemplate (srv_config srv) = [] then State_Monad.return None
      else do {
        r \<leftarrow> GetUser (srv_k8s srv) userID;
        (case r of
           Inl e \<Rightarrow> State_Monad.return (Some (wrapf (''failed to get User '' @ Quote userID @ '': '') e))
         | Inr u \<Rightarrow> do {
             uuid \<leftarrow> NewUUID (srv_runtime srv);
             e \<leftarrow> CreateEmail (srv_k8s srv) (passkeyRemovedEmail srv u uuid removedAt name);
             State_Monad.return (map_option (wrapf ''failed to create passkey-removed Email resource: '') e)
           })
      })"

fun metadata_name :: "golib \<Rightarrow> string \<Rightarrow> user_metadata list \<Rightarrow> string" where
  "metadata_name lib want [] = []"
| "metadata_name lib want (e # es) =
     (if meta_Key e \<noteq> want then metadata_name lib want es
      else case Unmarshal lib [(''name'', json_string (\<lambda>v _. v))] [] (meta_Value e) of
             Inl _ \<Rightarrow> []
           | Inr name \<Rightarrow> name)"

text \<open>The result is none when the call on the client panics.\<close>

definition passkeyNameFromMetadata ::
  "golib \<Rightarrow> 'w zitadel_api iface \<Rightarrow> string \<Rightarrow> string \<Rightarrow> ('w, string option) state" where
  "passkeyNameFromMetadata lib api userID tokenID =
     (if is_nil api \<or> tokenID = [] then State_Monad.return (Some [])
      else case api of
        Live Z \<Rightarrow> do {
          entries \<leftarrow> ListUserMetadata Z userID;
          State_Monad.return (Some (case entries of
              Inl _ \<Rightarrow> []
            | Inr entries \<Rightarrow> metadata_name lib (''passkey:'' @ tokenID @ '':created'') entries))
        }
      | _ \<Rightarrow> State_Monad.return None)"

section \<open>Handlers\<close>

definition passkeyAddedHandler :: "'w server \<Rightarrow> http_request \<Rightarrow> ('w, http_result) server_action" where
  "passkeyAddedHandler srv r =
     (if req_method r \<noteq> MethodPost
      then State_Monad.return (http_Error ''method not allowed'' StatusMethodNotAllowed)
      else case req_body r of
        Inl e \<Rightarrow> State_Monad.return
          (http_Error (''failed to read request body: '' @ Error e) StatusBadRequest)
      | Inr body \<Rightarrow>
        (case signature_error srv r body of
           Some e \<Rightarrow> State_Monad.return
             (http_Error (''signature validation failed: '' @ Error e) StatusUnauthorized)
         | None \<Rightarrow>
           (case Unmarshal (srv_lib srv) passkeyAddedRequest_fields zero_passkeyAddedRequest body of
              Inl e \<Rightarrow> State_Monad.return (http_Error (''invalid request body: '' @ Error e) StatusBadRequest)
            | Inr req \<Rightarrow>
              if pr_EventType req \<noteq> EventTypePasskeyVerified
              then State_Monad.return
                (http_Error (''unsupported event type: '' @ pr_EventType req) StatusBadRequest)
              else if pr_AggregateID req = []
              then State_Monad.return (http_Error ''userID not found in payload'' StatusBadRequest)
              else do {
                _ \<leftarrow> outside (sendPasskeyAddedEmail srv (pr_AggregateID req) (pr_CreatedAt req)
                       (passkeyName req));
                recordUserEvent srv (pr_AggregateID req) EventReasonPasskeyEnrolled
                  (passkeyEventMessage ''added'' (passkeyName req));
                State_Monad.return (ok_text ''success'')
              })))"

definition passkeyRemovedHandler :: "'w server \<Rightarrow> http_request \<Rightarrow> ('w, http_result) server_action" where
  "passkeyRemovedHandler srv r =
     (if req_method r \<noteq> MethodPost
      then State_Monad.return (http_Error ''method not allowed'' StatusMethodNotAllowed)
      else case req_body r of
        Inl e \<Rightarrow> State_Monad.return
          (http_Error (''failed to read request body: '' @ Error e) StatusBadRequest)
      | Inr body \<Rightarrow>
        (case signature_error srv r body of
           Some e \<Rightarrow> State_Monad.return
             (http_Error (''signature validation failed: '' @ Error e) StatusUnauthorized)
         | None \<Rightarrow>
           (case Unmarshal (srv_lib srv) passkeyAddedRequest_fields zero_passkeyAddedRequest body of
              Inl e \<Rightarrow> State_Monad.return (http_Error (''invalid request body: '' @ Error e) StatusBadRequest)
            | Inr req \<Rightarrow>
              if pr_EventType req \<noteq> EventTypePasskeyRemoved
              then State_Monad.return (ok_text ''ignored'')
              else if pr_AggregateID req = []
              then State_Monad.return (http_Error ''userID not found in payload'' StatusBadRequest)
              else do {
                api \<leftarrow> zitadelAPI;
                name \<leftarrow> outside (passkeyNameFromMetadata (srv_lib srv) api (pr_AggregateID req)
                          (pr_WebAuthNTokenID req));
                (case name of
                   None \<Rightarrow> State_Monad.return Panicked
                 | Some name \<Rightarrow> do {
                     _ \<leftarrow> outside (sendPasskeyRemovedEmail srv (pr_AggregateID req) (pr_CreatedAt req) name);
                     recordUserEvent srv (pr_AggregateID req) EventReasonPasskeyRemoved
                       (passkeyEventMessage ''removed'' name);
                     State_Monad.return (ok_text ''success'')
                   })
              })))"

end
