(* ===== verification/Step_Systems.thy ===== *)
theory Step_Systems
  imports Main
begin

text \<open>
  The interface of the systems of steps: the actions server that serves requests, the requests that share
  the client assertion, the pending avatars or the mail budget, the sweeper beside the collector, and the goroutines of the
  controller process. A step keeps an invariant; a
  system that cannot go on for ever has a measure that each of its steps takes down.
\<close>

locale step_invariant =
  fixes step :: "'s \<Rightarrow> 's \<Rightarrow> bool"
    and Inv :: "'s \<Rightarrow> bool"
  assumes inv_step: "step s s' \<Longrightarrow> Inv s \<Longrightarrow> Inv s'"
begin

lemma inv_steps: "step\<^sup>*\<^sup>* s s' \<Longrightarrow> Inv s \<Longrightarrow> Inv s'"
  by (induction rule: rtranclp_induct) (auto intro: inv_step)

lemma inv_run: "(step ^^ n) s s' \<Longrightarrow> Inv s \<Longrightarrow> Inv s'"
  by (meson inv_steps relpowp_imp_rtranclp)

end

locale bounded_steps = step_invariant +
  fixes left :: "'s \<Rightarrow> nat"
  assumes left_step: "step s s' \<Longrightarrow> Inv s \<Longrightarrow> left s' < left s"
begin

lemma run_bounded: "(step ^^ n) s s' \<Longrightarrow> Inv s \<Longrightarrow> n + left s' \<le> left s"
proof (induction n arbitrary: s')
  case (Suc n)
  then obtain t where t: "(step ^^ n) s t" "step t s'" by auto
  from Suc.IH [OF t(1) Suc.prems(2)] left_step [OF t(2) inv_run [OF t(1) Suc.prems(2)]] show ?case by simp
qed simp

text \<open>Every state leads to one that cannot go on.\<close>

lemma reaches_end: "Inv s \<Longrightarrow> \<exists>s'. step\<^sup>*\<^sup>* s s' \<and> (\<nexists>s''. step s' s'')"
proof (induction "left s" arbitrary: s rule: less_induct)
  case less
  show ?case
  proof (cases "\<exists>t. step s t")
    case True
    then obtain t where t: "step s t" ..
    from less.hyps [OF left_step [OF t less.prems] inv_step [OF t less.prems]] obtain s' where
      "step\<^sup>*\<^sup>* t s'" "\<nexists>s''. step s' s''" by blast
    with t show ?thesis by (meson converse_rtranclp_into_rtranclp)
  next
    case False
    then show ?thesis by blast
  qed
qed

end

end
