(* ===== verification/Actions_Server.thy ===== *)
theory Actions_Server
  imports Passkey_Handlers Step_Systems
begin

text \<open>
  The actions server as a process: the routes of \<^verbatim>\<open>Server.Start\<close>, the initialisation of the Zitadel
  client in cmd/actionsserver/http_server_cmd.go, the steps the process can take, and the
  properties of the handlers. The interface \<^verbatim>\<open>signed_handler\<close> is what the seven handlers have in
  common: nothing happens before the signature of the body has been checked.
\<close>

section \<open>Routes\<close>

type_synonym 'w handler = "'w server \<Rightarrow> http_request \<Rightarrow> ('w, http_result) server_action"

definition routes :: "(string \<times> 'w handler) list" where
  "routes = [
     (''/v1/actions/create-user-account'', createUserAccountHandler),
     (''/v1/actions/customize-jwt'', customizeJwtHandler),
     (''/v1/actions/idp-intent-succeeded'', idpIntentSucceededHandler),
     (''/v1/actions/session-added'', sessionAddedHandler),
     (''/v1/actions/passkey-added'', passkeyAddedHandler),
     (''/v1/actions/passkey-removed'', passkeyRemovedHandler),
     (''/v1/actions/email-verified'', emailVerifiedHandler)]"

definition serve :: "string \<Rightarrow> 'w handler" where
  "serve path srv r =
     (case map_of routes path of
        Some h \<Rightarrow> h srv r
      | None \<Rightarrow> State_Monad.return (http_Error ''404 page not found'' StatusNotFound))"

section \<open>Initialisation of the Zitadel client\<close>

text \<open>
  The arguments: the environment and \<^verbatim>\<open>zitadel.NewSDK\<close>, which returns a pointer to a client or an
  error with a nil pointer. The result converts that pointer to the interface \<^verbatim>\<open>zitadel.API\<close>, so that
  with an error it is an interface value that holds a nil pointer.
\<close>

definition createZitadelClient ::
  "(string \<Rightarrow> string) \<Rightarrow> (string \<Rightarrow> string \<Rightarrow> string \<Rightarrow> ('w, go_error + 'w zitadel_api) state) \<Rightarrow>
   string \<Rightarrow> string \<Rightarrow> string \<Rightarrow> ('w, 'w zitadel_api iface \<times> go_error option) state" where
  "createZitadelClient Getenv NewSDK issuer domain keyPath =
     (let keyPath = (if keyPath = [] then Getenv ''ZITADEL_KEY_PATH'' else keyPath);
          keyPath = (if keyPath = [] then Getenv ''ZITADEL_MACHINE_ACCOUNT_KEY_PATH'' else keyPath)
      in if issuer = [] \<or> domain = [] \<or> keyPath = [] then State_Monad.return (NilInterface, None)
         else do {
           r \<leftarrow> NewSDK issuer domain keyPath;
           State_Monad.return (case r of
               Inl e \<Rightarrow> (NilPointer, Some e)
             | Inr c \<Rightarrow> (Live c, None))
         })"

definition initialBackoff :: int where
  "initialBackoff = 1 * Second"

definition maxBackoff :: int where
  "maxBackoff = 1 * Minute"

definition next_backoff :: "int \<Rightarrow> int" where
  "next_backoff backoff = (if backoff * 2 > maxBackoff then maxBackoff else backoff * 2)"

text \<open>
  The loop of \<^verbatim>\<open>retryZitadelClient\<close> runs until the client is there, the configuration is incomplete
  or the context is cancelled, so its model takes fuel; \<^verbatim>\<open>wait\<close> is the select on the context and the
  timer and yields whether the context was cancelled. The result is the waits it has made, and
  whether the loop has returned.
\<close>

fun retryZitadelClient ::
  "nat \<Rightarrow> (int \<Rightarrow> ('w, bool) state) \<Rightarrow> ('w, 'w zitadel_api iface \<times> go_error option) state \<Rightarrow> int \<Rightarrow>
   ('w, int list \<times> bool) server_action" where
  "retryZitadelClient 0 wait create backoff = State_Monad.return ([], False)"
| "retryZitadelClient (Suc fuel) wait create backoff = do {
     cancelled \<leftarrow> outside (wait backoff);
     if cancelled then State_Monad.return ([backoff], True)
     else do {
       (client, err) \<leftarrow> outside create;
       (case err of
          Some _ \<Rightarrow> do {
            (waits, done) \<leftarrow> retryZitadelClient fuel wait create (next_backoff backoff);
            State_Monad.return (backoff # waits, done)
          }
        | None \<Rightarrow>
            if is_nil client then State_Monad.return ([backoff], True)
            else do {
              SetZitadelClient client;
              State_Monad.return ([backoff], True)
            })
     }
   }"

section \<open>The contract of a handler\<close>

definition not_signed :: "'w server \<Rightarrow> http_request \<Rightarrow> bool" where
  "not_signed srv r \<longleftrightarrow>
     (case req_body r of Inl _ \<Rightarrow> True | Inr body \<Rightarrow> signature_error srv r body \<noteq> None)"

primrec serve_all :: "(http_request \<Rightarrow> ('w, http_result) server_action) \<Rightarrow> http_request list \<Rightarrow>
  ('w, http_result list) server_action" where
  "serve_all h [] = State_Monad.return []"
| "serve_all h (r # rs) = do { x \<leftarrow> h r; xs \<leftarrow> serve_all h rs; State_Monad.return (x # xs) }"

locale signed_handler =
  fixes handler :: "'w handler"
  assumes refuses: "not_signed srv r \<Longrightarrow>
      \<exists>m c. run_state (handler srv r) s = (http_Error m c, s) \<and> c \<in> {400, 401, 405}"
    and unauthorized: "req_method r = MethodPost \<Longrightarrow> req_body r = Inr body \<Longrightarrow>
      signature_error srv r body = Some e \<Longrightarrow>
      run_state (handler srv r) s =
        (http_Error (''signature validation failed: '' @ Error e) StatusUnauthorized, s)"
begin

lemma refuses_status:
  "not_signed srv r \<Longrightarrow> run_state (handler srv r) s = (x, s') \<Longrightarrow>
     s' = s \<and> x \<noteq> Panicked \<and> reply_status x \<in> {400, 401, 405}"
  using refuses [of srv r s] by auto

lemma effect_needs_signature:
  "run_state (handler srv r) s = (x, s') \<Longrightarrow> s' \<noteq> s \<or> x = Panicked \<or> reply_status x < 400 \<Longrightarrow>
     \<not> not_signed srv r"
  using refuses_status [of srv r s x s'] by auto

lemma forged_sequence:
  "\<forall>r \<in> set rs. not_signed srv r \<Longrightarrow> snd (run_state (serve_all (handler srv) rs) s) = s"
proof (induction rs)
  case (Cons r rs)
  then obtain m c where "run_state (handler srv r) s = (http_Error m c, s)"
    using refuses [of srv r s] by auto
  with Cons show ?case by (auto simp: split_def)
qed simp

end

interpretation create_user: signed_handler createUserAccountHandler
  by unfold_locales (auto simp: not_signed_def createUserAccountHandler_def split: sum.splits option.splits)

interpretation customize_jwt: signed_handler customizeJwtHandler
  by unfold_locales (auto simp: not_signed_def customizeJwtHandler_def split: sum.splits option.splits)

interpretation idp_intent: signed_handler idpIntentSucceededHandler
  by unfold_locales (auto simp: not_signed_def idpIntentSucceededHandler_def split: sum.splits option.splits)

interpretation session_added: signed_handler sessionAddedHandler
  by unfold_locales (auto simp: not_signed_def sessionAddedHandler_def split: sum.splits option.splits)

interpretation passkey_added: signed_handler passkeyAddedHandler
  by unfold_locales (auto simp: not_signed_def passkeyAddedHandler_def split: sum.splits option.splits)

interpretation passkey_removed: signed_handler passkeyRemovedHandler
  by unfold_locales (auto simp: not_signed_def passkeyRemovedHandler_def split: sum.splits option.splits)

interpretation email_verified: signed_handler emailVerifiedHandler
  by unfold_locales (auto simp: not_signed_def emailVerifiedHandler_def split: sum.splits option.splits)

lemma routes_cases:
  assumes "map_of routes path = Some h"
  shows "h \<in> {createUserAccountHandler, customizeJwtHandler, idpIntentSucceededHandler,
    sessionAddedHandler, passkeyAddedHandler, passkeyRemovedHandler, emailVerifiedHandler}"
  using map_of_SomeD [OF assms] by (auto simp: routes_def)

lemma routes_signed: "map_of routes path = Some h \<Longrightarrow> signed_handler h"
  using create_user.signed_handler_axioms customize_jwt.signed_handler_axioms
    idp_intent.signed_handler_axioms session_added.signed_handler_axioms
    passkey_added.signed_handler_axioms passkey_removed.signed_handler_axioms
    email_verified.signed_handler_axioms
  by (blast dest: routes_cases)

lemma serve_refuses:
  fixes srv :: "'w server"
  assumes "not_signed srv r" and "run_state (serve path srv r) s = (x, s')"
  shows "s' = s \<and> x \<noteq> Panicked \<and> reply_status x \<in> {400, 401, 404, 405}"
proof (cases "map_of routes path :: 'w handler option")
  case None
  with assms show ?thesis by (auto simp: serve_def)
next
  case (Some h)
  from signed_handler.refuses_status [OF routes_signed [OF Some] assms(1)] assms(2) Some
  show ?thesis by (auto simp: serve_def)
qed

section \<open>Invariants of the process\<close>

text \<open>
  What a handler can change of the process itself it changes by storing or taking a pending
  avatar. A property of the state that does not look at the world and that these two keep is kept
  by every request.
\<close>

locale process_invariant =
  fixes I :: "'w server_state \<Rightarrow> bool"
  assumes world: "I (s\<lparr>st_world := w\<rparr>) = I s"
    and store: "keeps I (storePendingAvatar rt address url provider)"
    and load: "keeps I (LoadAndDelete key)"
begin

lemma keeps_outside: "keeps I (outside m)"
  by (rule keepsI) (auto simp: world split: prod.splits)

lemma keeps_zitadelAPI: "keeps I zitadelAPI"
  by (rule keepsI) (simp add: zitadelAPI_def)

lemmas keeps_parts = keeps_intro keeps_outside keeps_zitadelAPI store load

lemma keeps_patch: "keeps I (patchUserAvatar srv u url p m)"
  unfolding patchUserAvatar_def by (intro keeps_parts)

lemma keeps_consume: "keeps I (consumePendingAvatar rt a)"
  unfolding consumePendingAvatar_def Let_def by (intro keeps_parts)

lemma keeps_apply: "keeps I (applyPendingAvatarByEmail srv u a m)"
  unfolding applyPendingAvatarByEmail_def by (intro keeps_parts keeps_consume keeps_patch)

lemma keeps_initial: "keeps I (initial_verification srv n)"
  unfolding initial_verification_def by (intro keeps_parts)

lemma keeps_event: "keeps I (recordUserEvent srv n reason msg)"
  unfolding recordUserEvent_def by (intro keeps_parts)

lemma keeps_check: "keeps I (checkSession srv Z req)"
  unfolding checkSession_def Let_def by (intro keeps_parts keeps_apply)

lemma keeps_serve:
  fixes srv :: "'w server"
  shows "keeps I (serve path srv r)"
proof -
  have "keeps I (createUserAccountHandler srv r)"
    unfolding createUserAccountHandler_def Let_def by (intro keeps_parts keeps_apply keeps_initial)
  moreover have "keeps I (customizeJwtHandler srv r)"
    unfolding customizeJwtHandler_def by (intro keeps_parts)
  moreover have "keeps I (idpIntentSucceededHandler srv r)"
    unfolding idpIntentSucceededHandler_def Let_def by (intro keeps_parts)
  moreover have "keeps I (sessionAddedHandler srv r)"
    unfolding sessionAddedHandler_def by (intro keeps_parts keeps_check)
  moreover have "keeps I (passkeyAddedHandler srv r)"
    unfolding passkeyAddedHandler_def by (intro keeps_parts keeps_event)
  moreover have "keeps I (passkeyRemovedHandler srv r)"
    unfolding passkeyRemovedHandler_def by (intro keeps_parts keeps_event)
  moreover have "keeps I (emailVerifiedHandler srv r)"
    unfolding emailVerifiedHandler_def Let_def by (intro keeps_parts)
  ultimately have "map_of routes path = Some h \<Longrightarrow> keeps I (h srv r)" for h :: "'w handler"
    by (auto dest!: routes_cases)
  then show ?thesis unfolding serve_def by (intro keeps_parts)
qed

end

text \<open>
  The two invariants: every pending avatar is filed under a normalised, non-empty address and has
  a URL, and (for any predicate) what holds of the client goes on to hold, as no request changes it.
\<close>

definition pending_ok :: "'w server_state \<Rightarrow> bool" where
  "pending_ok s \<longleftrightarrow> (\<forall>k p. st_pendingAvatars s k = Some p \<longrightarrow>
     k \<noteq> [] \<and> normalizeEmail k = k \<and> pa_avatarURL p \<noteq> [])"

lemma store_run:
  "run_state (storePendingAvatar rt a url p) s =
     (if normalizeEmail a = [] \<or> url = [] then ((), s)
      else case run_state (Now rt) (st_world s) of (now, w) \<Rightarrow>
        ((), s\<lparr>st_world := w, st_pendingAvatars := (st_pendingAvatars s)(normalizeEmail a \<mapsto>
           \<lparr>pa_avatarURL = url, pa_provider = p, pa_expiresAt = now + pendingAvatarTTL\<rparr>)\<rparr>))"
  by (simp add: storePendingAvatar_def Let_def split: prod.splits)

interpretation pending: process_invariant pending_ok
proof
  show "keeps pending_ok (storePendingAvatar rt address url provider)" for rt :: "'a runtime" and address url provider
    by (rule keepsI) (fastforce simp: store_run pending_ok_def split: if_splits prod.splits)
qed (auto simp: pending_ok_def LoadAndDelete_def intro!: keepsI split: if_splits)

interpretation client: process_invariant "\<lambda>s. P (st_zitadelClient s)" for P
  by unfold_locales (auto simp: store_run LoadAndDelete_def intro!: keepsI split: if_splits prod.splits)

section \<open>A request never panics unless the client is a nil pointer\<close>

abbreviation client_usable :: "'w server_state \<Rightarrow> bool" where
  "client_usable s \<equiv> st_zitadelClient s \<noteq> NilPointer"

lemmas usable_parts = triple_intro triple_step keeps_intro client.keeps_outside client.keeps_zitadelAPI
  client.store client.load client.keeps_apply client.keeps_event client.keeps_initial

lemma triple_zitadelAPI:
  "(\<And>c. c \<noteq> NilPointer \<Longrightarrow> triple client_usable (f c) Q) \<Longrightarrow>
   triple client_usable (State_Monad.bind zitadelAPI f) Q"
  by (auto simp: triple_def zitadelAPI_def)

lemma initial_verification_survives:
  "triple client_usable (initial_verification srv n) (\<lambda>survives s. survives)"
  unfolding initial_verification_def
  by (rule triple_zitadelAPI, split iface.split) (auto intro!: usable_parts)

lemma create_survives: "triple client_usable (createUserAccountHandler srv r) (\<lambda>x _. x \<noteq> Panicked)"
proof -
  have "triple client_usable (do { v \<leftarrow> initial_verification srv n;
      State_Monad.return (if v then Reply c [] b else Panicked) }) (\<lambda>x _. x \<noteq> Panicked)" for n c b
    by (rule triple_bind [OF initial_verification_survives]) (auto intro!: triple_return)
  note verification = this
  show ?thesis
    unfolding createUserAccountHandler_def Let_def
    by (intro verification usable_parts) (simp_all add: ok_text_def)
qed

lemma passkeyName_survives:
  "c \<noteq> NilPointer \<Longrightarrow>
   triple client_usable (outside (passkeyNameFromMetadata lib c u t)) (\<lambda>n s. n \<noteq> None \<and> client_usable s)"
  by (cases c) (auto simp: triple_def passkeyNameFromMetadata_def split: prod.splits if_splits)

lemma passkey_removed_survives: "triple client_usable (passkeyRemovedHandler srv r) (\<lambda>x _. x \<noteq> Panicked)"
proof -
  have name: "c \<noteq> NilPointer \<Longrightarrow> (\<And>n. triple client_usable (f (Some n)) (\<lambda>x _. x \<noteq> Panicked)) \<Longrightarrow>
    triple client_usable (State_Monad.bind (outside (passkeyNameFromMetadata (srv_lib srv) c u t)) f)
      (\<lambda>x _. x \<noteq> Panicked)" for c u t and f :: "string option \<Rightarrow> ('a, http_result) server_action"
    by (rule triple_bind [OF passkeyName_survives], assumption, rename_tac a, case_tac a)
      (simp add: triple_def, simp)
  show ?thesis
    unfolding passkeyRemovedHandler_def
    by (intro triple_zitadelAPI name usable_parts) (simp_all add: ok_text_def)
qed

lemma check_survives: "triple client_usable (checkSession srv Z req) (\<lambda>x _. x \<noteq> Panicked)"
  unfolding checkSession_def Let_def by (intro usable_parts) (simp_all add: ok_text_def)

lemma session_survives: "triple client_usable (sessionAddedHandler srv r) (\<lambda>x _. x \<noteq> Panicked)"
  unfolding sessionAddedHandler_def
  by (intro triple_zitadelAPI check_survives usable_parts) simp_all

lemma serve_survives:
  fixes srv :: "'w server"
  shows "triple client_usable (serve path srv r) (\<lambda>x _. x \<noteq> Panicked)"
proof -
  have "triple client_usable (customizeJwtHandler srv r) (\<lambda>x _. x \<noteq> Panicked)"
    unfolding customizeJwtHandler_def by (intro usable_parts) (simp_all add: ok_text_def)
  moreover have "triple client_usable (idpIntentSucceededHandler srv r) (\<lambda>x _. x \<noteq> Panicked)"
    unfolding idpIntentSucceededHandler_def Let_def
    by (intro usable_parts) (simp_all add: ok_text_def split: option.split)
  moreover have "triple client_usable (passkeyAddedHandler srv r) (\<lambda>x _. x \<noteq> Panicked)"
    unfolding passkeyAddedHandler_def by (intro usable_parts) (simp_all add: ok_text_def)
  moreover have "triple client_usable (emailVerifiedHandler srv r) (\<lambda>x _. x \<noteq> Panicked)"
    unfolding emailVerifiedHandler_def Let_def
    by (intro usable_parts) (simp_all add: ok_text_def split: sum.split)
  ultimately have "map_of routes path = Some h \<Longrightarrow> triple client_usable (h srv r) (\<lambda>x _. x \<noteq> Panicked)"
    for h :: "'w handler"
    using create_survives [of srv r] session_survives [of srv r] passkey_removed_survives [of srv r]
    by (auto dest!: routes_cases)
  then show ?thesis unfolding serve_def by (intro triple_intro) simp_all
qed

section \<open>The process\<close>

text \<open>
  What can happen to a running server: it serves a request, the background initializer installs
  the client it has made, or something else changes the world. Requests are served one at a time
  here; the map of pending avatars and the client are the only state they share, and every access
  to them is a single atomic operation of \<^verbatim>\<open>sync.Map\<close> or under the mutex.
\<close>

inductive step ::
  "'w server \<Rightarrow> ('w, 'w zitadel_api iface \<times> go_error option) state \<Rightarrow> ('w \<Rightarrow> 'w \<Rightarrow> bool) \<Rightarrow>
   'w server_state \<Rightarrow> 'w server_state \<Rightarrow> bool"
  for srv :: "'w server" and create :: "('w, 'w zitadel_api iface \<times> go_error option) state"
    and others :: "'w \<Rightarrow> 'w \<Rightarrow> bool" where
  request: "run_state (serve path srv r) s = (x, s') \<Longrightarrow> step srv create others s s'"
| install: "run_state create (st_world s) = ((c, None), w) \<Longrightarrow> \<not> is_nil c \<Longrightarrow>
    run_state (SetZitadelClient c) (s\<lparr>st_world := w\<rparr>) = (u, s') \<Longrightarrow> step srv create others s s'"
| elsewhere: "others (st_world s) w \<Longrightarrow> step srv create others s (s\<lparr>st_world := w\<rparr>)"

inductive_cases stepE: "step srv create others s s'"

abbreviation steps where "steps srv create others \<equiv> (step srv create others)\<^sup>*\<^sup>*"

definition NewServer :: "'w zitadel_api iface \<Rightarrow> 'w \<Rightarrow> 'w server_state" where
  "NewServer zitadelClient w =
     \<lparr>st_pendingAvatars = (\<lambda>_. None), st_zitadelClient = zitadelClient, st_world = w\<rparr>"

lemma create_no_error_usable:
  "run_state (createZitadelClient Getenv NewSDK issuer domain keyPath) w = ((c, None), w') \<Longrightarrow> c \<noteq> NilPointer"
  by (auto simp: createZitadelClient_def Let_def split: if_splits prod.splits sum.splits)

lemma pending_ok_simps [simp]:
  "pending_ok (s\<lparr>st_zitadelClient := c\<rparr>) = pending_ok s" "pending_ok (NewServer zc w)"
  by (simp_all add: pending_ok_def NewServer_def)

lemma step_pending: "step srv create others s s' \<Longrightarrow> pending_ok s \<Longrightarrow> pending_ok s'"
  by (erule stepE) (auto simp: pending.world SetZitadelClient_def dest: keepsD [OF pending.keeps_serve])

lemma step_usable:
  assumes "step srv (createZitadelClient Getenv NewSDK issuer domain keyPath) others s s'"
    and "client_usable s"
  shows "client_usable s'"
  by (rule stepE [OF assms(1)])
    (use assms(2) in \<open>auto simp: SetZitadelClient_def dest: create_no_error_usable
      keepsD [OF client.keeps_serve [of "\<lambda>c. c \<noteq> NilPointer"], rotated -1]\<close>)

interpretation pending_process: step_invariant "step srv create others" pending_ok for srv create others
  by unfold_locales (fact step_pending)

interpretation usable_process: step_invariant "step srv (createZitadelClient Getenv NewSDK issuer domain keyPath) others" client_usable
  for srv Getenv NewSDK issuer domain keyPath others
  by unfold_locales (fact step_usable)

lemmas steps_pending = pending_process.inv_steps
lemmas steps_usable = usable_process.inv_steps

section \<open>The waits of the initializer\<close>

fun backoff_schedule :: "nat \<Rightarrow> int \<Rightarrow> int list" where
  "backoff_schedule 0 b = []"
| "backoff_schedule (Suc n) b = b # backoff_schedule n (next_backoff b)"

lemma retry_waits:
  "run_state (retryZitadelClient fuel wait create b) s = ((waits, done), s') \<Longrightarrow>
     waits = take (length waits) (backoff_schedule fuel b)"
proof (induction fuel arbitrary: b s waits)
  case (Suc fuel)
  from Suc.prems Suc.IH [of "next_backoff b"] show ?case
    by (auto split: prod.splits option.splits if_splits)
qed simp

lemma retry_run:
  assumes "\<And>i. i < k \<Longrightarrow> run_state (wait ((next_backoff ^^ i) b)) (ws i) = (False, vs i) \<and>
      run_state create (vs i) = ((c i, Some (e i)), ws (Suc i))"
    and "run_state (wait ((next_backoff ^^ k) b)) (ws k) = (False, v)"
    and "run_state create v = ((Live Z, None), w')" and "k < fuel" and "st_world s = ws 0"
  shows "run_state (retryZitadelClient fuel wait create b) s =
    ((map (\<lambda>i. (next_backoff ^^ i) b) [0..<Suc k], True), s\<lparr>st_world := w', st_zitadelClient := Live Z\<rparr>)"
  using assms
proof (induction k arbitrary: fuel b s ws vs c e)
  case 0
  then obtain n where "fuel = Suc n" by (cases fuel) auto
  with 0 show ?case by (simp add: SetZitadelClient_def)
next
  case (Suc k)
  then obtain n where fuel: "fuel = Suc n" "k < n" by (cases fuel) auto
  have first: "run_state (wait b) (st_world s) = (False, vs 0)"
    "run_state create (vs 0) = ((c 0, Some (e 0)), ws 1)"
    using Suc.prems(1) [of 0] Suc.prems(5) by simp_all
  have rest: "run_state (retryZitadelClient n wait create (next_backoff b)) (s\<lparr>st_world := ws 1\<rparr>) =
    ((map (\<lambda>i. (next_backoff ^^ i) (next_backoff b)) [0..<Suc k], True),
      (s\<lparr>st_world := ws 1\<rparr>)\<lparr>st_world := w', st_zitadelClient := Live Z\<rparr>)"
  proof (rule Suc.IH [where ws = "\<lambda>i. ws (Suc i)"])
    show "run_state (wait ((next_backoff ^^ i) (next_backoff b))) (ws (Suc i)) = (False, vs (Suc i)) \<and>
        run_state create (vs (Suc i)) = ((c (Suc i), Some (e (Suc i))), ws (Suc (Suc i)))" if "i < k" for i
      using Suc.prems(1) [of "Suc i"] that by (simp add: funpow_swap1)
  qed (use Suc.prems fuel(2) in \<open>simp_all add: funpow_swap1\<close>)
  have "map (\<lambda>i. (next_backoff ^^ i) b) [0..<Suc (Suc k)] =
      b # map (\<lambda>i. (next_backoff ^^ i) (next_backoff b)) [0..<Suc k]"
    by (simp add: map_upt_Suc funpow_swap1 del: upt_Suc)
  with first rest fuel show ?case by (simp del: upt_Suc)
qed

lemma next_backoff_bounds:
  "initialBackoff \<le> b \<Longrightarrow> b \<le> maxBackoff \<Longrightarrow>
   initialBackoff \<le> next_backoff b \<and> next_backoff b \<le> maxBackoff \<and> b \<le> next_backoff b"
  by (auto simp: next_backoff_def initialBackoff_def maxBackoff_def)

lemma schedule_bounds:
  "initialBackoff \<le> b \<Longrightarrow> b \<le> maxBackoff \<Longrightarrow>
   sorted (backoff_schedule n b) \<and> set (backoff_schedule n b) \<subseteq> {b..maxBackoff}"
proof (induction n arbitrary: b)
  case (Suc n)
  note nb = next_backoff_bounds [OF Suc.prems]
  with Suc.IH [of "next_backoff b"] have
    "sorted (backoff_schedule n (next_backoff b))"
    "set (backoff_schedule n (next_backoff b)) \<subseteq> {next_backoff b..maxBackoff}" by auto
  with nb Suc.prems show ?case by fastforce
qed simp

lemma schedule_nth:
  "i < n \<Longrightarrow> backoff_schedule n b ! i = (next_backoff ^^ i) b"
  by (induction n arbitrary: b i) (auto simp: nth_Cons' funpow_swap1 less_Suc_eq_0_disj)

end
