(* ===== verification/Polling.thy ===== *)
theory Polling
  imports Prelude
begin

text \<open>
  The interface of a lookup that is repeated while its object is not there yet. Two loops of the
  program have this shape: \<^verbatim>\<open>getUserWithRetry\<close> of the actions server and \<^verbatim>\<open>userWithRetry\<close> of the mail
  endpoints. They differ in the pause between two attempts; a pause may end with an error when the
  request is cancelled.
\<close>

text \<open>The world in which the attempt with the given number is made, when all earlier ones fail.\<close>

primrec poll_world ::
  "('w, go_error + 'a) state \<Rightarrow> (nat \<Rightarrow> ('w, go_error option) state) \<Rightarrow> 'w \<Rightarrow> nat \<Rightarrow> 'w" where
  "poll_world lookup pause w 0 = w"
| "poll_world lookup pause w (Suc i) =
     snd (run_state (pause i) (snd (run_state lookup (poll_world lookup pause w i))))"

text \<open>The attempt with the given number finds nothing and the pause after it is not cut short.\<close>

definition poll_misses ::
  "('w, go_error + 'a) state \<Rightarrow> (nat \<Rightarrow> ('w, go_error option) state) \<Rightarrow> 'w \<Rightarrow> nat \<Rightarrow> bool" where
  "poll_misses lookup pause w i \<longleftrightarrow>
     (case run_state lookup (poll_world lookup pause w i) of
        (Inl e, w') \<Rightarrow> IsNotFound e \<and> fst (run_state (pause i) w') = None
      | _ \<Rightarrow> False)"

lemma poll_world_shift:
  "poll_world lookup (\<lambda>i. pause (Suc i)) (poll_world lookup pause w 1) i = poll_world lookup pause w (Suc i)"
  by (induction i) simp_all

lemma poll_misses_shift:
  "poll_misses lookup (\<lambda>i. pause (Suc i)) (poll_world lookup pause w 1) i = poll_misses lookup pause w (Suc i)"
  unfolding poll_misses_def poll_world_shift by simp

locale polling =
  fixes lookup :: "('w, go_error + 'a) state"
    and pause :: "nat \<Rightarrow> ('w, go_error option) state"
    and loop :: "nat \<Rightarrow> nat \<Rightarrow> ('w, go_error + 'a) state"
  assumes loop: "loop i (Suc left) = do {
     r \<leftarrow> lookup;
     (case r of
        Inr u \<Rightarrow> State_Monad.return (Inr u)
      | Inl e \<Rightarrow>
          if \<not> IsNotFound e \<or> left = 0 then State_Monad.return (Inl e)
          else do {
            c \<leftarrow> pause i;
            (case c of Some e \<Rightarrow> State_Monad.return (Inl e) | None \<Rightarrow> loop (Suc i) left)
          })
   }"
begin

lemma settles_from:
  assumes "k < n" and "\<forall>j<k. poll_misses lookup (\<lambda>j. pause (i + j)) w j"
    and "run_state lookup (poll_world lookup (\<lambda>j. pause (i + j)) w k) = (r, w')"
    and "Suc k = n \<or> (case r of Inl e \<Rightarrow> \<not> IsNotFound e | Inr _ \<Rightarrow> True)"
  shows "run_state (loop i n) w = (r, w')"
  using assms
proof (induction k arbitrary: i n w)
  case 0
  then obtain m where "n = Suc m" by (cases n) auto
  with 0 show ?case by (cases r) (auto simp: loop)
next
  case (Suc k)
  then obtain m where n: "n = Suc m" and m: "k < m" by (cases n) auto
  from Suc.prems(2) have "poll_misses lookup (\<lambda>j. pause (i + j)) w 0" by blast
  then obtain e w1 w2 where first: "run_state lookup w = (Inl e, w1)" "IsNotFound e"
      "run_state (pause i) w1 = (None, w2)"
    by (auto simp: poll_misses_def split: prod.splits sum.splits) (metis prod.collapse)
  have w2: "poll_world lookup (\<lambda>j. pause (i + j)) w 1 = w2" using first by simp
  note shift = poll_world_shift [of lookup "\<lambda>j. pause (i + j)" w, unfolded w2]
    poll_misses_shift [of lookup "\<lambda>j. pause (i + j)" w, unfolded w2]
  have "run_state (loop (Suc i) m) w2 = (r, w')"
  proof (rule Suc.IH [OF m])
    show "\<forall>j<k. poll_misses lookup (\<lambda>j. pause (Suc i + j)) w2 j"
      using Suc.prems(2) shift(2) by simp
    show "run_state lookup (poll_world lookup (\<lambda>j. pause (Suc i + j)) w2 k) = (r, w')"
      using Suc.prems(3) shift(1) by simp
    show "Suc k = m \<or> (case r of Inl e \<Rightarrow> \<not> IsNotFound e | Inr _ \<Rightarrow> True)"
      using Suc.prems(4) n by simp
  qed
  with first m show ?case by (simp add: n loop)
qed

text \<open>
  The loop returns the outcome of the first attempt that does not miss, and the outcome of the
  last attempt when all before it miss.
\<close>

lemma settles:
  assumes "k < n" and "\<forall>j<k. poll_misses lookup pause w j"
    and "run_state lookup (poll_world lookup pause w k) = (r, w')"
    and "Suc k = n \<or> (case r of Inl e \<Rightarrow> \<not> IsNotFound e | Inr _ \<Rightarrow> True)"
  shows "run_state (loop 0 n) w = (r, w')"
  using settles_from [of k n 0 w r w'] assms by simp

text \<open>Whatever the loop returns without error, a lookup has returned.\<close>

lemma found:
  "run_state (loop i n) w = (Inr u, w') \<Longrightarrow> 0 < n \<Longrightarrow>
   (\<And>w r w1. run_state lookup w = (r, w1) \<Longrightarrow> V w1 = V w \<and> (\<forall>u. r = Inr u \<longrightarrow> Q u (V w))) \<Longrightarrow>
   (\<And>i w c w1. run_state (pause i) w = (c, w1) \<Longrightarrow> V w1 = V w) \<Longrightarrow> Q u (V w) \<and> V w' = V w"
proof (induction n arbitrary: i w)
  case (Suc n)
  obtain r w1 where r: "run_state lookup w = (r, w1)" by fastforce
  from Suc.prems(3) [OF r] have v1: "V w1 = V w" and q: "r = Inr u' \<Longrightarrow> Q u' (V w)" for u' by auto
  show ?case
  proof (cases r)
    case (Inr u')
    with Suc.prems(1) r q v1 show ?thesis by (auto simp: loop)
  next
    case (Inl e)
    obtain c w2 where c: "run_state (pause i) w1 = (c, w2)" by fastforce
    with Suc.prems(1) r Inl have "0 < n" "run_state (loop (Suc i) n) w2 = (Inr u, w')"
      by (auto simp: loop split: if_splits option.splits)
    with Suc.IH [OF this(2,1) Suc.prems(3,4)] Suc.prems(4) [OF c] v1 show ?thesis by simp
  qed
qed simp

end

end
