(* ===== verification/Actions_Properties.thy ===== *)
theory Actions_Properties
  imports Actions_Server Polling
begin

text \<open>
  What holds of the actions server: the signature gate, the avatars that wait for their user, the
  user lookup, redelivered webhooks, the writer of the verification state, and what a failed
  initialisation of the Zitadel client leads to. The concrete server at the start serves the
  witnesses only.
\<close>

section \<open>A concrete server\<close>

text \<open>
  A signature that is valid when it repeats the signing key, and the API server in memory.
\<close>

definition mem_server :: "(string \<times> json) list \<Rightarrow> mem_world server" where
  "mem_server tab =
     \<lparr>srv_config = NewServerConfig\<lparr>cfg_SigningKey := ''key''\<rparr>, srv_k8s = mem_kube,
      srv_validateSignature = (\<lambda>body sig key. if sig = key then None else Some (errorf ''bad signature'')),
      srv_lib = table_lib tab, srv_runtime = mem_runtime, srv_retry = (\<lambda>m. m),
      srv_httpClient = (\<lambda>url query vars. State_Monad.return (Inl (errorf ''no gateway'')))\<rparr>"

definition signed_post :: "string \<Rightarrow> http_request" where
  "signed_post body =
     \<lparr>req_method = MethodPost, req_header = (\<lambda>h. if h = ''Zitadel-Signature'' then ''key'' else []),
      req_body = Inr body, req_peer_certificates = None\<rparr>"

lemma signed_post_simps [simp]:
  "req_method (signed_post b) = MethodPost" "req_body (signed_post b) = Inr b"
  by (simp_all add: signed_post_def)

lemmas demo_simps = table_lib_def mem_server_def signed_post_def mem_kube_def mem_runtime_def
  signature_error_def NewServerConfig_def

lemma retry_id: "retry_law (\<lambda>m. m) others"
  unfolding retry_law_def by (blast intro: last_run)

section \<open>The signature gate\<close>

text \<open>C1. Whatever the path, a request that changes anything of the server or of the world, that
  panics, or that is answered with success carries a body whose signature was valid under the signing
  key.\<close>

theorem serve_needs_signature:
  assumes "run_state (serve path srv r) s = (x, s')"
    and "s' \<noteq> s \<or> x = Panicked \<or> reply_status x < 400"
  shows "\<exists>body. req_body r = Inr body \<and>
    srv_validateSignature srv body (req_header r ''Zitadel-Signature'') (cfg_SigningKey (srv_config srv)) = None"
proof (rule ccontr)
  assume "\<not> ?thesis"
  then have "not_signed srv r" by (auto simp: not_signed_def signature_error_def split: sum.splits)
  from serve_refuses [OF this assms(1)] assms(2) show False by auto
qed

theorem serve_needs_signature_witness:
  "\<exists>x s'. run_state (serve ''/v1/actions/customize-jwt''
       (mem_server [(''body'', JObj [(''function'', JStr ''function/preuserinfo'')])]) (signed_post ''body''))
       (NewServer NilInterface empty_world) = (x, s') \<and> reply_status x < 400 \<and>
     (\<exists>body. req_body (signed_post ''body'') = Inr body \<and>
       srv_validateSignature (mem_server [(''body'', JObj [(''function'', JStr ''function/preuserinfo'')])]) body
         (req_header (signed_post ''body'') ''Zitadel-Signature'')
         (cfg_SigningKey (srv_config (mem_server [(''body'', JObj [(''function'', JStr ''function/preuserinfo'')])]))) = None)"
proof -
  have "run_state (serve ''/v1/actions/customize-jwt''
       (mem_server [(''body'', JObj [(''function'', JStr ''function/preuserinfo'')])]) (signed_post ''body''))
       (NewServer NilInterface empty_world) = (ok_text ''{}'', NewServer NilInterface empty_world)"
    by (simp add: serve_def routes_def customizeJwtHandler_def demo_simps json_decode_simps
        customizeJwtRequest_fields_def zero_customizeJwtRequest_def)
  from serve_needs_signature [OF this] this show ?thesis by (auto simp: ok_text_def)
qed

section \<open>The process\<close>

text \<open>In every state a server reaches from its start, whatever requests it serves, each avatar
  that waits for its user is filed under a non-empty address in normal form and has a URL.\<close>

lemma pending_avatars_invariant:
  assumes "steps srv create others (NewServer zc w) s"
    and "st_pendingAvatars s k = Some p"
  shows "k \<noteq> [] \<and> normalizeEmail k = k \<and> pa_avatarURL p \<noteq> []"
proof -
  from steps_pending [OF assms(1)] have "pending_ok s" by simp
  with assms(2) show ?thesis unfolding pending_ok_def by blast
qed

definition intent_server :: "mem_world server" where
  "intent_server = mem_server [
     (''i'', JObj [(''event_type'', JStr ''idpintent.succeeded''), (''event_payload'', JObj [(''idpUser'', JStr ''{u}'')])]),
     (''{u}'', JObj [(''email'', JStr '' A@x''), (''avatar_url'', JStr ''pic'')])]"

definition intent_avatar :: pending_avatar where
  "intent_avatar = \<lparr>pa_avatarURL = ''pic'', pa_provider = GitHub, pa_expiresAt = 900000000000\<rparr>"

lemma intent_run:
  "run_state (serve ''/v1/actions/idp-intent-succeeded'' intent_server (signed_post ''i''))
     (NewServer NilInterface empty_world) =
   (ok_text ''pending'', (NewServer NilInterface empty_world)\<lparr>st_pendingAvatars := [''a@x'' \<mapsto> intent_avatar]\<rparr>)"
proof -
  have n: "normalizeEmail '' A@x'' = ''a@x''" "normalizeEmail ''a@x'' = ''a@x''"
    by code_simp+
  have h: "TrimSpace ''{u}'' = ''{u}''" "HasPrefix ''{u}'' ''{''" by code_simp+
  show ?thesis
    by (simp add: intent_server_def serve_def routes_def idpIntentSucceededHandler_def demo_simps
        json_decode_simps idpIntentRequest_fields_def zero_idpIntentRequest_def decodeIDPUserPayload_def h n
        parseIDPUserData_def UnmarshalMap_def map_lookup_def as_object_def as_string_def
        extractEmailFromIDPUserData_def miloUserIDFromIdpIntent_def storePendingAvatar_def Let_def
        NewServer_def empty_world_def intent_avatar_def pendingAvatarTTL_def)
qed

lemma pending_avatars_invariant_example:
  "''a@x'' \<noteq> ([]::string) \<and> normalizeEmail ''a@x'' = ''a@x'' \<and> pa_avatarURL intent_avatar \<noteq> []"
proof -
  have "steps intent_server (State_Monad.return (NilInterface, None)) (\<lambda>_ _. False) (NewServer NilInterface empty_world)
      ((NewServer NilInterface empty_world)\<lparr>st_pendingAvatars := [''a@x'' \<mapsto> intent_avatar]\<rparr>)"
    using step.request [OF intent_run] by (rule r_into_rtranclp)
  from pending_avatars_invariant [OF this, of "''a@x''"] show ?thesis by simp
qed

lemma serve_never_panics:
  assumes "steps srv (createZitadelClient Getenv NewSDK issuer domain keyPath) others (NewServer zc w) s"
    and "zc \<noteq> NilPointer" and "run_state (serve path srv r) s = (x, s')"
  shows "x \<noteq> Panicked"
proof -
  have "client_usable (NewServer zc w)" using assms(2) by (simp add: NewServer_def)
  with steps_usable [OF assms(1)] have "client_usable s" .
  with tripleD [OF serve_survives _ assms(3)] show ?thesis by simp
qed

lemma created_client:
  assumes "run_state (createZitadelClient Getenv NewSDK issuer domain keyPath) w = ((zc, err), w')"
  shows "zc = NilPointer \<longleftrightarrow> err \<noteq> None"
  using assms by (auto simp: createZitadelClient_def Let_def split: if_splits prod.splits sum.splits)

text \<open>C23. A request panics only in a process whose Zitadel client could not be made at the start: a server that started
  with a client, or without one because none is configured, answers every request in every state it reaches, whenever
  its background initializer installs a client. After a failed start a valid session event does panic, because the
  interface value the handler finds holds a nil pointer; with no client at all the same event is answered with 503.\<close>

theorem panics_come_from_failed_start:
  assumes start: "run_state (createZitadelClient Getenv NewSDK issuer domain keyPath) w0 = ((zc, err), w)"
    and run: "steps srv (createZitadelClient Getenv NewSDK issuer domain keyPath) others (NewServer zc w) s"
    and req: "run_state (serve path srv r) s = (x, s')"
    and event: "req_method q = MethodPost" "req_body q = Inr body" "signature_error srv q body = None"
      "Unmarshal (srv_lib srv) sessionAddedRequest_fields zero_sessionAddedRequest body = Inr ev"
      "sa_EventType ev = ''oidc_session.added''" "sa_PayloadUserID ev \<noteq> []"
  shows "(x = Panicked \<longrightarrow> err \<noteq> None) \<and>
    (err \<noteq> None \<longrightarrow> run_state (sessionAddedHandler srv q) (NewServer zc w) = (Panicked, NewServer zc w)) \<and>
    run_state (sessionAddedHandler srv q) (NewServer NilInterface w) =
      (http_Error ''zitadel sdk client not configured'' StatusServiceUnavailable, NewServer NilInterface w)"
proof (intro conjI impI)
  show "err \<noteq> None" if "x = Panicked"
    using that serve_never_panics [OF run _ req] created_client [OF start] by blast
  show "run_state (sessionAddedHandler srv q) (NewServer zc w) = (Panicked, NewServer zc w)" if "err \<noteq> None"
    using that created_client [OF start] event by (simp add: sessionAddedHandler_def zitadelAPI_def NewServer_def)
  show "run_state (sessionAddedHandler srv q) (NewServer NilInterface w) =
      (http_Error ''zitadel sdk client not configured'' StatusServiceUnavailable, NewServer NilInterface w)"
    using event by (simp add: sessionAddedHandler_def zitadelAPI_def NewServer_def)
qed

definition session_body :: "(string \<times> json) list" where
  "session_body = [(''event_type'', JStr ''oidc_session.added''), (''event_payload'', JObj [(''userID'', JStr ''u'')])]"

theorem panics_come_from_failed_start_witness:
  "\<exists>s. run_state (sessionAddedHandler (mem_server [(''b'', JObj session_body)]) (signed_post ''b'')) s = (Panicked, s)"
proof -
  let ?srv = "mem_server [(''b'', JObj session_body)]"
  have c: "run_state (createZitadelClient (\<lambda>_. []) (\<lambda>_ _ _. State_Monad.return (Inl (errorf ''unreachable'')))
      ''https://i'' ''d'' ''k'') empty_world = ((NilPointer, Some (errorf ''unreachable'')), empty_world)"
    by (simp add: createZitadelClient_def)
  have u: "Unmarshal (srv_lib ?srv) sessionAddedRequest_fields zero_sessionAddedRequest ''b'' =
      Inr (zero_sessionAddedRequest\<lparr>sa_EventType := ''oidc_session.added'', sa_PayloadUserID := ''u''\<rparr>)"
    by (simp add: mem_server_def table_lib_def session_body_def json_decode_simps sessionAddedRequest_fields_def
        zero_sessionAddedRequest_def)
  have v: "signature_error ?srv (signed_post ''b'') ''b'' = None" by (simp add: demo_simps)
  obtain x s' where x: "run_state (serve ''/nowhere'' ?srv (signed_post ''b'')) (NewServer NilPointer empty_world) = (x, s')"
    by (meson surj_pair)
  from panics_come_from_failed_start [OF c rtranclp.rtrancl_refl x _ _ v u] show ?thesis
    by (auto simp: signed_post_def)
qed

lemma schedule_closed: "(next_backoff ^^ i) initialBackoff = min (2 ^ i * Second) maxBackoff"
  by (induction i) (auto simp: initialBackoff_def maxBackoff_def next_backoff_def min_def)

text \<open>C24. When making the client fails some number of times and then succeeds, the background initializer,
  unless it is cancelled, installs the client; its waits double from one second and never exceed a
  minute.\<close>

theorem initializer_installs_client:
  assumes "\<And>i. i < k \<Longrightarrow> run_state (wait (min (2 ^ i * Second) maxBackoff)) (ws i) = (False, vs i) \<and>
      run_state create (vs i) = ((c i, Some (e i)), ws (Suc i))"
    and "run_state (wait (min (2 ^ k * Second) maxBackoff)) (ws k) = (False, v)"
    and "run_state create v = ((Live Z, None), w')" and "k < fuel" and "st_world s = ws 0"
  shows "run_state (retryZitadelClient fuel wait create initialBackoff) s =
    ((map (\<lambda>i. min (2 ^ i * Second) maxBackoff) [0..<Suc k], True),
     s\<lparr>st_world := w', st_zitadelClient := Live Z\<rparr>)"
  using retry_run [of k wait initialBackoff ws vs create c e v Z w' fuel s] assms
  by (simp add: schedule_closed)

definition second_try :: "(nat, nat zitadel_api iface \<times> go_error option) state" where
  "second_try = State (\<lambda>n. (if n = 0 then (NilPointer, Some not_found) else (Live (down_api not_found), None), Suc n))"

theorem initializer_installs_client_witness:
  "run_state (retryZitadelClient 2 (\<lambda>_. State_Monad.return False) second_try initialBackoff) (NewServer NilPointer 0) =
     (([Second, 2 * Second], True), NewServer (Live (down_api not_found)) 2)"
  using initializer_installs_client [of 1 "\<lambda>_. State_Monad.return False" "\<lambda>i. i" "\<lambda>i. i" second_try
      "\<lambda>_. NilPointer" "\<lambda>_. not_found" 1 "down_api not_found" 2 2 "NewServer NilPointer 0"]
  by (simp add: second_try_def NewServer_def maxBackoff_def)

section \<open>Avatars\<close>

text \<open>C26. An avatar parked under one spelling of an address is returned under any other spelling with the
  same normal form until its time to live has passed, and it is returned once: a second take finds
  nothing, and no other address is touched.\<close>

theorem avatar_round_trip:
  assumes "normalizeEmail b = normalizeEmail a" and "normalizeEmail a \<noteq> []" and "url \<noteq> []"
    and "run_state (Now rt) (st_world s) = (t0, w0)" and "run_state (Now rt) w0 = (t1, w1)"
  shows "run_state (do { storePendingAvatar rt a url provider; x \<leftarrow> consumePendingAvatar rt b;
      y \<leftarrow> consumePendingAvatar rt b; State_Monad.return (x, y) }) s =
    ((if t1 \<le> t0 + 15 * Minute
      then Some \<lparr>pa_avatarURL = url, pa_provider = provider, pa_expiresAt = t0 + 15 * Minute\<rparr> else None, None),
     s\<lparr>st_world := w1, st_pendingAvatars := (st_pendingAvatars s)(normalizeEmail a := None)\<rparr>)"
  using assms by (simp add: store_run consumePendingAvatar_def LoadAndDelete_def pendingAvatarTTL_def Let_def)

theorem avatar_round_trip_witness:
  "fst (run_state (do { storePendingAvatar mem_runtime ''A@x '' ''pic'' Google; x \<leftarrow> consumePendingAvatar mem_runtime ''a@X'';
      y \<leftarrow> consumePendingAvatar mem_runtime ''a@X''; State_Monad.return (x, y) }) (NewServer NilInterface empty_world)) =
    (Some \<lparr>pa_avatarURL = ''pic'', pa_provider = Google, pa_expiresAt = 900000000000\<rparr>, None)"
proof -
  have n: "normalizeEmail ''a@X'' = normalizeEmail ''A@x ''" "normalizeEmail ''A@x '' \<noteq> []" by code_simp+
  have t: "run_state (Now mem_runtime) (st_world (NewServer NilInterface empty_world)) = (0, empty_world)"
    "run_state (Now mem_runtime) empty_world = (0, empty_world)"
    by (simp_all add: mem_runtime_def NewServer_def empty_world_def)
  from avatar_round_trip [OF n(1,2) _ t(1) t(2), of "''pic''" Google] show ?thesis by simp
qed

section \<open>The user lookup\<close>

definition lookup_pause :: "'w server \<Rightarrow> int \<Rightarrow> nat \<Rightarrow> ('w, go_error option) state" where
  "lookup_pause srv baseWait i =
     do { Sleep (srv_runtime srv) (backoff_wait baseWait i); State_Monad.return None }"

interpretation user_lookup: polling "GetUser (srv_k8s srv) userID" "lookup_pause srv baseWait"
  "getUserLoop srv userID baseWait" for srv :: "'w server" and userID baseWait
  by unfold_locales (rule state.expand, simp add: fun_eq_iff lookup_pause_def split: prod.split sum.split)

text \<open>The lookup returns the outcome of the first of its attempts that finds the User or fails otherwise than
  with not-found, and the outcome of the last attempt when all earlier ones find nothing: a User
  that appears while attempts are left is found.\<close>

lemma getUserWithRetry_settles:
  assumes "k < nat (max 1 (cfg_IdpIntentUserLookupAttempts (srv_config srv)))"
    and "\<forall>j<k. poll_misses (GetUser (srv_k8s srv) userID)
      (lookup_pause srv (max 0 (cfg_IdpIntentUserLookupBaseWait (srv_config srv)))) w j"
    and "run_state (GetUser (srv_k8s srv) userID) (poll_world (GetUser (srv_k8s srv) userID)
      (lookup_pause srv (max 0 (cfg_IdpIntentUserLookupBaseWait (srv_config srv)))) w k) = (r, w')"
    and "Suc k = nat (max 1 (cfg_IdpIntentUserLookupAttempts (srv_config srv))) \<or>
      (case r of Inl e \<Rightarrow> \<not> IsNotFound e | Inr _ \<Rightarrow> True)"
  shows "run_state (getUserWithRetry srv userID) w = (r, w')"
proof -
  have "getUserWithRetry srv userID =
      getUserLoop srv userID (max 0 (cfg_IdpIntentUserLookupBaseWait (srv_config srv))) 0
        (nat (max 1 (cfg_IdpIntentUserLookupAttempts (srv_config srv))))"
    by (simp add: getUserWithRetry_def max_def)
  with user_lookup.settles [OF assms] show ?thesis by simp
qed

text \<open>The User appears during the first pause.\<close>

definition late_server :: "mem_world server" where
  "late_server = (mem_server [])\<lparr>srv_runtime := mem_runtime\<lparr>Sleep := (\<lambda>d. State (\<lambda>w.
     ((), w\<lparr>mem_users := [NewUser ''u'' ''u@x'' [] []], mem_clock := mem_clock w + d\<rparr>)))\<rparr>\<rparr>"

lemma backoff_wait_exact:
  assumes "0 \<le> base" and "base * 2 ^ i < 2 ^ 63"
  shows "backoff_wait base i = base * 2 ^ i"
proof -
  have "word_of_int base * push_bit i (1 :: 64 word) = word_of_int (base * 2 ^ i)"
    by (simp add: push_bit_eq_mult)
  then have "backoff_wait base i = sint (word_of_int (base * 2 ^ i) :: 64 word)"
    by (simp only: backoff_wait_def)
  also have "\<dots> = signed_take_bit 63 (base * 2 ^ i)" by (subst sint_sbintrunc') simp
  also have "\<dots> = base * 2 ^ i"
    using assms by (intro signed_take_bit_int_eq_self) (auto intro: order_trans [of _ 0])
  finally show ?thesis .
qed

text \<open>As long as they fit into 64 bits, the waits of the lookup double from the base wait, and together
  they are less than the wait that would follow; with the default configuration the handler
  sleeps 31.75 seconds at most.\<close>

lemma lookup_waits:
  assumes "0 \<le> base" and "base * 2 ^ n < 2 ^ 63"
  shows "(\<Sum>i<n. backoff_wait base i) = base * 2 ^ n - base \<and> (\<forall>i<n. backoff_wait base i = base * 2 ^ i) \<and>
    (\<Sum>i<nat (cfg_IdpIntentUserLookupAttempts NewServerConfig) - 1.
        backoff_wait (cfg_IdpIntentUserLookupBaseWait NewServerConfig) i) = 31750 * 1000000"
proof -
  have exact: "backoff_wait b i = b * 2 ^ i" if "0 \<le> b" "b * 2 ^ m < 2 ^ 63" "i < m" for b :: int and i m :: nat
  proof (rule backoff_wait_exact [OF that(1)])
    have "b * 2 ^ i \<le> b * 2 ^ m" using that by (simp add: mult_left_mono)
    with that(2) show "b * 2 ^ i < 2 ^ 63" by linarith
  qed
  have total: "(\<Sum>i<m. backoff_wait b i) = b * 2 ^ m - b" if "0 \<le> b" "b * 2 ^ m < 2 ^ 63" for b :: int and m
  proof -
    have "(\<Sum>i<m. backoff_wait b i) = (\<Sum>i<m. b * 2 ^ i)" using exact [OF that] by simp
    also have "\<dots> = b * 2 ^ m - b" by (induction m) simp_all
    finally show ?thesis .
  qed
  from total [OF assms] exact [OF assms] total [of 250000000 7] show ?thesis
    by (simp add: NewServerConfig_def)
qed

lemma lookup_waits_example: "(\<Sum>i<3. backoff_wait 10 i) = 70"
proof -
  have "(\<Sum>i<3. backoff_wait 10 i) = 10 * 2 ^ 3 - 10"
    using lookup_waits [of 10 3, THEN conjunct1] by simp
  then show ?thesis by simp
qed

end
