(* ===== verification/Delivery_Properties.thy ===== *)
theory Delivery_Properties
  imports Actions_Properties
begin

text \<open>
  The writes the webhooks make: creation of a User and its redelivery, and the verification state,
  which several processes write. What other processes do between two steps of ours is a relation
  \<^verbatim>\<open>others\<close> on worlds.
\<close>

section \<open>Interference\<close>

text \<open>
  How the world may change, as a view of it sees it, without a write of ours: our calls leave the view
  as it is, and the others act.
\<close>

definition reaches :: "('w \<Rightarrow> 'v) \<Rightarrow> ('w \<Rightarrow> 'w \<Rightarrow> bool) \<Rightarrow> 'w \<Rightarrow> 'w \<Rightarrow> bool" where
  "reaches view others = (\<lambda>a b. view b = view a \<or> others a b)\<^sup>*\<^sup>*"

text \<open>While the process sleeps only the others act.\<close>

definition sleep_law :: "'w runtime \<Rightarrow> ('w \<Rightarrow> 'v) \<Rightarrow> ('w \<Rightarrow> 'w \<Rightarrow> bool) \<Rightarrow> bool" where
  "sleep_law rt view others \<longleftrightarrow> (\<forall>d w. reaches view others w (snd (run_state (Sleep rt d) w)))"

lemma reaches_refl [simp]: "reaches view others a a"
  unfolding reaches_def by simp

lemma reaches_same: "view b = view a \<Longrightarrow> reaches view others a b"
  unfolding reaches_def by (rule r_into_rtranclp) simp

lemma reaches_others: "others a b \<Longrightarrow> reaches view others a b"
  unfolding reaches_def by (rule r_into_rtranclp) simp

lemma reaches_trans: "reaches view others a b \<Longrightarrow> reaches view others b c \<Longrightarrow> reaches view others a c"
  unfolding reaches_def by (rule rtranclp_trans)

section \<open>The verification state\<close>

lemma conflict_runs_last:
  assumes "conflict_runs others m w r w'"
    and "\<And>w e w'. run_state m w = (Inl e, w') \<Longrightarrow> view w' = view w"
  shows "\<exists>w0. reaches view others w w0 \<and> run_state m w0 = (r, w')"
  using assms(1)
proof (induction rule: conflict_runs.induct)
  case (last_run w r w')
  then show ?case by (intro exI [of _ w]) simp
next
  case (run_again w e w1 w2 r w')
  then obtain w0 where w0: "reaches view others w2 w0" "run_state m w0 = (r, w')" by blast
  have "reaches view others w w1" using assms(2) [OF run_again(1)] by (rule reaches_same)
  with reaches_others [where others = others, OF run_again(3)] w0 show ?case by (meson reaches_trans)
qed

lemma Set_verified_last:
  assumes "get_user_law K users" and "update_status_law K users" and "retry_law retry others"
    and "run_state (Set_verified retry K n v) w = (r, w')"
  shows "\<exists>w0. reaches users others w w0 \<and> run_state (Set_attempt K n v) w0 = (r, w')"
proof (rule conflict_runs_last)
  show "conflict_runs others (Set_attempt K n v) w r w'"
    using assms(3,4) unfolding retry_law_def Set_verified_def by blast
  show "users b = users a" if "run_state (Set_attempt K n v) a = (Inl e, b)" for a b e
    using Set_attempt_run(3) [OF assms(1,2) that refl] .
qed


definition one_user :: mem_world where
  "one_user = empty_world\<lparr>mem_users := [NewUser ''u'' ''u@x'' [] []]\<rparr>"


lemma getUserLoop_reaches:
  assumes "get_user_law (srv_k8s srv) users" and "sleep_law (srv_runtime srv) users others"
  shows "run_state (getUserLoop srv n b i left) w = (r, w') \<Longrightarrow> reaches users others w w'"
proof (induction left arbitrary: i w)
  case (Suc left)
  obtain g w1 where g: "run_state (GetUser (srv_k8s srv) n) w = (g, w1)" by fastforce
  have 1: "reaches users others w w1" using get_user_run(1) [OF assms(1) g] by (rule reaches_same)
  obtain w2 where s: "run_state (Sleep (srv_runtime srv) (backoff_wait b i)) w1 = ((), w2)"
    by (metis old.unit.exhaust surj_pair)
  with assms(2) have 2: "reaches users others w1 w2" unfolding sleep_law_def by (metis snd_conv)
  from Suc.prems g s have "w' = w1 \<or> run_state (getUserLoop srv n b (Suc i) left) w2 = (r, w')"
    by (auto split: sum.splits if_splits)
  with Suc.IH 1 2 show ?case by (blast intro: reaches_trans)
qed simp

lemma getUserWithRetry_reaches:
  assumes "get_user_law (srv_k8s srv) users" and "sleep_law (srv_runtime srv) users others"
    and "run_state (getUserWithRetry srv n) w = (r, w')"
  shows "reaches users others w w'"
  using assms(3) getUserLoop_reaches [OF assms(1,2)] unfolding getUserWithRetry_def Let_def by blast

text \<open>C25. When the email-verified webhook answers success, the User it wrote to is the aggregate of the event, whatever
  the event's own user field says, and that User is then verified when the address was verified
  and unverified when it was changed; every other User is as the other writers left it.\<close>

theorem email_event_sets_verification:
  assumes "get_user_law (srv_k8s srv) users" and "update_status_law (srv_k8s srv) users"
    and "retry_law (srv_retry srv) others" and "sleep_law (srv_runtime srv) users others"
    and "req_body r = Inr body"
    and "Unmarshal (srv_lib srv) emailVerifiedRequest_fields zero_emailVerifiedRequest body = Inr req"
    and "run_state (emailVerifiedHandler srv r) s = (ok_text t, s')"
  shows "(\<exists>u. users (st_world s') (ev_AggregateID req) = Some u \<and> us_emailVerification (user_status u) =
      (if ev_EventType req = ''user.human.email.verified'' then Verified else Unverified)) \<and>
    (\<exists>w0. reaches users others (st_world s) w0 \<and>
      (\<forall>n. n \<noteq> ev_AggregateID req \<longrightarrow> users (st_world s') n = users w0 n))"
proof -
  let ?id = "ev_AggregateID req" and ?v = "ev_EventType req = EventTypeEmailVerified"
  from assms(5-7) obtain w1 u c w' where
    look: "run_state (getUserWithRetry srv ?id) (st_world s) = (Inr u, w1)"
    and set: "run_state (Set_verified (srv_retry srv) (srv_k8s srv) ?id ?v) w1 = (Inr c, w')"
    and s': "st_world s' = w'"
    by (auto simp: emailVerifiedHandler_def Let_def ok_text_def http_Error_def
        split: if_splits option.splits sum.splits prod.splits)
  obtain w0 where w0: "reaches users others w1 w0" "run_state (Set_attempt (srv_k8s srv) ?id ?v) w0 = (Inr c, w')"
    using Set_verified_last [OF assms(1-3) set] by blast
  have r: "reaches users others (st_world s) w0"
    using getUserWithRetry_reaches [OF assms(1,4) look] w0(1) by (rule reaches_trans)
  have d: "Desired ?v = (if ev_EventType req = ''user.human.email.verified'' then Verified else Unverified)"
    by (simp add: Desired_def EventTypeEmailVerified_def)
  note run = Set_attempt_run [OF assms(1,2) w0(2)]
  show ?thesis
  proof (cases c)
    case True
    with run(2) obtain u rv where "users w' = (users w0)(?id \<mapsto> (set_verification ?v u)\<lparr>user_resourceVersion := rv\<rparr>)"
      by blast
    with r s' d show ?thesis by auto
  next
    case False
    with run(1) r s' d show ?thesis by auto
  qed
qed

definition verified_server :: "mem_world server" where
  "verified_server = mem_server [(''b'', JObj [(''event_type'', JStr ''user.human.email.verified''),
     (''aggregateID'', JStr ''u''), (''userID'', JStr ''admin'')])]"

lemma mem_sleep_law: "sleep_law mem_runtime mem_find others"
  unfolding sleep_law_def mem_runtime_def by (auto simp: mem_find_def fun_eq_iff intro: reaches_same)

theorem email_event_sets_verification_witness:
  "\<exists>s' u. run_state (emailVerifiedHandler verified_server (signed_post ''b'')) (NewServer NilInterface one_user) =
      (ok_text ''success'', s') \<and> mem_find (st_world s') ''u'' = Some u \<and>
      us_emailVerification (user_status u) = Verified"
proof -
  have u: "Unmarshal (srv_lib verified_server) emailVerifiedRequest_fields zero_emailVerifiedRequest ''b'' =
      Inr \<lparr>ev_AggregateID = ''u'', ev_EventType = ''user.human.email.verified'', ev_CreatedAt = [], ev_UserID = ''admin''\<rparr>"
    by (simp add: verified_server_def mem_server_def table_lib_def json_decode_simps emailVerifiedRequest_fields_def
        zero_emailVerifiedRequest_def)
  have "run_state (getUserWithRetry verified_server ''u'') one_user = (Inr (NewUser ''u'' ''u@x'' [] []), one_user)"
    using user_lookup.settles [of 0 8 verified_server "''u''" 250000000 one_user]
    by (simp add: getUserWithRetry_def verified_server_def mem_server_def NewServerConfig_def mem_kube_def
        mem_find_def one_user_def NewUser_def)
  moreover obtain w' where "run_state (Set_verified (srv_retry verified_server) (srv_k8s verified_server) ''u'' True)
      one_user = (Inr True, w')"
    by (simp add: verified_server_def demo_simps Set_verified_def Set_attempt_def one_user_def empty_world_def
        mem_find_def NewUser_def empty_status_def NeedsUpdate_def Desired_def set_verification_def mem_update_status_def)
  moreover have "signature_error verified_server (signed_post ''b'') ''b'' = None"
    by (simp add: verified_server_def demo_simps)
  ultimately obtain s' where run: "run_state (emailVerifiedHandler verified_server (signed_post ''b''))
      (NewServer NilInterface one_user) = (ok_text ''success'', s')"
    using u by (simp add: emailVerifiedHandler_def Let_def EventTypeEmailVerified_def NewServer_def)
  have laws: "get_user_law (srv_k8s verified_server) mem_find" "update_status_law (srv_k8s verified_server) mem_find"
    "retry_law (srv_retry verified_server) (\<lambda>_ _. False)"
    "sleep_law (srv_runtime verified_server) mem_find (\<lambda>_ _. False)"
    using mem_get_user_law mem_update_status_law retry_id mem_sleep_law
    by (simp_all add: verified_server_def mem_server_def)
  from email_event_sets_verification [OF laws _ u run] run show ?thesis by auto
qed

section \<open>Creation of a User\<close>

text \<open>The request a creation webhook brings, once it has passed every check of the handler.\<close>

definition creation_request :: "'w server \<Rightarrow> http_request \<Rightarrow> createUserAccountRequest \<Rightarrow> bool" where
  "creation_request srv r req \<longleftrightarrow> req_method r = MethodPost \<and>
     (\<exists>body. req_body r = Inr body \<and> signature_error srv r body = None \<and>
        Unmarshal (srv_lib srv) createUserAccountRequest_fields zero_createUserAccountRequest body = Inr req) \<and>
     cu_EventType req \<in> {''user.human.selfregistered'', ''user.human.added''}"

definition requested_user :: "createUserAccountRequest \<Rightarrow> user" where
  "requested_user req = NewUser (cu_AggregateID req) (cup_Email (cu_EventPayload req))
     (cup_FirstName (cu_EventPayload req)) (cup_LastName (cu_EventPayload req))"

lemma requested_user_name [simp]: "user_name (requested_user req) = cu_AggregateID req"
  by (simp add: requested_user_def NewUser_def)

lemma create_run:
  assumes "creation_request srv r req"
    and "run_state (EnsureUser (srv_k8s srv) (requested_user req)) (st_world s) = (c, w1)"
  shows "c = Inl e \<Longrightarrow> run_state (createUserAccountHandler srv r) s =
      (http_Error (''failed to create user resource: '' @ Error e) StatusInternalServerError, s\<lparr>st_world := w1\<rparr>)"
    and "c = Inr None \<Longrightarrow> run_state (createUserAccountHandler srv r) s = (ok_text ''already exists'', s\<lparr>st_world := w1\<rparr>)"
    and "run_state (createUserAccountHandler srv r) s = (Reply 201 h b, s') \<Longrightarrow> \<exists>u. c = Inr (Some u)"
  using assms
  by (auto simp: creation_request_def createUserAccountHandler_def requested_user_def Let_def
      SupportedUserCreationEvents_def http_Error_def ok_text_def split: sum.splits option.splits prod.splits if_splits)

text \<open>A creation webhook that is delivered again after its User exists only makes the create call the
  API server refuses: the Users stay as they are, no avatar is taken, no Event is recorded, and
  the answer is success or a retryable 500.\<close>

lemma redelivered_creation:
  assumes "create_user_law (srv_k8s srv) users" and "creation_request srv r req"
    and "users (st_world s) (cu_AggregateID req) \<noteq> None"
  shows "run_state (createUserAccountHandler srv r) s =
      (ok_text ''already exists'', s\<lparr>st_world := snd (run_state (CreateUser (srv_k8s srv) (requested_user req)) (st_world s))\<rparr>) \<or>
    (\<exists>e. run_state (createUserAccountHandler srv r) s =
      (http_Error (''failed to create user resource: '' @ Error e) StatusInternalServerError,
       s\<lparr>st_world := snd (run_state (CreateUser (srv_k8s srv) (requested_user req)) (st_world s))\<rparr>))"
    (is "?ok \<or> ?err")
proof -
  obtain c w1 where c: "run_state (EnsureUser (srv_k8s srv) (requested_user req)) (st_world s) = (c, w1)" by fastforce
  then have w1: "w1 = snd (run_state (CreateUser (srv_k8s srv) (requested_user req)) (st_world s))"
    by (auto simp: EnsureUser_def split: prod.splits)
  note run = create_run [OF assms(2) c] and law = EnsureUser_run [OF assms(1) c]
  show ?thesis
  proof (cases c)
    case (Inl e)
    with run(1) w1 show ?thesis by blast
  next
    case (Inr res)
    with law(1) assms(3) have "res = None" by (cases res) auto
    with Inr run(2) w1 show ?thesis by simp
  qed
qed

definition creation_server :: "mem_world server" where
  "creation_server = mem_server [(''b'', JObj [(''event_type'', JStr ''user.human.added''),
     (''aggregateID'', JStr ''u''), (''event_payload'', JObj [(''email'', JStr ''u@x'')])])]"

definition creation_body :: createUserAccountRequest where
  "creation_body = zero_createUserAccountRequest\<lparr>cu_EventType := ''user.human.added'', cu_AggregateID := ''u'',
     cu_EventPayload := (cu_EventPayload zero_createUserAccountRequest)\<lparr>cup_Email := ''u@x''\<rparr>\<rparr>"

lemma creation_request_demo: "creation_request creation_server (signed_post ''b'') creation_body"
  by (simp add: creation_request_def creation_server_def creation_body_def mem_server_def table_lib_def
      signed_post_def signature_error_def NewServerConfig_def json_decode_simps createUserAccountRequest_fields_def
      createUserAccountPayload_fields_def zero_createUserAccountRequest_def)

text \<open>A creation webhook answers \<^verbatim>\<open>created\<close> only when no User of that name existed, and what it then stored is
  the User of the event: named after the aggregate, with the address and names of the payload.\<close>

lemma created_user_is_new:
  assumes "create_user_law (srv_k8s srv) users" and "creation_request srv r req"
    and "run_state (createUserAccountHandler srv r) s = (Reply 201 h b, s')"
  shows "users (st_world s) (cu_AggregateID req) = None \<and>
    (\<exists>u w1. run_state (CreateUser (srv_k8s srv) (requested_user req)) (st_world s) = (Inr u, w1) \<and>
       users w1 = (users (st_world s))(cu_AggregateID req \<mapsto> u) \<and>
       user_email u = cup_Email (cu_EventPayload req) \<and> user_givenName u = cup_FirstName (cu_EventPayload req) \<and>
       user_familyName u = cup_LastName (cu_EventPayload req))"
proof -
  obtain c w1 where c: "run_state (EnsureUser (srv_k8s srv) (requested_user req)) (st_world s) = (c, w1)" by fastforce
  from create_run(3) [OF assms(2) c assms(3)] obtain u where u: "c = Inr (Some u)" by blast
  with c have cr: "run_state (CreateUser (srv_k8s srv) (requested_user req)) (st_world s) = (Inr u, w1)"
    by (auto simp: EnsureUser_def split: prod.splits sum.splits if_splits)
  from create_user_run(1) [OF assms(1) cr refl] cr show ?thesis
    by (auto simp: requested_user_def NewUser_def)
qed

end
