(* ===== verification/Recovery_Mail.thy ===== *)
theory Recovery_Mail
  imports Go_Json User_Provision
begin

text \<open>
  internal/recoverymail: the account-recovery Email that the self-serve webhook and the support
  resource both send, the link in it, and the budget of recovery mails per User and trigger.
\<close>

section \<open>email.go\<close>

definition RequestedBySelf :: string where "RequestedBySelf = ''self''"
definition RequestedBySupport :: string where "RequestedBySupport = ''support''"
definition LabelUser :: string where "LabelUser = ''identity.miloapis.com/user''"
definition LabelRequestedBy :: string where "LabelRequestedBy = ''identity.miloapis.com/recovery-requested-by''"
definition AnnotationRequester :: string where "AnnotationRequester = ''identity.miloapis.com/recovery-requester''"
definition AnnotationReason :: string where "AnnotationReason = ''identity.miloapis.com/recovery-reason''"
definition namePrefix :: string where "namePrefix = ''account-recovery-''"
definition defaultExpiryMinutes :: int where "defaultExpiryMinutes = 60"

record recovery_input =
  in_User :: user
  in_UserID :: string
  in_CodeID :: string
  in_Code :: string
  in_ActionURL :: string
  in_TemplateName :: string
  in_Namespace :: string
  in_ExpiryMinutes :: int
  in_RequestedBy :: string
  in_RequestedByUser :: string
  in_Reason :: string

definition expiry_minutes :: "int \<Rightarrow> int" where
  "expiry_minutes m = (if m \<le> 0 then defaultExpiryMinutes else m)"

definition Build :: "golib \<Rightarrow> recovery_input \<Rightarrow> email" where
  "Build lib i =
     \<lparr>email_name = namePrefix @ take 16 (Sha256Hex lib (in_UserID i @ '':'' @ in_CodeID i)),
      email_namespace = in_Namespace i,
      email_labels = [(LabelUser, in_UserID i), (LabelRequestedBy, in_RequestedBy i)],
      email_annotations =
        (if in_RequestedBy i = RequestedBySupport
         then [(AnnotationRequester, in_RequestedByUser i), (AnnotationReason, in_Reason i)] else []),
      email_creationTimestamp = zero_time,
      email_template = in_TemplateName i,
      email_recipient = EmailAddress (user_email (in_User i)),
      email_variables = [(''UserName'', display_name (in_User i)), (''Code'', in_Code i),
        (''ActionUrl'', in_ActionURL i), (''ExpiryMinutes'', Itoa (expiry_minutes (in_ExpiryMinutes i)))],
      email_priority = PriorityHigh\<rparr>"

definition action_query :: "url \<Rightarrow> string \<Rightarrow> string \<Rightarrow> string" where
  "action_query base userID codeID =
     Values_Encode (Values_Set ''codeId'' codeID (Values_Set ''userId'' userID (ParseQuery (url_rawQuery base))))"

definition ActionURL :: "golib \<Rightarrow> url \<Rightarrow> string \<Rightarrow> string \<Rightarrow> string \<Rightarrow> string" where
  "ActionURL lib base userID codeID code =
     URLString lib (base\<lparr>url_rawQuery := action_query base userID codeID, url_fragment := []\<rparr>) @
     ''#'' @ Values_Encode [(''code'', [code])]"

section \<open>cooldown.go\<close>

definition capWindow :: int where
  "capWindow = Hour"

text \<open>The loop over the sent Emails: none when it has returned true early, else the final count.\<close>

fun count_recent :: "int \<Rightarrow> int \<Rightarrow> email list \<Rightarrow> int \<Rightarrow> int option" where
  "count_recent now cooldown [] inWindow = Some inWindow"
| "count_recent now cooldown (e # es) inWindow =
     (let age = time_Sub now (email_creationTimestamp e) in
      if cooldown > 0 \<and> age < cooldown then None
      else count_recent now cooldown es (if age < capWindow then inWindow + 1 else inWindow))"

definition TooSoon ::
  "'w runtime \<Rightarrow> 'w kube \<Rightarrow> string \<Rightarrow> string \<Rightarrow> string \<Rightarrow> int \<Rightarrow> int \<Rightarrow> ('w, go_error + bool) state" where
  "TooSoon rt K namespace userID requestedBy cooldown maxPerHour =
     (if cooldown \<le> 0 \<and> maxPerHour \<le> 0 then State_Monad.return (Inr False)
      else do {
        sent \<leftarrow> ListEmails K namespace [(LabelUser, userID), (LabelRequestedBy, requestedBy)];
        (case sent of
           Inl e \<Rightarrow> State_Monad.return (Inl (wrapf ''list recovery emails for rate limiting: '' e))
         | Inr items \<Rightarrow> do {
             now \<leftarrow> Now rt;
             State_Monad.return (Inr (case count_recent now cooldown items 0 of
                 None \<Rightarrow> True
               | Some inWindow \<Rightarrow> maxPerHour > 0 \<and> inWindow \<ge> maxPerHour))
           })
      })"

section \<open>Lemmas\<close>

definition recent :: "int \<Rightarrow> int \<Rightarrow> email \<Rightarrow> bool" where
  "recent now span e \<longleftrightarrow> time_Sub now (email_creationTimestamp e) < span"

lemma count_recent_eq:
  "count_recent now cooldown es n =
     (if cooldown > 0 \<and> (\<exists>e \<in> set es. recent now cooldown e) then None
      else Some (n + int (length (filter (recent now capWindow) es))))"
  by (induction es arbitrary: n) (auto simp: Let_def recent_def)

lemma Encode_code: "Values_Encode [(''code'', [code])] = encode_pair ''code'' code"
  by (simp add: Values_Encode_def)

lemma QueryEscape_letters: "list_all unreserved s \<Longrightarrow> QueryEscape s = s"
  unfolding QueryEscape_def by (induction s) (auto simp: escape_char_def)

lemma action_query_values:
  "values_of (ParseQuery (action_query base userID codeID)) k =
     (if k = ''codeId'' then [codeID] else if k = ''userId'' then [userID]
      else values_of (ParseQuery (url_rawQuery base)) k)"
  unfolding action_query_def
  by (simp add: ParseQuery_Encode keys_Set keys_ParseQuery values_of_Set)

lemma silent_TooSoon:
  assumes "\<And>n l. silent view (ListEmails K n l)" and "silent view (Now rt)"
  shows "silent view (TooSoon rt K ns u by cd m)"
proof -
  have "silent view (case r of Inl e \<Rightarrow> State_Monad.return (f e)
      | Inr items \<Rightarrow> do { now \<leftarrow> Now rt; State_Monad.return (g items now) })" for r f g
    by (cases r) (auto intro!: silent_return silent_bind assms)
  then show ?thesis unfolding TooSoon_def by (intro silent_if silent_return silent_bind assms)
qed

end
