(* ===== verification/Webhook_Mail.thy ===== *)
theory Webhook_Mail
  imports Recovery_Mail Polling
begin

text \<open>
  internal/webhook: the two mail endpoints of the webhook server, \<^verbatim>\<open>/v1/email/verification\<close> and
  \<^verbatim>\<open>/v1/email/recovery\<close>, with the check of the calling certificate (caller.go), the allowlist of
  destinations and the user lookup that both share (emailverification.go).
\<close>

section \<open>caller.go\<close>

definition unknownCaller :: string where
  "unknownCaller = ''none''"

fun NormalizeClientNames :: "string list \<Rightarrow> string list" where
  "NormalizeClientNames [] = []"
| "NormalizeClientNames (name # raw) =
     (if TrimSpace name \<noteq> [] then TrimSpace name # NormalizeClientNames raw else NormalizeClientNames raw)"

definition leafCert :: "http_request \<Rightarrow> certificate option" where
  "leafCert r = (case req_peer_certificates r of Some (c # _) \<Rightarrow> Some c | _ \<Rightarrow> None)"

fun names_match :: "certificate \<Rightarrow> string list \<Rightarrow> bool" where
  "names_match leaf [] = False"
| "names_match leaf (name # names) =
     (if cert_common_name leaf = name then True
      else if name \<in> set (cert_uris leaf) then True
      else names_match leaf names)"

definition callerAllowed :: "http_request \<Rightarrow> string list \<Rightarrow> bool" where
  "callerAllowed r allowed =
     (if allowed = [] then True
      else case leafCert r of None \<Rightarrow> False | Some leaf \<Rightarrow> names_match leaf allowed)"

definition callerIdentity :: "http_request \<Rightarrow> string" where
  "callerIdentity r =
     (case leafCert r of
        None \<Rightarrow> unknownCaller
      | Some leaf \<Rightarrow> if cert_common_name leaf \<noteq> [] then cert_common_name leaf
                    else (case cert_uris leaf of u # _ \<Rightarrow> u | [] \<Rightarrow> unknownCaller))"

section \<open>Destinations\<close>

definition returnToUsable :: "url \<Rightarrow> bool" where
  "returnToUsable u \<longleftrightarrow> url_scheme u \<noteq> [] \<and> url_host u \<noteq> [] \<and> url_user u = None"

fun originAllowed :: "golib \<Rightarrow> url \<Rightarrow> string list \<Rightarrow> bool" where
  "originAllowed lib u [] = False"
| "originAllowed lib u (allowed # rest) =
     (case ParseURL lib allowed of
        None \<Rightarrow> originAllowed lib u rest
      | Some a \<Rightarrow>
          if EqualFold (url_scheme u) (url_scheme a) \<and> EqualFold (url_host u) (url_host a) then True
          else originAllowed lib u rest)"

text \<open>The check both handlers make: the parsed URL, when it may become a mailed link.\<close>

definition approved :: "golib \<Rightarrow> string list \<Rightarrow> string \<Rightarrow> url option" where
  "approved lib origins returnTo =
     (case ParseURL lib returnTo of
        Some u \<Rightarrow> if returnToUsable u \<and> originAllowed lib u origins then Some u else None
      | None \<Rightarrow> None)"

section \<open>The user lookup\<close>

text \<open>
  The services of the webhook server. The wait is the select on the request's context and a timer:
  it ends with the error of the context when that is cancelled first.
\<close>

record 'w mail_server =
  ms_k8s :: "'w kube"
  ms_lib :: golib
  ms_runtime :: "'w runtime"
  ms_wait :: "int \<Rightarrow> ('w, go_error option) state"

definition linear_wait :: "int \<Rightarrow> nat \<Rightarrow> int" where
  "linear_wait baseWait attempt = sint ((of_nat (attempt + 1) :: 64 word) * word_of_int baseWait)"

fun userLoop :: "'w mail_server \<Rightarrow> string \<Rightarrow> int \<Rightarrow> nat \<Rightarrow> nat \<Rightarrow> ('w, go_error + user) state" where
  "userLoop srv i baseWait attempt (Suc left) = do {
     r \<leftarrow> GetUser (ms_k8s srv) i;
     (case r of
        Inr u \<Rightarrow> State_Monad.return (Inr u)
      | Inl e \<Rightarrow>
          if \<not> IsNotFound e then State_Monad.return (Inl e)
          else if left = 0 then State_Monad.return (Inl e)
          else do {
            c \<leftarrow> ms_wait srv (linear_wait baseWait attempt);
            (case c of
               Some e \<Rightarrow> State_Monad.return (Inl e)
             | None \<Rightarrow> userLoop srv i baseWait (Suc attempt) left)
          })
   }"
| "userLoop srv i baseWait attempt 0 = State_Monad.return (Inl (errorf []))"

definition userWithRetry :: "'w mail_server \<Rightarrow> string \<Rightarrow> int \<Rightarrow> int \<Rightarrow> ('w, go_error + user) state" where
  "userWithRetry srv i attempts baseWait =
     (let attempts = (if attempts < 1 then 1 else attempts);
          baseWait = (if baseWait < 0 then 0 else baseWait)
      in userLoop srv i baseWait 0 (nat attempts))"

section \<open>emailverification.go\<close>

definition maxRequestBytes :: nat where
  "maxRequestBytes = 64 * 1024"

record email_verification_config =
  ev_TemplateName :: string
  ev_NotificationNamespace :: string
  ev_AllowedOrigins :: "string list"
  ev_ExpiryMinutes :: int
  ev_AllowedClientNames :: "string list"
  ev_UserLookupAttempts :: int
  ev_UserLookupBaseWait :: int

record emailVerificationRequest =
  vr_UserID :: string
  vr_Code :: string
  vr_ReturnTo :: string

definition emailVerificationRequest_fields :: "(string \<times> emailVerificationRequest decoder) list" where
  "emailVerificationRequest_fields = [
     (''userId'', json_string (\<lambda>v r. r\<lparr>vr_UserID := v\<rparr>)),
     (''code'', json_string (\<lambda>v r. r\<lparr>vr_Code := v\<rparr>)),
     (''returnTo'', json_string (\<lambda>v r. r\<lparr>vr_ReturnTo := v\<rparr>))]"

definition verification_name :: "golib \<Rightarrow> emailVerificationRequest \<Rightarrow> string" where
  "verification_name lib req = ''email-verification-'' @ take 16 (Sha256Hex lib (vr_UserID req @ '':'' @ vr_Code req))"

definition verificationEmail ::
  "golib \<Rightarrow> email_verification_config \<Rightarrow> user \<Rightarrow> emailVerificationRequest \<Rightarrow> string \<Rightarrow> email" where
  "verificationEmail lib cfg u req actionURL =
     \<lparr>email_name = verification_name lib req,
      email_namespace = ev_NotificationNamespace cfg,
      email_labels = [], email_annotations = [], email_creationTimestamp = zero_time,
      email_template = ev_TemplateName cfg,
      email_recipient = EmailAddress (user_email u),
      email_variables = [(''UserName'', display_name u), (''Code'', vr_Code req), (''ActionUrl'', actionURL),
        (''ExpiryMinutes'', Itoa (if ev_ExpiryMinutes cfg \<le> 0 then 60 else ev_ExpiryMinutes cfg))],
      email_priority = PriorityHigh\<rparr>"

definition createEmail ::
  "'w mail_server \<Rightarrow> email_verification_config \<Rightarrow> user \<Rightarrow> emailVerificationRequest \<Rightarrow> string \<Rightarrow>
   ('w, go_error + string) state" where
  "createEmail srv cfg u req actionURL = do {
     e \<leftarrow> CreateEmail (ms_k8s srv) (verificationEmail (ms_lib srv) cfg u req actionURL);
     State_Monad.return (case e of
         None \<Rightarrow> Inr (verification_name (ms_lib srv) req)
       | Some e \<Rightarrow> if IsAlreadyExists e then Inr (verification_name (ms_lib srv) req) else Inl e)
   }"

definition actionURLFor :: "golib \<Rightarrow> url \<Rightarrow> string \<Rightarrow> string \<Rightarrow> string" where
  "actionURLFor lib returnTo code userID =
     URLString lib (returnTo\<lparr>url_rawQuery := Values_Encode (Values_Set ''userId'' userID
       (Values_Set ''code'' code (ParseQuery (url_rawQuery returnTo))))\<rparr>)"

text \<open>
  The decoder reads the first JSON value of at most the first 64 KiB of the body; a value that is
  not complete by then is an error.
\<close>

definition decode_capped ::
  "golib \<Rightarrow> (string \<times> 'r decoder) list \<Rightarrow> 'r \<Rightarrow> http_request \<Rightarrow> go_error + 'r" where
  "decode_capped lib fs zero r =
     (case req_body r of
        Inl e \<Rightarrow> Inl e
      | Inr body \<Rightarrow> DecodeFirst lib fs zero (take maxRequestBytes body))"

definition method_not_allowed :: http_result where
  "method_not_allowed = http_Error_with [(''Allow'', MethodPost)] ''method not allowed'' StatusMethodNotAllowed"

definition user_error :: "go_error \<Rightarrow> http_result" where
  "user_error e =
     (if IsNotFound e then http_Error ''user not found'' StatusNotFound
      else http_Error ''failed to read user'' StatusInternalServerError)"

definition EmailVerification_ServeHTTP ::
  "'w mail_server \<Rightarrow> email_verification_config \<Rightarrow> http_request \<Rightarrow> ('w, http_result) state" where
  "EmailVerification_ServeHTTP srv cfg r =
     (if req_method r \<noteq> MethodPost then State_Monad.return method_not_allowed
      else if \<not> callerAllowed r (ev_AllowedClientNames cfg)
      then State_Monad.return (http_Error ''client certificate is not allowed'' StatusForbidden)
      else case decode_capped (ms_lib srv) emailVerificationRequest_fields
              \<lparr>vr_UserID = [], vr_Code = [], vr_ReturnTo = []\<rparr> r of
        Inl e \<Rightarrow> State_Monad.return (http_Error ''invalid request body'' StatusBadRequest)
      | Inr req \<Rightarrow>
        if vr_UserID req = [] \<or> vr_Code req = [] \<or> vr_ReturnTo req = []
        then State_Monad.return (http_Error ''userId, code and returnTo are required'' StatusBadRequest)
        else case approved (ms_lib srv) (ev_AllowedOrigins cfg) (vr_ReturnTo req) of
          None \<Rightarrow> State_Monad.return (http_Error ''returnTo is not allowed'' StatusBadRequest)
        | Some returnTo \<Rightarrow> do {
            usr \<leftarrow> userWithRetry srv (vr_UserID req) (ev_UserLookupAttempts cfg) (ev_UserLookupBaseWait cfg);
            (case usr of
               Inl e \<Rightarrow> State_Monad.return (user_error e)
             | Inr u \<Rightarrow> do {
                 name \<leftarrow> createEmail srv cfg u req
                   (actionURLFor (ms_lib srv) returnTo (vr_Code req) (vr_UserID req));
                 State_Monad.return (case name of
                     Inl _ \<Rightarrow> http_Error ''failed to create email'' StatusInternalServerError
                   | Inr _ \<Rightarrow> Reply StatusOK [] ''ok'')
               })
          })"

section \<open>accountrecovery.go\<close>

record account_recovery_config =
  ar_TemplateName :: string
  ar_NotificationNamespace :: string
  ar_AllowedOrigins :: "string list"
  ar_ExpiryMinutes :: int
  ar_AllowedClientNames :: "string list"
  ar_UserLookupAttempts :: int
  ar_UserLookupBaseWait :: int
  ar_Cooldown :: int
  ar_MaxPerHour :: int

record accountRecoveryRequest =
  rr_UserID :: string
  rr_ReturnTo :: string
  rr_RequestedBy :: string
  rr_CodeID :: string
  rr_Code :: string

definition accountRecoveryRequest_fields :: "(string \<times> accountRecoveryRequest decoder) list" where
  "accountRecoveryRequest_fields = [
     (''userId'', json_string (\<lambda>v r. r\<lparr>rr_UserID := v\<rparr>)),
     (''returnTo'', json_string (\<lambda>v r. r\<lparr>rr_ReturnTo := v\<rparr>)),
     (''requestedBy'', json_string (\<lambda>v r. r\<lparr>rr_RequestedBy := v\<rparr>)),
     (''codeId'', json_string (\<lambda>v r. r\<lparr>rr_CodeID := v\<rparr>)),
     (''code'', json_string (\<lambda>v r. r\<lparr>rr_Code := v\<rparr>))]"

definition recovery_mail ::
  "golib \<Rightarrow> account_recovery_config \<Rightarrow> user \<Rightarrow> string \<Rightarrow> url \<Rightarrow> string \<Rightarrow> string \<Rightarrow> email" where
  "recovery_mail lib cfg u userID returnTo codeID code =
     Build lib \<lparr>in_User = u, in_UserID = userID, in_CodeID = codeID, in_Code = code,
       in_ActionURL = ActionURL lib returnTo userID codeID code, in_TemplateName = ar_TemplateName cfg,
       in_Namespace = ar_NotificationNamespace cfg, in_ExpiryMinutes = ar_ExpiryMinutes cfg,
       in_RequestedBy = RequestedBySelf, in_RequestedByUser = [], in_Reason = []\<rparr>"

text \<open>From the budget check on: what the handler does for a verified User.\<close>

definition recover ::
  "'w mail_server \<Rightarrow> (string \<Rightarrow> ('w, go_error + string \<times> string) state) \<Rightarrow> account_recovery_config \<Rightarrow>
   user \<Rightarrow> string \<Rightarrow> url \<Rightarrow> ('w, http_result) state" where
  "recover srv mint cfg u userID returnTo = do {
     tooSoon \<leftarrow> TooSoon (ms_runtime srv) (ms_k8s srv) (ar_NotificationNamespace cfg) userID RequestedBySelf
       (ar_Cooldown cfg) (ar_MaxPerHour cfg);
     (case tooSoon of
        Inl e \<Rightarrow> State_Monad.return (http_Error ''failed to check recent activity'' StatusInternalServerError)
      | Inr True \<Rightarrow> State_Monad.return (http_Error ''try again later'' StatusTooManyRequests)
      | Inr False \<Rightarrow> do {
          minted \<leftarrow> mint userID;
          (case minted of
             Inl e \<Rightarrow> State_Monad.return (http_Error ''failed to create recovery code'' StatusInternalServerError)
           | Inr (codeID, code) \<Rightarrow> do {
               e \<leftarrow> CreateEmail (ms_k8s srv) (recovery_mail (ms_lib srv) cfg u userID returnTo codeID code);
               State_Monad.return
                 (if (case e of Some e \<Rightarrow> \<not> IsAlreadyExists e | None \<Rightarrow> False)
                  then http_Error ''failed to create email'' StatusInternalServerError
                  else Reply StatusOK [(''Content-Type'', ''application/json'')]
                    (EncodeJSON (ms_lib srv) (JObj [(''codeId'', JStr codeID)]) @ [CHR 0x0A]))
             })
        })
   }"

definition AccountRecovery_ServeHTTP ::
  "'w mail_server \<Rightarrow> (string \<Rightarrow> ('w, go_error + string \<times> string) state) \<Rightarrow> account_recovery_config \<Rightarrow>
   http_request \<Rightarrow> ('w, http_result) state" where
  "AccountRecovery_ServeHTTP srv mint cfg r =
     (if req_method r \<noteq> MethodPost then State_Monad.return method_not_allowed
      else if \<not> callerAllowed r (ar_AllowedClientNames cfg)
      then State_Monad.return (http_Error ''client certificate is not allowed'' StatusForbidden)
      else case decode_capped (ms_lib srv) accountRecoveryRequest_fields
              \<lparr>rr_UserID = [], rr_ReturnTo = [], rr_RequestedBy = [], rr_CodeID = [], rr_Code = []\<rparr> r of
        Inl e \<Rightarrow> State_Monad.return (http_Error ''invalid request body'' StatusBadRequest)
      | Inr req \<Rightarrow>
        if rr_CodeID req \<noteq> [] \<or> rr_Code req \<noteq> []
        then State_Monad.return
          (http_Error ''codeId and code are not accepted; this endpoint mints the code'' StatusBadRequest)
        else if rr_UserID req = [] \<or> rr_ReturnTo req = []
        then State_Monad.return (http_Error ''userId and returnTo are required'' StatusBadRequest)
        else if rr_RequestedBy req \<noteq> RequestedBySelf
        then State_Monad.return (http_Error (''requestedBy must be '' @ Quote ''self'') StatusBadRequest)
        else case approved (ms_lib srv) (ar_AllowedOrigins cfg) (rr_ReturnTo req) of
          None \<Rightarrow> State_Monad.return (http_Error ''returnTo is not allowed'' StatusBadRequest)
        | Some returnTo \<Rightarrow> do {
            usr \<leftarrow> userWithRetry srv (rr_UserID req) (ar_UserLookupAttempts cfg) (ar_UserLookupBaseWait cfg);
            (case usr of
               Inl e \<Rightarrow> State_Monad.return (user_error e)
             | Inr u \<Rightarrow>
                 if \<not> IsVerified (Some u)
                 then State_Monad.return
                   (http_Error ''email address is not verified'' StatusUnprocessableEntity)
                 else recover srv mint cfg u (rr_UserID req) returnTo)
          })"

end
