(* ===== verification/Login_Properties.thy ===== *)
theory Login_Properties
  imports Actions_Properties
begin

text \<open>
  The notifications: when a login is suspicious, which differences between two user agents count,
  and to whom the three notification mails go. The interface \<^verbatim>\<open>notifier\<close> is what the senders of the
  mails share.
\<close>

section \<open>The decision\<close>

lemma fold_seen:
  "fold (seen_step ip key fp) ss (a, b, c) =
     (a \<or> (\<exists>s \<in> set ss. sess_IP s = ip),
      b \<or> (\<exists>s \<in> set ss. sess_UserAgent s \<noteq> [] \<and> userAgentKey (sess_UserAgent s) = key),
      c \<or> (fp \<noteq> [] \<and> (\<exists>s \<in> set ss. sess_FingerprintID s = fp)))"
  by (induction ss arbitrary: a b c) (auto simp: seen_step_def)

lemma isSuspiciousLogin_iff:
  "isSuspiciousLogin ss ip ua fp \<longleftrightarrow> ss \<noteq> [] \<and>
     ((ip \<noteq> [] \<and> (\<forall>s \<in> set ss. sess_IP s \<noteq> ip)) \<or>
      (ua \<noteq> [] \<and> (\<forall>s \<in> set ss. sess_UserAgent s = [] \<or> userAgentKey (sess_UserAgent s) \<noteq> userAgentKey ua)) \<or>
      (fp \<noteq> [] \<and> (\<forall>s \<in> set ss. sess_FingerprintID s \<noteq> fp)))"
  by (auto simp: isSuspiciousLogin_def fold_seen)

lemma getPreviousSessions_set: "set (getPreviousSessions ss i) = {s \<in> set ss. sess_ID s \<noteq> i}"
  by (induction ss) auto

lemma findSessionByID_Some: "findSessionByID ss i = Some s \<Longrightarrow> s \<in> set ss \<and> sess_ID s = i"
  by (induction ss) (auto split: if_splits)

text \<open>C27. A login is suspicious exactly when there are earlier sessions and one of its address, its browser and
  device family or its fingerprint is known but none of the earlier sessions has it; a first
  login never is.\<close>

theorem suspicious_login_iff:
  "isSuspiciousLogin (getPreviousSessions sessions i) ip ua fp \<longleftrightarrow>
     (\<exists>s \<in> set sessions. sess_ID s \<noteq> i) \<and>
     (ip \<noteq> [] \<and> (\<nexists>s. s \<in> set sessions \<and> sess_ID s \<noteq> i \<and> sess_IP s = ip) \<or>
      ua \<noteq> [] \<and> (\<nexists>s. s \<in> set sessions \<and> sess_ID s \<noteq> i \<and> sess_UserAgent s \<noteq> [] \<and>
         userAgentKey (sess_UserAgent s) = userAgentKey ua) \<or>
      fp \<noteq> [] \<and> (\<nexists>s. s \<in> set sessions \<and> sess_ID s \<noteq> i \<and> sess_FingerprintID s = fp))"
proof -
  have "getPreviousSessions sessions i \<noteq> [] \<longleftrightarrow> (\<exists>s \<in> set sessions. sess_ID s \<noteq> i)"
    using getPreviousSessions_set [of sessions i] by (metis (mono_tags, lifting) empty_iff last_in_set
        list.set(1) mem_Collect_eq)
  then show ?thesis
    unfolding isSuspiciousLogin_iff getPreviousSessions_set by blast
qed

section \<open>Version numbers\<close>

text \<open>A user agent with every run of digits replaced by a single zero.\<close>

definition is_digit :: "char \<Rightarrow> bool" where
  "is_digit c \<longleftrightarrow> 48 \<le> (of_char c :: nat) \<and> (of_char c :: nat) \<le> 57"

fun fold_digits :: "string \<Rightarrow> string" where
  "fold_digits [] = []"
| "fold_digits (c # s) =
     (if is_digit c \<and> s \<noteq> [] \<and> is_digit (hd s) then fold_digits s
      else (if is_digit c then CHR ''0'' else c) # fold_digits s)"

abbreviation digit_free :: "string \<Rightarrow> bool" where
  "digit_free s \<equiv> list_all (\<lambda>c. \<not> is_digit c) s"

lemma is_digit_zero [simp]: "is_digit (CHR ''0'')"
  by (simp add: is_digit_def)

lemma fold_digits_Nil [simp]: "fold_digits s = [] \<longleftrightarrow> s = []"
  by (induction s rule: fold_digits.induct) auto

lemma hd_fold_digits: "s \<noteq> [] \<Longrightarrow> is_digit (hd (fold_digits s)) = is_digit (hd s)"
  by (induction s rule: fold_digits.induct) auto

lemma HasPrefix_Cons: "HasPrefix s (c # p) \<longleftrightarrow> s \<noteq> [] \<and> hd s = c \<and> HasPrefix (tl s) p"
  by (cases s) (auto simp: HasPrefix_def)

lemma HasPrefix_fold: "digit_free p \<Longrightarrow> HasPrefix (fold_digits s) p = HasPrefix s p"
proof (induction p arbitrary: s)
  case Nil
  then show ?case by (simp add: HasPrefix_def)
next
  case (Cons c p)
  show ?case
  proof (cases s)
    case (Cons d t)
    show ?thesis
    proof (cases "is_digit d")
      case True
      with Cons have "is_digit (hd (fold_digits s))" by (simp add: hd_fold_digits)
      with True Cons Cons.prems show ?thesis by (auto simp: HasPrefix_Cons)
    next
      case False
      with Cons Cons.IH [of t] Cons.prems show ?thesis by (auto simp: HasPrefix_Cons)
    qed
  qed (simp add: HasPrefix_Cons)
qed

lemma Contains_Nil [simp]: "Contains s []"
  by (cases s) (simp_all add: HasPrefix_def)

lemma Contains_fold: "digit_free p \<Longrightarrow> Contains (fold_digits s) p = Contains s p"
proof (induction s rule: fold_digits.induct)
  case (2 c s)
  show ?case
  proof (cases "is_digit c \<and> s \<noteq> [] \<and> is_digit (hd s)")
    case True
    with 2 show ?thesis by (cases p) (auto simp: HasPrefix_Cons)
  next
    case False
    with 2 HasPrefix_fold [of p "c # s"] show ?thesis by auto
  qed
qed simp

lemma is_digit_to_lower [simp]: "is_digit (to_lower_char c) = is_digit c"
  by (auto simp: is_digit_def to_lower_char_def of_char_of)

lemma to_lower_digit: "is_digit c \<Longrightarrow> to_lower_char c = c"
  by (simp add: is_digit_def to_lower_char_def)

lemma ToLower_fold: "ToLower (fold_digits s) = fold_digits (ToLower s)"
  by (induction s rule: fold_digits.induct) (auto simp: ToLower_def to_lower_digit hd_map)

lemma fold_digits_id: "digit_free s \<Longrightarrow> fold_digits s = s"
  by (induction s rule: fold_digits.induct) auto

lemma digit_free_fold: "digit_free (fold_digits s) = digit_free s"
proof (induction s rule: fold_digits.induct)
  case (2 c s)
  then show ?case by (cases s) auto
qed simp

lemma is_digit_not_space: "is_digit c \<Longrightarrow> \<not> is_space c"
  by (auto simp: is_digit_def is_space_def)

lemma set_dropWhile_not: "x \<in> set s \<Longrightarrow> \<not> P x \<Longrightarrow> x \<in> set (dropWhile P s)"
  by (induction s) auto

lemma digit_free_TrimSpace: "digit_free (TrimSpace s) = digit_free s"
proof -
  have "x \<in> set (TrimSpace s)" if "x \<in> set s" "is_digit x" for x
    using that is_digit_not_space [of x] set_dropWhile_not [of x "rev (dropWhile is_space s)" is_space]
      set_dropWhile_not [of x s is_space] by (simp add: TrimSpace_def)
  moreover have "set (TrimSpace s) \<subseteq> set s"
    unfolding TrimSpace_def by (metis set_dropWhileD set_rev subsetI)
  ultimately show ?thesis unfolding list_all_iff by blast
qed

lemma Split_not_Nil [simp]: "Split s c \<noteq> []"
  by (induction s) (auto split: list.splits)

lemma hd_Split: "s \<noteq> [] \<Longrightarrow> hd s \<noteq> c \<Longrightarrow> hd (Split s c) \<noteq> [] \<and> hd (hd (Split s c)) = hd s"
  by (cases s) (auto split: list.splits)

lemma Split_fold: "\<not> is_digit sep \<Longrightarrow> Split (fold_digits s) sep = map fold_digits (Split s sep)"
proof (induction s rule: fold_digits.induct)
  case (2 c s)
  obtain p ps where sp: "Split s sep = p # ps" using Split_not_Nil [of s sep] by (meson list.exhaust)
  show ?case
  proof (cases "is_digit c \<and> s \<noteq> [] \<and> is_digit (hd s)")
    case True
    then have "hd s \<noteq> sep" "c \<noteq> sep" using 2(3) by auto
    with hd_Split [of s sep] True sp have "p \<noteq> []" "is_digit (hd p)" by auto
    with 2 True sp \<open>c \<noteq> sep\<close> show ?thesis by auto
  next
    case False
    have "\<not> (is_digit c \<and> p \<noteq> [] \<and> is_digit (hd p))" if "c \<noteq> sep"
      using False sp by (cases s) (auto split: list.splits if_splits)
    with False 2 sp show ?thesis by auto
  qed
qed simp

definition digit_free_parts :: "(string \<Rightarrow> string option) \<Rightarrow> bool" where
  "digit_free_parts f \<longleftrightarrow> (\<forall>p. \<not> digit_free p \<longrightarrow> f p = None)"

lemma parts_digit_free [simp]: "digit_free_parts device_part" "digit_free_parts browser_part"
  unfolding digit_free_parts_def device_part_def browser_part_def by (auto simp: is_digit_def)

lemma first_part_fold:
  assumes "digit_free_parts f"
  shows "first_part f (map fold_digits ps) = first_part f ps"
proof (induction ps)
  case (Cons p ps)
  have "f (TrimSpace (fold_digits p)) = f (TrimSpace p)"
  proof (cases "digit_free p")
    case True
    then show ?thesis by (simp add: fold_digits_id)
  next
    case False
    then have "\<not> digit_free (TrimSpace p)" "\<not> digit_free (TrimSpace (fold_digits p))"
      by (simp_all add: digit_free_TrimSpace digit_free_fold)
    with assms show ?thesis unfolding digit_free_parts_def by metis
  qed
  with Cons show ?case by (simp split: option.split)
qed simp

lemma comma_match_fold: "digit_free_parts f \<Longrightarrow> comma_match f (fold_digits s) = comma_match f s"
  by (simp add: comma_match_def Contains_fold Split_fold first_part_fold is_digit_def)

lemma parseDevice_fold: "parseDevice (fold_digits ua) = parseDevice ua"
  unfolding parseDevice_def Let_def ToLower_fold
  by (simp add: comma_match_fold Contains_fold is_digit_def)

lemma parseBrowser_fold: "parseBrowser (fold_digits ua) = parseBrowser ua"
  unfolding parseBrowser_def Let_def ToLower_fold
  by (simp add: comma_match_fold Contains_fold is_digit_def)

text \<open>C28. Two user agents that differ only in their numbers, such as the versions of a browser before and after
  an update, have the same key unless neither browser nor device is recognised, so an update
  alone raises no alarm.\<close>

theorem user_agent_key_ignores_versions:
  assumes "fold_digits a = fold_digits b"
    and "parseDevice a \<noteq> unknownDevice \<or> parseBrowser a \<noteq> unknownBrowser"
  shows "userAgentKey a = userAgentKey b"
  using assms parseDevice_fold [of a] parseDevice_fold [of b] parseBrowser_fold [of a] parseBrowser_fold [of b]
  by (auto simp: userAgentKey_def Let_def)

theorem user_agent_key_ignores_versions_witness:
  "userAgentKey ''Mozilla/5.0 (Macintosh) Chrome/99.0'' = userAgentKey ''Mozilla/5.0 (Macintosh) Chrome/100.0''"
proof (rule user_agent_key_ignores_versions)
  show "fold_digits ''Mozilla/5.0 (Macintosh) Chrome/99.0'' = fold_digits ''Mozilla/5.0 (Macintosh) Chrome/100.0''"
    by code_simp
  show "parseDevice ''Mozilla/5.0 (Macintosh) Chrome/99.0'' \<noteq> unknownDevice \<or>
      parseBrowser ''Mozilla/5.0 (Macintosh) Chrome/99.0'' \<noteq> unknownBrowser"
    by code_simp
qed

end
