(* ===== verification/Notification_Properties.thy ===== *)
theory Notification_Properties
  imports Login_Properties
begin

text \<open>
  The three notification mails of the actions server. The interface \<^verbatim>\<open>notifier\<close> is the contract of
  their senders; what follows from it is that one event leads to at most one mail, and that the
  mail goes to the User the event is about.
\<close>

section \<open>Calls that send no mail\<close>

text \<open>
  Of the calls on the API server, the clock and the gateway, only the creation of an Email adds
  to the Emails, and it adds the one submitted.
\<close>

definition mail_law :: "'w server \<Rightarrow> ('w \<Rightarrow> email list) \<Rightarrow> bool" where
  "mail_law srv emails \<longleftrightarrow>
     (\<forall>n. silent emails (GetUser (srv_k8s srv) n)) \<and>
     (\<forall>a b m. silent emails (PatchUserStatus (srv_k8s srv) a b m)) \<and>
     (\<forall>e. silent emails (CreateEvent (srv_k8s srv) e)) \<and>
     silent emails (Now (srv_runtime srv)) \<and> silent emails (NewUUID (srv_runtime srv)) \<and>
     (\<forall>u q v. silent emails (srv_httpClient srv u q v)) \<and>
     (\<forall>e w. case run_state (CreateEmail (srv_k8s srv) e) w of (r, w') \<Rightarrow>
        (case r of None \<Rightarrow> \<exists>t. emails w' = emails w @ [e\<lparr>email_creationTimestamp := t\<rparr>]
                 | Some _ \<Rightarrow> emails w' = emails w))"

definition zitadel_mail_law :: "'w zitadel_api \<Rightarrow> ('w \<Rightarrow> email list) \<Rightarrow> bool" where
  "zitadel_mail_law Z emails \<longleftrightarrow> (\<forall>n. silent emails (GetUserByID Z n)) \<and>
     (\<forall>n. silent emails (ListSessions Z n)) \<and> (\<forall>n. silent emails (ListUserMetadata Z n))"

lemma create_email_run:
  assumes "mail_law srv emails" and "run_state (CreateEmail (srv_k8s srv) e) w = (c, w')"
  shows "case c of None \<Rightarrow> \<exists>t. emails w' = emails w @ [e\<lparr>email_creationTimestamp := t\<rparr>]
                 | Some _ \<Rightarrow> emails w' = emails w"
proof -
  from assms(1) have "\<forall>e w. case run_state (CreateEmail (srv_k8s srv) e) w of (r, w') \<Rightarrow>
        (case r of None \<Rightarrow> \<exists>t. emails w' = emails w @ [e\<lparr>email_creationTimestamp := t\<rparr>]
                 | Some _ \<Rightarrow> emails w' = emails w)"
    unfolding mail_law_def by (elim conjE) assumption
  from spec [OF spec [OF this, of e], of w] assms(2) show ?thesis by simp
qed

abbreviation no_mail :: "('w \<Rightarrow> email list) \<Rightarrow> email list \<Rightarrow> 'w server_state \<Rightarrow> bool" where
  "no_mail emails E s \<equiv> emails (st_world s) = E"

text \<open>No mail so far, or one, of high priority and addressed to the named User.\<close>

definition one_mail :: "email list \<Rightarrow> string \<Rightarrow> email list \<Rightarrow> bool" where
  "one_mail E name E' \<longleftrightarrow> E' = E \<or> (\<exists>m. E' = E @ [m] \<and> email_recipient m = UserRef name \<and>
     email_priority m = PriorityHigh)"

lemma one_mail_refl [simp]: "one_mail E n E"
  by (simp add: one_mail_def)

lemma keeps_silent_outside:
  "silent emails m \<Longrightarrow> keeps (\<lambda>s. P (emails (st_world s))) (outside m)"
  unfolding silent_def by (rule keepsI) (auto split: prod.splits, metis snd_conv)

section \<open>The senders\<close>

locale notifier =
  fixes send :: "'w server \<Rightarrow> string \<Rightarrow> ('w, go_error option) state"
    and template :: "server_config \<Rightarrow> string"
    and mail :: "'w server \<Rightarrow> user \<Rightarrow> string \<Rightarrow> email"
    and lookup_text :: "string \<Rightarrow> string" and create_text :: string
  assumes send: "send srv userID =
     (if template (srv_config srv) = [] then State_Monad.return None
      else do {
        r \<leftarrow> GetUser (srv_k8s srv) userID;
        (case r of
           Inl e \<Rightarrow> State_Monad.return (Some (wrapf (lookup_text userID) e))
         | Inr u \<Rightarrow> do {
             uuid \<leftarrow> NewUUID (srv_runtime srv);
             e \<leftarrow> CreateEmail (srv_k8s srv) (mail srv u uuid);
             State_Monad.return (map_option (wrapf create_text) e)
           })
      })"
    and recipient: "email_recipient (mail srv u uuid) = UserRef (user_name u)"
    and priority: "email_priority (mail srv u uuid) = PriorityHigh"
begin

lemma sends_one:
  assumes "mail_law srv emails" and "get_user_law (srv_k8s srv) users"
    and "run_state (send srv userID) w = (r, w')"
  shows "one_mail (emails w) userID (emails w')"
proof (cases "template (srv_config srv) = []")
  case True
  with assms(3) show ?thesis by (simp add: send)
next
  case False
  obtain g w1 where g: "run_state (GetUser (srv_k8s srv) userID) w = (g, w1)" by fastforce
  obtain i w2 where i: "run_state (NewUUID (srv_runtime srv)) w1 = (i, w2)" by fastforce
  have same: "emails w1 = emails w" "emails w2 = emails w1"
    using assms(1) g i unfolding mail_law_def silent_def by (metis snd_conv)+
  show ?thesis
  proof (cases g)
    case (Inl e)
    with assms(3) False g same show ?thesis by (simp add: send)
  next
    case (Inr u)
    then have "user_name u = userID" using get_user_run(2) [OF assms(2) g] by simp
    moreover obtain c w3 where c: "run_state (CreateEmail (srv_k8s srv) (mail srv u i)) w2 = (c, w3)" by fastforce
    moreover note create_email_run [OF assms(1) c]
    ultimately show ?thesis
      using assms(3) False g i Inr same recipient [of srv u i] priority [of srv u i]
      by (auto simp: send one_mail_def split: option.splits)
  qed
qed

lemma triple_send:
  assumes "mail_law srv emails" and "get_user_law (srv_k8s srv) users"
  shows "triple (no_mail emails E) (outside (send srv userID)) (\<lambda>_ s. one_mail E userID (emails (st_world s)))"
  by (rule tripleI) (auto split: prod.splits dest: sends_one [OF assms])

end

interpretation login_mail: notifier "\<lambda>srv u. sendSuspiciousLoginEmail srv u t ip device browser location"
  cfg_SuspiciousLoginEmailTemplate "\<lambda>srv u i. suspiciousLoginEmail srv u i t ip device browser location"
  "\<lambda>u. ''failed to get user '' @ Quote u @ '': ''" "''failed to create suspicious login Email resource: ''"
  for t ip device browser location
  by unfold_locales (simp_all add: sendSuspiciousLoginEmail_def suspiciousLoginEmail_def)

interpretation passkey_added_mail: notifier "\<lambda>srv u. sendPasskeyAddedEmail srv u t name"
  cfg_PasskeyAddedEmailTemplate "\<lambda>srv u i. passkeyAddedEmail srv u i t name"
  "\<lambda>u. ''failed to get user '' @ Quote u @ '': ''" "''failed to create passkey-added Email resource: ''"
  for t name
  by unfold_locales (simp_all add: sendPasskeyAddedEmail_def passkeyAddedEmail_def)

interpretation passkey_removed_mail: notifier "\<lambda>srv u. sendPasskeyRemovedEmail srv u t name"
  cfg_PasskeyRemovedEmailTemplate "\<lambda>srv u i. passkeyRemovedEmail srv u i t name"
  "\<lambda>u. ''failed to get User '' @ Quote u @ '': ''" "''failed to create passkey-removed Email resource: ''"
  for t name
  by unfold_locales (simp_all add: sendPasskeyRemovedEmail_def passkeyRemovedEmail_def)

section \<open>The handlers\<close>

text \<open>The law, split into the calls it is about.\<close>

lemma mail_law_silent:
  assumes "mail_law srv emails"
  shows "silent emails (GetUser (srv_k8s srv) n)" "silent emails (PatchUserStatus (srv_k8s srv) a b m)"
    "silent emails (CreateEvent (srv_k8s srv) e)" "silent emails (Now (srv_runtime srv))"
    "silent emails (NewUUID (srv_runtime srv))" "silent emails (srv_httpClient srv u q v)"
  using assms unfolding mail_law_def by auto

lemma silent_gateway: "mail_law srv emails \<Longrightarrow> silent emails (gateway_do srv url q v flds z)"
  unfolding gateway_do_def by (intro silent_bind silent_return) (rule mail_law_silent)

lemma silent_resolve:
  assumes "mail_law srv emails"
  shows "silent emails (resolveUserAgent srv ua)" and "silent emails (resolveLocation srv ip)"
  unfolding resolveUserAgent_def resolveLocation_def LookupIP_def ParseUserAgent_def
  by (intro silent_if silent_bind silent_return silent_gateway [OF assms])+

lemma handle_one_mail:
  assumes "mail_law srv emails" and "get_user_law (srv_k8s srv) users"
  shows "triple (no_mail emails E) (outside (handleSuspiciousLogin srv u t ip ua))
    (\<lambda>_ s. one_mail E u (emails (st_world s)))"
proof (rule tripleI)
  fix s a s'
  assume E: "no_mail emails E s" and run: "run_state (outside (handleSuspiciousLogin srv u t ip ua)) s = (a, s')"
  obtain d b w1 where 1: "run_state (resolveUserAgent srv ua) (st_world s) = ((d, b), w1)" by (metis surj_pair)
  obtain l w2 where 2: "run_state (resolveLocation srv ip) w1 = (l, w2)" by fastforce
  obtain c w3 where 3: "run_state (sendSuspiciousLoginEmail srv u t ip d b l) w2 = (c, w3)" by fastforce
  have "emails w2 = E"
    using E 1 2 silent_resolve [OF assms(1)] unfolding silent_def by (metis snd_conv)
  with login_mail.sends_one [OF assms 3] run 1 2 3 show "one_mail E u (emails (st_world s'))"
    by (auto simp: handleSuspiciousLogin_def)
qed

lemma apply_no_mail:
  assumes "mail_law srv emails"
  shows "keeps (no_mail emails E) (applyPendingAvatarByEmail srv u a m)"
proof -
  have store: "keeps (no_mail emails E) (State (\<lambda>s. ((), s\<lparr>st_pendingAvatars := f s\<rparr>)))" for f
    by (rule keepsI) auto
  have load: "keeps (no_mail emails E) (LoadAndDelete k)" for k
    by (rule keepsI) (auto simp: LoadAndDelete_def)
  show ?thesis
    unfolding applyPendingAvatarByEmail_def consumePendingAvatar_def patchUserAvatar_def storePendingAvatar_def Let_def
    by (intro keeps_intro keeps_silent_outside store load mail_law_silent [OF assms])
qed

lemma check_one_mail:
  assumes "mail_law srv emails" and "get_user_law (srv_k8s srv) users" and "zitadel_mail_law Z emails"
  shows "triple (no_mail emails E) (checkSession srv Z req)
    (\<lambda>_ s. one_mail E (sa_PayloadUserID req) (emails (st_world s)))"
proof -
  have z: "silent emails (GetUserByID Z n)" "silent emails (ListSessions Z n)" for n
    using assms(3) by (simp_all add: zitadel_mail_law_def)
  have final: "triple (no_mail emails E) (do {
       (if b then outside (handleSuspiciousLogin srv (sa_PayloadUserID req) t ip ua) else State_Monad.return ());
       State_Monad.return x }) (\<lambda>_ s. one_mail E (sa_PayloadUserID req) (emails (st_world s)))" for b t ip ua x
    by (rule triple_bind [where R = "\<lambda>_ s. one_mail E (sa_PayloadUserID req) (emails (st_world s))"])
      (auto intro!: triple_return handle_one_mail [OF assms(1,2)])
  show ?thesis
    unfolding checkSession_def Let_def
    by (intro final triple_intro triple_step keeps_intro keeps_silent_outside apply_no_mail z assms(1)) auto
qed

lemma record_keeps:
  assumes "mail_law srv emails"
  shows "keeps (\<lambda>s. P (emails (st_world s))) (recordUserEvent srv n reason msg)"
  unfolding recordUserEvent_def RecordEvent_def
  by (intro keeps_intro keeps_silent_outside silent_bind silent_return mail_law_silent [OF assms])

lemma notify_and_record:
  assumes "mail_law srv emails"
    and "triple (no_mail emails E) (outside send) (\<lambda>_ s. one_mail E n (emails (st_world s)))"
  shows "triple (no_mail emails E) (do { _ \<leftarrow> outside send; recordUserEvent srv n reason msg; State_Monad.return x })
    (\<lambda>_ s. one_mail E n (emails (st_world s)))"
  by (intro triple_bind [OF assms(2)] triple_step record_keeps [OF assms(1)] triple_return)

lemma passkeyName_silent:
  assumes "\<And>Z. zc = Live Z \<Longrightarrow> zitadel_mail_law Z emails"
  shows "silent emails (passkeyNameFromMetadata lib zc u t)"
  using assms by (cases zc) (auto simp: passkeyNameFromMetadata_def zitadel_mail_law_def
      intro!: silent_bind silent_return)

lemma keeps_zitadelAPI_world: "keeps (\<lambda>s. P (st_world s) \<and> Q (st_zitadelClient s)) zitadelAPI"
  by (rule keepsI) (auto simp: zitadelAPI_def)

lemma triple_read_client:
  "(\<And>c. triple (\<lambda>s. P s \<and> st_zitadelClient s = c) (f c) Q) \<Longrightarrow> triple P (State_Monad.bind zitadelAPI f) Q"
  by (auto simp: triple_def zitadelAPI_def)

text \<open>A session event leads to at most one new Email, of high priority and addressed by reference to the
  User of the event's payload.\<close>

lemma session_event_mails_only_its_user:
  assumes "mail_law srv emails" and "get_user_law (srv_k8s srv) users" and "zitadel_mail_law Z emails"
    and "st_zitadelClient s = Live Z" and "req_body r = Inr body"
    and "Unmarshal (srv_lib srv) sessionAddedRequest_fields zero_sessionAddedRequest body = Inr req"
    and "run_state (sessionAddedHandler srv r) s = (x, s')"
  shows "emails (st_world s') = emails (st_world s) \<or>
    (\<exists>m. emails (st_world s') = emails (st_world s) @ [m] \<and>
       email_recipient m = UserRef (sa_PayloadUserID req) \<and> email_priority m = PriorityHigh)"
proof -
  have "s' = s \<or> run_state (checkSession srv Z req) s = (x, s')"
    using assms(4-7) by (auto simp: sessionAddedHandler_def zitadelAPI_def split: if_splits option.splits)
  with tripleD [OF check_one_mail [OF assms(1-3)] refl] show ?thesis by (auto simp: one_mail_def)
qed

text \<open>An event about an enrolled or a removed passkey leads to at most one new Email, addressed by
  reference to the owner of the passkey, which is the aggregate of the event and not the user who
  triggered it.\<close>

lemma passkey_events_mail_only_the_owner:
  assumes "mail_law srv emails" and "get_user_law (srv_k8s srv) users"
    and "\<And>Z. st_zitadelClient s = Live Z \<Longrightarrow> zitadel_mail_law Z emails"
    and "req_body r = Inr body"
    and "Unmarshal (srv_lib srv) passkeyAddedRequest_fields zero_passkeyAddedRequest body = Inr req"
    and "h \<in> {passkeyAddedHandler, passkeyRemovedHandler}" and "run_state (h srv r) s = (x, s')"
  shows "emails (st_world s') = emails (st_world s) \<or>
    (\<exists>m. emails (st_world s') = emails (st_world s) @ [m] \<and>
       email_recipient m = UserRef (pr_AggregateID req) \<and> email_priority m = PriorityHigh)"
proof -
  let ?E = "emails (st_world s)" and ?id = "pr_AggregateID req"
  note laws = assms(1,2)
  have added: "triple (no_mail emails ?E) (passkeyAddedHandler srv r) (\<lambda>_ s. one_mail ?E ?id (emails (st_world s)))"
    by (auto simp: passkeyAddedHandler_def assms(4,5)
        intro!: notify_and_record passkey_added_mail.triple_send laws triple_intro)
  have removed: "triple (\<lambda>t. no_mail emails ?E t \<and> st_zitadelClient t = st_zitadelClient s)
      (passkeyRemovedHandler srv r) (\<lambda>_ s. one_mail ?E ?id (emails (st_world s)))"
  proof -
    have weak: "triple P m Q \<Longrightarrow> triple (\<lambda>t. P t \<and> R t) m Q" for P m Q and R :: "'a server_state \<Rightarrow> bool"
      by (auto simp: triple_def)
    have name: "triple (\<lambda>t. no_mail emails ?E t \<and> st_zitadelClient t = st_zitadelClient s \<and> st_zitadelClient t = c)
        (State_Monad.bind (outside (passkeyNameFromMetadata lib c ?id tok)) f)
        (\<lambda>_ s. one_mail ?E ?id (emails (st_world s)))"
      if "\<And>a. triple (no_mail emails ?E) (f a) (\<lambda>_ s. one_mail ?E ?id (emails (st_world s)))" for lib c tok f
    proof (cases "c = st_zitadelClient s")
      case True
      with assms(3) have "silent emails (passkeyNameFromMetadata lib c ?id tok)" by (intro passkeyName_silent) simp
      with that show ?thesis
        by (intro weak triple_step keeps_silent_outside)
    next
      case False
      then show ?thesis by (auto simp: triple_def)
    qed
    show ?thesis
      by (auto simp: passkeyRemovedHandler_def assms(4,5)
          intro!: triple_read_client name notify_and_record passkey_removed_mail.triple_send laws triple_intro)
  qed
  from assms(6,7) have "one_mail ?E ?id (emails (st_world s'))"
    using tripleD [OF added refl, of x s'] tripleD [OF removed, of s x s'] by auto
  then show ?thesis by (simp add: one_mail_def)
qed

text \<open>C29. An event of a session or of a passkey leads to at most one new Email, of high priority and addressed by
  reference to one User: that of the payload of the session event, or the owner of the enrolled or removed
  passkey, who is the aggregate of the event and not the user who triggered it.\<close>

theorem events_mail_only_their_user:
  assumes "mail_law srv emails" and "get_user_law (srv_k8s srv) users"
    and "\<And>Z. st_zitadelClient s = Live Z \<Longrightarrow> zitadel_mail_law Z emails" and "req_body r = Inr body"
  shows "(\<forall>req x s'. Unmarshal (srv_lib srv) sessionAddedRequest_fields zero_sessionAddedRequest body = Inr req \<longrightarrow>
      run_state (sessionAddedHandler srv r) s = (x, s') \<longrightarrow> emails (st_world s') = emails (st_world s) \<or>
      (\<exists>m. emails (st_world s') = emails (st_world s) @ [m] \<and>
         email_recipient m = UserRef (sa_PayloadUserID req) \<and> email_priority m = PriorityHigh)) \<and>
    (\<forall>req h x s'. Unmarshal (srv_lib srv) passkeyAddedRequest_fields zero_passkeyAddedRequest body = Inr req \<longrightarrow>
      h \<in> {passkeyAddedHandler, passkeyRemovedHandler} \<longrightarrow> run_state (h srv r) s = (x, s') \<longrightarrow>
      emails (st_world s') = emails (st_world s) \<or>
      (\<exists>m. emails (st_world s') = emails (st_world s) @ [m] \<and>
         email_recipient m = UserRef (pr_AggregateID req) \<and> email_priority m = PriorityHigh))"
proof (intro conjI allI impI)
  fix req x s'
  assume u: "Unmarshal (srv_lib srv) sessionAddedRequest_fields zero_sessionAddedRequest body = Inr req"
    and run: "run_state (sessionAddedHandler srv r) s = (x, s')"
  show "emails (st_world s') = emails (st_world s) \<or> (\<exists>m. emails (st_world s') = emails (st_world s) @ [m] \<and>
      email_recipient m = UserRef (sa_PayloadUserID req) \<and> email_priority m = PriorityHigh)"
  proof (cases "st_zitadelClient s")
    case (Live Z)
    from session_event_mails_only_its_user [OF assms(1,2) assms(3) [OF Live] Live assms(4) u run] show ?thesis .
  qed (use run assms(4) u in \<open>auto simp: sessionAddedHandler_def zitadelAPI_def split: if_splits option.splits\<close>)
qed (rule passkey_events_mail_only_the_owner [OF assms(1,2,3,4)])

section \<open>The laws can hold\<close>

lemma mem_mail_law: "mail_law (mem_server tab) mem_emails"
  unfolding mail_law_def silent_def mem_server_def mem_kube_def mem_runtime_def
  by (auto split: option.splits)

lemma down_mail_law: "zitadel_mail_law (down_api e) emails"
  by (simp add: zitadel_mail_law_def silent_def down_api_def)

lemma mem_server_users: "get_user_law (srv_k8s (mem_server tab)) mem_find"
  using mem_get_user_law by (simp add: mem_server_def)

definition passkey_body :: "(string \<times> json) list" where
  "passkey_body = [(''event_type'', JStr ''user.human.passwordless.token.verified''), (''aggregateID'', JStr ''u''),
     (''userID'', JStr ''admin'')]"

definition owner_world :: mem_world where
  "owner_world = empty_world\<lparr>mem_users := [NewUser ''u'' ''u@x'' [] []]\<rparr>"

theorem events_mail_only_their_user_witness:
  "\<exists>x s' m. run_state (passkeyAddedHandler (mem_server [(''b'', JObj passkey_body)]) (signed_post ''b''))
      (NewServer NilInterface owner_world) = (x, s') \<and> mem_emails (st_world s') = [m] \<and>
      email_recipient m = UserRef ''u'' \<and> email_priority m = PriorityHigh"
proof -
  let ?srv = "mem_server [(''b'', JObj passkey_body)]" and ?s = "NewServer NilInterface owner_world"
  have u: "Unmarshal (srv_lib ?srv) passkeyAddedRequest_fields zero_passkeyAddedRequest ''b'' =
      Inr (zero_passkeyAddedRequest\<lparr>pr_EventType := ''user.human.passwordless.token.verified'',
        pr_AggregateID := ''u'', pr_UserID := ''admin''\<rparr>)"
    by (simp add: mem_server_def table_lib_def passkey_body_def json_decode_simps passkeyAddedRequest_fields_def
        zero_passkeyAddedRequest_def)
  have sig: "signature_error ?srv (signed_post ''b'') ''b'' = None"
    by (simp add: demo_simps)
  obtain x s' where run: "run_state (passkeyAddedHandler ?srv (signed_post ''b'')) ?s = (x, s')" by fastforce
  have "mem_emails (st_world s') \<noteq> []"
    using run u sig
    by (auto simp: passkeyAddedHandler_def NewServer_def zero_passkeyAddedRequest_def EventTypePasskeyVerified_def
        sendPasskeyAddedEmail_def mem_server_def NewServerConfig_def mem_kube_def mem_runtime_def owner_world_def
        empty_world_def mem_find_def NewUser_def recordUserEvent_def RecordEvent_def)
  moreover have "mem_emails (st_world ?s) = []" by (simp add: NewServer_def owner_world_def empty_world_def)
  moreover have "zitadel_mail_law Z mem_emails" if "st_zitadelClient ?s = Live Z" for Z
    using that by (simp add: NewServer_def)
  moreover have "req_body (signed_post ''b'') = Inr ''b''" by (simp add: signed_post_def)
  ultimately show ?thesis
    using events_mail_only_their_user [where srv = ?srv and s = ?s and r = "signed_post ''b''" and body = "''b''",
        OF mem_mail_law mem_server_users, THEN conjunct2, rule_format, of _ passkeyAddedHandler x s'] u run
    by fastforce
qed

end
