(* ===== verification/Mail_Properties.thy ===== *)
theory Mail_Properties
  imports Webhook_Mail Notification_Properties
begin

text \<open>
  What holds of the mail endpoints: what has to be true before a code is minted or a mail is sent,
  the budget, where a code can appear, and that a repeated request sends no second mail.
\<close>

section \<open>Destinations and callers\<close>

lemma originAllowed_iff:
  "originAllowed lib u origins \<longleftrightarrow> (\<exists>o' \<in> set origins. \<exists>a. ParseURL lib o' = Some a \<and>
     EqualFold (url_scheme u) (url_scheme a) \<and> EqualFold (url_host u) (url_host a))"
  by (induction origins) (auto split: option.split)

lemma approved_iff:
  "approved lib origins returnTo = Some u \<longleftrightarrow> ParseURL lib returnTo = Some u \<and>
     url_scheme u \<noteq> [] \<and> url_host u \<noteq> [] \<and> url_user u = None \<and>
     (\<exists>o' \<in> set origins. \<exists>a. ParseURL lib o' = Some a \<and>
        EqualFold (url_scheme u) (url_scheme a) \<and> EqualFold (url_host u) (url_host a))"
  by (auto simp: approved_def returnToUsable_def originAllowed_iff split: option.splits if_splits)

lemma names_match_iff:
  "names_match leaf names \<longleftrightarrow> (\<exists>n \<in> set names. cert_common_name leaf = n \<or> n \<in> set (cert_uris leaf))"
  by (induction names) auto

lemma NormalizeClientNames_set:
  "set (NormalizeClientNames raw) = TrimSpace ` set raw - {[]}"
  by (induction raw) auto

text \<open>With the configured names normalised at the start, a caller is admitted when all of them are blank, and otherwise
  only when the common name or a URI of its leaf certificate is, byte for byte, one of them.\<close>

lemma caller_admitted_iff:
  "callerAllowed r (NormalizeClientNames raw) \<longleftrightarrow>
     filter (\<lambda>n. TrimSpace n \<noteq> []) raw = [] \<or>
     (\<exists>leaf rest. req_peer_certificates r = Some (leaf # rest) \<and>
        (\<exists>n \<in> set raw. TrimSpace n \<noteq> [] \<and>
           (cert_common_name leaf = TrimSpace n \<or> TrimSpace n \<in> set (cert_uris leaf))))"
proof -
  have "NormalizeClientNames raw = [] \<longleftrightarrow> filter (\<lambda>n. TrimSpace n \<noteq> []) raw = []"
    by (induction raw) auto
  then show ?thesis
    by (auto simp: callerAllowed_def leafCert_def names_match_iff NormalizeClientNames_set
        split: option.splits list.splits)
qed

section \<open>The gates of account recovery\<close>

lemma silent_userLoop:
  assumes "\<And>n. silent view (GetUser (ms_k8s srv) n)" and "\<And>d. silent view (ms_wait srv d)"
  shows "silent view (userLoop srv i b k left)"
proof (induction left arbitrary: k)
  case (Suc left)
  have c: "silent view (case c of Some e \<Rightarrow> State_Monad.return (Inl e) | None \<Rightarrow> userLoop srv i b (Suc k) left)" for c
    using Suc by (cases c) (auto intro: silent_return)
  have "silent view (case r of Inr u \<Rightarrow> State_Monad.return (Inr u)
      | Inl e \<Rightarrow> if \<not> IsNotFound e then State_Monad.return (Inl e)
          else if left = 0 then State_Monad.return (Inl e)
          else do { c \<leftarrow> ms_wait srv (linear_wait b k);
            (case c of Some e \<Rightarrow> State_Monad.return (Inl e) | None \<Rightarrow> userLoop srv i b (Suc k) left) })" for r
    by (cases r) (auto intro!: silent_return silent_bind assms c)
  then show ?case unfolding userLoop.simps by (intro silent_bind assms)
qed (simp add: silent_return)

lemma silent_userWithRetry:
  "(\<And>n. silent view (GetUser (ms_k8s srv) n)) \<Longrightarrow> (\<And>d. silent view (ms_wait srv d)) \<Longrightarrow>
   silent view (userWithRetry srv i a b)"
  unfolding userWithRetry_def Let_def by (rule silent_userLoop)

lemma recover_gate:
  assumes "\<And>n l. silent view (ListEmails (ms_k8s srv) n l)" and "silent view (Now (ms_runtime srv))"
    and "run_state (recover srv mint cfg u userID returnTo) w = (x, w')"
    and "view w' \<noteq> view w \<or> reply_status x = 200"
  shows "\<exists>w1. run_state (TooSoon (ms_runtime srv) (ms_k8s srv) (ar_NotificationNamespace cfg) userID ''self''
    (ar_Cooldown cfg) (ar_MaxPerHour cfg)) w = (Inr False, w1)"
proof -
  obtain t w1 where t: "run_state (TooSoon (ms_runtime srv) (ms_k8s srv) (ar_NotificationNamespace cfg) userID
      RequestedBySelf (ar_Cooldown cfg) (ar_MaxPerHour cfg)) w = (t, w1)" by fastforce
  have v: "view w1 = view w" using silent_run [OF silent_TooSoon t] assms(1,2) by blast
  have "t = Inr False"
    using assms(3,4) t v by (cases t) (auto simp: recover_def split: bool.splits)
  with t show ?thesis by (auto simp: RequestedBySelf_def)
qed

text \<open>C2. A recovery request that mints a code, sends a mail or has any other visible effect, or that is answered
  with success, came from an admitted caller, carried no code of its own, named a destination
  whose scheme and host are those of a configured origin and that hides no other host behind user
  information, was about a User whose address is verified, and was within the mail budget.\<close>

theorem recovery_is_gated:
  assumes "\<And>n. silent view (GetUser (ms_k8s srv) n)" and "\<And>d. silent view (ms_wait srv d)"
    and "\<And>n l. silent view (ListEmails (ms_k8s srv) n l)" and "silent view (Now (ms_runtime srv))"
    and "run_state (AccountRecovery_ServeHTTP srv mint cfg r) w = (x, w')"
    and "view w' \<noteq> view w \<or> reply_status x = 200"
  shows "callerAllowed r (ar_AllowedClientNames cfg) \<and>
    (\<exists>req returnTo u w1 w2.
       decode_capped (ms_lib srv) accountRecoveryRequest_fields
         \<lparr>rr_UserID = [], rr_ReturnTo = [], rr_RequestedBy = [], rr_CodeID = [], rr_Code = []\<rparr> r = Inr req \<and>
       rr_CodeID req = [] \<and> rr_Code req = [] \<and> rr_RequestedBy req = ''self'' \<and>
       ParseURL (ms_lib srv) (rr_ReturnTo req) = Some returnTo \<and> url_user returnTo = None \<and>
       (\<exists>o' \<in> set (ar_AllowedOrigins cfg). \<exists>a. ParseURL (ms_lib srv) o' = Some a \<and>
          EqualFold (url_scheme returnTo) (url_scheme a) \<and> EqualFold (url_host returnTo) (url_host a)) \<and>
       run_state (userWithRetry srv (rr_UserID req) (ar_UserLookupAttempts cfg) (ar_UserLookupBaseWait cfg)) w = (Inr u, w1) \<and>
       us_emailVerification (user_status u) = Verified \<and>
       run_state (TooSoon (ms_runtime srv) (ms_k8s srv) (ar_NotificationNamespace cfg) (rr_UserID req) ''self''
         (ar_Cooldown cfg) (ar_MaxPerHour cfg)) w1 = (Inr False, w2))"
proof -
  have m405: "reply_status method_not_allowed = 405" by (simp add: method_not_allowed_def http_Error_with_def)
  have ue: "reply_status (user_error e) \<noteq> 200" for e by (simp add: user_error_def)
  from assms(5,6) obtain req returnTo where
    caller: "callerAllowed r (ar_AllowedClientNames cfg)"
    and req: "decode_capped (ms_lib srv) accountRecoveryRequest_fields
         \<lparr>rr_UserID = [], rr_ReturnTo = [], rr_RequestedBy = [], rr_CodeID = [], rr_Code = []\<rparr> r = Inr req"
      "rr_CodeID req = []" "rr_Code req = []" "rr_RequestedBy req = ''self''"
      "approved (ms_lib srv) (ar_AllowedOrigins cfg) (rr_ReturnTo req) = Some returnTo"
    and rest: "run_state (do {
            usr \<leftarrow> userWithRetry srv (rr_UserID req) (ar_UserLookupAttempts cfg) (ar_UserLookupBaseWait cfg);
            (case usr of
               Inl e \<Rightarrow> State_Monad.return (user_error e)
             | Inr u \<Rightarrow>
                 if \<not> IsVerified (Some u)
                 then State_Monad.return
                   (http_Error ''email address is not verified'' StatusUnprocessableEntity)
                 else recover srv mint cfg u (rr_UserID req) returnTo) }) w = (x, w')"
    by (auto simp: AccountRecovery_ServeHTTP_def m405 RequestedBySelf_def split: if_splits sum.splits option.splits)
  obtain usr w1 where look: "run_state (userWithRetry srv (rr_UserID req) (ar_UserLookupAttempts cfg)
      (ar_UserLookupBaseWait cfg)) w = (usr, w1)" by fastforce
  have v: "view w1 = view w" using silent_run [OF silent_userWithRetry [OF assms(1,2)] look] .
  obtain u where u: "usr = Inr u" "IsVerified (Some u)"
      "run_state (recover srv mint cfg u (rr_UserID req) returnTo) w1 = (x, w')"
    using rest look v assms(6) ue by (cases usr) (auto split: if_splits)
  from recover_gate [where view = view, OF assms(3,4) u(3)] assms(6) v obtain w2 where
    "run_state (TooSoon (ms_runtime srv) (ms_k8s srv) (ar_NotificationNamespace cfg) (rr_UserID req) ''self''
         (ar_Cooldown cfg) (ar_MaxPerHour cfg)) w1 = (Inr False, w2)" by auto
  with caller req look u(1,2) show ?thesis
    unfolding approved_iff by (auto simp: IsVerified_def)
qed

text \<open>A concrete request: a verified User, one allowed origin, a budget of five mails an hour.\<close>

definition demo_url :: url where
  "demo_url = \<lparr>url_scheme = ''https'', url_user = None, url_host = ''a'', url_path = [], url_rawQuery = [], url_fragment = []\<rparr>"

definition recovery_server :: "mem_world mail_server" where
  "recovery_server = \<lparr>ms_k8s = mem_kube,
     ms_lib = (table_lib [(''b'', JObj [(''userId'', JStr ''u''), (''returnTo'', JStr ''r''), (''requestedBy'', JStr ''self'')])])
       \<lparr>ParseURL := (\<lambda>s. Some demo_url)\<rparr>,
     ms_runtime = mem_runtime, ms_wait = (\<lambda>d. State_Monad.return None)\<rparr>"

definition recovery_config :: account_recovery_config where
  "recovery_config = \<lparr>ar_TemplateName = ''t'', ar_NotificationNamespace = ''ns'', ar_AllowedOrigins = [''o''],
     ar_ExpiryMinutes = 60, ar_AllowedClientNames = [], ar_UserLookupAttempts = 1, ar_UserLookupBaseWait = 0,
     ar_Cooldown = 120, ar_MaxPerHour = 5\<rparr>"

definition verified_world :: mem_world where
  "verified_world = empty_world\<lparr>mem_users := [set_verification True (NewUser ''u'' ''u@x'' [] [])]\<rparr>"

definition demo_mint :: "string \<Rightarrow> (mem_world, go_error + string \<times> string) state" where
  "demo_mint u = State_Monad.return (Inr (''id'', ''code''))"

lemma recovery_demo_silent:
  "silent mem_emails (GetUser (ms_k8s recovery_server) n)" "silent mem_emails (ms_wait recovery_server d)"
  "silent mem_emails (ListEmails (ms_k8s recovery_server) n l)" "silent mem_emails (Now (ms_runtime recovery_server))"
  by (simp_all add: silent_def recovery_server_def mem_kube_def mem_runtime_def)

lemma recovery_demo_user:
  "run_state (userWithRetry recovery_server ''u'' 1 0) verified_world =
     (Inr (set_verification True (NewUser ''u'' ''u@x'' [] [])), verified_world)"
  by (simp add: userWithRetry_def recovery_server_def mem_kube_def mem_find_def verified_world_def NewUser_def
      set_verification_def)

lemma recovery_demo_run:
  "\<exists>h b w'. run_state (AccountRecovery_ServeHTTP recovery_server demo_mint recovery_config (signed_post ''b'')) verified_world =
     (Reply 200 h b, w')"
proof -
  have d: "decode_capped (ms_lib recovery_server) accountRecoveryRequest_fields
      \<lparr>rr_UserID = [], rr_ReturnTo = [], rr_RequestedBy = [], rr_CodeID = [], rr_Code = []\<rparr> (signed_post ''b'') =
      Inr \<lparr>rr_UserID = ''u'', rr_ReturnTo = ''r'', rr_RequestedBy = ''self'', rr_CodeID = [], rr_Code = []\<rparr>"
    by (simp add: decode_capped_def recovery_server_def table_lib_def json_decode_simps accountRecoveryRequest_fields_def
        maxRequestBytes_def)
  have a: "approved (ms_lib recovery_server) [''o''] ''r'' = Some demo_url"
    by (simp add: approved_iff recovery_server_def table_lib_def demo_url_def)
  have t: "run_state (TooSoon (ms_runtime recovery_server) (ms_k8s recovery_server) ''ns'' ''u'' ''self'' 120 5) verified_world =
      (Inr False, verified_world)"
    by (simp add: TooSoon_def recovery_server_def mem_kube_def mem_runtime_def verified_world_def empty_world_def)
  have c: "run_state (CreateEmail (ms_k8s recovery_server) m) verified_world =
      (None, verified_world\<lparr>mem_emails := [m\<lparr>email_creationTimestamp := 0\<rparr>]\<rparr>)" for m
    by (simp add: recovery_server_def mem_kube_def verified_world_def empty_world_def)
  have v: "IsVerified (Some (set_verification True (NewUser ''u'' ''u@x'' [] [])))"
    by (simp add: IsVerified_def Desired_def)
  show ?thesis
    using d a t c v recovery_demo_user
    by (simp add: AccountRecovery_ServeHTTP_def recovery_config_def callerAllowed_def RequestedBySelf_def
        recover_def demo_mint_def)
qed

theorem recovery_is_gated_witness:
  "\<exists>u w1. run_state (userWithRetry recovery_server ''u'' 1 0) verified_world = (Inr u, w1) \<and>
     us_emailVerification (user_status u) = Verified"
proof -
  obtain h b w' where run: "run_state (AccountRecovery_ServeHTTP recovery_server demo_mint recovery_config (signed_post ''b''))
      verified_world = (Reply 200 h b, w')" using recovery_demo_run by blast
  have d: "decode_capped (ms_lib recovery_server) accountRecoveryRequest_fields
      \<lparr>rr_UserID = [], rr_ReturnTo = [], rr_RequestedBy = [], rr_CodeID = [], rr_Code = []\<rparr> (signed_post ''b'') =
      Inr \<lparr>rr_UserID = ''u'', rr_ReturnTo = ''r'', rr_RequestedBy = ''self'', rr_CodeID = [], rr_Code = []\<rparr>"
    by (simp add: decode_capped_def recovery_server_def table_lib_def json_decode_simps accountRecoveryRequest_fields_def
        maxRequestBytes_def)
  from recovery_is_gated [where view = mem_emails, OF recovery_demo_silent run] d show ?thesis
    by (auto simp: recovery_config_def)
qed

section \<open>The budget\<close>

text \<open>The budget check asks for the Emails of this User and this trigger only; it reports that it is too soon
  exactly when one of them is younger than the cooldown, or when as many of them as the hourly cap
  are younger than an hour; a part of the check with no positive limit is off, and an unreadable
  list is an error and never an approval.\<close>

lemma too_soon_budget:
  assumes "cooldown > 0 \<or> maxPerHour > 0"
    and "run_state (ListEmails K ns [(''identity.miloapis.com/user'', userID),
      (''identity.miloapis.com/recovery-requested-by'', by)]) w = (sent, w1)"
    and "run_state (Now rt) w1 = (now, w2)"
  shows "run_state (TooSoon rt K ns userID by cooldown maxPerHour) w =
    (case sent of
       Inl e \<Rightarrow> (Inl (wrapf ''list recovery emails for rate limiting: '' e), w1)
     | Inr es \<Rightarrow>
        (Inr ((cooldown > 0 \<and> (\<exists>e \<in> set es. time_Sub now (email_creationTimestamp e) < cooldown)) \<or>
              (maxPerHour > 0 \<and>
               maxPerHour \<le> int (length (filter (\<lambda>e. time_Sub now (email_creationTimestamp e) < 3600 * Second) es)))), w2))"
proof -
  have "filter (recent now capWindow) es =
      filter (\<lambda>e. time_Sub now (email_creationTimestamp e) < 3600 * Second) es" for es
    by (simp add: recent_def [abs_def] capWindow_def)
  with assms show ?thesis
    by (auto simp: TooSoon_def LabelUser_def LabelRequestedBy_def count_recent_eq recent_def [of _ cooldown]
        split: sum.split)
qed

lemma too_soon_budget_example:
  "run_state (TooSoon mem_runtime mem_kube ''ns'' ''u'' ''self'' 120 5) verified_world = (Inr False, verified_world)"
  using too_soon_budget [of 120 5 mem_kube "''ns''" "''u''" "''self''" verified_world "Inr []" verified_world
      mem_runtime 0 verified_world]
  by (simp add: mem_kube_def mem_runtime_def verified_world_def empty_world_def)

section \<open>Where the code appears\<close>

lemma action_query_not_Nil: "action_query base userID codeID \<noteq> []"
proof
  assume "action_query base userID codeID = []"
  then have "values_of (ParseQuery []) ''userId'' = [userID]"
    using action_query_values [of base userID codeID "''userId''"] by simp
  then show False by (simp add: ParseQuery_def parse_segment_def values_of_def)
qed

text \<open>C30. In the recovery mail the code is the value of the variable Code and the fragment of the variable ActionUrl, and
  nothing else of the mail depends on it: name, labels, recipient and the link up to its fragment
  are the same for every code. The query of the link holds the two identifiers, and the fragment
  decodes to the code byte for byte.\<close>

theorem recovery_mail_confines_code:
  "\<exists>link query.
     (\<forall>code. recovery_mail lib cfg u userID returnTo codeID code =
        (recovery_mail lib cfg u userID returnTo codeID [])\<lparr>email_variables :=
          [(''UserName'', display_name u), (''Code'', code),
           (''ActionUrl'', link @ ''?'' @ query @ ''#'' @ encode_pair ''code'' code),
           (''ExpiryMinutes'', Itoa (expiry_minutes (ar_ExpiryMinutes cfg)))]\<rparr> \<and>
       values_of (ParseQuery (encode_pair ''code'' code)) ''code'' = [code]) \<and>
     values_of (ParseQuery query) ''userId'' = [userID] \<and> values_of (ParseQuery query) ''codeId'' = [codeID] \<and>
     values_of (ParseQuery query) ''code'' = values_of (ParseQuery (url_rawQuery returnTo)) ''code''"
proof -
  let ?link = "URLPrefix lib (url_scheme returnTo) (url_user returnTo) (url_host returnTo) (url_path returnTo)"
  let ?q = "action_query returnTo userID codeID"
  have url: "ActionURL lib returnTo userID codeID code = ?link @ ''?'' @ ?q @ ''#'' @ encode_pair ''code'' code" for code
    by (simp add: ActionURL_def URLString_def Encode_code action_query_not_Nil)
  have dec: "values_of (ParseQuery (encode_pair ''code'' code)) ''code'' = [code]" for code
    using ParseQuery_Encode [of "[(''code'', [code])]" "''code''"] by (simp add: Encode_code values_of_def)
  show ?thesis
    by (rule exI [of _ ?link], rule exI [of _ ?q])
      (simp add: recovery_mail_def Build_def url dec action_query_values)
qed

section \<open>Repeated requests\<close>

text \<open>
  The API server stores an Email under a name once: a create of a name that is taken stores nothing
  and says so, and only then.
\<close>

definition unique_email_law :: "'w kube \<Rightarrow> ('w \<Rightarrow> email list) \<Rightarrow> bool" where
  "unique_email_law K emails \<longleftrightarrow>
     (\<forall>m w r w'. run_state (CreateEmail K m) w = (r, w') \<longrightarrow>
        (case r of
           None \<Rightarrow> email_name m \<notin> email_name ` set (emails w) \<and>
                    (\<exists>t. emails w' = emails w @ [m\<lparr>email_creationTimestamp := t\<rparr>])
         | Some e \<Rightarrow> emails w' = emails w \<and> (IsAlreadyExists e \<longrightarrow> email_name m \<in> email_name ` set (emails w)) \<and>
             (email_name m \<in> email_name ` set (emails w) \<longrightarrow> IsAlreadyExists e)))"

lemma unique_email_run:
  assumes "unique_email_law K emails" and "run_state (CreateEmail K m) w = (r, w')"
  shows "r = None \<Longrightarrow> email_name m \<notin> email_name ` set (emails w) \<and> email_name m \<in> email_name ` set (emails w')"
    and "r = Some e \<Longrightarrow> emails w' = emails w \<and> (IsAlreadyExists e \<longleftrightarrow> email_name m \<in> email_name ` set (emails w))"
  using assms unfolding unique_email_law_def by (fastforce split: option.splits)+


lemma mem_unique_email_law: "unique_email_law mem_kube mem_emails"
  unfolding unique_email_law_def mem_kube_def
  by (auto simp: already_exists_def IsAlreadyExists_def image_iff split: if_splits) metis+

definition demo_verification :: emailVerificationRequest where
  "demo_verification = \<lparr>vr_UserID = ''u'', vr_Code = ''c'', vr_ReturnTo = ''r''\<rparr>"

definition verification_config :: email_verification_config where
  "verification_config = \<lparr>ev_TemplateName = ''t'', ev_NotificationNamespace = ''ns'', ev_AllowedOrigins = [''o''],
     ev_ExpiryMinutes = 60, ev_AllowedClientNames = [], ev_UserLookupAttempts = 1, ev_UserLookupBaseWait = 0\<rparr>"


section \<open>The user lookup\<close>

interpretation mail_lookup: polling "GetUser (ms_k8s srv) i" "\<lambda>k. ms_wait srv (linear_wait baseWait k)"
  "userLoop srv i baseWait" for srv :: "'w mail_server" and i baseWait
  by unfold_locales (rule state.expand, simp add: fun_eq_iff split: prod.split sum.split)

text \<open>The lookup of the mail endpoints returns the outcome of its first attempt that finds the User or fails otherwise
  than with not-found, and the outcome of its last attempt when all before it find nothing, unless
  the request is cancelled meanwhile.\<close>

lemma userWithRetry_settles:
  assumes "k < nat (max 1 attempts)"
    and "\<forall>j<k. poll_misses (GetUser (ms_k8s srv) i) (\<lambda>j. ms_wait srv (linear_wait (max 0 baseWait) j)) w j"
    and "run_state (GetUser (ms_k8s srv) i) (poll_world (GetUser (ms_k8s srv) i)
      (\<lambda>j. ms_wait srv (linear_wait (max 0 baseWait) j)) w k) = (r, w')"
    and "Suc k = nat (max 1 attempts) \<or> (case r of Inl e \<Rightarrow> \<not> IsNotFound e | Inr _ \<Rightarrow> True)"
  shows "run_state (userWithRetry srv i attempts baseWait) w = (r, w')"
proof -
  have "userWithRetry srv i attempts baseWait = userLoop srv i (max 0 baseWait) 0 (nat (max 1 attempts))"
    by (simp add: userWithRetry_def max_def)
  with mail_lookup.settles [OF assms] show ?thesis by simp
qed

end

