(* ===== verification/Token_Review.thy ===== *)
theory Token_Review
  imports Go_Json Milo_Api
begin

text \<open>
  pkg/token/introspector.go, pkg/private-key and the authentication webhook of internal/webhook
  (webhook.go, response.go, http.go): a Kubernetes TokenReview is answered from what Zitadel's
  introspection endpoint says of the token. The assertion the introspector signs for itself is
  cached; the cache is its state.
\<close>

section \<open>Introspection data\<close>

record introspection_data =
  id_Active :: bool
  id_Sub :: string
  id_Email :: string
  id_Username :: string
  id_ClientID :: string
  id_EmailVerified :: bool

definition introspection_fields :: "(string \<times> introspection_data decoder) list" where
  "introspection_fields = [
     (''active'', json_bool (\<lambda>v r. r\<lparr>id_Active := v\<rparr>)),
     (''sub'', json_string (\<lambda>v r. r\<lparr>id_Sub := v\<rparr>)),
     (''email'', json_string (\<lambda>v r. r\<lparr>id_Email := v\<rparr>)),
     (''username'', json_string (\<lambda>v r. r\<lparr>id_Username := v\<rparr>)),
     (''client_id'', json_string (\<lambda>v r. r\<lparr>id_ClientID := v\<rparr>)),
     (''email_verified'', json_bool (\<lambda>v r. r\<lparr>id_EmailVerified := v\<rparr>))]"

definition zero_introspection :: introspection_data where
  "zero_introspection = \<lparr>id_Active = False, id_Sub = [], id_Email = [], id_Username = [], id_ClientID = [],
     id_EmailVerified = False\<rparr>"

definition EffectiveUsername :: "introspection_data \<Rightarrow> go_error + string" where
  "EffectiveUsername d =
     (if id_Email d \<noteq> [] then Inr (id_Email d)
      else if id_ClientID d \<noteq> [] then Inr (id_ClientID d)
      else if id_Username d \<noteq> [] then Inr (id_Username d)
      else Inl (errorf ''none of email, client_id or username claims found''))"

section \<open>The introspector\<close>

text \<open>
  The libraries it calls: file system, PEM and RSA parsing, JWT signing (of the claims, with the key
  identifier in the header), the check of the request URL, the HTTP client, and the text of a
  duration. A private key is represented by the PEM text it was parsed from.
\<close>

record 'w token_lib =
  tl_lib :: golib
  tl_ReadFile :: "string \<Rightarrow> go_error + string"
  tl_ParsePEM :: "string \<Rightarrow> string option"
  tl_ParsePKCS8 :: "string \<Rightarrow> (string + string) option"
  tl_ParsePKCS1 :: "string \<Rightarrow> go_error + string"
  tl_SignJWT :: "string \<Rightarrow> string \<Rightarrow> (string \<times> json) list \<Rightarrow> go_error + string"
  tl_NewRequest :: "string \<Rightarrow> go_error option"
  tl_Post :: "string \<Rightarrow> string \<Rightarrow> ('w, go_error + nat \<times> string \<times> string) state"
  tl_now :: "('w, int) state"
  tl_DurationString :: "int \<Rightarrow> string"

record introspector =
  in_privateKey :: string
  in_clientID :: string
  in_keyID :: string
  in_introspectionURL :: string
  in_domain :: string
  in_jwtExpiration :: int
  in_jwtRefreshBefore :: int

record assertion_cache =
  cachedAssertion :: string
  assertionExpiresAt :: int

type_synonym ('w, 'a) cached_action = "(assertion_cache \<times> 'w, 'a) state"

definition on_world :: "('w, 'a) state \<Rightarrow> ('w, 'a) cached_action" where
  "on_world m = State (\<lambda>(c, w). case run_state m w of (a, w') \<Rightarrow> (a, (c, w')))"

definition get_cache :: "('w, assertion_cache) cached_action" where
  "get_cache = State (\<lambda>(c, w). (c, (c, w)))"

definition put_cache :: "assertion_cache \<Rightarrow> ('w, unit) cached_action" where
  "put_cache c = State (\<lambda>(_, w). ((), (c, w)))"

definition parsePEMPrivateKey :: "'w token_lib \<Rightarrow> string \<Rightarrow> go_error + string" where
  "parsePEMPrivateKey L pem =
     (case tl_ParsePEM L pem of
        None \<Rightarrow> Inl (errorf ''failed to parse PEM block'')
      | Some block \<Rightarrow>
         (case tl_ParsePKCS8 L block of
            Some (Inr key) \<Rightarrow> Inr key
          | Some (Inl typ) \<Rightarrow> Inl (errorf (''unexpected key type '' @ typ))
          | None \<Rightarrow> tl_ParsePKCS1 L block))"

definition LoadZitadelPrivateKey :: "'w token_lib \<Rightarrow> string \<Rightarrow> go_error + string \<times> string \<times> string" where
  "LoadZitadelPrivateKey L path =
     (case tl_ReadFile L path of
        Inl e \<Rightarrow> Inl (wrapf ''read key file: '' e)
      | Inr raw \<Rightarrow>
         (case Unmarshal (tl_lib L) [
             (''keyId'', json_string (\<lambda>v (k, p, c). (v, p, c))),
             (''key'', json_string (\<lambda>v (k, p, c). (k, v, c))),
             (''clientId'', json_string (\<lambda>v (k, p, c). (k, p, v)))] ([], [], []) raw of
            Inl e \<Rightarrow> Inl (wrapf ''parse credentials json: '' e)
          | Inr (keyID, pem, clientID) \<Rightarrow>
             (case parsePEMPrivateKey L pem of
                Inl e \<Rightarrow> Inl (wrapf ''parse pem from credentials: '' e)
              | Inr key \<Rightarrow> Inr (key, clientID, keyID))))"

text \<open>\<^verbatim>\<open>filepath.Ext\<close>: from the last dot of the last element of the path.\<close>

definition Ext :: "string \<Rightarrow> string" where
  "Ext path = (let base = rev (takeWhile (\<lambda>c. c \<noteq> CHR ''/'') (rev path)) in
     if CHR ''.'' \<in> set base then CHR ''.'' # rev (takeWhile (\<lambda>c. c \<noteq> CHR ''.'') (rev base)) else [])"

definition NewIntrospector ::
  "'w token_lib \<Rightarrow> string \<Rightarrow> string \<Rightarrow> int \<Rightarrow> int \<Rightarrow> go_error + introspector" where
  "NewIntrospector L privateKeyPath domain jwtExpiration jwtRefreshBefore =
     (if jwtExpiration \<le> 0
      then Inl (errorf (''JWT expiration duration must be positive, got '' @ tl_DurationString L jwtExpiration))
      else if jwtRefreshBefore < 0
      then Inl (errorf (''jwt_refresh_before must be >= 0, got '' @ tl_DurationString L jwtRefreshBefore))
      else case LoadZitadelPrivateKey L privateKeyPath of
        Inl e \<Rightarrow> Inl e
      | Inr (privKey, clientID, keyID) \<Rightarrow>
          if ToLower (Ext privateKeyPath) \<noteq> ''.json'' \<and> (clientID = [] \<or> keyID = [])
          then Inl (errorf ''clientID and keyID must be provided when using a PEM private key'')
          else if domain = [] then Inl (errorf ''auth provider domain must be specified'')
          else Inr \<lparr>in_privateKey = privKey, in_clientID = clientID, in_keyID = keyID,
            in_introspectionURL = TrimRight domain (CHR ''/'') @ ''/oauth/v2/introspect'', in_domain = domain,
            in_jwtExpiration = jwtExpiration, in_jwtRefreshBefore = jwtRefreshBefore\<rparr>)"

section \<open>The cached assertion\<close>

definition buildSignedJWT :: "'w token_lib \<Rightarrow> introspector \<Rightarrow> int \<Rightarrow> go_error + string \<times> int" where
  "buildSignedJWT L i issuedAt =
     (let expiresAt = issuedAt + in_jwtExpiration i in
      case tl_SignJWT L (in_privateKey i) (in_keyID i) [
          (''iss'', JStr (in_clientID i)), (''sub'', JStr (in_clientID i)), (''aud'', JStr (in_domain i)),
          (''exp'', JInt (expiresAt div Second)), (''iat'', JInt (issuedAt div Second))] of
        Inl e \<Rightarrow> Inl (wrapf ''failed to sign client assertion JWT: '' e)
      | Inr signedToken \<Rightarrow> Inr (signedToken, expiresAt))"

definition cache_valid :: "introspector \<Rightarrow> assertion_cache \<Rightarrow> int \<Rightarrow> bool" where
  "cache_valid i c now \<longleftrightarrow> cachedAssertion c \<noteq> [] \<and> now + in_jwtRefreshBefore i < assertionExpiresAt c"

definition getCachedAssertion :: "'w token_lib \<Rightarrow> introspector \<Rightarrow> ('w, string option) cached_action" where
  "getCachedAssertion L i = do {
     now \<leftarrow> on_world (tl_now L);
     c \<leftarrow> get_cache;
     State_Monad.return (if cache_valid i c now then Some (cachedAssertion c) else None)
   }"

definition createAndCacheAssertion :: "'w token_lib \<Rightarrow> introspector \<Rightarrow> ('w, go_error + string) cached_action" where
  "createAndCacheAssertion L i = do {
     now \<leftarrow> on_world (tl_now L);
     c \<leftarrow> get_cache;
     if cache_valid i c now then State_Monad.return (Inr (cachedAssertion c))
     else case buildSignedJWT L i now of
       Inl e \<Rightarrow> State_Monad.return (Inl (wrapf ''error when building signed JWT: '' e))
     | Inr (signedToken, expiresAt) \<Rightarrow> do {
         put_cache \<lparr>cachedAssertion = signedToken, assertionExpiresAt = expiresAt\<rparr>;
         State_Monad.return (Inr signedToken)
       }
   }"

definition createClientAssertion :: "'w token_lib \<Rightarrow> introspector \<Rightarrow> ('w, go_error + string) cached_action" where
  "createClientAssertion L i = do {
     cached \<leftarrow> getCachedAssertion L i;
     (case cached of
        Some t \<Rightarrow> State_Monad.return (Inr t)
      | None \<Rightarrow> createAndCacheAssertion L i)
   }"

text \<open>What a test can ask for.\<close>

definition GetCachedAssertionForTesting :: "('w, string \<times> int \<times> bool) cached_action" where
  "GetCachedAssertionForTesting = do {
     c \<leftarrow> get_cache;
     State_Monad.return (if cachedAssertion c = [] then ([], zero_time, False) else (cachedAssertion c, assertionExpiresAt c, True))
   }"

definition introspection_form :: "string \<Rightarrow> string \<Rightarrow> string" where
  "introspection_form clientAssertion token =
     Values_Encode (Values_Set ''token'' token (Values_Set ''client_assertion'' clientAssertion
       (Values_Set ''client_assertion_type'' ''urn:ietf:params:oauth:client-assertion-type:jwt-bearer'' [])))"

definition Introspect ::
  "'w token_lib \<Rightarrow> introspector \<Rightarrow> string \<Rightarrow> ('w, go_error + introspection_data) cached_action" where
  "Introspect L i token = do {
     a \<leftarrow> createClientAssertion L i;
     (case a of
        Inl e \<Rightarrow> State_Monad.return (Inl (wrapf ''create client assertion: '' e))
      | Inr clientAssertion \<Rightarrow>
        (case tl_NewRequest L (in_introspectionURL i) of
           Some e \<Rightarrow> State_Monad.return (Inl (wrapf ''build request: '' e))
         | None \<Rightarrow> do {
             resp \<leftarrow> on_world (tl_Post L (in_introspectionURL i) (introspection_form clientAssertion token));
             State_Monad.return (case resp of
                 Inl e \<Rightarrow> Inl (wrapf ''introspection request: '' e)
               | Inr (statusCode, status, body) \<Rightarrow>
                   if statusCode < 200 \<or> statusCode \<ge> 300
                   then Inl (errorf (''introspection failed: '' @ status @ '' - '' @ body))
                   else (case DecodeFirst (tl_lib L) introspection_fields zero_introspection body of
                       Inl e \<Rightarrow> Inl (wrapf ''decode response: '' e)
                     | Inr data \<Rightarrow> Inr data))
           }))
   }"

section \<open>The webhook\<close>

text \<open>
  The status of a TokenReview. Its extra map has the key \<^verbatim>\<open>iam.miloapis.com/registrationApproval\<close>
  always and the key \<^verbatim>\<open>iam.miloapis.com/emailVerified\<close> when the second field is present.
\<close>

record token_review =
  tr_Authenticated :: bool
  tr_Username :: string
  tr_UID :: string
  tr_registrationApproval :: platform_access_state
  tr_emailVerified :: "string option"
  tr_Error :: string

definition FormatBool :: "bool \<Rightarrow> string" where
  "FormatBool b = (if b then ''true'' else ''false'')"

definition authenticationResponse ::
  "bool \<Rightarrow> string \<Rightarrow> string \<Rightarrow> string \<Rightarrow> platform_access_state \<Rightarrow> bool option \<Rightarrow> token_review" where
  "authenticationResponse authenticated username uid evaluationError st emailVerified =
     \<lparr>tr_Authenticated = authenticated, tr_Username = username, tr_UID = uid, tr_registrationApproval = st,
      tr_emailVerified = map_option FormatBool emailVerified, tr_Error = evaluationError\<rparr>"

definition Denied :: "string \<Rightarrow> token_review" where
  "Denied reason = authenticationResponse False [] [] reason PlatformAccessRejected None"

definition Errored :: "go_error \<Rightarrow> token_review" where
  "Errored e = authenticationResponse False [] [] (Error e) PlatformAccessRejected None"

definition Allowed :: "string \<Rightarrow> string \<Rightarrow> bool option \<Rightarrow> token_review" where
  "Allowed username uid emailVerified = authenticationResponse True username uid [] PlatformAccessApproved emailVerified"

definition Handle :: "'w token_lib \<Rightarrow> introspector \<Rightarrow> string \<Rightarrow> ('w, token_review) cached_action" where
  "Handle L i token =
     (if token = [] then State_Monad.return (Denied ''empty token provided'')
      else do {
        claims \<leftarrow> Introspect L i token;
        State_Monad.return (case claims of
            Inl e \<Rightarrow> Denied (''token introspection failed: '' @ Error e)
          | Inr claims \<Rightarrow>
              if \<not> id_Active claims then Denied ''jwt token is not active''
              else (case EffectiveUsername claims of
                  Inl e \<Rightarrow> Denied (''token introspection failed: '' @ Error e)
                | Inr username \<Rightarrow>
                    Allowed username (id_Sub claims)
                      (if id_Email claims \<noteq> [] then Some (id_EmailVerified claims) else None)))
      })"

text \<open>
  The HTTP side. Decoding a TokenReview (to its token) and encoding one are library code.
\<close>

definition writeResponse :: "(token_review \<Rightarrow> go_error + string) \<Rightarrow> token_review \<Rightarrow> http_result" where
  "writeResponse encode resp =
     (case encode resp of
        Inl e \<Rightarrow> http_Error (''failed to encode response: '' @ Error e) StatusInternalServerError
      | Inr body \<Rightarrow> Reply StatusOK [(''Content-Type'', ''application/json'')] body)"

definition Webhook_ServeHTTP ::
  "'w token_lib \<Rightarrow> (string \<Rightarrow> go_error + string) \<Rightarrow> (token_review \<Rightarrow> go_error + string) \<Rightarrow> introspector \<Rightarrow>
   http_request \<Rightarrow> ('w, http_result) cached_action" where
  "Webhook_ServeHTTP L decode encode i r =
     (if req_method r \<noteq> MethodPost
      then State_Monad.return
        (http_Error_with [(''Allow'', MethodPost)] ''method not allowed'' StatusMethodNotAllowed)
      else case (case req_body r of Inl e \<Rightarrow> Inl e | Inr body \<Rightarrow> decode body) of
        Inl e \<Rightarrow> State_Monad.return (writeResponse encode (Errored e))
      | Inr token \<Rightarrow> do {
          review \<leftarrow> Handle L i token;
          State_Monad.return (writeResponse encode review)
        })"

end
