(* ===== verification/Token_Properties.thy ===== *)
theory Token_Properties
  imports Token_Review Actions_Properties
begin

text \<open>What holds of the token review webhook: who is authenticated, and which assertions it signs with.\<close>

section \<open>Runs\<close>

lemma run_on_world [simp]:
  "run_state (on_world m) (c, w) = (case run_state m w of (a, w') \<Rightarrow> (a, (c, w')))"
  by (simp add: on_world_def)

lemma run_cache [simp]:
  "run_state get_cache (c, w) = (c, (c, w))" "run_state (put_cache c') (c, w) = ((), (c', w))"
  by (simp_all add: get_cache_def put_cache_def)

section \<open>Authentication\<close>


definition demo_token_lib :: "json \<Rightarrow> nat token_lib" where
  "demo_token_lib reply = \<lparr>tl_lib = table_lib [(''body'', reply)], tl_ReadFile = (\<lambda>_. Inr ''body''),
     tl_ParsePEM = (\<lambda>s. Some s), tl_ParsePKCS8 = (\<lambda>s. Some (Inr s)), tl_ParsePKCS1 = (\<lambda>s. Inr s),
     tl_SignJWT = (\<lambda>k kid claims. Inr ''jwt''), tl_NewRequest = (\<lambda>u. None),
     tl_Post = (\<lambda>u form. State_Monad.return (Inr (200, ''200 OK'', ''body''))),
     tl_now = State (\<lambda>n. (int n, Suc n)), tl_DurationString = (\<lambda>d. [])\<rparr>"

definition demo_introspector :: introspector where
  "demo_introspector = \<lparr>in_privateKey = ''k'', in_clientID = ''c'', in_keyID = ''kid'',
     in_introspectionURL = ''https://z/oauth/v2/introspect'', in_domain = ''https://z'',
     in_jwtExpiration = 3600 * Second, in_jwtRefreshBefore = 60 * Second\<rparr>"

definition empty_cache :: assertion_cache where
  "empty_cache = \<lparr>cachedAssertion = [], assertionExpiresAt = zero_time\<rparr>"

definition demo_claims :: json where
  "demo_claims = JObj [(''active'', JBool True), (''sub'', JStr ''42''), (''email'', JStr ''a@x'')]"

lemmas demo_token_simps = Handle_def Introspect_def createClientAssertion_def getCachedAssertion_def
  createAndCacheAssertion_def buildSignedJWT_def cache_valid_def demo_token_lib_def demo_introspector_def
  empty_cache_def table_lib_def json_decode_simps introspection_fields_def zero_introspection_def

lemma demo_handle:
  "\<exists>s'. run_state (Handle (demo_token_lib demo_claims) demo_introspector ''t'') (empty_cache, 0) =
     (Allowed ''a@x'' ''42'' (Some False), s')"
  by (simp add: demo_token_simps demo_claims_def EffectiveUsername_def Let_def)


text \<open>A token of a human that was issued without the email scope is admitted as a machine: the introspection
  has no address, so the review is authenticated, names the OAuth client rather than the person,
  and carries no verification key, whatever the state of the person's address.\<close>

lemma token_without_email_scope_is_admitted:
  assumes "token \<noteq> []" and "run_state (Introspect L i token) s = (Inr claims, s')"
    and "id_Active claims" and "id_Email claims = []" and "id_ClientID claims \<noteq> []"
  shows "run_state (Handle L i token) s = (Allowed (id_ClientID claims) (id_Sub claims) None, s') \<and>
    tr_Authenticated (Allowed (id_ClientID claims) (id_Sub claims) None) \<and>
    tr_emailVerified (Allowed (id_ClientID claims) (id_Sub claims) None) = None"
  using assms by (simp add: Handle_def EffectiveUsername_def Allowed_def authenticationResponse_def)

section \<open>The cached assertion\<close>

definition signed_at :: "'w token_lib \<Rightarrow> introspector \<Rightarrow> string \<Rightarrow> int \<Rightarrow> bool" where
  "signed_at L i t iat \<longleftrightarrow> tl_SignJWT L (in_privateKey i) (in_keyID i) [
     (''iss'', JStr (in_clientID i)), (''sub'', JStr (in_clientID i)), (''aud'', JStr (in_domain i)),
     (''exp'', JInt ((iat + in_jwtExpiration i) div Second)), (''iat'', JInt (iat div Second))] = Inr t"

definition cache_ok :: "'w token_lib \<Rightarrow> introspector \<Rightarrow> assertion_cache \<Rightarrow> bool" where
  "cache_ok L i c \<longleftrightarrow> cachedAssertion c = [] \<or>
     (\<exists>iat. signed_at L i (cachedAssertion c) iat \<and> assertionExpiresAt c = iat + in_jwtExpiration i)"

text \<open>Every assertion the introspector authenticates itself with is a JWT it signed for its own client and the
  configured domain; it was signed just now, or it does not expire within the refresh margin of a
  time read during the call. The cache holds such an assertion with its true expiry, or none, after
  every call.\<close>

lemma assertion_is_fresh:
  assumes "cache_ok L i c" and "run_state (createClientAssertion L i) (c, w) = (r, (c', w'))"
    and "run_state (tl_now L) w = (now, w1)" and "run_state (tl_now L) w1 = (now', w2)"
  shows "cache_ok L i c' \<and>
    (\<forall>t. r = Inr t \<longrightarrow> (\<exists>iat. signed_at L i t iat \<and>
      (iat = now' \<or> now + in_jwtRefreshBefore i < iat + in_jwtExpiration i \<or>
       now' + in_jwtRefreshBefore i < iat + in_jwtExpiration i)))"
proof -
  have build: "buildSignedJWT L i now' = Inr (t, x) \<Longrightarrow> signed_at L i t now' \<and> x = now' + in_jwtExpiration i" for t x
    by (auto simp: buildSignedJWT_def signed_at_def Let_def split: sum.splits)
  consider "cache_valid i c now" | "\<not> cache_valid i c now" "cache_valid i c now'"
    | "\<not> cache_valid i c now" "\<not> cache_valid i c now'" by blast
  then show ?thesis
  proof cases
    case 3
    show ?thesis
    proof (cases "buildSignedJWT L i now'")
      case (Inl e)
      with 3 assms show ?thesis
        by (auto simp: createClientAssertion_def getCachedAssertion_def createAndCacheAssertion_def)
    next
      case (Inr p)
      then obtain t x where p: "p = (t, x)" by fastforce
      with Inr 3 assms have "r = Inr t" "c' = \<lparr>cachedAssertion = t, assertionExpiresAt = x\<rparr>"
        by (auto simp: createClientAssertion_def getCachedAssertion_def createAndCacheAssertion_def)
      with build Inr p show ?thesis by (auto simp: cache_ok_def)
    qed
  qed (use assms in \<open>auto simp: createClientAssertion_def getCachedAssertion_def createAndCacheAssertion_def
      cache_ok_def cache_valid_def\<close>)
qed

end
