(* ===== verification/Assertion_Races.thy ===== *)
theory Assertion_Races
  imports Token_Properties Step_Systems
begin

text \<open>
  pkg/token/introspector.go again, this time with any number of requests at once: the goroutines of
  the webhook server share the cached client assertion under a read-write mutex. A read section only
  reads and cannot overlap a write section, so that it is one step; a write section is several steps,
  between which other goroutines run. The clock is the time of the system and never goes back.
\<close>

section \<open>The goroutines\<close>

text \<open>
  Where a call of \<^verbatim>\<open>createClientAssertion\<close> is: before anything, after reading the time, after the miss of
  the fast path, holding the write lock, after the second miss with the time it read, after storing
  the new assertion but not yet its expiry, and returned (with the time the call read last).
\<close>

datatype assertion_pc =
    Calling
  | Looked int
  | Missed
  | Holding
  | Stale int
  | Stored int string int
  | Returned int "go_error + string"

fun writing :: "assertion_pc \<Rightarrow> bool" where
  "writing Holding = True"
| "writing (Stale _) = True"
| "writing (Stored _ _ _) = True"
| "writing _ = False"

text \<open>The last field is a record of the times at which an assertion was signed, the latest first.\<close>

record assertion_sys =
  as_pc :: "nat \<Rightarrow> assertion_pc"
  as_writer :: "nat option"
  as_cache :: assertion_cache
  as_clock :: int
  as_signed :: "int list"

definition at_pc :: "nat \<Rightarrow> assertion_pc \<Rightarrow> assertion_sys \<Rightarrow> assertion_sys" where
  "at_pc k p s = s\<lparr>as_pc := (as_pc s)(k := p)\<rparr>"

definition unlock_at :: "nat \<Rightarrow> assertion_pc \<Rightarrow> assertion_sys \<Rightarrow> assertion_sys" where
  "unlock_at k p s = (at_pc k p s)\<lparr>as_writer := None\<rparr>"

inductive race_step :: "'w token_lib \<Rightarrow> introspector \<Rightarrow> assertion_sys \<Rightarrow> assertion_sys \<Rightarrow> bool"
  for L :: "'w token_lib" and i :: introspector where
  tick: "as_clock s \<le> t \<Longrightarrow> race_step L i s (s\<lparr>as_clock := t\<rparr>)"
| call: "as_pc s k = Returned t r \<Longrightarrow> race_step L i s (at_pc k Calling s)"
| look: "as_pc s k = Calling \<Longrightarrow> race_step L i s (at_pc k (Looked (as_clock s)) s)"
| hit: "as_pc s k = Looked now \<Longrightarrow> as_writer s = None \<Longrightarrow> cache_valid i (as_cache s) now \<Longrightarrow>
    race_step L i s (at_pc k (Returned now (Inr (cachedAssertion (as_cache s)))) s)"
| miss: "as_pc s k = Looked now \<Longrightarrow> as_writer s = None \<Longrightarrow> \<not> cache_valid i (as_cache s) now \<Longrightarrow>
    race_step L i s (at_pc k Missed s)"
| lock: "as_pc s k = Missed \<Longrightarrow> as_writer s = None \<Longrightarrow>
    race_step L i s ((at_pc k Holding s)\<lparr>as_writer := Some k\<rparr>)"
| second_hit: "as_pc s k = Holding \<Longrightarrow> cache_valid i (as_cache s) (as_clock s) \<Longrightarrow>
    race_step L i s (unlock_at k (Returned (as_clock s) (Inr (cachedAssertion (as_cache s)))) s)"
| second_miss: "as_pc s k = Holding \<Longrightarrow> \<not> cache_valid i (as_cache s) (as_clock s) \<Longrightarrow>
    race_step L i s (at_pc k (Stale (as_clock s)) s)"
| sign_error: "as_pc s k = Stale now \<Longrightarrow> buildSignedJWT L i now = Inl e \<Longrightarrow>
    race_step L i s (unlock_at k (Returned now (Inl (wrapf ''error when building signed JWT: '' e))) s)"
| store_token: "as_pc s k = Stale now \<Longrightarrow> buildSignedJWT L i now = Inr (t, x) \<Longrightarrow>
    race_step L i s ((at_pc k (Stored now t x) s)\<lparr>as_cache := (as_cache s)\<lparr>cachedAssertion := t\<rparr>, as_signed := now # as_signed s\<rparr>)"
| store_expiry: "as_pc s k = Stored now t x \<Longrightarrow>
    race_step L i s ((unlock_at k (Returned now (Inr t)) s)\<lparr>as_cache := (as_cache s)\<lparr>assertionExpiresAt := x\<rparr>\<rparr>)"

inductive_cases race_stepE: "race_step L i s s'"

abbreviation races where "races L i \<equiv> (race_step L i)\<^sup>*\<^sup>*"

text \<open>A server that has just started, at a time.\<close>

definition race_start :: "int \<Rightarrow> assertion_sys" where
  "race_start t = \<lparr>as_pc = (\<lambda>_. Calling), as_writer = None, as_cache = empty_cache, as_clock = t, as_signed = []\<rparr>"

section \<open>The invariant\<close>

text \<open>Signatures are at least the lifetime of an assertion less the refresh margin apart.\<close>

fun spaced :: "introspector \<Rightarrow> int list \<Rightarrow> bool" where
  "spaced i (a # b # ts) \<longleftrightarrow> b + in_jwtExpiration i \<le> a + in_jwtRefreshBefore i \<and> spaced i (b # ts)"
| "spaced i _ \<longleftrightarrow> True"

text \<open>What the cache holds while no goroutine is between its two stores.\<close>

definition cache_settled :: "'w token_lib \<Rightarrow> introspector \<Rightarrow> assertion_cache \<Rightarrow> int list \<Rightarrow> bool" where
  "cache_settled L i c log \<longleftrightarrow>
     (case log of
        [] \<Rightarrow> cachedAssertion c = []
      | iat # _ \<Rightarrow> cachedAssertion c \<noteq> [] \<and> signed_at L i (cachedAssertion c) iat \<and>
          assertionExpiresAt c = iat + in_jwtExpiration i)"

fun pc_ok :: "'w token_lib \<Rightarrow> introspector \<Rightarrow> assertion_cache \<Rightarrow> int list \<Rightarrow> assertion_pc \<Rightarrow> bool" where
  "pc_ok L i c log (Stale now) \<longleftrightarrow> \<not> cache_valid i c now"
| "pc_ok L i c log (Stored now t x) \<longleftrightarrow> t \<noteq> [] \<and> signed_at L i t now \<and> x = now + in_jwtExpiration i \<and>
     cachedAssertion c = t \<and> (\<exists>ts. log = now # ts)"
| "pc_ok L i c log (Returned now (Inr t)) \<longleftrightarrow> (\<exists>iat. signed_at L i t iat \<and>
     (iat = now \<or> now + in_jwtRefreshBefore i < iat + in_jwtExpiration i))"
| "pc_ok L i c log _ \<longleftrightarrow> True"

fun half_stored :: "assertion_pc \<Rightarrow> bool" where
  "half_stored (Stored _ _ _) = True"
| "half_stored _ = False"

definition race_ok :: "'w token_lib \<Rightarrow> introspector \<Rightarrow> assertion_sys \<Rightarrow> bool" where
  "race_ok L i s \<longleftrightarrow>
     (\<forall>k. writing (as_pc s k) \<longleftrightarrow> as_writer s = Some k) \<and>
     (\<forall>k. pc_ok L i (as_cache s) (as_signed s) (as_pc s k)) \<and>
     ((\<forall>k. \<not> half_stored (as_pc s k)) \<longrightarrow> cache_settled L i (as_cache s) (as_signed s)) \<and>
     spaced i (as_signed s)"

lemma build_signed:
  "buildSignedJWT L i now = Inr (t, x) \<Longrightarrow> signed_at L i t now \<and> x = now + in_jwtExpiration i"
  by (auto simp: buildSignedJWT_def signed_at_def Let_def split: sum.splits)

lemma half_stored_writing: "half_stored p \<Longrightarrow> writing p"
  by (cases p) simp_all

lemma pc_ok_idle: "\<not> writing p \<Longrightarrow> pc_ok L i c ts p \<Longrightarrow> pc_ok L i c' ts' p"
  by (cases "(L, i, c, ts, p)" rule: pc_ok.cases) simp_all

lemma race_ok_start: "race_ok L i (race_start t)"
  by (simp add: race_ok_def race_start_def cache_settled_def empty_cache_def)

text \<open>An assertion that passes the check of the cache was signed by the introspector and is fresh at that time.\<close>

lemma settled_fresh:
  "cache_settled L i c ts \<Longrightarrow> cache_valid i c now \<Longrightarrow> pc_ok L i c ts (Returned now (Inr (cachedAssertion c)))"
  by (auto simp: cache_settled_def cache_valid_def split: list.splits)

lemma race_ok_settled:
  assumes "race_ok L i s" and "as_writer s = None \<or> (writing (as_pc s k) \<and> \<not> half_stored (as_pc s k))"
  shows "cache_settled L i (as_cache s) (as_signed s)"
proof -
  have "\<not> half_stored (as_pc s j)" for j
    using assms half_stored_writing [of "as_pc s j"] by (metis option.distinct(1) option.inject race_ok_def)
  with assms(1) show ?thesis by (simp add: race_ok_def)
qed

text \<open>A step of one goroutine that leaves the cache alone.\<close>

lemma race_ok_move:
  assumes "race_ok L i s" and "\<not> half_stored (as_pc s k)" and "\<not> half_stored p"
    and "pc_ok L i (as_cache s) (as_signed s) p"
    and "if writing (as_pc s k) then w = (if writing p then Some k else None)
      else if writing p then as_writer s = None \<and> w = Some k else w = as_writer s"
  shows "race_ok L i ((at_pc k p s)\<lparr>as_writer := w\<rparr>)"
proof -
  have ok: "\<And>j. writing (as_pc s j) \<longleftrightarrow> as_writer s = Some j"
    using assms(1) by (simp add: race_ok_def)
  have "writing (((as_pc s)(k := p)) j) \<longleftrightarrow> w = Some j" for j
    using ok [of j] ok [of k] assms(5) by (auto split: if_splits)
  moreover have "(\<forall>j. \<not> half_stored (((as_pc s)(k := p)) j)) \<longrightarrow> cache_settled L i (as_cache s) (as_signed s)"
    using assms(1,2) by (metis fun_upd_apply race_ok_def)
  ultimately show ?thesis using assms(1,4) by (simp add: race_ok_def at_pc_def)
qed

lemma race_ok_stay:
  assumes "race_ok L i s" and "\<not> half_stored (as_pc s k)" and "\<not> half_stored p"
    and "pc_ok L i (as_cache s) (as_signed s) p" and "writing p \<longleftrightarrow> writing (as_pc s k)"
  shows "race_ok L i (at_pc k p s)"
proof -
  have "(at_pc k p s)\<lparr>as_writer := as_writer s\<rparr> = at_pc k p s" by (cases s) (simp add: at_pc_def)
  moreover have "writing (as_pc s k) \<Longrightarrow> as_writer s = Some k" using assms(1) by (simp add: race_ok_def)
  ultimately show ?thesis using race_ok_move [OF assms(1-4), of "as_writer s"] assms(5) by simp
qed

text \<open>A signed assertion is not empty.\<close>

definition sign_law :: "'w token_lib \<Rightarrow> bool" where
  "sign_law L \<longleftrightarrow> (\<forall>key kid claims t. tl_SignJWT L key kid claims = Inr t \<longrightarrow> t \<noteq> [])"

lemma sign_law_build: "sign_law L \<Longrightarrow> buildSignedJWT L i now = Inr (t, x) \<Longrightarrow> t \<noteq> []"
  by (auto simp: sign_law_def buildSignedJWT_def Let_def split: sum.splits)

text \<open>While the cache is settled, a second miss means that the last signature is old enough for the next one.\<close>

lemma stale_spaced:
  "cache_settled L i c ts \<Longrightarrow> \<not> cache_valid i c now \<Longrightarrow> spaced i ts \<Longrightarrow> spaced i (now # ts)"
  by (auto simp: cache_settled_def cache_valid_def split: list.splits)

text \<open>The two stores.\<close>

lemma race_ok_store_token:
  assumes "sign_law L" and ok: "race_ok L i s" and p: "as_pc s k = Stale now" and b: "buildSignedJWT L i now = Inr (t, x)"
  shows "race_ok L i ((at_pc k (Stored now t x) s)\<lparr>as_cache := (as_cache s)\<lparr>cachedAssertion := t\<rparr>, as_signed := now # as_signed s\<rparr>)"
proof -
  have w: "writing (as_pc s j) \<longleftrightarrow> j = k" for j using ok p by (metis option.inject race_ok_def writing.simps(2))
  have "cache_settled L i (as_cache s) (as_signed s)" using race_ok_settled [OF ok, of k] p by simp
  then have "spaced i (now # as_signed s)" using stale_spaced ok p by (metis pc_ok.simps(1) race_ok_def)
  moreover have "pc_ok L i c ts (as_pc s j)" if "j \<noteq> k" for j c ts
    using pc_ok_idle ok w that by (metis race_ok_def)
  moreover have "as_writer s = Some k" using ok p by (metis race_ok_def writing.simps(2))
  ultimately show ?thesis
    using w build_signed [OF b] sign_law_build [OF assms(1) b] by (auto simp: race_ok_def at_pc_def)
qed

lemma race_ok_store_expiry:
  assumes ok: "race_ok L i s" and p: "as_pc s k = Stored now t x"
  shows "race_ok L i ((unlock_at k (Returned now (Inr t)) s)\<lparr>as_cache := (as_cache s)\<lparr>assertionExpiresAt := x\<rparr>\<rparr>)"
proof -
  have w: "writing (as_pc s j) \<longleftrightarrow> j = k" for j using ok p by (metis option.inject race_ok_def writing.simps(3))
  have "pc_ok L i c ts (as_pc s j)" if "j \<noteq> k" for j c ts
    using pc_ok_idle ok w that by (metis race_ok_def)
  moreover have "pc_ok L i (as_cache s) (as_signed s) (Stored now t x)" using ok p by (metis race_ok_def)
  ultimately show ?thesis
    using w ok by (auto simp: race_ok_def at_pc_def unlock_at_def cache_settled_def)
qed

lemma race_ok_step:
  assumes law: "sign_law L" and ok: "race_ok L i s" and "race_step L i s s'"
  shows "race_ok L i s'"
  using assms(3)
proof cases
  case (hit k now)
  then show ?thesis
    using race_ok_stay [OF ok, of k] settled_fresh [OF race_ok_settled [OF ok]] by simp
next
  case (second_hit k)
  then show ?thesis
    using race_ok_move [OF ok, of k "Returned (as_clock s) (Inr (cachedAssertion (as_cache s)))" None]
      settled_fresh [OF race_ok_settled [OF ok, of k]] by (simp add: unlock_at_def)
next
  case (sign_error k now e)
  then show ?thesis using race_ok_move [OF ok, of k _ None] by (simp add: unlock_at_def)
next
  case (lock k)
  then show ?thesis using race_ok_move [OF ok, of k Holding "Some k"] by simp
next
  case (tick t)
  with ok show ?thesis by (simp add: race_ok_def)
qed (use race_ok_stay [OF ok] race_ok_store_token [OF law ok] race_ok_store_expiry [OF ok] in simp_all)

interpretation race: step_invariant "race_step L i" "\<lambda>s. sign_law L \<and> race_ok L i s" for L i
  by unfold_locales (blast intro: race_ok_step)

lemma race_ok_reachable:
  assumes "sign_law L" and "races L i (race_start t) s"
  shows "race_ok L i s"
  using race.inv_steps [OF assms(2)] assms(1) race_ok_start by blast

text \<open>
  A goroutine that runs alone does what the sequential definition says: the steps are those of
  \<^verbatim>\<open>createClientAssertion\<close>.
\<close>

lemma rtranclp_2: "r x y \<Longrightarrow> r y z \<Longrightarrow> r\<^sup>*\<^sup>* x z"
  by simp

lemma solo_call:
  assumes clock: "tl_now L = State (\<lambda>t. (t, t))" and k: "as_pc s k = Calling" and free: "as_writer s = None"
    and run: "run_state (createClientAssertion L i) (as_cache s, as_clock s) = (r, (c', w'))"
  shows "\<exists>s'. races L i s s' \<and> as_pc s' k = Returned (as_clock s) r \<and> as_cache s' = c' \<and> as_writer s' = None"
proof -
  define s1 where "s1 = at_pc k (Looked (as_clock s)) s"
  define s2 where "s2 = at_pc k Missed s1"
  define s3 where "s3 = (at_pc k Holding s2)\<lparr>as_writer := Some k\<rparr>"
  define s4 where "s4 = at_pc k (Stale (as_clock s)) s3"
  note s_defs = s1_def s2_def s3_def s4_def at_pc_def unlock_at_def
  have look: "race_step L i s s1" unfolding s1_def by (rule look [OF k])
  show ?thesis
  proof (cases "cache_valid i (as_cache s) (as_clock s)")
    case True
    have "race_step L i s1 (at_pc k (Returned (as_clock s) (Inr (cachedAssertion (as_cache s1)))) s1)"
      using True free by (intro hit) (simp_all add: s_defs)
    moreover have "r = Inr (cachedAssertion (as_cache s))" "c' = as_cache s"
      using run True clock by (auto simp: createClientAssertion_def getCachedAssertion_def on_world_def get_cache_def)
    ultimately show ?thesis
      using rtranclp_2 [where r = "race_step L i", OF look] free
      by (intro exI [of _ "at_pc k (Returned (as_clock s) (Inr (cachedAssertion (as_cache s1)))) s1"]) (simp add: s_defs)
  next
    case False
    have "race_step L i s1 s2" unfolding s2_def using False free by (intro miss) (simp_all add: s_defs)
    moreover have "race_step L i s2 s3" unfolding s3_def using free by (intro lock) (simp_all add: s_defs)
    moreover have "race_step L i s3 s4"
      using second_miss [where s = s3 and k = k and L = L and i = i] False by (simp add: s_defs)
    ultimately have to4: "races L i s s4" using look by (meson converse_rtranclp_into_rtranclp rtranclp.rtrancl_refl)
    have pc4: "as_pc s4 k = Stale (as_clock s)" by (simp add: s_defs)
    show ?thesis
    proof (cases "buildSignedJWT L i (as_clock s)")
      case (Inl e)
      have "r = Inl (wrapf ''error when building signed JWT: '' e)" "c' = as_cache s"
        using run False clock Inl
        by (auto simp: createClientAssertion_def getCachedAssertion_def createAndCacheAssertion_def on_world_def get_cache_def)
      moreover note rtranclp.rtrancl_into_rtrancl [where r = "race_step L i", OF to4 sign_error [OF pc4 Inl]]
      moreover have "as_cache (unlock_at k p s4) = as_cache s" "as_pc (unlock_at k p s4) k = p"
        "as_writer (unlock_at k p s4) = None" for p by (simp_all add: s_defs)
      ultimately show ?thesis by metis
    next
      case (Inr p)
      then obtain t x where b: "buildSignedJWT L i (as_clock s) = Inr (t, x)" by (cases p) simp
      have "r = Inr t" "c' = \<lparr>cachedAssertion = t, assertionExpiresAt = x\<rparr>"
        using run False clock b
        by (auto simp: createClientAssertion_def getCachedAssertion_def createAndCacheAssertion_def on_world_def get_cache_def put_cache_def)
      moreover define s5 where "s5 = (at_pc k (Stored (as_clock s) t x) s4)\<lparr>as_cache := (as_cache s4)\<lparr>cachedAssertion := t\<rparr>,
        as_signed := as_clock s # as_signed s4\<rparr>"
      have to5: "races L i s s5" unfolding s5_def by (rule rtranclp.rtrancl_into_rtrancl [where r = "race_step L i", OF to4 store_token [OF pc4 b]])
      have "as_pc s5 k = Stored (as_clock s) t x" by (simp add: s5_def at_pc_def)
      note to6 = rtranclp.rtrancl_into_rtrancl [where r = "race_step L i", OF to5 store_expiry [OF this]]
      ultimately show ?thesis
        using to6 by (intro exI conjI) (assumption, simp_all add: s5_def s_defs)
    qed
  qed
qed

text \<open>What the call has returned is what a test then finds in the cache.\<close>

lemma created_is_cached:
  assumes "run_state (createClientAssertion L i) s = (Inr t, s')" and "t \<noteq> []"
  shows "\<exists>x. run_state GetCachedAssertionForTesting s' = ((t, x, True), s')"
  using assms
  by (auto simp: createClientAssertion_def getCachedAssertion_def createAndCacheAssertion_def GetCachedAssertionForTesting_def
      on_world_def get_cache_def put_cache_def split: prod.splits if_splits sum.splits option.splits)

text \<open>C16. However many requests the webhook serves at once, at most one of them is replacing the client
  assertion; every assertion a request returns is one the introspector signed for itself, just now
  or with an expiry beyond the refresh margin of the time the request last read; and no assertion is
  signed sooner after the one before than its lifetime less the refresh margin, however many
  requests found the cache stale at the same time.\<close>

theorem shared_assertion_is_sound:
  assumes "sign_law L" and "races L i (race_start t0) s"
  shows "(\<forall>j k. writing (as_pc s j) \<longrightarrow> writing (as_pc s k) \<longrightarrow> j = k) \<and>
    (\<forall>k now t. as_pc s k = Returned now (Inr t) \<longrightarrow> (\<exists>iat. signed_at L i t iat \<and>
      (iat = now \<or> now + in_jwtRefreshBefore i < iat + in_jwtExpiration i))) \<and>
    (\<forall>n. Suc n < length (as_signed s) \<longrightarrow>
      as_signed s ! Suc n + (in_jwtExpiration i - in_jwtRefreshBefore i) \<le> as_signed s ! n)"
proof -
  have ok: "race_ok L i s" by (rule race_ok_reachable [OF assms])
  have "spaced i ts \<Longrightarrow> Suc n < length ts \<Longrightarrow> ts ! Suc n + (in_jwtExpiration i - in_jwtRefreshBefore i) \<le> ts ! n" for n ts
    by (induction i ts arbitrary: n rule: spaced.induct) (auto simp: nth_Cons split: nat.splits)
  moreover have "\<forall>k now t. as_pc s k = Returned now (Inr t) \<longrightarrow> (\<exists>iat. signed_at L i t iat \<and>
      (iat = now \<or> now + in_jwtRefreshBefore i < iat + in_jwtExpiration i))"
    using ok by (metis pc_ok.simps(3) race_ok_def)
  ultimately show ?thesis using ok by (auto simp: race_ok_def)
qed

text \<open>Two requests find the cache empty at the same time; one signs, and the other returns what it signed.\<close>

definition two_calls :: "assertion_pc \<Rightarrow> assertion_pc \<Rightarrow> nat option \<Rightarrow> assertion_cache \<Rightarrow> int list \<Rightarrow> assertion_sys" where
  "two_calls p q w c log = \<lparr>as_pc = (\<lambda>_. Calling)(0 := p, 1 := q), as_writer = w, as_cache = c, as_clock = 5, as_signed = log\<rparr>"

lemma two_calls_simps [simp]:
  "as_pc (two_calls p q w c log) 0 = p" "as_pc (two_calls p q w c log) (Suc 0) = q"
  "as_writer (two_calls p q w c log) = w" "as_cache (two_calls p q w c log) = c"
  "as_clock (two_calls p q w c log) = 5" "as_signed (two_calls p q w c log) = log"
  "at_pc 0 r (two_calls p q w c log) = two_calls r q w c log"
  "at_pc (Suc 0) r (two_calls p q w c log) = two_calls p r w c log"
  "(two_calls p q w c log)\<lparr>as_writer := w'\<rparr> = two_calls p q w' c log"
  "(two_calls p q w c log)\<lparr>as_cache := c'\<rparr> = two_calls p q w c' log"
  "(two_calls p q w c log)\<lparr>as_signed := log'\<rparr> = two_calls p q w c log'"
  "race_start 5 = two_calls Calling Calling None empty_cache []"
  by (simp_all add: two_calls_def at_pc_def race_start_def fun_eq_iff)

lemma race_demo:
  "races (demo_token_lib demo_claims) demo_introspector (race_start 5)
     (two_calls (Returned 5 (Inr ''jwt'')) (Returned 5 (Inr ''jwt'')) None
        \<lparr>cachedAssertion = ''jwt'', assertionExpiresAt = 5 + 3600 * Second\<rparr> [5])"
proof -
  let ?L = "demo_token_lib demo_claims" and ?i = demo_introspector
  let ?c = "\<lparr>cachedAssertion = ''jwt'', assertionExpiresAt = 5 + 3600 * Second\<rparr>"
  let ?r = "Returned 5 (Inr ''jwt'')"
  let ?half = "\<lparr>cachedAssertion = ''jwt'', assertionExpiresAt = zero_time\<rparr>"
  have b: "buildSignedJWT ?L ?i 5 = Inr (''jwt'', 5 + 3600 * Second)"
    by (simp add: buildSignedJWT_def demo_token_lib_def demo_introspector_def)
  have stale: "\<not> cache_valid ?i empty_cache 5" and fresh: "cache_valid ?i ?c 5"
    by (simp_all add: cache_valid_def empty_cache_def demo_introspector_def)
  note step = rtranclp.rtrancl_into_rtrancl [where r = "race_step ?L ?i" and a = "race_start 5"]
  have "races ?L ?i (race_start 5) (two_calls Calling Calling None empty_cache [])" by simp
  from step [OF this look [of _ 0]] have "races ?L ?i (race_start 5) (two_calls (Looked 5) Calling None empty_cache [])" by simp
  from step [OF this look [of _ 1]] have "races ?L ?i (race_start 5) (two_calls (Looked 5) (Looked 5) None empty_cache [])" by simp
  from step [OF this miss [of _ 0]] stale have "races ?L ?i (race_start 5) (two_calls Missed (Looked 5) None empty_cache [])" by simp
  from step [OF this miss [of _ 1]] stale have "races ?L ?i (race_start 5) (two_calls Missed Missed None empty_cache [])" by simp
  from step [OF this lock [of _ 0]] have "races ?L ?i (race_start 5) (two_calls Holding Missed (Some 0) empty_cache [])" by simp
  from step [OF this second_miss [of _ 0]] stale
  have "races ?L ?i (race_start 5) (two_calls (Stale 5) Missed (Some 0) empty_cache [])" by simp
  from step [OF this store_token [of _ 0, OF _ b]]
  have "races ?L ?i (race_start 5) (two_calls (Stored 5 ''jwt'' (5 + 3600 * Second)) Missed (Some 0) ?half [5])"
    by (simp add: empty_cache_def)
  from step [OF this store_expiry [of _ 0]] have "races ?L ?i (race_start 5) (two_calls ?r Missed None ?c [5])"
    by (simp add: unlock_at_def)
  from step [OF this lock [of _ 1]] have "races ?L ?i (race_start 5) (two_calls ?r Holding (Some 1) ?c [5])" by simp
  from step [OF this second_hit [of _ 1]] fresh show ?thesis by (simp add: unlock_at_def)
qed

theorem shared_assertion_is_sound_witness:
  "\<exists>iat. signed_at (demo_token_lib demo_claims) demo_introspector ''jwt'' iat \<and>
     (iat = 5 \<or> 5 + 60 * Second < iat + 3600 * Second)"
proof -
  have law: "sign_law (demo_token_lib demo_claims)" by (simp add: sign_law_def demo_token_lib_def)
  have "in_jwtRefreshBefore demo_introspector = 60 * Second" "in_jwtExpiration demo_introspector = 3600 * Second"
    by (simp_all add: demo_introspector_def)
  moreover note shared_assertion_is_sound [OF law race_demo]
  ultimately show ?thesis by (metis two_calls_simps(1))
qed

end
