(* ===== verification/Avatar_Races.thy ===== *)
theory Avatar_Races
  imports Actions_Properties Step_Systems
begin

text \<open>
  internal/httpactionsserver/avatar\_sync.go with any number of requests at once: the map of pending avatars is
  a \<^verbatim>\<open>sync.Map\<close>, of which each operation is one step, and between the operations of one request those of
  others happen. A step of the system is an operation of \<^verbatim>\<open>storePendingAvatar\<close>, of \<^verbatim>\<open>consumePendingAvatar\<close> or of
  \<^verbatim>\<open>applyPendingAvatarByEmail\<close>.
\<close>

section \<open>The requests\<close>

text \<open>
  Where a call of \<^verbatim>\<open>applyPendingAvatarByEmail\<close> for a user and the key of an address is: before the map is
  read, with the entry it has taken, with an entry that has not expired, after a patch that failed, and returned.
\<close>

datatype avatar_pc =
    NoCall
  | Consuming string string
  | Took string string pending_avatar
  | Patching string string pending_avatar
  | PuttingBack string string pending_avatar
  | Done bool

fun holding :: "avatar_pc \<Rightarrow> (string \<times> pending_avatar) option" where
  "holding (Took u k p) = Some (k, p)"
| "holding (Patching u k p) = Some (k, p)"
| "holding (PuttingBack u k p) = Some (k, p)"
| "holding _ = None"

fun for_user :: "avatar_pc \<Rightarrow> (string \<times> string) option" where
  "for_user (Consuming u k) = Some (u, k)"
| "for_user (Took u k p) = Some (u, k)"
| "for_user (Patching u k p) = Some (u, k)"
| "for_user (PuttingBack u k p) = Some (u, k)"
| "for_user _ = None"

text \<open>
  The map and the clock, the avatars that were patched into Users, and for the theorems the intents that were
  parked (with the key, the latest first), the calls that were made, and the keys of which an
  avatar was patched in or had expired.
\<close>

record avatar_sys =
  av_pc :: "nat \<Rightarrow> avatar_pc"
  av_pending :: "string \<Rightarrow> pending_avatar option"
  av_clock :: int
  av_users :: "string \<Rightarrow> (string \<times> auth_provider) option"
  av_intents :: "(string \<times> string \<times> auth_provider) list"
  av_calls :: "(string \<times> string) set"
  av_settled :: "string set"

definition av_at :: "nat \<Rightarrow> avatar_pc \<Rightarrow> avatar_sys \<Rightarrow> avatar_sys" where
  "av_at r p s = s\<lparr>av_pc := (av_pc s)(r := p)\<rparr>"

definition parked :: "string \<Rightarrow> auth_provider \<Rightarrow> int \<Rightarrow> pending_avatar" where
  "parked url provider now = \<lparr>pa_avatarURL = url, pa_provider = provider, pa_expiresAt = now + pendingAvatarTTL\<rparr>"

inductive avatar_step :: "avatar_sys \<Rightarrow> avatar_sys \<Rightarrow> bool" where
  tick: "av_clock s \<le> t \<Longrightarrow> avatar_step s (s\<lparr>av_clock := t\<rparr>)"
| park: "normalizeEmail a \<noteq> [] \<Longrightarrow> url \<noteq> [] \<Longrightarrow> now \<le> av_clock s \<Longrightarrow>
    avatar_step s (s\<lparr>av_pending := (av_pending s)(normalizeEmail a \<mapsto> parked url provider now),
      av_intents := (normalizeEmail a, url, provider) # av_intents s\<rparr>)"
| call: "av_pc s r \<in> {NoCall, Done b} \<Longrightarrow> normalizeEmail a \<noteq> [] \<Longrightarrow>
    avatar_step s ((av_at r (Consuming u (normalizeEmail a)) s)\<lparr>av_calls := insert (u, normalizeEmail a) (av_calls s)\<rparr>)"
| nothing: "av_pc s r = Consuming u k \<Longrightarrow> av_pending s k = None \<Longrightarrow> avatar_step s (av_at r (Done False) s)"
| take_entry: "av_pc s r = Consuming u k \<Longrightarrow> av_pending s k = Some p \<Longrightarrow>
    avatar_step s ((av_at r (Took u k p) s)\<lparr>av_pending := (av_pending s)(k := None)\<rparr>)"
| expired: "av_pc s r = Took u k p \<Longrightarrow> av_clock s > pa_expiresAt p \<Longrightarrow>
    avatar_step s ((av_at r (Done False) s)\<lparr>av_settled := insert k (av_settled s)\<rparr>)"
| fresh: "av_pc s r = Took u k p \<Longrightarrow> av_clock s \<le> pa_expiresAt p \<Longrightarrow> avatar_step s (av_at r (Patching u k p) s)"
| patched: "av_pc s r = Patching u k p \<Longrightarrow>
    avatar_step s ((av_at r (Done True) s)\<lparr>av_users := (av_users s)(u \<mapsto> (pa_avatarURL p, pa_provider p)),
      av_settled := insert k (av_settled s)\<rparr>)"
| patch_fails: "av_pc s r = Patching u k p \<Longrightarrow> avatar_step s (av_at r (PuttingBack u k p) s)"
| put_back: "av_pc s r = PuttingBack u k p \<Longrightarrow> now \<le> av_clock s \<Longrightarrow>
    avatar_step s ((av_at r (Done False) s)\<lparr>av_pending := (av_pending s)(k \<mapsto> parked (pa_avatarURL p) (pa_provider p) now)\<rparr>)"

inductive_cases avatar_stepE: "avatar_step s s'"

abbreviation avatar_steps where "avatar_steps \<equiv> avatar_step\<^sup>*\<^sup>*"

definition avatar_start :: "int \<Rightarrow> avatar_sys" where
  "avatar_start t = \<lparr>av_pc = (\<lambda>_. NoCall), av_pending = (\<lambda>_. None), av_clock = t, av_users = (\<lambda>_. None), av_intents = [],
     av_calls = {}, av_settled = {}\<rparr>"

section \<open>The invariant\<close>

definition entry_ok :: "avatar_sys \<Rightarrow> string \<times> pending_avatar \<Rightarrow> bool" where
  "entry_ok s = (\<lambda>(k, p). k \<noteq> [] \<and> normalizeEmail k = k \<and> pa_avatarURL p \<noteq> [] \<and>
     (k, pa_avatarURL p, pa_provider p) \<in> set (av_intents s) \<and> pa_expiresAt p \<le> av_clock s + pendingAvatarTTL)"

text \<open>Entries, calls and users are as they should be, and no parked avatar has disappeared.\<close>

definition entries_ok :: "avatar_sys \<Rightarrow> bool" where
  "entries_ok s \<longleftrightarrow> (\<forall>k p. av_pending s k = Some p \<longrightarrow> entry_ok s (k, p)) \<and>
     (\<forall>r e. holding (av_pc s r) = Some e \<longrightarrow> entry_ok s e)"

definition users_ok :: "avatar_sys \<Rightarrow> bool" where
  "users_ok s \<longleftrightarrow> (\<forall>r c. for_user (av_pc s r) = Some c \<longrightarrow> c \<in> av_calls s) \<and>
     (\<forall>u url pr. av_users s u = Some (url, pr) \<longrightarrow> (\<exists>k. (u, k) \<in> av_calls s \<and> (k, url, pr) \<in> set (av_intents s)))"

definition accounted :: "avatar_sys \<Rightarrow> string \<Rightarrow> bool" where
  "accounted s k \<longleftrightarrow> av_pending s k \<noteq> None \<or> (\<exists>r p. holding (av_pc s r) = Some (k, p)) \<or> k \<in> av_settled s"

definition avatar_ok :: "avatar_sys \<Rightarrow> bool" where
  "avatar_ok s \<longleftrightarrow> entries_ok s \<and> users_ok s \<and> (\<forall>i \<in> set (av_intents s). accounted s (fst i))"

lemma avatar_ok_start: "avatar_ok (avatar_start t)"
  by (simp add: avatar_ok_def avatar_start_def entries_ok_def users_ok_def)

lemma av_at_simps [simp]:
  "av_pc (av_at r p s) = (av_pc s)(r := p)" "av_pending (av_at r p s) = av_pending s" "av_clock (av_at r p s) = av_clock s"
  "av_users (av_at r p s) = av_users s" "av_intents (av_at r p s) = av_intents s" "av_calls (av_at r p s) = av_calls s"
  "av_settled (av_at r p s) = av_settled s"
  by (simp_all add: av_at_def)

lemma entry_ok_mono:
  "entry_ok s e \<Longrightarrow> set (av_intents s) \<subseteq> set (av_intents s') \<Longrightarrow> av_clock s \<le> av_clock s' \<Longrightarrow> entry_ok s' e"
  by (auto simp: entry_ok_def split: prod.splits)

lemma avatar_step_grows:
  "avatar_step s s' \<Longrightarrow> set (av_intents s) \<subseteq> set (av_intents s') \<and> av_clock s \<le> av_clock s' \<and> av_calls s \<subseteq> av_calls s'"
  by (erule avatar_stepE) auto

lemma entries_ok_step:
  assumes step: "avatar_step s s'" and ok: "entries_ok s"
  shows "entries_ok s'"
proof -
  have old: "entry_ok s e \<Longrightarrow> entry_ok s' e" for e
    using avatar_step_grows [OF step] by (blast intro: entry_ok_mono)
  from ok have p: "av_pending s k = Some q \<Longrightarrow> entry_ok s (k, q)" and h: "holding (av_pc s r) = Some e \<Longrightarrow> entry_ok s e" for k q r e
    by (simp_all add: entries_ok_def del: split_paired_All)
  show ?thesis using step
  proof cases
    case (park a url now provider)
    then have "entry_ok s' (normalizeEmail a, parked url provider now)"
      by (simp add: entry_ok_def parked_def)
    with park old p h show ?thesis by (auto simp: entries_ok_def)
  next
    case (put_back r u k q now)
    with h [of r] have "entry_ok s (k, q)" by simp
    with put_back(1,3) have "entry_ok s' (k, parked (pa_avatarURL q) (pa_provider q) now)"
      by (simp add: entry_ok_def parked_def)
    with put_back old p h show ?thesis by (auto simp: entries_ok_def)
  next
    case (take_entry r u k q)
    with old p [of k q] h p show ?thesis by (auto simp: entries_ok_def)
  next
    case (fresh r u k q)
    with old p h [of r] h show ?thesis by (auto simp: entries_ok_def)
  next
    case (patch_fails r u k q)
    with old p h [of r] h show ?thesis by (auto simp: entries_ok_def)
  qed (use old p h in \<open>auto simp: entries_ok_def\<close>)
qed

lemma users_ok_step:
  assumes step: "avatar_step s s'" and ok: "users_ok s" and entries: "entries_ok s"
  shows "users_ok s'"
proof -
  have c: "for_user (av_pc s r) = Some x \<Longrightarrow> x \<in> av_calls s" for r x
    using ok by (simp add: users_ok_def del: split_paired_All)
  have d: "\<exists>k. (u, k) \<in> av_calls s \<and> (k, url, pr) \<in> set (av_intents s)" if "av_users s u = Some (url, pr)" for u url pr
    using ok that by (simp add: users_ok_def)
  show ?thesis using step
  proof cases
    case (patched r u k q)
    have "entry_ok s (k, q)" using entries patched(2) by (metis entries_ok_def holding.simps(2))
    moreover have "(u, k) \<in> av_calls s" using c [of r] patched(2) by simp
    ultimately show ?thesis using patched c by (auto simp: users_ok_def entry_ok_def dest: d)
  next
    case (take_entry r u k q)
    with c [of r] c show ?thesis by (auto simp: users_ok_def dest: d)
  next
    case (fresh r u k q)
    with c [of r] c show ?thesis by (auto simp: users_ok_def dest: d)
  next
    case (patch_fails r u k q)
    with c [of r] c show ?thesis by (auto simp: users_ok_def dest: d)
  qed (use c in \<open>auto simp: users_ok_def dest!: d\<close>)
qed

lemma accounted_step:
  assumes step: "avatar_step s s'" and k: "accounted s k"
  shows "accounted s' k"
proof -
  from k consider "av_pending s k \<noteq> None" | j p where "holding (av_pc s j) = Some (k, p)" | "k \<in> av_settled s"
    by (auto simp: accounted_def)
  then show ?thesis
  proof cases
    case 1
    with step show ?thesis by cases (auto simp: accounted_def)
  next
    case (2 j p)
    with step have "holding (av_pc s' j) = Some (k, p) \<or> k \<in> av_settled s' \<or> av_pending s' k \<noteq> None"
      by cases auto
    then show ?thesis by (metis accounted_def)
  next
    case 3
    with step show ?thesis by cases (auto simp: accounted_def)
  qed
qed

lemma avatar_step_intents:
  "avatar_step s s' \<Longrightarrow> i \<in> set (av_intents s') \<Longrightarrow> i \<in> set (av_intents s) \<or> av_pending s' (fst i) \<noteq> None"
  by (erule avatar_stepE) auto

lemma avatar_ok_step: "avatar_step s s' \<Longrightarrow> avatar_ok s \<Longrightarrow> avatar_ok s'"
  unfolding avatar_ok_def
  by (meson accounted_def accounted_step avatar_step_intents entries_ok_step users_ok_step)

interpretation avatar: step_invariant avatar_step avatar_ok
  by unfold_locales (rule avatar_ok_step)

lemma avatar_ok_reachable: "avatar_steps (avatar_start t0) s \<Longrightarrow> avatar_ok s"
  using avatar.inv_steps avatar_ok_start by blast

text \<open>The steps on the map are those of the calls: what each leaves in the map when it is run without others.\<close>

lemma store_is_park:
  assumes "normalizeEmail a \<noteq> []" and "url \<noteq> []" and "run_state (Now rt) (st_world s) = (now, w)"
  shows "run_state (storePendingAvatar rt a url provider) s =
    ((), s\<lparr>st_world := w, st_pendingAvatars := (st_pendingAvatars s)(normalizeEmail a \<mapsto> parked url provider now)\<rparr>)"
  using assms by (simp add: store_run parked_def pendingAvatarTTL_def)

lemma consume_is_take:
  assumes "normalizeEmail a \<noteq> []" and "st_pendingAvatars s (normalizeEmail a) = Some p"
    and "run_state (Now rt) (st_world s) = (now, w)"
  shows "run_state (consumePendingAvatar rt a) s =
    (if now > pa_expiresAt p then None else Some p,
     s\<lparr>st_world := w, st_pendingAvatars := (st_pendingAvatars s)(normalizeEmail a := None)\<rparr>)"
  using assms by (simp add: consumePendingAvatar_def LoadAndDelete_def Let_def)

section \<open>The property\<close>


text \<open>
  It is the address that keeps an avatar, and not the avatar that is kept: a call takes the avatar of
  an address, a second intent parks a newer one, the patch of the call fails, and the older avatar is stored over
  the newer one.
\<close>

definition one_call :: "avatar_pc \<Rightarrow> pending_avatar option \<Rightarrow> (string \<times> string) set \<Rightarrow>
    (string \<times> string \<times> auth_provider) list \<Rightarrow> avatar_sys" where
  "one_call p e calls parkings = \<lparr>av_pc = (\<lambda>_. NoCall)(0 := p), av_pending = (\<lambda>_. None)(''a@x'' := e), av_clock = 7,
     av_users = (\<lambda>_. None), av_intents = parkings, av_calls = calls, av_settled = {}\<rparr>"

lemma one_call_simps [simp]:
  "av_pc (one_call p e calls parkings) 0 = p" "av_pending (one_call p e calls parkings) = (\<lambda>_. None)(''a@x'' := e)"
  "av_clock (one_call p e calls parkings) = 7" "av_intents (one_call p e calls parkings) = parkings"
  "av_calls (one_call p e calls parkings) = calls"
  "av_at 0 q (one_call p e calls parkings) = one_call q e calls parkings"
  "(one_call p e calls parkings)\<lparr>av_pending := (\<lambda>_. None)(''a@x'' := e')\<rparr> =
     one_call p e' calls parkings"
  "(one_call p e calls parkings)\<lparr>av_pending := (\<lambda>_. None)\<rparr> = one_call p None calls parkings"
  "(one_call p e calls parkings)\<lparr>av_intents := parkings'\<rparr> = one_call p e calls parkings'"
  "(one_call p e calls parkings)\<lparr>av_calls := calls'\<rparr> = one_call p e calls' parkings"
  "avatar_start 7 = one_call NoCall None {} []"
  by (simp_all add: one_call_def av_at_def avatar_start_def fun_eq_iff)

lemma older_avatar_comes_back:
  "avatar_steps (avatar_start 7) (one_call (Done False) (Some (parked ''old'' Google 7)) {(''u'', ''a@x'')}
     [(''a@x'', ''new'', Google), (''a@x'', ''old'', Google)])"
proof -
  let ?o = "parked ''old'' Google 7" and ?n = "parked ''new'' Google 7" and ?c = "{(''u'', ''a@x'')}"
  let ?old = "(''a@x'', ''old'', Google)" and ?new = "(''a@x'', ''new'', Google)"
  have key: "normalizeEmail ''a@x'' = ''a@x''" by code_simp
  have expiry: "7 \<le> pa_expiresAt ?o" and held: "pa_avatarURL ?o = ''old''" "pa_provider ?o = Google"
    by (simp_all add: parked_def pendingAvatarTTL_def)
  note step = rtranclp.rtrancl_into_rtrancl [where r = avatar_step and a = "avatar_start 7"]
  have "avatar_steps (avatar_start 7) (one_call NoCall None {} [])" by simp
  from step [OF this park [of "''a@x''" "''old''" 7 _ Google]]
  have "avatar_steps (avatar_start 7) (one_call NoCall (Some ?o) {} [?old])" by (simp add: key)
  from step [OF this call [of _ 0 True "''a@x''" "''u''"]]
  have "avatar_steps (avatar_start 7) (one_call (Consuming ''u'' ''a@x'') (Some ?o) ?c [?old])" by (simp add: key)
  from step [OF this take_entry [of _ 0]]
  have "avatar_steps (avatar_start 7) (one_call (Took ''u'' ''a@x'' ?o) None ?c [?old])" by simp
  from step [OF this fresh [of _ 0]] expiry
  have "avatar_steps (avatar_start 7) (one_call (Patching ''u'' ''a@x'' ?o) None ?c [?old])" by simp
  from step [OF this park [of "''a@x''" "''new''" 7 _ Google]]
  have "avatar_steps (avatar_start 7) (one_call (Patching ''u'' ''a@x'' ?o) (Some ?n) ?c [?new, ?old])" by (simp add: key)
  from step [OF this patch_fails [of _ 0]]
  have "avatar_steps (avatar_start 7) (one_call (PuttingBack ''u'' ''a@x'' ?o) (Some ?n) ?c [?new, ?old])" by simp
  from step [OF this put_back [of _ 0 _ _ _ 7]] held show ?thesis by simp
qed


end
