(* ===== verification/Paging.thy ===== *)
theory Paging
  imports Prelude
begin

text \<open>
  The interface of a sweep over a listing that is read page by page. Two controllers have this
  loop, the user sweeper and the collector of abandoned accounts: each reads a page, works through
  its entries with an accumulator, and goes on at an offset advanced by the raw size of the page
  until a page is short. An error comes with what was counted until then. The listing may be as long as the server likes, so the loop takes fuel;
  the result is none when the fuel is used up.
\<close>

locale pager =
  fixes size :: nat
    and page :: "nat \<Rightarrow> ('w, go_error + 'a list \<times> nat) state"
    and wrap :: "nat \<Rightarrow> 'acc \<Rightarrow> go_error \<Rightarrow> 'err"
    and body :: "'acc \<Rightarrow> 'a list \<Rightarrow> ('w, 'err + 'acc) state"
    and loop :: "nat \<Rightarrow> nat \<Rightarrow> 'acc \<Rightarrow> ('w, ('err + 'acc) option) state"
  assumes size: "0 < size"
    and loop_0: "loop 0 off acc = State_Monad.return None"
    and loop_Suc: "loop (Suc fuel) off acc = do {
      r \<leftarrow> page off;
      (case r of
         Inl e \<Rightarrow> State_Monad.return (Some (Inl (wrap off acc e)))
       | Inr (us, raw) \<Rightarrow> do {
           b \<leftarrow> body acc us;
           (case b of
              Inl e \<Rightarrow> State_Monad.return (Some (Inl e))
            | Inr acc' \<Rightarrow>
                if raw < size then State_Monad.return (Some (Inr acc'))
                else loop fuel (off + raw) acc')
         })
    }"
begin

text \<open>
  An invariant of the offset, the accumulator and the world that every page with its work keeps
  holds at the end, when the sweep has succeeded, at the offset behind the last, short page.
\<close>

lemma sweep_invariant:
  assumes "run_state (loop fuel off acc) w = (Some (Inr acc'), w')"
    and "Inv off acc w"
    and "\<And>off acc w us raw w1 b w2. Inv off acc w \<Longrightarrow> run_state (page off) w = (Inr (us, raw), w1) \<Longrightarrow>
      run_state (body acc us) w1 = (Inr b, w2) \<Longrightarrow> Inv (off + raw) b w2 \<and> (raw < size \<longrightarrow> Last (off + raw) w2)"
  shows "\<exists>off'. Inv off' acc' w' \<and> Last off' w'"
  using assms(1,2)
proof (induction fuel arbitrary: off acc w)
  case 0
  then show ?case by (simp add: loop_0)
next
  case (Suc fuel)
  obtain r w1 where r: "run_state (page off) w = (r, w1)" by fastforce
  with Suc.prems obtain us raw where us: "r = Inr (us, raw)"
    by (cases r) (auto simp: loop_Suc)
  obtain b w2 where b: "run_state (body acc us) w1 = (b, w2)" by fastforce
  with Suc.prems r us obtain acc2 where acc2: "b = Inr acc2"
    by (cases b) (auto simp: loop_Suc)
  note step = assms(3) [OF Suc.prems(2) r [unfolded us] b [unfolded acc2]]
  show ?case
  proof (cases "raw < size")
    case True
    with Suc.prems r us b acc2 step show ?thesis by (auto simp: loop_Suc)
  next
    case False
    with Suc.prems r us b acc2 have "run_state (loop fuel (off + raw) acc2) w2 = (Some (Inr acc'), w')"
      by (simp add: loop_Suc)
    from Suc.IH [OF this] step show ?thesis by blast
  qed
qed

text \<open>
  A sweep over a listing of bounded length ends: one unit of fuel for each full page and one for the
  last are enough. The listing may shrink meanwhile.
\<close>

lemma sweep_ends:
  assumes "Inv w" and "off \<le> len" and "(len - off) div size < fuel"
    and page: "\<And>off w r w1. Inv w \<Longrightarrow> run_state (page off) w = (r, w1) \<Longrightarrow>
      Inv w1 \<and> (\<forall>us raw. r = Inr (us, raw) \<longrightarrow> size \<le> raw \<longrightarrow> off + raw \<le> len)"
    and body: "\<And>acc us w r w1. Inv w \<Longrightarrow> run_state (body acc us) w = (r, w1) \<Longrightarrow> Inv w1"
  shows "\<exists>res w'. run_state (loop fuel off acc) w = (Some res, w')"
  using assms(1-3)
proof (induction fuel arbitrary: off acc w)
  case (Suc fuel)
  obtain r w1 where r: "run_state (page off) w = (r, w1)" by fastforce
  note p = page [OF Suc.prems(1) r]
  show ?case
  proof (cases r)
    case (Inl e)
    with r show ?thesis by (simp add: loop_Suc)
  next
    case (Inr u)
    then obtain us raw where us: "r = Inr (us, raw)" by (cases u) auto
    obtain b w2 where b: "run_state (body acc us) w1 = (b, w2)" by fastforce
    have w2: "Inv w2" using body [OF _ b] p by blast
    show ?thesis
    proof (cases "\<exists>acc2. b = Inr acc2 \<and> \<not> raw < size")
      case True
      then obtain acc2 where acc2: "b = Inr acc2" "size \<le> raw" by auto
      with p us have le: "off + raw \<le> len" by auto
      have "Suc ((len - (off + raw)) div size) = (len - (off + raw) + size) div size"
        using size by (simp add: le_div_geq)
      also have "\<dots> \<le> (len - off) div size" using le acc2 by (intro div_le_mono) linarith
      finally have "(len - (off + raw)) div size < fuel" using Suc.prems(3) by simp
      from Suc.IH [OF w2 le this, of acc2] r us b acc2 show ?thesis by (simp add: loop_Suc)
    next
      case False
      with r us b show ?thesis by (cases b) (auto simp: loop_Suc)
    qed
  qed
qed simp

end

end
