(* ===== verification/User_Sweep.thy ===== *)
theory User_Sweep
  imports Zitadel_Api User_Provision Paging
begin

text \<open>
  internal/controller/user_sweep.go: the sweeper that gives every human user of Zitadel a User
  resource and reconciles the verification state. The Prometheus counters are modelled by what a sweep
  adds to them, whether it succeeds or fails.
\<close>

record 'w sweeper =
  sw_Client :: "'w kube"
  sw_Zitadel :: "'w zitadel_api"
  sw_runtime :: "'w runtime"
  sw_retry :: "'w retrier"
  sw_Interval :: int

definition sweepPageSize :: nat where
  "sweepPageSize = 100"

text \<open>What a sweep adds to the counters, and the time to which a successful one sets the gauge.\<close>

record sweep_counts =
  s_scanned :: int
  s_missing :: int
  s_created :: int
  s_errors :: int
  s_emailVerifiedUpdates :: int
  s_lastSuccess :: "int option"

definition no_sweep :: sweep_counts where
  "no_sweep = \<lparr>s_scanned = 0, s_missing = 0, s_created = 0, s_errors = 0, s_emailVerifiedUpdates = 0, s_lastSuccess = None\<rparr>"

definition sweep_error :: "sweep_counts \<Rightarrow> go_error \<Rightarrow> go_error \<times> sweep_counts" where
  "sweep_error n e = (e, n\<lparr>s_errors := s_errors n + 1\<rparr>)"

text \<open>The map from names to the listed Users; of two entries with one name the later is kept.\<close>

definition existing_users :: "user list \<Rightarrow> string \<Rightarrow> user option" where
  "existing_users us = map_of (rev (map (\<lambda>u. (user_name u, u)) us))"

definition sweep_existing :: "'w sweeper \<Rightarrow> user \<Rightarrow> zuser \<Rightarrow> sweep_counts \<Rightarrow> ('w, sweep_counts) state" where
  "sweep_existing S existingUser u n =
     (if NeedsUpdate existingUser (zu_IsEmailVerified u) then do {
        r \<leftarrow> Set_verified (sw_retry S) (sw_Client S) (zu_ID u) (zu_IsEmailVerified u);
        State_Monad.return (case r of
            Inl _ \<Rightarrow> n\<lparr>s_errors := s_errors n + 1\<rparr>
          | Inr changed \<Rightarrow> if changed then n\<lparr>s_emailVerifiedUpdates := s_emailVerifiedUpdates n + 1\<rparr> else n)
      }
      else State_Monad.return n)"

definition sweep_missing :: "'w sweeper \<Rightarrow> zuser \<Rightarrow> sweep_counts \<Rightarrow> ('w, (go_error \<times> sweep_counts) + sweep_counts) state" where
  "sweep_missing S u n = do {
     let n = n\<lparr>s_missing := s_missing n + 1\<rparr>;
     created \<leftarrow> EnsureUser (sw_Client S) (NewUser (zu_ID u) (zu_Email u) (zu_GivenName u) (zu_FamilyName u));
     (case created of
        Inl e \<Rightarrow> State_Monad.return (Inl (sweep_error n (wrapf (''create user '' @ zu_ID u @ '': '') e)))
      | Inr None \<Rightarrow> State_Monad.return (Inr n)
      | Inr (Some usr) \<Rightarrow> do {
          RecordEvent (sw_runtime S) (sw_Client S) (user_name usr) (user_uid usr) EventReasonAccountCreated
            ''Account created'';
          State_Monad.return (Inr (n\<lparr>s_created := s_created n + 1\<rparr>))
        })
   }"

fun sweep_users :: "'w sweeper \<Rightarrow> (string \<Rightarrow> user option) \<Rightarrow> sweep_counts \<Rightarrow> zuser list \<Rightarrow>
    ('w, (go_error \<times> sweep_counts) + sweep_counts) state" where
  "sweep_users S existing n [] = State_Monad.return (Inr n)"
| "sweep_users S existing n (u # us) =
     (let n = n\<lparr>s_scanned := s_scanned n + 1\<rparr> in
      case existing (zu_ID u) of
        Some existingUser \<Rightarrow> do {
          n' \<leftarrow> sweep_existing S existingUser u n;
          sweep_users S existing n' us
        }
      | None \<Rightarrow> do {
          r \<leftarrow> sweep_missing S u n;
          (case r of
             Inl e \<Rightarrow> State_Monad.return (Inl e)
           | Inr n' \<Rightarrow> sweep_users S existing n' us)
        })"

definition list_error :: "string \<Rightarrow> string \<Rightarrow> nat \<Rightarrow> go_error \<Rightarrow> go_error" where
  "list_error before after off e = wrapf (before @ Itoa (int off) @ after) e"

text \<open>
  The loop over the pages. Offsets are natural numbers: the 64-bit offset of the code does not wrap
  for any listing a server can hold.
\<close>

fun sweep_pages ::
  "'w sweeper \<Rightarrow> (string \<Rightarrow> user option) \<Rightarrow> nat \<Rightarrow> nat \<Rightarrow> sweep_counts \<Rightarrow>
   ('w, ((go_error \<times> sweep_counts) + sweep_counts) option) state" where
  "sweep_pages S existing 0 off n = State_Monad.return None"
| "sweep_pages S existing (Suc fuel) off n = do {
     r \<leftarrow> ListHumanUsers (sw_Zitadel S) off sweepPageSize;
     (case r of
        Inl e \<Rightarrow> State_Monad.return
          (Some (Inl (sweep_error n (list_error ''list zitadel users (offset '' ''): '' off e))))
      | Inr (us, raw) \<Rightarrow> do {
          b \<leftarrow> sweep_users S existing n us;
          (case b of
             Inl e \<Rightarrow> State_Monad.return (Some (Inl e))
           | Inr n' \<Rightarrow>
               if raw < sweepPageSize then State_Monad.return (Some (Inr n'))
               else sweep_pages S existing fuel (off + raw) n')
        })
   }"

definition UserSweeper_sweepOnce ::
  "nat \<Rightarrow> 'w sweeper \<Rightarrow> ('w, ((go_error \<times> sweep_counts) + sweep_counts) option) state" where
  "UserSweeper_sweepOnce fuel S = do {
     userList \<leftarrow> ListUsers (sw_Client S);
     (case userList of
        Inl e \<Rightarrow> State_Monad.return (Some (Inl (sweep_error no_sweep (wrapf ''list existing user resources: '' e))))
      | Inr items \<Rightarrow> do {
          r \<leftarrow> sweep_pages S (existing_users items) fuel 0 no_sweep;
          (case r of
             Some (Inr n) \<Rightarrow> do {
               now \<leftarrow> Now (sw_runtime S);
               State_Monad.return (Some (Inr (n\<lparr>s_lastSuccess := Some now\<rparr>)))
             }
           | _ \<Rightarrow> State_Monad.return r)
        })
   }"

text \<open>
  \<^verbatim>\<open>Start\<close> until the context is done: a sweep at once and one for each tick of the ticker, whose
  errors are logged. The result is none when a sweep ran out of fuel, and otherwise how many
  sweeps were made.
\<close>

fun sweep_ticks :: "nat \<Rightarrow> 'w sweeper \<Rightarrow> nat \<Rightarrow> ('w, nat option) state" where
  "sweep_ticks fuel S 0 = State_Monad.return (Some 0)"
| "sweep_ticks fuel S (Suc n) = do {
     r \<leftarrow> UserSweeper_sweepOnce fuel S;
     (case r of
        None \<Rightarrow> State_Monad.return None
      | Some _ \<Rightarrow> do {
          m \<leftarrow> sweep_ticks fuel S n;
          State_Monad.return (map_option Suc m)
        })
   }"

definition UserSweeper_Start :: "nat \<Rightarrow> 'w sweeper \<Rightarrow> nat \<Rightarrow> ('w, nat option) state" where
  "UserSweeper_Start fuel S ticks =
     (if sw_Interval S \<le> 0 then State_Monad.return (Some 0) else sweep_ticks fuel S (Suc ticks))"

interpretation sweep: pager sweepPageSize "\<lambda>off. ListHumanUsers (sw_Zitadel S) off sweepPageSize"
  "\<lambda>off n e. sweep_error n (list_error ''list zitadel users (offset '' ''): '' off e)" "sweep_users S existing"
  "sweep_pages S existing"
  for S :: "'w sweeper" and existing
  by unfold_locales (simp add: sweepPageSize_def, rule sweep_pages.simps(1), rule sweep_pages.simps(2))

end
