(* ===== verification/Abandoned_GC.thy ===== *)
theory Abandoned_GC
  imports User_Sweep
begin

text \<open>
  internal/controller/abandoned_user_gc.go: the collector of accounts that were abandoned before
  their address was verified. The Prometheus counters are modelled by what a sweep adds to them, whether it
  succeeds or fails, and the gauge by the number a successful sweep ends with.
\<close>

definition DefaultAbandonedRetention :: int where
  "DefaultAbandonedRetention = 30 * 24 * Hour"

definition DefaultAbandonedGCInterval :: int where
  "DefaultAbandonedGCInterval = 6 * Hour"

record 'w gc =
  gc_Client :: "'w kube"
  gc_Zitadel :: "'w zitadel_api"
  gc_Interval :: int
  gc_Retention :: int
  gc_DryRun :: bool
  gc_clock :: "('w, int) state"

text \<open>The clock of the collector: the one it was given, or that of the system.\<close>

definition GC_now :: "('w, int) state option \<Rightarrow> ('w, int) state \<Rightarrow> ('w, int) state" where
  "GC_now given system = (case given of Some f \<Rightarrow> f | None \<Rightarrow> system)"

definition usableCredentials :: "string list" where
  "usableCredentials = [''AUTHENTICATION_METHOD_TYPE_PASSWORD'', ''AUTHENTICATION_METHOD_TYPE_PASSKEY'',
     ''AUTHENTICATION_METHOD_TYPE_IDP'']"

fun hasUsableCredential :: "string list \<Rightarrow> bool" where
  "hasUsableCredential [] = False"
| "hasUsableCredential (m # ms) = (if m \<in> set usableCredentials then True else hasUsableCredential ms)"

definition isAbandoned :: "zuser \<Rightarrow> int \<Rightarrow> bool" where
  "isAbandoned u cutoff =
     (if zu_IsEmailVerified u then False
      else if IsZero (zu_CreatedAt u) then False
      else zu_CreatedAt u < cutoff)"

definition hasIDPLink :: "'w gc \<Rightarrow> string \<Rightarrow> ('w, go_error + bool) state" where
  "hasIDPLink G userID = do {
     links \<leftarrow> ListIDPLinks (gc_Zitadel G) userID;
     State_Monad.return (case links of
         Inl e \<Rightarrow> Inl (wrapf (''list idp links for '' @ userID @ '': '') e)
       | Inr ls \<Rightarrow> Inr (length ls > 0))
   }"

definition collect_user :: "'w gc \<Rightarrow> string \<Rightarrow> ('w, go_error option) state" where
  "collect_user G userID = do {
     e \<leftarrow> DeleteZitadelUser (gc_Zitadel G) userID;
     (case e of
        Some e \<Rightarrow> State_Monad.return (Some (wrapf (''delete zitadel user '' @ Quote userID @ '': '') e))
      | None \<Rightarrow> do {
          d \<leftarrow> DeleteUserObject (gc_Client G) userID;
          State_Monad.return (case d of
              Some e \<Rightarrow> if \<not> IsNotFound e then Some (wrapf (''delete milo user '' @ Quote userID @ '': '') e) else None
            | None \<Rightarrow> None)
        })
   }"

text \<open>
  What a sweep counts: accounts scanned, eligible, deleted, spared for a link to an identity provider, errors, and
  verified accounts without a usable credential.
\<close>

record gc_counts =
  n_scanned :: int
  n_eligible :: int
  n_deleted :: int
  n_skippedIDP :: int
  n_errors :: int
  n_noCredential :: int

definition no_gc :: gc_counts where
  "no_gc = \<lparr>n_scanned = 0, n_eligible = 0, n_deleted = 0, n_skippedIDP = 0, n_errors = 0, n_noCredential = 0\<rparr>"

definition gc_failed :: "gc_counts \<Rightarrow> gc_counts" where
  "gc_failed n = n\<lparr>n_errors := n_errors n + 1\<rparr>"

text \<open>The measurement of one account: whether it is verified and has no usable credential.\<close>

definition lacks_credential :: "'w gc \<Rightarrow> zuser \<Rightarrow> gc_counts \<Rightarrow> ('w, gc_counts) state" where
  "lacks_credential G u n =
     (if zu_IsEmailVerified u then do {
        methods \<leftarrow> ListAuthMethodTypes (gc_Zitadel G) (zu_ID u);
        State_Monad.return (case methods of
            Inl _ \<Rightarrow> gc_failed n
          | Inr ms \<Rightarrow> if \<not> hasUsableCredential ms then n\<lparr>n_noCredential := n_noCredential n + 1\<rparr> else n)
      }
      else State_Monad.return n)"

definition gc_user :: "'w gc \<Rightarrow> int \<Rightarrow> zuser \<Rightarrow> gc_counts \<Rightarrow> ('w, gc_counts) state" where
  "gc_user G cutoff u n = do {
     n \<leftarrow> lacks_credential G u (n\<lparr>n_scanned := n_scanned n + 1\<rparr>);
     if \<not> isAbandoned u cutoff then State_Monad.return n
     else do {
       linked \<leftarrow> hasIDPLink G (zu_ID u);
       (case linked of
          Inl _ \<Rightarrow> State_Monad.return (gc_failed n)
        | Inr True \<Rightarrow> State_Monad.return (n\<lparr>n_skippedIDP := n_skippedIDP n + 1\<rparr>)
        | Inr False \<Rightarrow> do {
            let n = n\<lparr>n_eligible := n_eligible n + 1\<rparr>;
            if gc_DryRun G then State_Monad.return n
            else do {
              e \<leftarrow> collect_user G (zu_ID u);
              State_Monad.return (case e of
                  Some _ \<Rightarrow> gc_failed n
                | None \<Rightarrow> n\<lparr>n_deleted := n_deleted n + 1\<rparr>)
            }
          })
     }
   }"

fun gc_users :: "'w gc \<Rightarrow> int \<Rightarrow> gc_counts \<Rightarrow> zuser list \<Rightarrow> ('w, (go_error \<times> gc_counts) + gc_counts) state" where
  "gc_users G cutoff n [] = State_Monad.return (Inr n)"
| "gc_users G cutoff n (u # us) = do {
     n' \<leftarrow> gc_user G cutoff u n;
     gc_users G cutoff n' us
   }"

fun gc_pages :: "'w gc \<Rightarrow> int \<Rightarrow> nat \<Rightarrow> nat \<Rightarrow> gc_counts \<Rightarrow> ('w, ((go_error \<times> gc_counts) + gc_counts) option) state" where
  "gc_pages G cutoff 0 off n = State_Monad.return None"
| "gc_pages G cutoff (Suc fuel) off n = do {
     r \<leftarrow> ListHumanUsers (gc_Zitadel G) off sweepPageSize;
     (case r of
        Inl e \<Rightarrow> State_Monad.return (Some (Inl (list_error ''list human users at offset '' '': '' off e, gc_failed n)))
      | Inr (us, raw) \<Rightarrow> do {
          b \<leftarrow> gc_users G cutoff n us;
          (case b of
             Inl e \<Rightarrow> State_Monad.return (Some (Inl e))
           | Inr n' \<Rightarrow>
               if raw < sweepPageSize then State_Monad.return (Some (Inr n'))
               else gc_pages G cutoff fuel (off + raw) n')
        })
   }"

definition GC_sweepOnce :: "nat \<Rightarrow> 'w gc \<Rightarrow> ('w, ((go_error \<times> gc_counts) + gc_counts) option) state" where
  "GC_sweepOnce fuel G = do {
     now \<leftarrow> gc_clock G;
     gc_pages G (now - gc_Retention G) fuel 0 no_gc
   }"

fun gc_ticks :: "nat \<Rightarrow> 'w gc \<Rightarrow> nat \<Rightarrow> ('w, nat option) state" where
  "gc_ticks fuel G 0 = State_Monad.return (Some 0)"
| "gc_ticks fuel G (Suc n) = do {
     r \<leftarrow> GC_sweepOnce fuel G;
     (case r of
        None \<Rightarrow> State_Monad.return None
      | Some _ \<Rightarrow> do {
          m \<leftarrow> gc_ticks fuel G n;
          State_Monad.return (map_option Suc m)
        })
   }"

definition GC_Start :: "nat \<Rightarrow> 'w gc \<Rightarrow> nat \<Rightarrow> ('w, nat option) state" where
  "GC_Start fuel G ticks =
     (if gc_Interval G \<le> 0 \<or> gc_Retention G \<le> 0 then State_Monad.return (Some 0) else gc_ticks fuel G ticks)"

interpretation gc: pager sweepPageSize "\<lambda>off. ListHumanUsers (gc_Zitadel G) off sweepPageSize"
  "\<lambda>off n e. (list_error ''list human users at offset '' '': '' off e, gc_failed n)" "gc_users G cutoff" "gc_pages G cutoff"
  for G :: "'w gc" and cutoff
  by unfold_locales (simp add: sweepPageSize_def, rule gc_pages.simps(1), rule gc_pages.simps(2))

end
