(* ===== verification/Zitadel_Sdk.thy ===== *)
theory Zitadel_Sdk
  imports Zitadel_Api
begin

text \<open>
  pkg/zitadel/sdk_client.go and session_meta.go: the implementation of the interface \<^verbatim>\<open>API\<close> on the
  gRPC services of Zitadel. The generated service clients are a record of calls; the messages carry
  the fields the sources read, where an absent message is an option and the getters on it yield
  zero values.
\<close>

section \<open>Messages and services\<close>

record raw_user_agent =
  rua_Ip :: string
  rua_FingerprintId :: string
  rua_Description :: string
  rua_Header :: "(string \<times> string list option) list"

record raw_session =
  rs_Id :: string
  rs_UserId :: string
  rs_UserAgent :: "raw_user_agent option"
  rs_CreationDate :: "int option"
  rs_ChangeDate :: "int option"
  rs_Metadata :: "(string \<times> string) list"
  rs_UserVerified :: bool

record raw_human =
  rh_Email :: "(string \<times> bool) option"
  rh_GivenName :: string
  rh_FamilyName :: string

record raw_user =
  ru_UserId :: string
  ru_PreferredLoginName :: string
  ru_LoginNames :: "string list"
  ru_Username :: string
  ru_State :: string
  ru_Human :: "raw_human option"
  ru_Machine :: bool
  ru_CreationDate :: "int option"

record raw_link =
  rl_IdpId :: string
  rl_UserId :: string
  rl_UserName :: string

record raw_key =
  rk_Id :: string
  rk_CreationDate :: "int option"
  rk_ExpirationDate :: "int option"

datatype user_query = UserNameQuery string | OrganizationIdQuery string | TypeHumanQuery

text \<open>
  A call with an organization context has the organization as its first argument. A list of users
  takes that context, the page and the queries.
\<close>

record 'w grpc =
  g_ListSessions :: "string \<Rightarrow> ('w, go_error + raw_session list) state"
  g_GetSession :: "string \<Rightarrow> ('w, go_error + raw_session option) state"
  g_DeleteSession :: "string \<Rightarrow> ('w, go_error option) state"
  g_ListIDPLinks :: "string \<Rightarrow> ('w, go_error + raw_link list) state"
  g_GetIDPByID :: "string \<Rightarrow> ('w, go_error + string option) state"
  g_GetUserByID :: "string \<Rightarrow> ('w, go_error + raw_user option) state"
  g_ListPasskeys :: "string \<Rightarrow> ('w, go_error + (string \<times> string \<times> string) list) state"
  g_CreatePasskeyRegistrationLink :: "string \<Rightarrow> ('w, go_error + (string \<times> string) option) state"
  g_ListAuthenticationMethodTypes :: "string \<Rightarrow> ('w, go_error + string list) state"
  g_ListUserMetadata :: "string \<Rightarrow> ('w, go_error + (string \<times> string \<times> int option) list) state"
  g_AddOrganization :: "string \<Rightarrow> string option \<Rightarrow> ('w, go_error + string) state"
  g_DeleteOrganization :: "string \<Rightarrow> ('w, go_error option) state"
  g_ListOrganizations :: "string \<Rightarrow> ('w, go_error + (string \<times> string) list) state"
  g_CreateMachineUser :: "string \<Rightarrow> string \<Rightarrow> string \<Rightarrow> string \<Rightarrow> ('w, go_error + string) state"
  g_ListUsers :: "string option \<Rightarrow> (nat \<times> nat) option \<Rightarrow> user_query list \<Rightarrow> ('w, go_error + raw_user list) state"
  g_DeleteUser :: "string \<Rightarrow> ('w, go_error option) state"
  g_DeactivateUser :: "string \<Rightarrow> string \<Rightarrow> ('w, go_error option) state"
  g_ReactivateUser :: "string \<Rightarrow> string \<Rightarrow> ('w, go_error option) state"
  g_AddKey :: "string \<Rightarrow> string \<Rightarrow> string \<Rightarrow> int \<Rightarrow> ('w, go_error + string \<times> string) state"
  g_ListKeys :: "string \<Rightarrow> string \<Rightarrow> string \<Rightarrow> ('w, go_error + raw_key list) state"
  g_RemoveKey :: "string \<Rightarrow> string \<Rightarrow> string \<Rightarrow> ('w, go_error option) state"

record 'w sdk_client =
  sdk_grpc :: "'w grpc"
  sdk_runtime :: "'w runtime"
  sdk_DefaultMachineKeyExpiration :: int

section \<open>Conversions\<close>

definition localIdentityProviderID :: string where "localIdentityProviderID = ''zitadel-local''"
definition localIdentityProviderName :: string where "localIdentityProviderName = ''Email''"

definition toTime :: "int option \<Rightarrow> int" where
  "toTime ts = (case ts of None \<Rightarrow> zero_time | Some t \<Rightarrow> t)"

text \<open>\<^verbatim>\<open>Timestamp.AsTime\<close>, which maps an absent timestamp to the Unix epoch.\<close>

definition AsTime :: "int option \<Rightarrow> int" where
  "AsTime ts = (case ts of None \<Rightarrow> 0 | Some t \<Rightarrow> t)"

fun first_agent_header :: "(string \<times> string list option) list \<Rightarrow> string" where
  "first_agent_header [] = []"
| "first_agent_header ((k, hv) # hs) =
     (if EqualFold k ''user-agent'' then (case hv of Some (v # _) \<Rightarrow> v | _ \<Rightarrow> first_agent_header hs)
      else first_agent_header hs)"

definition extractUserAgentString :: "raw_user_agent option \<Rightarrow> string" where
  "extractUserAgentString ua =
     (case ua of
        None \<Rightarrow> []
      | Some ua \<Rightarrow> if rua_Description ua \<noteq> [] then rua_Description ua else first_agent_header (rua_Header ua))"

definition mapZitadelSession :: "raw_session option \<Rightarrow> session" where
  "mapZitadelSession s =
     (case s of
        None \<Rightarrow> \<lparr>sess_ID = [], sess_UserID = [], sess_IP = [], sess_FingerprintID = [],
          sess_CreatedAt = zero_time, sess_LastUpdated = None, sess_UserAgent = [], sess_Metadata = [],
          sess_PasskeyVerified = False\<rparr>
      | Some s \<Rightarrow> \<lparr>sess_ID = rs_Id s, sess_UserID = rs_UserId s,
          sess_IP = (case rs_UserAgent s of None \<Rightarrow> [] | Some ua \<Rightarrow> rua_Ip ua),
          sess_FingerprintID = (case rs_UserAgent s of None \<Rightarrow> [] | Some ua \<Rightarrow> rua_FingerprintId ua),
          sess_CreatedAt = toTime (rs_CreationDate s), sess_LastUpdated = rs_ChangeDate s,
          sess_UserAgent = extractUserAgentString (rs_UserAgent s), sess_Metadata = rs_Metadata s,
          sess_PasskeyVerified = rs_UserVerified s\<rparr>)"

fun first_nonblank :: "string list \<Rightarrow> string option" where
  "first_nonblank [] = None"
| "first_nonblank (n # ns) = (if TrimSpace n \<noteq> [] then Some (TrimSpace n) else first_nonblank ns)"

definition localIdentityUsername :: "raw_user \<Rightarrow> string" where
  "localIdentityUsername u =
     (if TrimSpace (ru_PreferredLoginName u) \<noteq> [] then TrimSpace (ru_PreferredLoginName u)
      else case first_nonblank (ru_LoginNames u) of
        Some n \<Rightarrow> n
      | None \<Rightarrow> TrimSpace (ru_Username u))"

definition human_email :: "raw_human \<Rightarrow> string \<times> bool" where
  "human_email h = (case rh_Email h of None \<Rightarrow> ([], False) | Some e \<Rightarrow> e)"

definition bare_user :: "raw_user \<Rightarrow> zuser" where
  "bare_user u = \<lparr>zu_ID = ru_UserId u, zu_Username = localIdentityUsername u, zu_Email = [], zu_State = ru_State u,
     zu_GivenName = [], zu_FamilyName = [], zu_IsEmailVerified = False, zu_CreatedAt = zero_time\<rparr>"

definition fetched_user :: "raw_user \<Rightarrow> zuser" where
  "fetched_user u =
     (let (address, verified) = (case ru_Human u of None \<Rightarrow> ([], False) | Some h \<Rightarrow> human_email h) in
      (bare_user u)\<lparr>zu_Email := address, zu_IsEmailVerified := verified\<rparr>)"

definition listed_human :: "raw_user \<Rightarrow> zuser option" where
  "listed_human u =
     (case ru_Human u of
        None \<Rightarrow> None
      | Some h \<Rightarrow> Some ((bare_user u)\<lparr>zu_Email := fst (human_email h), zu_GivenName := rh_GivenName h,
          zu_FamilyName := rh_FamilyName h, zu_IsEmailVerified := snd (human_email h),
          zu_CreatedAt := toTime (ru_CreationDate u)\<rparr>))"

text \<open>An error of a call that only reports it, where not-found counts as success.\<close>

definition unless_not_found :: "string \<Rightarrow> go_error option \<Rightarrow> go_error option" where
  "unless_not_found prefix e =
     (case e of
        None \<Rightarrow> None
      | Some e \<Rightarrow> if status_code e = NotFound then None else Some (wrapf prefix e))"

definition on_ok :: "string \<Rightarrow> ('a \<Rightarrow> 'b) \<Rightarrow> go_error + 'a \<Rightarrow> go_error + 'b" where
  "on_ok prefix f r = (case r of Inl e \<Rightarrow> Inl (wrapf prefix e) | Inr a \<Rightarrow> Inr (f a))"

section \<open>The methods\<close>

definition SDK_ListSessions :: "'w sdk_client \<Rightarrow> string \<Rightarrow> ('w, go_error + session list) state" where
  "SDK_ListSessions c userID = do {
     r \<leftarrow> g_ListSessions (sdk_grpc c) userID;
     State_Monad.return (case r of Inl e \<Rightarrow> Inl e | Inr ss \<Rightarrow> Inr (map (\<lambda>s. mapZitadelSession (Some s)) ss))
   }"

definition SDK_GetSession :: "'w sdk_client \<Rightarrow> string \<Rightarrow> ('w, go_error + session) state" where
  "SDK_GetSession c i = do {
     r \<leftarrow> g_GetSession (sdk_grpc c) i;
     State_Monad.return (case r of Inl e \<Rightarrow> Inl e | Inr s \<Rightarrow> Inr (mapZitadelSession s))
   }"

definition SDK_DeleteSession :: "'w sdk_client \<Rightarrow> string \<Rightarrow> string \<Rightarrow> ('w, go_error option) state" where
  "SDK_DeleteSession c userID i = g_DeleteSession (sdk_grpc c) i"

definition getLocalIdentityLink :: "'w sdk_client \<Rightarrow> string \<Rightarrow> ('w, go_error + idp_link option) state" where
  "getLocalIdentityLink c userID = do {
     r \<leftarrow> g_GetUserByID (sdk_grpc c) userID;
     State_Monad.return (case r of
         Inl e \<Rightarrow> Inl e
       | Inr None \<Rightarrow> Inr None
       | Inr (Some u) \<Rightarrow>
           if localIdentityUsername u = [] then Inr None
           else Inr (Some \<lparr>idp_IDPID = localIdentityProviderID, idp_IDPName = localIdentityProviderName,
             idp_UserID = ru_UserId u, idp_IDPUserName = localIdentityUsername u\<rparr>))
   }"

fun resolve_links :: "'w sdk_client \<Rightarrow> raw_link list \<Rightarrow> ('w, idp_link list) state" where
  "resolve_links c [] = State_Monad.return []"
| "resolve_links c (l # ls) = do {
     idp \<leftarrow> g_GetIDPByID (sdk_grpc c) (rl_IdpId l);
     let name = (case idp of Inr (Some n) \<Rightarrow> n | _ \<Rightarrow> rl_IdpId l);
     rest \<leftarrow> resolve_links c ls;
     State_Monad.return (\<lparr>idp_IDPID = rl_IdpId l, idp_IDPName = name, idp_UserID = rl_UserId l,
       idp_IDPUserName = rl_UserName l\<rparr> # rest)
   }"

definition SDK_ListIDPLinks :: "'w sdk_client \<Rightarrow> string \<Rightarrow> ('w, go_error + idp_link list) state" where
  "SDK_ListIDPLinks c userID = do {
     r \<leftarrow> g_ListIDPLinks (sdk_grpc c) userID;
     (case r of
        Inl e \<Rightarrow> State_Monad.return (Inl e)
      | Inr ls \<Rightarrow> do {
          out \<leftarrow> resolve_links c ls;
          if out \<noteq> [] then State_Monad.return (Inr out)
          else do {
            l \<leftarrow> getLocalIdentityLink c userID;
            State_Monad.return (case l of
                Inl e \<Rightarrow> Inl e
              | Inr None \<Rightarrow> Inr []
              | Inr (Some l) \<Rightarrow> Inr [l])
          }
        })
   }"

definition SDK_ListPasskeys :: "'w sdk_client \<Rightarrow> string \<Rightarrow> ('w, go_error + passkey list) state" where
  "SDK_ListPasskeys c userID = do {
     r \<leftarrow> g_ListPasskeys (sdk_grpc c) userID;
     State_Monad.return (on_ok ''list passkeys: ''
       (map (\<lambda>(i, n, s). \<lparr>pk_ID = i, pk_Name = n, pk_State = s\<rparr>)) r)
   }"

definition SDK_CreatePasskeyRegistrationLink ::
  "'w sdk_client \<Rightarrow> string \<Rightarrow> ('w, go_error + string \<times> string) state" where
  "SDK_CreatePasskeyRegistrationLink c userID = do {
     r \<leftarrow> g_CreatePasskeyRegistrationLink (sdk_grpc c) userID;
     State_Monad.return (case r of
         Inl e \<Rightarrow> Inl (wrapf ''create passkey registration link: '' e)
       | Inr None \<Rightarrow> Inl (errorf ''create passkey registration link: empty code in response'')
       | Inr (Some (i, code)) \<Rightarrow>
           if code = [] then Inl (errorf ''create passkey registration link: empty code in response'')
           else Inr (i, code))
   }"

definition SDK_ListAuthMethodTypes :: "'w sdk_client \<Rightarrow> string \<Rightarrow> ('w, go_error + string list) state" where
  "SDK_ListAuthMethodTypes c userID = do {
     r \<leftarrow> g_ListAuthenticationMethodTypes (sdk_grpc c) userID;
     State_Monad.return (on_ok ''list authentication method types: '' (\<lambda>ms. ms) r)
   }"

definition SDK_ListUserMetadata :: "'w sdk_client \<Rightarrow> string \<Rightarrow> ('w, go_error + user_metadata list) state" where
  "SDK_ListUserMetadata c userID = do {
     r \<leftarrow> g_ListUserMetadata (sdk_grpc c) userID;
     State_Monad.return (on_ok ''list user metadata: ''
       (map (\<lambda>(k, v, t). \<lparr>meta_Key = k, meta_Value = v, meta_CreationDate = toTime t\<rparr>)) r)
   }"

definition SDK_CreateOrganization :: "'w sdk_client \<Rightarrow> string \<Rightarrow> ('w, go_error + string) state" where
  "SDK_CreateOrganization c name = do {
     r \<leftarrow> g_AddOrganization (sdk_grpc c) name None;
     State_Monad.return (on_ok ''add organization: '' (\<lambda>i. i) r)
   }"

definition SDK_CreateOrganizationWithID :: "'w sdk_client \<Rightarrow> string \<Rightarrow> string \<Rightarrow> ('w, go_error + string) state" where
  "SDK_CreateOrganizationWithID c name customOrgID = do {
     r \<leftarrow> g_AddOrganization (sdk_grpc c) name (Some customOrgID);
     State_Monad.return (on_ok ''add organization with id: '' (\<lambda>i. i) r)
   }"

definition SDK_AddMachineUserInOrganization ::
  "'w sdk_client \<Rightarrow> string \<Rightarrow> string \<Rightarrow> string \<Rightarrow> string \<Rightarrow> ('w, go_error + string) state" where
  "SDK_AddMachineUserInOrganization c orgID userID username displayName = do {
     r \<leftarrow> g_CreateMachineUser (sdk_grpc c) orgID userID username displayName;
     State_Monad.return (on_ok ''create machine user in org: '' (\<lambda>i. i) r)
   }"

definition SDK_AddMachineKeyInOrganization ::
  "'w sdk_client \<Rightarrow> string \<Rightarrow> string \<Rightarrow> string \<Rightarrow> int option \<Rightarrow> ('w, go_error + string \<times> string) state" where
  "SDK_AddMachineKeyInOrganization c orgID userID publicKey expirationDate = do {
     exp \<leftarrow> (case expirationDate of
         Some t \<Rightarrow> State_Monad.return t
       | None \<Rightarrow> do {
           now \<leftarrow> Now (sdk_runtime c);
           State_Monad.return (now + sdk_DefaultMachineKeyExpiration c)
         });
     r \<leftarrow> g_AddKey (sdk_grpc c) orgID userID publicKey exp;
     State_Monad.return (on_ok ''add key in org: '' (\<lambda>k. k) r)
   }"

definition SDK_DeleteOrganization :: "'w sdk_client \<Rightarrow> string \<Rightarrow> ('w, go_error option) state" where
  "SDK_DeleteOrganization c orgID = do {
     e \<leftarrow> g_DeleteOrganization (sdk_grpc c) orgID;
     State_Monad.return (unless_not_found ''delete organization: '' e)
   }"

definition SDK_GetOrganization :: "'w sdk_client \<Rightarrow> string \<Rightarrow> ('w, go_error + organization option) state" where
  "SDK_GetOrganization c orgID = do {
     r \<leftarrow> g_ListOrganizations (sdk_grpc c) orgID;
     State_Monad.return (on_ok ''list organizations: ''
       (\<lambda>os. case os of [] \<Rightarrow> None | (i, n) # _ \<Rightarrow> Some \<lparr>org_ID = i, org_Name = n\<rparr>) r)
   }"

definition SDK_GetMachineUserByUsername ::
  "'w sdk_client \<Rightarrow> string \<Rightarrow> string \<Rightarrow> ('w, go_error + zuser option) state" where
  "SDK_GetMachineUserByUsername c orgID username = do {
     r \<leftarrow> g_ListUsers (sdk_grpc c) None None [UserNameQuery username, OrganizationIdQuery orgID];
     State_Monad.return (on_ok ''list users: ''
       (\<lambda>us. case us of [] \<Rightarrow> None | u # _ \<Rightarrow> Some (bare_user u)) r)
   }"

definition SDK_GetUserByID :: "'w sdk_client \<Rightarrow> string \<Rightarrow> ('w, go_error + zuser option) state" where
  "SDK_GetUserByID c userID = do {
     r \<leftarrow> g_GetUserByID (sdk_grpc c) userID;
     State_Monad.return (case r of
         Inl e \<Rightarrow> if status_code e = NotFound then Inr None else Inl (wrapf ''get user by id: '' e)
       | Inr u \<Rightarrow> Inr (map_option fetched_user u))
   }"

definition SDK_ListHumanUsers :: "'w sdk_client \<Rightarrow> nat \<Rightarrow> nat \<Rightarrow> ('w, go_error + zuser list \<times> nat) state" where
  "SDK_ListHumanUsers c offset limit = do {
     r \<leftarrow> g_ListUsers (sdk_grpc c) None (Some (offset, limit)) [TypeHumanQuery];
     State_Monad.return (on_ok ''list human users: ''
       (\<lambda>us. (List.map_filter listed_human us, length us)) r)
   }"

definition SDK_DeleteUser :: "'w sdk_client \<Rightarrow> string \<Rightarrow> ('w, go_error option) state" where
  "SDK_DeleteUser c userID = do {
     e \<leftarrow> g_DeleteUser (sdk_grpc c) userID;
     State_Monad.return (unless_not_found ''delete user: '' e)
   }"

definition SDK_DeactivateUser :: "'w sdk_client \<Rightarrow> string \<Rightarrow> string \<Rightarrow> ('w, go_error option) state" where
  "SDK_DeactivateUser c orgID userID = do {
     e \<leftarrow> g_DeactivateUser (sdk_grpc c) orgID userID;
     State_Monad.return (unless_not_found ''deactivate user: '' e)
   }"

definition SDK_ReactivateUser :: "'w sdk_client \<Rightarrow> string \<Rightarrow> string \<Rightarrow> ('w, go_error option) state" where
  "SDK_ReactivateUser c orgID userID = do {
     e \<leftarrow> g_ReactivateUser (sdk_grpc c) orgID userID;
     State_Monad.return (unless_not_found ''reactivate user: '' e)
   }"

definition SDK_ListMachineAccountsInOrganization :: "'w sdk_client \<Rightarrow> string \<Rightarrow> ('w, go_error + zuser list) state" where
  "SDK_ListMachineAccountsInOrganization c orgID = do {
     r \<leftarrow> g_ListUsers (sdk_grpc c) (Some orgID) None [OrganizationIdQuery orgID];
     State_Monad.return (on_ok ''list users: '' (\<lambda>us. map bare_user (filter ru_Machine us)) r)
   }"

definition SDK_ListMachineKeysInOrganization ::
  "'w sdk_client \<Rightarrow> string \<Rightarrow> string \<Rightarrow> ('w, go_error + machine_key list) state" where
  "SDK_ListMachineKeysInOrganization c orgID userID = do {
     r \<leftarrow> g_ListKeys (sdk_grpc c) orgID orgID userID;
     State_Monad.return (on_ok ''list keys: ''
       (map (\<lambda>k. \<lparr>mk_ID = rk_Id k, mk_CreatedDate = AsTime (rk_CreationDate k),
          mk_ExpirationDate = rk_ExpirationDate k\<rparr>)) r)
   }"

definition SDK_RemoveMachineKeyInOrganization ::
  "'w sdk_client \<Rightarrow> string \<Rightarrow> string \<Rightarrow> string \<Rightarrow> ('w, go_error option) state" where
  "SDK_RemoveMachineKeyInOrganization c orgID userID keyID = do {
     e \<leftarrow> g_RemoveKey (sdk_grpc c) orgID userID keyID;
     State_Monad.return (unless_not_found ''remove key: '' e)
   }"

text \<open>The client as a value of the interface.\<close>

definition sdk_api :: "'w sdk_client \<Rightarrow> 'w zitadel_api" where
  "sdk_api c =
     \<lparr>ListSessions = SDK_ListSessions c, GetSession = SDK_GetSession c, DeleteSession = SDK_DeleteSession c,
      ListIDPLinks = SDK_ListIDPLinks c, ListPasskeys = SDK_ListPasskeys c,
      CreatePasskeyRegistrationLink = SDK_CreatePasskeyRegistrationLink c,
      ListAuthMethodTypes = SDK_ListAuthMethodTypes c,
      CreateOrganizationWithID = SDK_CreateOrganizationWithID c, DeleteOrganization = SDK_DeleteOrganization c,
      GetOrganization = SDK_GetOrganization c, GetUserByID = SDK_GetUserByID c,
      ListHumanUsers = SDK_ListHumanUsers c, GetMachineUserByUsername = SDK_GetMachineUserByUsername c,
      AddMachineUserInOrganization = SDK_AddMachineUserInOrganization c, DeleteZitadelUser = SDK_DeleteUser c,
      ListUserMetadata = SDK_ListUserMetadata c, DeactivateUser = SDK_DeactivateUser c,
      ReactivateUser = SDK_ReactivateUser c,
      ListMachineAccountsInOrganization = SDK_ListMachineAccountsInOrganization c,
      AddMachineKeyInOrganization = SDK_AddMachineKeyInOrganization c,
      ListMachineKeysInOrganization = SDK_ListMachineKeysInOrganization c,
      RemoveMachineKeyInOrganization = SDK_RemoveMachineKeyInOrganization c\<rparr>"

section \<open>NewSDK\<close>

text \<open>\<^verbatim>\<open>net.SplitHostPort\<close>: none when it returns an error.\<close>

definition after_last_colon :: "string \<Rightarrow> string" where
  "after_last_colon s = rev (takeWhile (\<lambda>c. c \<noteq> CHR '':'') (rev s))"

definition before_last_colon :: "string \<Rightarrow> string" where
  "before_last_colon s = take (length s - Suc (length (after_last_colon s))) s"

definition SplitHostPort :: "string \<Rightarrow> (string \<times> string) option" where
  "SplitHostPort s =
     (if CHR '':'' \<notin> set s then None
      else let port = after_last_colon s; front = before_last_colon s in
        if hd s = CHR ''['' then
          (case rev front of
             c # h \<Rightarrow> if c = CHR '']'' \<and> h \<noteq> [] \<and> CHR '']'' \<notin> set h \<and> CHR ''['' \<notin> set (butlast h) \<and>
                       CHR ''['' \<notin> set port \<and> CHR '']'' \<notin> set port
                     then Some (tl (rev h), port) else None
           | [] \<Rightarrow> None)
        else if CHR '':'' \<in> set front \<or> CHR ''['' \<in> set s \<or> CHR '']'' \<in> set s then None
        else Some (front, port))"

definition ParseUint16 :: "string \<Rightarrow> nat option" where
  "ParseUint16 s =
     (let digit = (\<lambda>c. 48 \<le> (of_char c :: nat) \<and> (of_char c :: nat) \<le> 57);
          n = foldl (\<lambda>a c. 10 * a + (of_char c - 48)) 0 s
      in if s \<noteq> [] \<and> list_all digit s \<and> n < 65536 then Some n else None)"

record sdk_config =
  sc_Domain :: string
  sc_Issuer :: string
  sc_KeyPath :: string
  sc_DefaultMachineKeyExpiration :: int

text \<open>
  The checks of \<^verbatim>\<open>NewSDK\<close> up to the construction of the gRPC client: the host, the port (zero for the
  default) and the completed configuration.
\<close>

definition sdk_target :: "(string \<Rightarrow> string) \<Rightarrow> sdk_config \<Rightarrow> go_error + string \<times> nat \<times> sdk_config" where
  "sdk_target Getenv cfg =
     (let cfg = (if sc_Domain cfg = [] then cfg\<lparr>sc_Domain := Getenv ''ZITADEL_API''\<rparr> else cfg);
          cfg = (if sc_Issuer cfg = [] then cfg\<lparr>sc_Issuer := Getenv ''ZITADEL_ISSUER''\<rparr> else cfg);
          cfg = (if sc_KeyPath cfg = [] then cfg\<lparr>sc_KeyPath := Getenv ''ZITADEL_KEY_PATH''\<rparr> else cfg)
      in if sc_Domain cfg = [] \<or> sc_Issuer cfg = [] \<or> sc_KeyPath cfg = []
         then Inl (errorf ''missing ZITADEL domain, issuer, or key path'')
         else let host = TrimPrefix (TrimPrefix (sc_Domain cfg) ''https://'') ''http://'' in
           if host = [] \<or> Contains host ''/''
           then Inl (errorf ''domain must be host only (e.g. auth.example.com)'')
           else case (case SplitHostPort host of
                        None \<Rightarrow> Inr (host, 0)
                      | Some (h, p) \<Rightarrow> (case ParseUint16 p of
                            None \<Rightarrow> Inl (errorf (''invalid port '' @ Quote p @ '' in domain '' @ Quote (sc_Domain cfg)))
                          | Some n \<Rightarrow> Inr (h, n))) of
             Inl e \<Rightarrow> Inl e
           | Inr (host, port) \<Rightarrow>
               if \<not> HasPrefix (sc_Issuer cfg) ''https://'' \<and> \<not> HasPrefix (sc_Issuer cfg) ''http://''
               then Inl (errorf ''issuer must include scheme (e.g. https://auth.example.com)'')
               else Inr (host, port, cfg))"

definition NewSDK ::
  "(string \<Rightarrow> string) \<Rightarrow> (string \<Rightarrow> nat \<Rightarrow> string \<Rightarrow> string \<Rightarrow> ('w, go_error + 'w grpc) state) \<Rightarrow> 'w runtime \<Rightarrow>
   sdk_config \<Rightarrow> ('w, go_error + 'w sdk_client) state" where
  "NewSDK Getenv dial rt cfg =
     (case sdk_target Getenv cfg of
        Inl e \<Rightarrow> State_Monad.return (Inl e)
      | Inr (host, port, cfg) \<Rightarrow> do {
          r \<leftarrow> dial host port (sc_Issuer cfg) (sc_KeyPath cfg);
          State_Monad.return (case r of
              Inl e \<Rightarrow> Inl e
            | Inr g \<Rightarrow> Inr \<lparr>sdk_grpc = g, sdk_runtime = rt,
                sdk_DefaultMachineKeyExpiration = sc_DefaultMachineKeyExpiration cfg\<rparr>)
        })"

text \<open>A concrete set of calls, for witnesses: every call fails with the given error.\<close>

definition down_grpc :: "go_error \<Rightarrow> 'w grpc" where
  "down_grpc e =
     \<lparr>g_ListSessions = (\<lambda>_. State_Monad.return (Inl e)), g_GetSession = (\<lambda>_. State_Monad.return (Inl e)),
      g_DeleteSession = (\<lambda>_. State_Monad.return (Some e)), g_ListIDPLinks = (\<lambda>_. State_Monad.return (Inl e)),
      g_GetIDPByID = (\<lambda>_. State_Monad.return (Inl e)), g_GetUserByID = (\<lambda>_. State_Monad.return (Inl e)),
      g_ListPasskeys = (\<lambda>_. State_Monad.return (Inl e)), g_CreatePasskeyRegistrationLink = (\<lambda>_. State_Monad.return (Inl e)),
      g_ListAuthenticationMethodTypes = (\<lambda>_. State_Monad.return (Inl e)), g_ListUserMetadata = (\<lambda>_. State_Monad.return (Inl e)),
      g_AddOrganization = (\<lambda>_ _. State_Monad.return (Inl e)), g_DeleteOrganization = (\<lambda>_. State_Monad.return (Some e)),
      g_ListOrganizations = (\<lambda>_. State_Monad.return (Inl e)), g_CreateMachineUser = (\<lambda>_ _ _ _. State_Monad.return (Inl e)),
      g_ListUsers = (\<lambda>_ _ _. State_Monad.return (Inl e)), g_DeleteUser = (\<lambda>_. State_Monad.return (Some e)),
      g_DeactivateUser = (\<lambda>_ _. State_Monad.return (Some e)), g_ReactivateUser = (\<lambda>_ _. State_Monad.return (Some e)),
      g_AddKey = (\<lambda>_ _ _ _. State_Monad.return (Inl e)), g_ListKeys = (\<lambda>_ _ _. State_Monad.return (Inl e)),
      g_RemoveKey = (\<lambda>_ _ _. State_Monad.return (Some e))\<rparr>"

end
