(* ===== verification/Sweep_Properties.thy ===== *)
theory Sweep_Properties
  imports User_Sweep Zitadel_Sdk
begin

text \<open>
  The user sweeper: every human account of Zitadel has a User after a sweep that succeeds, the sweep
  ends, and it never removes or rewrites a User.
\<close>

section \<open>What the sweep relies on\<close>

text \<open>
  The listing of Zitadel in ascending order: a page is a slice of the rows, of which the client
  leaves out those that are not human (none). The count it reports is that of the rows.
\<close>

definition listing_law :: "'w zitadel_api \<Rightarrow> ('w \<Rightarrow> zuser option list) \<Rightarrow> bool" where
  "listing_law Z rows \<longleftrightarrow>
     (\<forall>off lim w us raw w'. run_state (ListHumanUsers Z off lim) w = (Inr (us, raw), w') \<longrightarrow>
        us = List.map_filter id (take lim (drop off (rows w))) \<and> raw = length (take lim (drop off (rows w))))"

lemma listing_page:
  assumes "listing_law Z rows" and "run_state (ListHumanUsers Z off lim) w = (Inr (us, raw), w')"
  shows "us = List.map_filter id (take lim (drop off (rows w)))" and "raw = min (length (rows w) - off) lim"
  using assms unfolding listing_law_def by fastforce+

text \<open>The list of the informer cache names Users that exist.\<close>

definition listed_users_exist :: "'w kube \<Rightarrow> ('w \<Rightarrow> string \<Rightarrow> user option) \<Rightarrow> bool" where
  "listed_users_exist K users \<longleftrightarrow>
     (\<forall>w us w'. run_state (ListUsers K) w = (Inr us, w') \<longrightarrow> (\<forall>u \<in> set us. users w (user_name u) \<noteq> None))"

text \<open>The calls of the sweep that leave a view of the world alone.\<close>

definition sweep_reads :: "'w sweeper \<Rightarrow> ('w \<Rightarrow> 'v) \<Rightarrow> bool" where
  "sweep_reads S view \<longleftrightarrow>
     silent view (ListUsers (sw_Client S)) \<and> (\<forall>off lim. silent view (ListHumanUsers (sw_Zitadel S) off lim)) \<and>
     (\<forall>n. silent view (GetUser (sw_Client S) n)) \<and> (\<forall>e. silent view (CreateEvent (sw_Client S) e)) \<and>
     silent view (Now (sw_runtime S))"

definition sweep_writes_elsewhere :: "'w sweeper \<Rightarrow> ('w \<Rightarrow> 'v) \<Rightarrow> bool" where
  "sweep_writes_elsewhere S view \<longleftrightarrow>
     (\<forall>u. silent view (CreateUser (sw_Client S) u)) \<and> (\<forall>u. silent view (UpdateUserStatus (sw_Client S) u))"

section \<open>Invariants of a sweep\<close>

lemma keeps_retry:
  assumes "retry_law retry others" and "keeps I m" and "\<And>w w'. I w \<Longrightarrow> others w w' \<Longrightarrow> I w'"
  shows "keeps I (retry m)"
proof (rule keepsI)
  fix w r w'
  assume "I w" and "run_state (retry m) w = (r, w')"
  with assms(1) have "conflict_runs others m w r w'" unfolding retry_law_def by blast
  then show "I w'" using \<open>I w\<close>
    by (induction rule: conflict_runs.induct) (auto intro: keepsD [OF assms(2)] assms(3))
qed

text \<open>An invariant that each call of the sweep keeps, and that the other writers keep, is kept by the sweep.\<close>

definition sweep_keeps :: "'w sweeper \<Rightarrow> ('w \<Rightarrow> 'w \<Rightarrow> bool) \<Rightarrow> ('w \<Rightarrow> bool) \<Rightarrow> bool" where
  "sweep_keeps S others I \<longleftrightarrow>
     (\<forall>off lim. keeps I (ListHumanUsers (sw_Zitadel S) off lim)) \<and> (\<forall>e. keeps I (CreateEvent (sw_Client S) e)) \<and>
     keeps I (Now (sw_runtime S)) \<and> (\<forall>u. keeps I (CreateUser (sw_Client S) u)) \<and>
     (\<forall>n v. keeps I (Set_attempt (sw_Client S) n v)) \<and>
     retry_law (sw_retry S) others \<and> (\<forall>w w'. I w \<longrightarrow> others w w' \<longrightarrow> I w')"

lemma sweep_keeps_calls:
  assumes "sweep_keeps S others I"
  shows "keeps I (ListHumanUsers (sw_Zitadel S) off lim)" "keeps I (CreateEvent (sw_Client S) e)"
    "keeps I (Now (sw_runtime S))" "keeps I (CreateUser (sw_Client S) u)"
    "keeps I (Set_verified (sw_retry S) (sw_Client S) n v)"
  using assms keeps_retry [of "sw_retry S" others I] unfolding sweep_keeps_def Set_verified_def by blast+

lemma keeps_sweep_existing: "sweep_keeps S others I \<Longrightarrow> keeps I (sweep_existing S e u n)"
  unfolding sweep_existing_def by (intro keeps_intro sweep_keeps_calls)

lemma keeps_RecordEvent: "sweep_keeps S others I \<Longrightarrow> keeps I (RecordEvent (sw_runtime S) (sw_Client S) n uid r m)"
  unfolding RecordEvent_def by (intro keeps_intro sweep_keeps_calls)

lemma keeps_EnsureUser: "sweep_keeps S others I \<Longrightarrow> keeps I (EnsureUser (sw_Client S) u)"
  unfolding EnsureUser_def by (intro keeps_intro sweep_keeps_calls)

lemma keeps_sweep_missing: "sweep_keeps S others I \<Longrightarrow> keeps I (sweep_missing S u n)"
  unfolding sweep_missing_def Let_def by (intro keeps_intro keeps_RecordEvent keeps_EnsureUser)

lemma keeps_sweep_users: "sweep_keeps S others I \<Longrightarrow> keeps I (sweep_users S existing n us)"
  by (induction us arbitrary: n) (auto simp: Let_def intro!: keeps_intro keeps_sweep_existing keeps_sweep_missing)

lemma keeps_sweep_pages: "sweep_keeps S others I \<Longrightarrow> keeps I (sweep_pages S existing fuel off acc)"
proof (induction fuel arbitrary: off acc)
  case (Suc fuel)
  then show ?case
    by (auto simp: sweep_keeps_calls(1) intro!: keeps_intro keeps_sweep_users split: prod.splits)
qed (simp add: keeps_intro)

lemma keeps_sweepOnce:
  assumes "sweep_keeps S others I" and "keeps I (ListUsers (sw_Client S))"
  shows "keeps I (UserSweeper_sweepOnce fuel S)"
  unfolding UserSweeper_sweepOnce_def
  by (intro keeps_intro assms(2) keeps_sweep_pages [OF assms(1)] sweep_keeps_calls(3) [OF assms(1)])

section \<open>Completeness\<close>

text \<open>
  The laws together, for the rows of Zitadel and the Users of Milo. Other processes may run while a
  write is retried; the completeness of a sweep supposes that they neither change the rows nor
  delete a User meanwhile.
\<close>

definition sweep_law ::
  "'w sweeper \<Rightarrow> ('w \<Rightarrow> zuser option list) \<Rightarrow> ('w \<Rightarrow> string \<Rightarrow> user option) \<Rightarrow> ('w \<Rightarrow> 'w \<Rightarrow> bool) \<Rightarrow> bool" where
  "sweep_law S rows users others \<longleftrightarrow>
     listing_law (sw_Zitadel S) rows \<and> listed_users_exist (sw_Client S) users \<and>
     sweep_reads S rows \<and> sweep_writes_elsewhere S rows \<and> sweep_reads S users \<and>
     create_user_law (sw_Client S) users \<and> get_user_law (sw_Client S) users \<and>
     update_status_law (sw_Client S) users \<and> retry_law (sw_retry S) others \<and>
     (\<forall>w w'. others w w' \<longrightarrow> rows w' = rows w \<and> dom (users w) \<subseteq> dom (users w'))"

definition provided :: "('w \<Rightarrow> zuser option list) \<Rightarrow> ('w \<Rightarrow> string \<Rightarrow> user option) \<Rightarrow>
    zuser option list \<Rightarrow> string set \<Rightarrow> 'w \<Rightarrow> bool" where
  "provided rows users R D w \<longleftrightarrow> rows w = R \<and> D \<subseteq> dom (users w)"

lemma keeps_both: "silent rows m \<Longrightarrow> silent users m \<Longrightarrow> keeps (provided rows users R D) m"
  unfolding silent_def by (rule keepsI) (metis provided_def snd_conv)

lemma create_keeps_provided:
  assumes "create_user_law K users" and "silent rows (CreateUser K u)"
  shows "keeps (provided rows users R D) (CreateUser K u)"
proof (rule keepsI)
  fix w r w'
  assume p: "provided rows users R D w" and run: "run_state (CreateUser K u) w = (r, w')"
  have "dom (users w) \<subseteq> dom (users w')"
    using create_user_run [OF assms(1) run] by (cases r) auto
  with p silent_run [OF assms(2) run] show "provided rows users R D w'"
    unfolding provided_def by (metis order_trans)
qed

lemma attempt_keeps_provided:
  assumes "get_user_law K users" and "update_status_law K users"
    and "\<And>n. silent rows (GetUser K n)" and "\<And>u. silent rows (UpdateUserStatus K u)"
  shows "keeps (provided rows users R D) (Set_attempt K n v)"
proof (rule keepsI)
  fix w r w'
  assume p: "provided rows users R D w" and run: "run_state (Set_attempt K n v) w = (r, w')"
  have "silent rows (Set_attempt K n v)"
    unfolding Set_attempt_def by (intro silent_bind silent_cases silent_if silent_return assms(3,4))
  from silent_run [OF this run] have "rows w' = rows w" .
  moreover have "dom (users w) \<subseteq> dom (users w')"
  proof (cases r)
    case (Inl e)
    with Set_attempt_run(3) [OF assms(1,2) run] show ?thesis by simp
  next
    case (Inr b)
    with Set_attempt_run(1,2) [OF assms(1,2) run] show ?thesis by (cases b) auto
  qed
  ultimately show "provided rows users R D w'" using p unfolding provided_def by (metis order_trans)
qed

lemma sweep_law_keeps:
  assumes "sweep_law S rows users others"
  shows "sweep_keeps S others (provided rows users R D)"
    and "keeps (provided rows users R D) (ListUsers (sw_Client S))"
proof -
  note law = assms [unfolded sweep_law_def sweep_reads_def sweep_writes_elsewhere_def]
  have "keeps (provided rows users R D) (Set_attempt (sw_Client S) n v)" for n v
    using law by (intro attempt_keeps_provided) auto
  moreover have "keeps (provided rows users R D) (CreateUser (sw_Client S) u)" for u
    using law by (intro create_keeps_provided) auto
  moreover have "provided rows users R D w'" if "provided rows users R D w" "others w w'" for w w'
    using law that unfolding provided_def by (metis order_trans)
  ultimately show "sweep_keeps S others (provided rows users R D)"
    using law unfolding sweep_keeps_def by (auto intro: keeps_both)
  show "keeps (provided rows users R D) (ListUsers (sw_Client S))"
    using law by (auto intro: keeps_both)
qed

lemma sweep_missing_provides:
  assumes "sweep_law S rows users others" and "run_state (sweep_missing S u n) w = (Inr n', w')"
    and "provided rows users R D w"
  shows "provided rows users R (insert (zu_ID u) D) w'"
proof -
  let ?u = "NewUser (zu_ID u) (zu_Email u) (zu_GivenName u) (zu_FamilyName u)"
  note keeps = sweep_law_keeps(1) [OF assms(1)]
  have law: "create_user_law (sw_Client S) users" using assms(1) by (simp add: sweep_law_def)
  obtain c w1 where c: "run_state (EnsureUser (sw_Client S) ?u) w = (c, w1)" by fastforce
  from assms(2) c obtain res where res: "c = Inr res"
    by (cases c) (auto simp: sweep_missing_def Let_def)
  have "users w1 (zu_ID u) \<noteq> None"
    using EnsureUser_run(1,2) [OF law c] res by (cases res) (auto simp: NewUser_def)
  with keepsD [OF keeps_EnsureUser [OF keeps] assms(3) c] have w1: "provided rows users R (insert (zu_ID u) D) w1"
    by (auto simp: provided_def)
  show ?thesis
  proof (cases res)
    case None
    with assms(2) c res w1 show ?thesis by (simp add: sweep_missing_def Let_def)
  next
    case (Some usr)
    obtain x w2 where x: "run_state (RecordEvent (sw_runtime S) (sw_Client S) (user_name usr) (user_uid usr)
        EventReasonAccountCreated ''Account created'') w1 = (x, w2)" by (meson surj_pair)
    with assms(2) c res Some have "w' = w2" by (simp add: sweep_missing_def Let_def)
    with keepsD [OF keeps_RecordEvent [OF keeps] w1 x] show ?thesis by simp
  qed
qed

lemma sweep_users_provides:
  assumes law: "sweep_law S rows users others"
    and "run_state (sweep_users S existing n us) w = (Inr x, w')" and "provided rows users R D w" and "dom existing \<subseteq> D"
  shows "provided rows users R (D \<union> zu_ID ` set us) w'"
  using assms(2-)
proof (induction us arbitrary: w D n)
  case (Cons u us)
  note keeps = sweep_law_keeps(1) [OF law]
  have step: "\<exists>n1 w1. run_state (sweep_users S existing n1 us) w1 = (Inr x, w') \<and> provided rows users R (insert (zu_ID u) D) w1"
  proof (cases "existing (zu_ID u)")
    case None
    obtain err w1 where e: "run_state (sweep_missing S u (n\<lparr>s_scanned := s_scanned n + 1\<rparr>)) w = (err, w1)" by (meson surj_pair)
    with None Cons.prems(1) obtain n1 where "err = Inr n1" "run_state (sweep_users S existing n1 us) w1 = (Inr x, w')"
      by (auto simp: Let_def split: sum.splits)
    with sweep_missing_provides [OF law] e Cons.prems(2) show ?thesis by blast
  next
    case (Some v)
    obtain y w1 where e: "run_state (sweep_existing S v u (n\<lparr>s_scanned := s_scanned n + 1\<rparr>)) w = (y, w1)" by (meson surj_pair)
    with Some Cons.prems(1) have "run_state (sweep_users S existing y us) w1 = (Inr x, w')" by (simp add: Let_def)
    moreover have "provided rows users R D w1"
      using keepsD [OF keeps_sweep_existing [OF keeps] Cons.prems(2) e] .
    moreover have "zu_ID u \<in> D" using Some Cons.prems(3) by blast
    ultimately show ?thesis by (auto simp: insert_absorb)
  qed
  then obtain n1 w1 where "run_state (sweep_users S existing n1 us) w1 = (Inr x, w')"
    and "provided rows users R (insert (zu_ID u) D) w1" by blast
  from Cons.IH [OF this] Cons.prems(3) have "provided rows users R (insert (zu_ID u) D \<union> zu_ID ` set us) w'" by blast
  then show ?case by simp
qed simp

text \<open>Each account of a page is scanned once.\<close>

lemma sweep_missing_scanned: "run_state (sweep_missing S u n) w = (Inr n', w') \<Longrightarrow> s_scanned n' = s_scanned n"
  by (auto simp: sweep_missing_def Let_def split: prod.splits sum.splits option.splits)

lemma sweep_existing_scanned: "run_state (sweep_existing S e u n) w = (n', w') \<Longrightarrow> s_scanned n' = s_scanned n"
  by (auto simp: sweep_existing_def split: prod.splits sum.splits if_splits)

lemma sweep_users_scanned:
  "run_state (sweep_users S existing n us) w = (Inr n', w') \<Longrightarrow> s_scanned n' = s_scanned n + int (length us)"
proof (induction us arbitrary: n w)
  case (Cons u us)
  then show ?case
    by (auto simp: Let_def split: option.splits prod.splits sum.splits
        dest!: sweep_missing_scanned sweep_existing_scanned Cons.IH)
qed simp

lemma length_map_filter: "length (List.map_filter id R) = length (filter (\<lambda>x. x \<noteq> None) R)"
  by (induction R) (auto simp: map_filter_simps split: option.splits)

text \<open>The accounts of the first rows.\<close>

definition row_ids :: "zuser option list \<Rightarrow> string set" where
  "row_ids R = zu_ID ` set (List.map_filter id R)"

lemma set_map_filter_id: "set (List.map_filter id R) = {z. Some z \<in> set R}"
  by (induction R) (auto simp: map_filter_simps split: option.splits)

lemma row_ids_append [simp]: "row_ids (xs @ ys) = row_ids xs \<union> row_ids ys"
  by (auto simp: row_ids_def set_map_filter_id)

lemma row_ids_Nil [simp]: "row_ids [] = {}"
  by (simp add: row_ids_def set_map_filter_id)

lemma sweep_pages_provides:
  assumes law: "sweep_law S rows users others" and ex: "dom existing \<subseteq> D"
    and run: "run_state (sweep_pages S existing fuel 0 acc) w = (Some (Inr acc'), w')"
    and p: "provided rows users R D w"
  shows "provided rows users R (D \<union> row_ids R) w' \<and> s_scanned acc' = s_scanned acc + int (length (filter (\<lambda>x. x \<noteq> None) R))"
proof -
  let ?Inv = "\<lambda>off n w. provided rows users R (D \<union> row_ids (take off R)) w \<and>
    s_scanned n = s_scanned acc + int (length (filter (\<lambda>x. x \<noteq> None) (take off R)))"
  have "\<exists>off'. ?Inv off' acc' w' \<and> length R \<le> off'"
  proof (rule sweep.sweep_invariant [OF run])
    show "?Inv 0 acc w" using p by simp
    fix off n w us raw w1 b w2
    assume inv: "?Inv off n w" and pg: "run_state (ListHumanUsers (sw_Zitadel S) off sweepPageSize) w = (Inr (us, raw), w1)"
      and body: "run_state (sweep_users S existing n us) w1 = (Inr b, w2)"
    let ?slice = "take sweepPageSize (drop off R)"
    from law pg inv have us: "us = List.map_filter id ?slice" and raw: "raw = length ?slice"
      by (auto simp: sweep_law_def listing_law_def provided_def)
    have w1: "provided rows users R (D \<union> row_ids (take off R)) w1"
      using keepsD [OF sweep_keeps_calls(1) [OF sweep_law_keeps(1) [OF law]] _ pg] inv by blast
    have slice: "take (off + raw) R = take off R @ ?slice" by (simp add: raw take_add min_def)
    then have "D \<union> row_ids (take off R) \<union> zu_ID ` set us = D \<union> row_ids (take (off + raw) R)"
      by (simp add: us Un_assoc row_ids_def [of ?slice])
    with sweep_users_provides [OF law body w1] ex
    have "provided rows users R (D \<union> row_ids (take (off + raw) R)) w2" by (metis le_supI1)
    moreover have "s_scanned b = s_scanned n + int (length (filter (\<lambda>x. x \<noteq> None) ?slice))"
      using sweep_users_scanned [OF body] us by (simp add: length_map_filter)
    ultimately have "?Inv (off + raw) b w2" using inv slice by simp
    then show "?Inv (off + raw) b w2 \<and> (raw < sweepPageSize \<longrightarrow> length R \<le> off + raw)" by (auto simp: raw)
  qed
  then obtain off' where "?Inv off' acc' w'" "length R \<le> off'" by blast
  then show ?thesis by simp
qed

lemma dom_existing_users: "dom (existing_users items) = user_name ` set items"
  by (simp add: existing_users_def dom_map_of_conv_image_fst image_image)

text \<open>C5. A sweep ends, whatever the API servers answer, once its fuel exceeds the number of full pages; it
  removes no User; and when it succeeds every human account of Zitadel has a User named after it,
  also those on a full page with rows that the client leaves out, and the counter of scanned accounts has grown by
  their number.\<close>

theorem sweep_provisions_everyone:
  assumes "sweep_law S rows users others" and "length (rows w) div 100 < fuel"
  shows "\<exists>res w'. run_state (UserSweeper_sweepOnce fuel S) w = (Some res, w') \<and>
    rows w' = rows w \<and> dom (users w) \<subseteq> dom (users w') \<and>
    (\<forall>n. res = Inr n \<longrightarrow> (\<forall>z. Some z \<in> set (rows w) \<longrightarrow> users w' (zu_ID z) \<noteq> None) \<and>
      s_scanned n = int (length (filter (\<lambda>x. x \<noteq> None) (rows w))))"
proof -
  let ?R = "rows w" and ?D = "dom (users w)"
  note keeps = sweep_law_keeps [OF assms(1), of ?R ?D]
  obtain l w1 where l: "run_state (ListUsers (sw_Client S)) w = (l, w1)" by fastforce
  have p: "provided rows users ?R ?D w" by (simp add: provided_def)
  note p1 = keepsD [OF keeps(2) p l]
  show ?thesis
  proof (cases l)
    case (Inl e)
    with l p1 show ?thesis by (simp add: UserSweeper_sweepOnce_def provided_def)
  next
    case (Inr items)
    have ex: "dom (existing_users items) \<subseteq> ?D"
      using assms(1) l Inr unfolding dom_existing_users sweep_law_def listed_users_exist_def by auto
    have "\<exists>res w'. run_state (sweep_pages S (existing_users items) fuel 0 no_sweep) w1 = (Some res, w')"
    proof (rule sweep.sweep_ends [of "provided rows users ?R ?D" w1 0 "length ?R"])
      show "provided rows users ?R ?D w1" "0 \<le> length ?R" by (rule p1, simp)
      show "(length ?R - 0) div sweepPageSize < fuel" using assms(2) by (simp add: sweepPageSize_def)
      fix off v r v1
      assume v: "provided rows users ?R ?D v" and run: "run_state (ListHumanUsers (sw_Zitadel S) off sweepPageSize) v = (r, v1)"
      have "raw = min (length ?R - off) sweepPageSize" if "r = Inr (us, raw)" for us raw
        using listing_page(2) [OF _ run [unfolded that], of rows] assms(1) v by (simp add: sweep_law_def provided_def)
      with keepsD [OF sweep_keeps_calls(1) [OF keeps(1)] v run]
      show "provided rows users ?R ?D v1 \<and> (\<forall>us raw. r = Inr (us, raw) \<longrightarrow> sweepPageSize \<le> raw \<longrightarrow> off + raw \<le> length ?R)"
        by (fastforce simp: sweepPageSize_def)
    qed (auto intro: keepsD [OF keeps_sweep_users [OF keeps(1)]])
    then obtain res w' where run: "run_state (sweep_pages S (existing_users items) fuel 0 no_sweep) w1 = (Some res, w')"
      by blast
    note w' = keepsD [OF keeps_sweep_pages [OF keeps(1)] p1 run]
    show ?thesis
    proof (cases res)
      case (Inl e)
      then show ?thesis using l Inr run w' by (simp add: UserSweeper_sweepOnce_def provided_def)
    next
      case (Inr n)
      obtain now w2 where now: "run_state (Now (sw_runtime S)) w' = (now, w2)" by (meson surj_pair)
      note all = sweep_pages_provides [OF assms(1) ex run [unfolded Inr] p1]
      have "provided rows users ?R (?D \<union> row_ids ?R) w2"
        using keepsD [OF sweep_keeps_calls(3) [OF sweep_law_keeps(1) [OF assms(1)]] _ now] all by blast
      then show ?thesis using l \<open>l = Inr items\<close> run now Inr all
        by (auto simp: UserSweeper_sweepOnce_def provided_def row_ids_def set_map_filter_id no_sweep_def)
    qed
  qed
qed

text \<open>A listing that is the same at all times.\<close>

definition list_api :: "zuser option list \<Rightarrow> 'w zitadel_api" where
  "list_api R = (down_api not_found)\<lparr>ListHumanUsers := (\<lambda>off lim. State_Monad.return
     (Inr (List.map_filter id (take lim (drop off R)), length (take lim (drop off R)))))\<rparr>"

definition mem_sweeper :: "zuser option list \<Rightarrow> mem_world sweeper" where
  "mem_sweeper R = \<lparr>sw_Client = mem_kube, sw_Zitadel = list_api R, sw_runtime = mem_runtime, sw_retry = (\<lambda>m. m),
     sw_Interval = Hour\<rparr>"

lemma mem_sweep_law: "sweep_law (mem_sweeper R) (\<lambda>_. R) mem_find (\<lambda>_ _. False)"
proof -
  have kube: "silent mem_find (ListUsers mem_kube)" "silent mem_find (GetUser mem_kube n)"
    "silent mem_find (CreateEvent mem_kube e)" "silent mem_find (Now mem_runtime)"
    "listed_users_exist mem_kube mem_find" for n e
    by (auto simp: silent_def mem_kube_def mem_runtime_def mem_find_def fun_eq_iff listed_users_exist_def find_None_iff)
  have "retry_law (\<lambda>m. m) (\<lambda>_ _. False)" unfolding retry_law_def by (auto intro: last_run)
  with kube mem_create_user_law mem_get_user_law mem_update_status_law show ?thesis
    by (auto simp: sweep_law_def mem_sweeper_def list_api_def listing_law_def sweep_reads_def sweep_writes_elsewhere_def)
      (auto simp: silent_def)
qed

definition one_row :: "zuser option list" where
  "one_row = [None, Some \<lparr>zu_ID = ''7'', zu_Username = [], zu_Email = ''a@x'', zu_State = [], zu_GivenName = ''A'',
     zu_FamilyName = [], zu_IsEmailVerified = True, zu_CreatedAt = 0\<rparr>]"

theorem sweep_provisions_everyone_witness:
  "\<exists>w'. run_state (UserSweeper_sweepOnce 1 (mem_sweeper one_row)) empty_world = (Some (Inr \<lparr>s_scanned = 1, s_missing = 1, s_created = 1, s_errors = 0,
       s_emailVerifiedUpdates = 0, s_lastSuccess = Some 0\<rparr>), w') \<and>
     mem_find w' ''7'' \<noteq> None"
proof -
  have "fst (run_state (UserSweeper_sweepOnce 1 (mem_sweeper one_row)) empty_world) = Some (Inr \<lparr>s_scanned = 1, s_missing = 1,
       s_created = 1, s_errors = 0, s_emailVerifiedUpdates = 0, s_lastSuccess = Some 0\<rparr>)"
    by code_simp
  with sweep_provisions_everyone [OF mem_sweep_law, of one_row 1 empty_world] show ?thesis
    by (auto simp: one_row_def)
qed

section \<open>What a sweep never does\<close>

text \<open>A User as it was but for the verification state and the resource version.\<close>

definition reverified :: "user \<Rightarrow> user \<Rightarrow> bool" where
  "reverified u u' \<longleftrightarrow>
     (\<exists>v rv. u' = u\<lparr>user_status := (user_status u)\<lparr>us_emailVerification := v\<rparr>, user_resourceVersion := rv\<rparr>)"

lemma reverified_refl [simp]: "reverified u u"
  unfolding reverified_def by (rule exI [of _ "us_emailVerification (user_status u)"], rule exI [of _ "user_resourceVersion u"]) simp

lemma reverified_trans: "reverified u v \<Longrightarrow> reverified v x \<Longrightarrow> reverified u x"
  unfolding reverified_def by auto blast

lemma reverified_set [simp]: "reverified u ((set_verification v u)\<lparr>user_resourceVersion := rv\<rparr>)"
  unfolding reverified_def set_verification_def by auto

lemma reverified_set_trans: "reverified u v \<Longrightarrow> reverified u ((set_verification b v)\<lparr>user_resourceVersion := rv\<rparr>)"
  by (rule reverified_trans [OF _ reverified_set])

definition keeps_users :: "('w \<Rightarrow> string \<Rightarrow> user option) \<Rightarrow> string \<Rightarrow> user \<Rightarrow> 'w \<Rightarrow> bool" where
  "keeps_users users n u w \<longleftrightarrow> (\<exists>u'. users w n = Some u' \<and> reverified u u')"

lemma create_keeps_users:
  assumes "create_user_law K users"
  shows "keeps (keeps_users users n u) (CreateUser K v)"
proof (rule keepsI)
  fix w r w'
  assume "keeps_users users n u w" and run: "run_state (CreateUser K v) w = (r, w')"
  then show "keeps_users users n u w'"
    using create_user_run [OF assms run] by (cases r) (auto simp: keeps_users_def)
qed

lemma attempt_keeps_users:
  assumes "get_user_law K users" and "update_status_law K users"
  shows "keeps (keeps_users users n u) (Set_attempt K m v)"
proof (rule keepsI)
  fix w r w'
  assume k: "keeps_users users n u w" and run: "run_state (Set_attempt K m v) w = (r, w')"
  note law = Set_attempt_run [OF assms run]
  show "keeps_users users n u w'"
  proof (cases r)
    case (Inl e)
    with law(3) k show ?thesis by (simp add: keeps_users_def)
  next
    case (Inr b)
    with law(1,2) k show ?thesis
      by (cases b) (auto simp: keeps_users_def intro!: reverified_set_trans)
  qed
qed

text \<open>A sweep, also one that fails, leaves every User it finds in place and rewrites nothing of it but the
  verification state, as long as the other processes that run while it retries a write do the same.\<close>

lemma sweep_only_provisions:
  assumes "create_user_law (sw_Client S) users" and "get_user_law (sw_Client S) users"
    and "update_status_law (sw_Client S) users" and "sweep_reads S users" and "retry_law (sw_retry S) others"
    and "\<And>a b n u. others a b \<Longrightarrow> users a n = Some u \<Longrightarrow> \<exists>u'. users b n = Some u' \<and> reverified u u'"
    and "run_state (UserSweeper_sweepOnce fuel S) w = (r, w')" and "users w n = Some u"
  shows "\<exists>v rv. users w' n =
    Some (u\<lparr>user_status := (user_status u)\<lparr>us_emailVerification := v\<rparr>, user_resourceVersion := rv\<rparr>)"
proof -
  let ?I = "keeps_users users n u"
  have quiet: "keeps ?I (ListUsers (sw_Client S))" "keeps ?I (ListHumanUsers (sw_Zitadel S) off lim)"
    "keeps ?I (CreateEvent (sw_Client S) e)" "keeps ?I (Now (sw_runtime S))" for off lim e
    using assms(4) unfolding sweep_reads_def silent_def by (auto intro!: keepsI simp: keeps_users_def) (metis snd_conv)+
  have "?I b" if "?I a" "others a b" for a b
    using that assms(6) unfolding keeps_users_def by (meson reverified_trans)
  then have "sweep_keeps S others ?I"
    using quiet create_keeps_users [OF assms(1)] attempt_keeps_users [OF assms(2,3)] assms(5)
    unfolding sweep_keeps_def by blast
  from keepsD [OF keeps_sweepOnce [OF this quiet(1)] _ assms(7)] assms(8) have "?I w'"
    by (simp add: keeps_users_def)
  then show ?thesis unfolding keeps_users_def reverified_def by blast
qed

end
