(* ===== verification/GC_Properties.thy ===== *)
theory GC_Properties
  imports Abandoned_GC Sweep_Properties
begin

text \<open>
  The collector of abandoned accounts: what it may delete and in which order, that a sweep ends, and
  two ways in which it deletes less than it means to.
\<close>

section \<open>What the collector relies on\<close>

text \<open>
  Two views of the world: the identifiers Zitadel has no account for, and the Users of Milo. The
  reads change neither. A delete in Zitadel removes at most the account named, and has removed it
  when it reports success; a delete in Milo touches at most the User named.
\<close>

definition gc_law :: "'w gc \<Rightarrow> ('w \<Rightarrow> string set) \<Rightarrow> ('w \<Rightarrow> string \<Rightarrow> user option) \<Rightarrow> bool" where
  "gc_law G absent users \<longleftrightarrow>
     (\<forall>off lim. silent (\<lambda>w. (absent w, users w)) (ListHumanUsers (gc_Zitadel G) off lim)) \<and>
     (\<forall>i. silent (\<lambda>w. (absent w, users w)) (ListAuthMethodTypes (gc_Zitadel G) i)) \<and>
     (\<forall>i. silent (\<lambda>w. (absent w, users w)) (ListIDPLinks (gc_Zitadel G) i)) \<and>
     silent (\<lambda>w. (absent w, users w)) (gc_clock G) \<and>
     (\<forall>i w r w'. run_state (DeleteZitadelUser (gc_Zitadel G) i) w = (r, w') \<longrightarrow>
        users w' = users w \<and> absent w \<subseteq> absent w' \<and> absent w' \<subseteq> insert i (absent w) \<and> (r = None \<longrightarrow> i \<in> absent w')) \<and>
     (\<forall>i w r w'. run_state (DeleteUserObject (gc_Client G) i) w = (r, w') \<longrightarrow>
        absent w' = absent w \<and> (\<forall>n. n \<noteq> i \<longrightarrow> users w' n = users w n))"

section \<open>What may be deleted\<close>

text \<open>
  Since the world \<^verbatim>\<open>w0\<close> only accounts of the given set have gone, and a User has changed only where
  Zitadel has no account (any more).
\<close>

definition collected :: "('w \<Rightarrow> string set) \<Rightarrow> ('w \<Rightarrow> string \<Rightarrow> user option) \<Rightarrow> 'w \<Rightarrow> string set \<Rightarrow> 'w \<Rightarrow> bool" where
  "collected absent users w0 E w \<longleftrightarrow>
     absent w0 \<subseteq> absent w \<and> absent w - absent w0 \<subseteq> E \<and> (\<forall>n. users w n \<noteq> users w0 n \<longrightarrow> n \<in> absent w)"

lemma collected_quiet: "silent (\<lambda>w. (absent w, users w)) m \<Longrightarrow> keeps (collected absent users w0 E) m"
  using keeps_silent [where v = "\<lambda>w. (absent w, users w)" and P = "\<lambda>(a, us). absent w0 \<subseteq> a \<and> a - absent w0 \<subseteq> E \<and>
      (\<forall>n. us n \<noteq> users w0 n \<longrightarrow> n \<in> a)"] by (simp add: collected_def [abs_def])

lemma collected_reads:
  assumes "gc_law G absent users"
  shows "keeps (collected absent users w0 E) (ListHumanUsers (gc_Zitadel G) off lim)"
    and "keeps (collected absent users w0 E) (ListAuthMethodTypes (gc_Zitadel G) i)"
    and "keeps (collected absent users w0 E) (ListIDPLinks (gc_Zitadel G) i)"
    and "keeps (collected absent users w0 E) (gc_clock G)"
  using assms unfolding gc_law_def by (auto intro: collected_quiet)

lemma collect_keeps:
  assumes "gc_law G absent users" and "i \<in> E"
  shows "keeps (collected absent users w0 E) (collect_user G i)"
proof (rule keepsI)
  fix w r w'
  assume c: "collected absent users w0 E w" and run: "run_state (collect_user G i) w = (r, w')"
  obtain d w1 where d: "run_state (DeleteZitadelUser (gc_Zitadel G) i) w = (d, w1)" by fastforce
  have law: "users w1 = users w" "absent w \<subseteq> absent w1" "absent w1 \<subseteq> insert i (absent w)" "d = None \<Longrightarrow> i \<in> absent w1"
    using assms(1) d unfolding gc_law_def by blast+
  with c assms(2) have c1: "collected absent users w0 E w1" unfolding collected_def by (auto; blast)
  show "collected absent users w0 E w'"
  proof (cases d)
    case (Some e)
    with run d c1 show ?thesis by (simp add: collect_user_def)
  next
    case None
    obtain k w2 where k: "run_state (DeleteUserObject (gc_Client G) i) w1 = (k, w2)" by fastforce
    have "\<forall>i w r w'. run_state (DeleteUserObject (gc_Client G) i) w = (r, w') \<longrightarrow>
        absent w' = absent w \<and> (\<forall>n. n \<noteq> i \<longrightarrow> users w' n = users w n)"
      using assms(1) unfolding gc_law_def by simp
    from this [rule_format, OF k] have w2: "absent w2 = absent w1" "\<And>n. n \<noteq> i \<Longrightarrow> users w2 n = users w1 n" by auto
    from None run d k have "w' = w2" by (simp add: collect_user_def)
    with c1 w2 law(4) None show ?thesis unfolding collected_def by metis
  qed
qed

text \<open>The accounts a sweep may delete, given the accounts that exist and their links.\<close>

definition collectable :: "'w gc \<Rightarrow> int \<Rightarrow> zuser set \<Rightarrow> (string \<Rightarrow> idp_link list) \<Rightarrow> string set" where
  "collectable G cutoff accounts links =
     {i. \<not> gc_DryRun G \<and> links i = [] \<and> (\<exists>u \<in> accounts. zu_ID u = i \<and> \<not> zu_IsEmailVerified u \<and>
        zu_CreatedAt u \<noteq> zero_time \<and> zu_CreatedAt u < cutoff)}"

definition links_law :: "'w zitadel_api \<Rightarrow> (string \<Rightarrow> idp_link list) \<Rightarrow> bool" where
  "links_law Z links \<longleftrightarrow> (\<forall>i w ls w'. run_state (ListIDPLinks Z i) w = (Inr ls, w') \<longrightarrow> ls = links i)"

lemma hasIDPLink_run:
  assumes "links_law (gc_Zitadel G) links" and "run_state (hasIDPLink G i) w = (Inr False, w')"
  shows "links i = []"
proof -
  obtain ls where "run_state (ListIDPLinks (gc_Zitadel G) i) w = (Inr ls, w')" "ls = []"
    using assms(2) by (auto simp: hasIDPLink_def split: prod.splits sum.splits)
  with assms(1) show ?thesis unfolding links_law_def by metis
qed

lemma gc_user_keeps:
  assumes "gc_law G absent users" and "links_law (gc_Zitadel G) links" and "u \<in> accounts"
    and E: "E = collectable G cutoff accounts links"
  shows "keeps (collected absent users w0 E) (gc_user G cutoff u n)"
proof -
  let ?I = "collected absent users w0 E"
  have lacks: "keeps ?I (lacks_credential G u k)" for k
    unfolding lacks_credential_def by (intro keeps_intro collected_reads [OF assms(1)])
  have linked: "keeps ?I (hasIDPLink G i)" for i
    unfolding hasIDPLink_def by (intro keeps_intro collected_reads [OF assms(1)])
  have tail: "triple ?I (State_Monad.bind (hasIDPLink G (zu_ID u)) f) (\<lambda>_. ?I)"
    if ab: "isAbandoned u cutoff" and f: "\<And>e. f (Inl e) = State_Monad.return m" "f (Inr True) = State_Monad.return k"
      "f (Inr False) = (if gc_DryRun G then State_Monad.return m'
         else State_Monad.bind (collect_user G (zu_ID u)) (\<lambda>e. State_Monad.return (g e)))" for f m k m' g
  proof (rule triple_bind)
    show "triple ?I (hasIDPLink G (zu_ID u)) (\<lambda>r w. ?I w \<and> (r = Inr False \<longrightarrow> links (zu_ID u) = []))"
      using keepsD [OF linked] hasIDPLink_run [OF assms(2)] by (intro tripleI) blast
    fix r
    show "triple (\<lambda>w. ?I w \<and> (r = Inr False \<longrightarrow> links (zu_ID u) = [])) (f r) (\<lambda>_. ?I)"
    proof (cases "r = Inr False \<and> \<not> gc_DryRun G \<and> links (zu_ID u) = []")
      case True
      with ab assms(3) have "zu_ID u \<in> E"
        by (auto simp: E collectable_def isAbandoned_def IsZero_def split: if_splits)
      from collect_keeps [OF assms(1) this, of w0] True f(3) show ?thesis
        unfolding keeps_def by (auto simp: triple_def split: prod.splits)
    next
      case False
      then show ?thesis
      proof (cases r)
        case (Inr b)
        with False f show ?thesis by (cases b) (auto simp: triple_def)
      qed (simp add: f triple_def)
    qed
  qed
  show ?thesis
    unfolding gc_user_def keeps_def Let_def
    by (rule triple_step [OF lacks]) (auto intro!: triple_intro tail)
qed

lemma gc_users_keeps:
  assumes "gc_law G absent users" and "links_law (gc_Zitadel G) links" and "set us \<subseteq> accounts"
  shows "keeps (collected absent users w0 (collectable G cutoff accounts links)) (gc_users G cutoff n us)"
  using assms(3)
proof (induction us arbitrary: n)
  case (Cons u us)
  then show ?case by (auto intro!: keeps_intro gc_user_keeps [OF assms(1,2)])
qed (simp add: keeps_intro)

definition page_law :: "'w zitadel_api \<Rightarrow> zuser set \<Rightarrow> bool" where
  "page_law Z accounts \<longleftrightarrow>
     (\<forall>off lim w us raw w'. run_state (ListHumanUsers Z off lim) w = (Inr (us, raw), w') \<longrightarrow> set us \<subseteq> accounts)"

lemma gc_pages_keeps:
  assumes "gc_law G absent users" and "links_law (gc_Zitadel G) links" and pages: "page_law (gc_Zitadel G) accounts"
  shows "keeps (collected absent users w0 (collectable G cutoff accounts links)) (gc_pages G cutoff fuel off n)"
proof (induction fuel arbitrary: off n)
  case 0
  show ?case by (simp add: keeps_intro)
next
  case (Suc fuel)
  show ?case
    unfolding gc_pages.simps
  proof (rule keeps_bind_when [where C = "\<lambda>r. \<forall>us raw. r = Inr (us, raw) \<longrightarrow> set us \<subseteq> accounts"])
    show "\<forall>us raw. r = Inr (us, raw) \<longrightarrow> set us \<subseteq> accounts"
      if "run_state (ListHumanUsers (gc_Zitadel G) off sweepPageSize) w = (r, w')" for w r w'
      using pages that unfolding page_law_def by blast
  qed (auto intro!: keeps_intro gc_users_keeps [OF assms(1,2)] Suc.IH collected_reads(1) [OF assms(1)])
qed

text \<open>C6. An account disappears from Zitadel through a sweep only if the sweep is no dry run, the account was
  listed as unverified with a known date of creation that lies before the retention window, and it
  has no link to an identity provider; and a User is touched only if Zitadel has no account for it
  any more, so that the sweeper cannot bring it back.\<close>

theorem gc_collects_only_abandoned:
  assumes "gc_law G absent users" and "links_law (gc_Zitadel G) links" and "page_law (gc_Zitadel G) accounts"
    and "run_state (gc_clock G) w = (now, w1)" and "run_state (GC_sweepOnce fuel G) w = (r, w')"
  shows "(\<forall>i \<in> absent w' - absent w. \<not> gc_DryRun G \<and> links i = [] \<and>
      (\<exists>u \<in> accounts. zu_ID u = i \<and> \<not> zu_IsEmailVerified u \<and> zu_CreatedAt u \<noteq> zero_time \<and>
         zu_CreatedAt u < now - gc_Retention G)) \<and>
    (\<forall>n. users w' n \<noteq> users w n \<longrightarrow> n \<in> absent w')"
proof -
  let ?I = "collected absent users w (collectable G (now - gc_Retention G) accounts links)"
  have "?I w" by (simp add: collected_def)
  from keepsD [OF collected_reads(4) [OF assms(1)] this assms(4)] have "?I w1" .
  moreover have "run_state (gc_pages G (now - gc_Retention G) fuel 0 no_gc) w1 = (r, w')"
    using assms(4,5) by (simp add: GC_sweepOnce_def)
  ultimately have "?I w'" by (rule keepsD [OF gc_pages_keeps [OF assms(1-3)]])
  then show ?thesis unfolding collected_def collectable_def by blast
qed

text \<open>A sweep of the collector ends although it deletes from the listing it walks through: fuel for the full
  pages of the longest the listing gets is enough.\<close>

lemma gc_sweep_ends:
  assumes "\<And>off w us raw w'. run_state (ListHumanUsers (gc_Zitadel G) off 100) w = (Inr (us, raw), w') \<Longrightarrow>
      100 \<le> raw \<Longrightarrow> off + raw \<le> len"
    and "len div 100 < fuel"
  shows "\<exists>res w'. run_state (GC_sweepOnce fuel G) w = (Some res, w')"
proof -
  obtain now w1 where now: "run_state (gc_clock G) w = (now, w1)" by fastforce
  have "\<exists>res w'. run_state (gc_pages G (now - gc_Retention G) fuel 0
      no_gc) w1 = (Some res, w')"
    by (rule gc.sweep_ends [of "\<lambda>_. True" _ _ len]) (use assms in \<open>auto simp: sweepPageSize_def\<close>)
  with now show ?thesis by (simp add: GC_sweepOnce_def)
qed

section \<open>A pool of accounts\<close>

text \<open>
  A concrete setting: the world is the list of Zitadel's accounts and the list of the names of the
  Users; both deletes remove entries, no account has a link or a method.
\<close>

type_synonym pool = "zuser list \<times> string list"

definition pool_api :: "pool zitadel_api" where
  "pool_api = (down_api not_found)
     \<lparr>ListHumanUsers := (\<lambda>off lim. State (\<lambda>(A, M). (Inr (take lim (drop off A), length (take lim (drop off A))), (A, M)))),
      ListIDPLinks := (\<lambda>_. State_Monad.return (Inr [])), ListAuthMethodTypes := (\<lambda>_. State_Monad.return (Inr [])),
      DeleteZitadelUser := (\<lambda>i. State (\<lambda>(A, M). (None, (filter (\<lambda>u. zu_ID u \<noteq> i) A, M))))\<rparr>"

definition pool_gc :: "pool gc" where
  "pool_gc = \<lparr>gc_Client = (down_kube not_found)\<lparr>DeleteUserObject := (\<lambda>i. State (\<lambda>(A, M). (None, (A, filter (\<lambda>n. n \<noteq> i) M))))\<rparr>,
     gc_Zitadel = pool_api, gc_Interval = DefaultAbandonedGCInterval, gc_Retention = DefaultAbandonedRetention,
     gc_DryRun = False, gc_clock = State_Monad.return (60 * 24 * Hour)\<rparr>"

definition pool_absent :: "pool \<Rightarrow> string set" where
  "pool_absent p = {i. i \<notin> zu_ID ` set (fst p)}"

definition pool_users :: "pool \<Rightarrow> string \<Rightarrow> user option" where
  "pool_users p n = (if n \<in> set (snd p) then Some (NewUser n [] [] []) else None)"

lemma pool_law: "gc_law pool_gc pool_absent pool_users"
  by (auto simp: gc_law_def pool_gc_def pool_api_def silent_def pool_absent_def pool_users_def fun_eq_iff split: prod.splits)

definition stale :: "string \<Rightarrow> zuser" where
  "stale i = \<lparr>zu_ID = i, zu_Username = [], zu_Email = ''a@x'', zu_State = [], zu_GivenName = [], zu_FamilyName = [],
     zu_IsEmailVerified = False, zu_CreatedAt = 1\<rparr>"

theorem gc_collects_only_abandoned_witness:
  "let w' = snd (run_state (GC_sweepOnce 1 pool_gc) ([stale ''1''], [''1'', ''2''])) in
     ''1'' \<in> pool_absent w' \<and> zu_CreatedAt (stale ''1'') < 60 * 24 * Hour - gc_Retention pool_gc \<and>
     pool_users w' ''2'' = pool_users ([stale ''1''], [''1'', ''2'']) ''2''"
proof -
  have links: "links_law (gc_Zitadel pool_gc) (\<lambda>_. [])"
    by (simp add: links_law_def pool_gc_def pool_api_def)
  have pages: "page_law (gc_Zitadel pool_gc) UNIV" by (simp add: page_law_def)
  have now: "run_state (gc_clock pool_gc) w = (60 * 24 * Hour, w)" for w by (simp add: pool_gc_def)
  have run: "run_state (GC_sweepOnce 1 pool_gc) ([stale ''1''], [''1'', ''2'']) =
      (Some (Inr \<lparr>n_scanned = 1, n_eligible = 1, n_deleted = 1, n_skippedIDP = 0, n_errors = 0, n_noCredential = 0\<rparr>),
       ([], [''2'']))" by code_simp
  from gc_collects_only_abandoned [OF pool_law links pages now run] run show ?thesis
    by (auto simp: pool_absent_def pool_users_def pool_gc_def DefaultAbandonedRetention_def stale_def)
qed

section \<open>Accounts with a login name\<close>

text \<open>
  The list of links that the SDK client returns for an account without an identity provider holds
  a link that stands for the local login, unless the account has no name to log in with.
\<close>

definition has_login_name :: "'w sdk_client \<Rightarrow> string \<Rightarrow> bool" where
  "has_login_name c i \<longleftrightarrow> (\<forall>w x w'. run_state (g_GetUserByID (sdk_grpc c) i) w = (Inr x, w') \<longrightarrow>
     (\<exists>u. x = Some u \<and> localIdentityUsername u \<noteq> []))"

lemma named_has_link:
  assumes "has_login_name c i" and "run_state (SDK_ListIDPLinks c i) w = (Inr ls, w')"
  shows "ls \<noteq> []"
proof
  assume "ls = []"
  with assms(2) obtain w1 l where l: "run_state (getLocalIdentityLink c i) w1 = (l, w')" "l = Inr None"
    by (auto simp: SDK_ListIDPLinks_def split: prod.splits sum.splits if_splits option.splits)
  then obtain x where "run_state (g_GetUserByID (sdk_grpc c) i) w1 = (Inr x, w')"
      "x = None \<or> (\<exists>u. x = Some u \<and> localIdentityUsername u = [])"
    by (auto simp: getLocalIdentityLink_def split: prod.splits sum.splits if_splits option.splits)
  with assms(1) show False unfolding has_login_name_def by fastforce
qed

text \<open>C33. With the SDK client the collector never collects an account that has a login name, however long
  abandoned: the link that stands for the local login counts as a link to an identity provider, so
  such an account is neither counted as eligible nor deleted, and nothing that the reads leave
  alone changes.\<close>

theorem named_account_is_never_collected:
  assumes "gc_Zitadel G = sdk_api c" and "has_login_name c (zu_ID u)"
    and "silent view (SDK_ListIDPLinks c (zu_ID u))" and "silent view (SDK_ListAuthMethodTypes c (zu_ID u))"
    and "run_state (gc_user G cutoff u n) w = (n', w')"
  shows "n_eligible n' = n_eligible n \<and> n_deleted n' = n_deleted n \<and> view w' = view w"
proof -
  let ?n = "n\<lparr>n_scanned := n_scanned n + 1\<rparr>"
  obtain b w1 where b: "run_state (lacks_credential G u ?n) w = (b, w1)" by (meson surj_pair)
  then have nb: "n_eligible b = n_eligible n" "n_deleted b = n_deleted n"
    by (auto simp: lacks_credential_def gc_failed_def split: if_splits prod.splits sum.splits)
  have "silent view (lacks_credential G u ?n)"
    using assms(1,4) by (auto simp: lacks_credential_def sdk_api_def intro!: silent_bind silent_return)
  from silent_run [OF this b] have v1: "view w1 = view w" .
  obtain l w2 where l: "run_state (SDK_ListIDPLinks c (zu_ID u)) w1 = (l, w2)" by fastforce
  have v2: "view w2 = view w1" using silent_run [OF assms(3) l] .
  have ne: "ls \<noteq> []" if "l = Inr ls" for ls using named_has_link [OF assms(2)] l that by blast
  then have "\<exists>r. run_state (hasIDPLink G (zu_ID u)) w1 = (r, w2) \<and> r \<noteq> Inr False"
    using l assms(1) by (cases l) (auto simp: hasIDPLink_def sdk_api_def)
  then obtain r where "run_state (hasIDPLink G (zu_ID u)) w1 = (r, w2)" "r \<noteq> Inr False" by blast
  with assms(5) b nb v1 v2 show ?thesis
    by (auto simp: gc_user_def gc_failed_def Let_def split: if_splits sum.splits bool.splits)
qed

text \<open>A gRPC service that knows one user and no links.\<close>

definition alice :: raw_user where
  "alice = \<lparr>ru_UserId = ''1'', ru_PreferredLoginName = ''alice'', ru_LoginNames = [], ru_Username = ''alice'', ru_State = [],
     ru_Human = Some \<lparr>rh_Email = Some (''a@x'', False), rh_GivenName = [], rh_FamilyName = []\<rparr>, ru_Machine = False,
     ru_CreationDate = Some 1\<rparr>"

definition alice_client :: "pool sdk_client" where
  "alice_client = \<lparr>sdk_grpc = (down_grpc not_found)\<lparr>g_ListIDPLinks := (\<lambda>_. State_Monad.return (Inr [])),
       g_GetUserByID := (\<lambda>_. State_Monad.return (Inr (Some alice)))\<rparr>,
     sdk_runtime = \<lparr>Now = State_Monad.return 0, NewUUID = State_Monad.return [], Sleep = (\<lambda>_. State_Monad.return ())\<rparr>,
     sdk_DefaultMachineKeyExpiration = 0\<rparr>"

theorem named_account_is_never_collected_witness:
  "isAbandoned (stale ''1'') Hour \<and>
   n_eligible (fst (run_state (gc_user (pool_gc\<lparr>gc_Zitadel := sdk_api alice_client\<rparr>) Hour (stale ''1'')
     no_gc) ([], []))) = 0"
proof -
  have named: "has_login_name alice_client i" for i
  proof -
    have "localIdentityUsername alice \<noteq> []" by code_simp
    then show ?thesis by (simp add: has_login_name_def alice_client_def)
  qed
  have quiet: "silent id (SDK_ListIDPLinks alice_client i)" "silent id (SDK_ListAuthMethodTypes alice_client i)" for i
    by (simp_all add: silent_def SDK_ListIDPLinks_def SDK_ListAuthMethodTypes_def getLocalIdentityLink_def alice_client_def down_grpc_def)
  have G: "gc_Zitadel (pool_gc\<lparr>gc_Zitadel := sdk_api alice_client\<rparr>) = sdk_api alice_client" by simp
  obtain n' w' where run: "run_state (gc_user (pool_gc\<lparr>gc_Zitadel := sdk_api alice_client\<rparr>) Hour (stale ''1'')
     no_gc) ([], []) = (n', w')" by (meson surj_pair)
  from named_account_is_never_collected [OF G named quiet run] run show ?thesis
    by (simp add: isAbandoned_def stale_def IsZero_def zero_time_def no_gc_def)
qed

end
