(* ===== verification/GC_Skips.thy ===== *)
theory GC_Skips
  imports GC_Properties
begin

text \<open>
  A sweep of the collector is not complete: it goes on at an offset advanced by the accounts it has listed,
  although the ones it has deleted no longer count, so that it passes over as many accounts as it has deleted.
\<close>

section \<open>A listing that shrinks\<close>

text \<open>
  Zitadel as the list of its human accounts, which a page is cut out of and from which a delete takes an
  account; no account has a link, and Milo deletes the Users it is asked to.
\<close>

definition shrinking_listing :: "'w gc \<Rightarrow> ('w \<Rightarrow> zuser list) \<Rightarrow> bool" where
  "shrinking_listing G listing \<longleftrightarrow>
     (\<forall>w off lim. run_state (ListHumanUsers (gc_Zitadel G) off lim) w =
        (Inr (take lim (drop off (listing w)), length (take lim (drop off (listing w)))), w)) \<and>
     (\<forall>w i. run_state (ListIDPLinks (gc_Zitadel G) i) w = (Inr [], w)) \<and>
     (\<forall>w i. \<exists>w'. run_state (DeleteZitadelUser (gc_Zitadel G) i) w = (None, w') \<and>
        listing w' = filter (\<lambda>u. zu_ID u \<noteq> i) (listing w)) \<and>
     (\<forall>w i. \<exists>w'. run_state (DeleteUserObject (gc_Client G) i) w = (None, w') \<and> listing w' = listing w)"

lemma collect_user_shrinks:
  assumes "shrinking_listing G listing"
  shows "\<exists>w'. run_state (collect_user G i) w = (None, w') \<and> listing w' = filter (\<lambda>u. zu_ID u \<noteq> i) (listing w)"
proof -
  from assms obtain w1 where "run_state (DeleteZitadelUser (gc_Zitadel G) i) w = (None, w1)"
    "listing w1 = filter (\<lambda>u. zu_ID u \<noteq> i) (listing w)" unfolding shrinking_listing_def by blast
  moreover from assms obtain w2 where "run_state (DeleteUserObject (gc_Client G) i) w1 = (None, w2)" "listing w2 = listing w1"
    unfolding shrinking_listing_def by blast
  ultimately show ?thesis by (simp add: collect_user_def)
qed

lemma gc_user_shrinks:
  assumes "shrinking_listing G listing" and "\<not> gc_DryRun G" and "isAbandoned u cutoff"
  shows "\<exists>w'. run_state (gc_user G cutoff u n) w =
      (n\<lparr>n_scanned := n_scanned n + 1, n_eligible := n_eligible n + 1, n_deleted := n_deleted n + 1\<rparr>, w') \<and>
    listing w' = filter (\<lambda>x. zu_ID x \<noteq> zu_ID u) (listing w)"
proof -
  have "\<not> zu_IsEmailVerified u" using assms(3) by (auto simp: isAbandoned_def split: if_splits)
  then have lacks: "lacks_credential G u k = State_Monad.return k" for k by (simp add: lacks_credential_def)
  have links: "run_state (hasIDPLink G (zu_ID u)) w = (Inr False, w)"
    using assms(1) by (simp add: shrinking_listing_def hasIDPLink_def)
  obtain w' where w': "run_state (collect_user G (zu_ID u)) w = (None, w')"
    "listing w' = filter (\<lambda>x. zu_ID x \<noteq> zu_ID u) (listing w)"
    using collect_user_shrinks [OF assms(1)] by blast
  then show ?thesis using assms(2,3) lacks links by (simp add: gc_user_def Let_def)
qed

lemma gc_users_shrink:
  assumes "shrinking_listing G listing" and "\<not> gc_DryRun G" and "\<forall>u \<in> set us. isAbandoned u cutoff"
    and "listing w = us @ rest" and "distinct (map zu_ID (us @ rest))"
  shows "\<exists>n' w'. run_state (gc_users G cutoff n us) w = (Inr n', w') \<and> listing w' = rest \<and>
    n_deleted n' = n_deleted n + int (length us)"
  using assms(3-)
proof (induction us arbitrary: n w)
  case (Cons u us)
  obtain w1 where w1: "run_state (gc_user G cutoff u n) w =
      (n\<lparr>n_scanned := n_scanned n + 1, n_eligible := n_eligible n + 1, n_deleted := n_deleted n + 1\<rparr>, w1)"
    "listing w1 = filter (\<lambda>x. zu_ID x \<noteq> zu_ID u) (listing w)"
    using gc_user_shrinks [OF assms(1,2)] Cons.prems(1) by fastforce
  have "filter (\<lambda>x. zu_ID x \<noteq> zu_ID u) (us @ rest) = us @ rest"
    using Cons.prems(3) by (intro filter_True) (auto simp: image_iff)
  with w1(2) Cons.prems(2) have "listing w1 = us @ rest" by simp
  from Cons.IH [OF _ this, of "n\<lparr>n_scanned := n_scanned n + 1, n_eligible := n_eligible n + 1, n_deleted := n_deleted n + 1\<rparr>"] Cons.prems w1(1)
  show ?case by (auto simp: add.assoc add.commute)
qed simp

text \<open>C32. A successful sweep of the collector is not complete. Of between one and two pages of accounts that are all
  abandoned and without a link, the sweep deletes the first page and reports success, and every
  other account is still there: the offset of the next page counts the accounts that are gone.\<close>

theorem sweep_skips_behind_deletions:
  assumes law: "shrinking_listing G listing" and "\<not> gc_DryRun G" and now: "run_state (gc_clock G) w = (now, w)"
    and "\<forall>u \<in> set (listing w). isAbandoned u (now - gc_Retention G)" and "distinct (map zu_ID (listing w))"
    and "100 \<le> length (listing w)" and "length (listing w) \<le> 200"
  shows "\<exists>n w'. run_state (GC_sweepOnce 2 G) w = (Some (Inr n), w') \<and> n_deleted n = 100 \<and>
    listing w' = drop 100 (listing w)"
proof -
  let ?L = "listing w" and ?n = "no_gc"
  have page: "run_state (ListHumanUsers (gc_Zitadel G) off lim) v =
      (Inr (take lim (drop off (listing v)), length (take lim (drop off (listing v)))), v)" for off lim v
    using law by (simp add: shrinking_listing_def)
  have "\<exists>n' w'. run_state (gc_users G (now - gc_Retention G) ?n (take 100 ?L)) w = (Inr n', w') \<and> listing w' = drop 100 ?L \<and>
      n_deleted n' = n_deleted ?n + int (length (take 100 ?L))"
    by (rule gc_users_shrink [OF law assms(2)]) (use assms(4,5) in \<open>auto dest: in_set_takeD\<close>)
  then obtain n' w' where run: "run_state (gc_users G (now - gc_Retention G) ?n (take 100 ?L)) w = (Inr n', w')"
    "listing w' = drop 100 ?L" "n_deleted n' = 100" using assms(6) by (auto simp: no_gc_def)
  have "drop 100 (listing w') = []" using run(2) assms(7) by simp
  then show ?thesis
    using run now assms(6) page [of 0 100 w] page [of 100 100 w']
    by (simp add: GC_sweepOnce_def numeral_2_eq_2 sweepPageSize_def)
qed

text \<open>The pool is such a listing.\<close>

lemma pool_shrinks: "shrinking_listing pool_gc fst"
  by (auto simp: shrinking_listing_def pool_gc_def pool_api_def split: prod.splits)

definition crowd :: "zuser list" where
  "crowd = map (\<lambda>i. stale (replicate i (CHR ''a''))) [0..<150]"

theorem sweep_skips_behind_deletions_witness:
  "\<exists>n w'. run_state (GC_sweepOnce 2 pool_gc) (crowd, []) = (Some (Inr n), w') \<and> n_deleted n = 100 \<and> length (fst w') = 50"
proof -
  have crowd: "length crowd = 150" "distinct (map zu_ID crowd)"
    by (auto simp: crowd_def stale_def comp_def distinct_map inj_on_def replicate_eq_replicate)
  have "\<forall>u \<in> set crowd. isAbandoned u (60 * 24 * Hour - gc_Retention pool_gc)"
    by (auto simp: crowd_def stale_def isAbandoned_def IsZero_def zero_time_def pool_gc_def DefaultAbandonedRetention_def)
  then show ?thesis
    using sweep_skips_behind_deletions [OF pool_shrinks, of "(crowd, [])" "60 * 24 * Hour"] crowd
    by (auto simp: pool_gc_def)
qed

end
