(* ===== verification/Finalizing.thy ===== *)
theory Finalizing
  imports Milo_Api
begin

text \<open>
  What the reconcilers have in common. A reconciler reads its object, runs the finalizers of
  controller-runtime on it, stores the object when they changed it, and goes on from there. The
  finalizer library and the client are arguments; the locale holds the facts that follow from this
  shape alone, and each of the three controllers with a finalizer interprets it.
\<close>

section \<open>Clients and results\<close>

text \<open>The calls on objects of one kind.\<close>

record ('w, 'o) object_client =
  oc_Get :: "string \<Rightarrow> ('w, go_error + 'o) state"
  oc_Update :: "'o \<Rightarrow> ('w, go_error option) state"
  oc_UpdateStatus :: "'o \<Rightarrow> ('w, go_error option) state"
  oc_PatchStatus :: "'o \<Rightarrow> 'o \<Rightarrow> string \<Rightarrow> ('w, go_error option) state"

text \<open>The result of a reconciliation: an error, or the time after which to requeue (zero for none).\<close>

type_synonym reconcile_result = "go_error + int"

text \<open>
  \<^verbatim>\<open>Finalizers.Finalize\<close> with one registered finalizer: it takes the key, the finalizer and the object,
  and returns an error, or whether the object was changed together with the object.
\<close>

type_synonym ('w, 'o) finalizers =
  "string \<Rightarrow> ('o \<Rightarrow> ('w, go_error option) state) \<Rightarrow> 'o \<Rightarrow> ('w, go_error + bool \<times> 'o) state"

text \<open>
  What the library documents: it adds the key to an object that is not being deleted and lacks it;
  on an object that is being deleted and has the key it runs the finalizer and removes the key when that
  succeeds; otherwise it does nothing.
\<close>

definition finalizer_law ::
  "('w, 'o) finalizers \<Rightarrow> ('o \<Rightarrow> string list) \<Rightarrow> (string list \<Rightarrow> 'o \<Rightarrow> 'o) \<Rightarrow> ('o \<Rightarrow> bool) \<Rightarrow> bool" where
  "finalizer_law F fin set_fin deleting \<longleftrightarrow>
     (\<forall>key cleanup obj w.
        if deleting obj \<and> key \<in> set (fin obj) then
          (case run_state (cleanup obj) w of (r, w') \<Rightarrow>
             (case r of
                None \<Rightarrow> run_state (F key cleanup obj) w = (Inr (True, set_fin (removeAll key (fin obj)) obj), w')
              | Some _ \<Rightarrow> \<exists>e. run_state (F key cleanup obj) w = (Inl e, w')))
        else if \<not> deleting obj \<and> key \<notin> set (fin obj) then
          run_state (F key cleanup obj) w = (Inr (True, set_fin (fin obj @ [key]) obj), w)
        else run_state (F key cleanup obj) w = (Inr (False, obj), w))"

lemma finalizer_cleans:
  assumes "finalizer_law F fin set_fin deleting" and "deleting obj" and "key \<in> set (fin obj)"
    and "run_state (F key cleanup obj) w = (r, w')"
  shows "(\<exists>e. run_state (cleanup obj) w = (Some e, w')) \<and> (\<exists>e'. r = Inl e') \<or>
    run_state (cleanup obj) w = (None, w') \<and> r = Inr (True, set_fin (removeAll key (fin obj)) obj)"
proof -
  obtain c w1 where c: "run_state (cleanup obj) w = (c, w1)" by fastforce
  from assms(1) [unfolded finalizer_law_def, rule_format, of obj key cleanup w] assms(2-) c
  show ?thesis by (cases c) auto
qed

lemma finalizer_adds:
  assumes "finalizer_law F fin set_fin deleting" and "\<not> deleting obj"
  shows "run_state (F key cleanup obj) w =
    (Inr (if key \<in> set (fin obj) then (False, obj) else (True, set_fin (fin obj @ [key]) obj)), w)"
  using assms(1) [unfolded finalizer_law_def, rule_format, of obj key cleanup w] assms(2) by simp

section \<open>The interface\<close>

locale finalizing =
  fixes get :: "('w, go_error + 'o) state"
    and finalize :: "'o \<Rightarrow> ('w, go_error + bool \<times> 'o) state"
    and update :: "'o \<Rightarrow> ('w, go_error option) state"
    and reconcile :: "('w, reconcile_result) state"
  assumes not_read: "run_state get w = (Inl e, w1) \<Longrightarrow> \<exists>res. run_state reconcile w = (res, w1)"
    and not_finalized: "run_state get w = (Inr obj, w1) \<Longrightarrow> run_state (finalize obj) w1 = (Inl e, w2) \<Longrightarrow>
      \<exists>e'. run_state reconcile w = (Inl e', w2)"
    and stored: "run_state get w = (Inr obj, w1) \<Longrightarrow> run_state (finalize obj) w1 = (Inr (True, obj'), w2) \<Longrightarrow>
      run_state (update obj') w2 = (u, w3) \<Longrightarrow> \<exists>res. run_state reconcile w = (res, w3)"
begin

text \<open>
  An object that is being deleted is changed only after its finalizer has succeeded, so that what it
  stands for in Zitadel is gone by then.
\<close>

lemma released_after_cleanup:
  assumes law: "finalizer_law F fin set_fin deleting" and F: "finalize = F key cleanup"
    and get: "\<And>w r w'. run_state get w = (r, w') \<Longrightarrow> store w' = store w \<and> (\<forall>x. r = Inr x \<longrightarrow> store w = Some x)"
    and cleanup: "\<And>w r w'. run_state (cleanup obj) w = (r, w') \<Longrightarrow> store w' = store w \<and> (r = None \<longrightarrow> clean w')"
    and update: "\<And>x w u w'. run_state (update x) w = (u, w') \<Longrightarrow> clean w \<Longrightarrow> clean w'"
    and "store w = Some obj" and "deleting obj" and "key \<in> set (fin obj)"
    and run: "run_state reconcile w = (res, w')" and "store w' \<noteq> Some obj"
  shows "clean w'"
proof -
  obtain g w1 where g: "run_state get w = (g, w1)" by fastforce
  note got = get [OF g]
  show ?thesis
  proof (cases g)
    case (Inl e)
    with not_read g run got assms(6,10) show ?thesis by fastforce
  next
    case (Inr x)
    with got assms(6) have x: "g = Inr obj" by auto
    obtain f w2 where f: "run_state (finalize obj) w1 = (f, w2)" by fastforce
    from finalizer_cleans [OF law assms(7,8) f [unfolded F]] show ?thesis
    proof
      assume "(\<exists>e. run_state (cleanup obj) w1 = (Some e, w2)) \<and> (\<exists>e'. f = Inl e')"
      then obtain e e' where e: "run_state (cleanup obj) w1 = (Some e, w2)" "f = Inl e'" by blast
      have "store w2 = Some obj" using cleanup [OF e(1)] got assms(6) by simp
      moreover have "w' = w2" using not_finalized [OF g [unfolded x], of e' w2] f e(2) run by auto
      ultimately show ?thesis using assms(10) by simp
    next
      let ?obj' = "set_fin (removeAll key (fin obj)) obj"
      assume a: "run_state (cleanup obj) w1 = (None, w2) \<and> f = Inr (True, ?obj')"
      obtain u w3 where u: "run_state (update ?obj') w2 = (u, w3)" by fastforce
      have "w' = w3" using stored [OF g [unfolded x] _ u] f a run by auto
      with cleanup a update [OF u] show ?thesis by blast
    qed
  qed
qed

text \<open>
  On an object that is not being deleted and lacks the key, a reconciliation only stores the key: what
  reading and storing the object leave alone stays as it is.
\<close>

lemma key_is_stored_first:
  assumes law: "finalizer_law F fin set_fin deleting" and F: "finalize = F key cleanup"
    and "silent view get" and "\<And>x. silent view (update x)"
    and "run_state get w = (Inr obj, w1)" and "\<not> deleting obj" and "key \<notin> set (fin obj)"
    and run: "run_state reconcile w = (res, w')"
  shows "view w' = view w"
proof -
  let ?obj' = "set_fin (fin obj @ [key]) obj"
  have f: "run_state (finalize obj) w1 = (Inr (True, ?obj'), w1)"
    using finalizer_adds [OF law assms(6)] assms(7) F by simp
  obtain u w3 where u: "run_state (update ?obj') w1 = (u, w3)" by fastforce
  have "w' = w3" using stored [OF assms(5) f u] run by auto
  with silent_run [OF assms(3,5)] silent_run [OF assms(4) u] show ?thesis by simp
qed

end

end
