(* ===== verification/Zitadel_Rest.thy ===== *)
theory Zitadel_Rest
  imports Go_Json
begin

text \<open>
  internal/zitadel: the REST client the controllers of Users and of platform access talk to Zitadel
  with. The transport (with its token source) and the construction of a request are fields of the
  client; the JSON library is the one of the prelude.
\<close>

section \<open>client.go\<close>

text \<open>A response is its status code, its status line and its body.\<close>

record 'w rest_client =
  rc_lib :: golib
  rc_baseURL :: string
  rc_NewRequest :: "string \<Rightarrow> string \<Rightarrow> go_error option"
  rc_Do :: "string \<Rightarrow> string \<Rightarrow> string option \<Rightarrow> ('w, go_error + int \<times> string \<times> string) state"

definition NewClientWithTokenSource ::
  "golib \<Rightarrow> string \<Rightarrow> (string \<Rightarrow> string \<Rightarrow> go_error option) \<Rightarrow>
   (string \<Rightarrow> string \<Rightarrow> string option \<Rightarrow> ('w, go_error + int \<times> string \<times> string) state) \<Rightarrow> 'w rest_client" where
  "NewClientWithTokenSource lib baseURL newRequest tokenClient =
     \<lparr>rc_lib = lib, rc_baseURL = TrimRight baseURL (CHR ''/''), rc_NewRequest = newRequest, rc_Do = tokenClient\<rparr>"

text \<open>\<^verbatim>\<open>apierrors.NewNotFound\<close>.\<close>

definition NewNotFound :: "string \<Rightarrow> string \<Rightarrow> string \<Rightarrow> go_error" where
  "NewNotFound grp resource name =
     GoErr KNotFound (resource @ ''.'' @ grp @ '' '' @ Quote name @ '' not found'')"

definition maxErrorBody :: nat where
  "maxErrorBody = 1048576"

definition en_dash :: string where
  "en_dash = [CHR 0xE2, CHR 0x80, CHR 0x93]"

definition request_url :: "'w rest_client \<Rightarrow> string \<Rightarrow> string" where
  "request_url c path = rc_baseURL c @ ''/'' @ TrimLeft path (CHR ''/'')"

text \<open>
  The helper \<^verbatim>\<open>do\<close>. The last argument stands for the destination: none when the caller passes nil, and
  otherwise the decoder of the body.
\<close>

definition rest_do ::
  "'w rest_client \<Rightarrow> string \<Rightarrow> string \<Rightarrow> json option \<Rightarrow> (string \<Rightarrow> go_error + 'r) option \<Rightarrow>
   ('w, go_error + 'r option) state" where
  "rest_do c meth path body dest =
     (case rc_NewRequest c meth (request_url c path) of
        Some e \<Rightarrow> State_Monad.return (Inl (wrapf ''create request: '' e))
      | None \<Rightarrow> do {
          resp \<leftarrow> rc_Do c meth (request_url c path) (map_option (EncodeJSON (rc_lib c)) body);
          State_Monad.return (case resp of
              Inl e \<Rightarrow> Inl (wrapf ''do request: '' e)
            | Inr (statusCode, status, text) \<Rightarrow>
                if statusCode < 200 \<or> statusCode \<ge> 300
                then (if statusCode = 404 then Inl (NewNotFound ''zitadel'' ''resource'' [])
                      else Inl (errorf (''request failed: '' @ status @ '' '' @ en_dash @ '' '' @
                        TrimSpace (take maxErrorBody text))))
                else (case dest of
                    None \<Rightarrow> Inr None
                  | Some decode \<Rightarrow>
                      (case decode text of
                         Inl e \<Rightarrow> Inl (wrapf ''decode response: '' e)
                       | Inr v \<Rightarrow> Inr (Some v))))
        })"

definition only_error :: "go_error + 'r option \<Rightarrow> go_error option" where
  "only_error r = (case r of Inl e \<Rightarrow> Some e | Inr _ \<Rightarrow> None)"

section \<open>get_user.go\<close>

definition UserStateActive :: string where "UserStateActive = ''USER_STATE_ACTIVE''"
definition UserStateInactive :: string where "UserStateInactive = ''USER_STATE_INACTIVE''"

record user_details =
  ud_Sequence :: string
  ud_ChangeDate :: string
  ud_ResourceOwner :: string
  ud_CreationDate :: string

definition zero_details :: user_details where
  "zero_details = \<lparr>ud_Sequence = [], ud_ChangeDate = [], ud_ResourceOwner = [], ud_CreationDate = []\<rparr>"

definition details_fields :: "(string \<times> user_details decoder) list" where
  "details_fields = [
     (''sequence'', json_string (\<lambda>v d. d\<lparr>ud_Sequence := v\<rparr>)),
     (''changeDate'', json_string (\<lambda>v d. d\<lparr>ud_ChangeDate := v\<rparr>)),
     (''resourceOwner'', json_string (\<lambda>v d. d\<lparr>ud_ResourceOwner := v\<rparr>)),
     (''creationDate'', json_string (\<lambda>v d. d\<lparr>ud_CreationDate := v\<rparr>))]"

text \<open>The structs for machine and human data have no fields.\<close>

record rest_user =
  re_UserID :: string
  re_Details :: user_details
  re_State :: string
  re_Username :: string
  re_LoginNames :: "string list"
  re_PreferredLoginName :: string
  re_Machine :: "unit option"
  re_Human :: "unit option"

definition zero_rest_user :: rest_user where
  "zero_rest_user = \<lparr>re_UserID = [], re_Details = zero_details, re_State = [], re_Username = [], re_LoginNames = [],
     re_PreferredLoginName = [], re_Machine = None, re_Human = None\<rparr>"

text \<open>A slice of strings: \<^verbatim>\<open>null\<close> is the nil slice, and a \<^verbatim>\<open>null\<close> element the empty string.\<close>

fun string_elements :: "json list \<Rightarrow> string list option" where
  "string_elements [] = Some []"
| "string_elements (v # vs) =
     (case v of
        JStr s \<Rightarrow> map_option (Cons s) (string_elements vs)
      | JNull \<Rightarrow> map_option (Cons []) (string_elements vs)
      | _ \<Rightarrow> None)"

definition json_strings :: "(string list \<Rightarrow> 'r \<Rightarrow> 'r) \<Rightarrow> 'r decoder" where
  "json_strings upd v r =
     (case v of
        JNull \<Rightarrow> Some (upd [] r)
      | JArr vs \<Rightarrow> map_option (\<lambda>l. upd l r) (string_elements vs)
      | _ \<Rightarrow> None)"

definition rest_user_fields :: "(string \<times> rest_user decoder) list" where
  "rest_user_fields = [
     (''userId'', json_string (\<lambda>v u. u\<lparr>re_UserID := v\<rparr>)),
     (''details'', json_struct details_fields re_Details (\<lambda>d u. u\<lparr>re_Details := d\<rparr>)),
     (''state'', json_string (\<lambda>v u. u\<lparr>re_State := v\<rparr>)),
     (''username'', json_string (\<lambda>v u. u\<lparr>re_Username := v\<rparr>)),
     (''loginNames'', json_strings (\<lambda>v u. u\<lparr>re_LoginNames := v\<rparr>)),
     (''preferredLoginName'', json_string (\<lambda>v u. u\<lparr>re_PreferredLoginName := v\<rparr>)),
     (''machine'', json_pointer [] () re_Machine (\<lambda>m u. u\<lparr>re_Machine := m\<rparr>)),
     (''human'', json_pointer [] () re_Human (\<lambda>h u. u\<lparr>re_Human := h\<rparr>))]"

record get_user_response =
  gur_Details :: user_details
  gur_User :: rest_user

definition get_user_response_fields :: "(string \<times> get_user_response decoder) list" where
  "get_user_response_fields = [
     (''details'', json_struct details_fields gur_Details (\<lambda>d r. r\<lparr>gur_Details := d\<rparr>)),
     (''user'', json_struct rest_user_fields gur_User (\<lambda>u r. r\<lparr>gur_User := u\<rparr>))]"

definition Rest_GetUser :: "'w rest_client \<Rightarrow> string \<Rightarrow> ('w, go_error + get_user_response) state" where
  "Rest_GetUser c userID = do {
     r \<leftarrow> rest_do c ''GET'' (''v2/users/'' @ userID) None
       (Some (DecodeFirst (rc_lib c) get_user_response_fields \<lparr>gur_Details = zero_details, gur_User = zero_rest_user\<rparr>));
     State_Monad.return (case r of
         Inl e \<Rightarrow> if IsNotFound e then Inl (NewNotFound ''zitadel'' ''users'' userID) else Inl e
       | Inr (Some resp) \<Rightarrow> Inr resp
       | Inr None \<Rightarrow> Inr \<lparr>gur_Details = zero_details, gur_User = zero_rest_user\<rparr>)
   }"

section \<open>The calls that change a user\<close>

definition Rest_DeleteUser :: "'w rest_client \<Rightarrow> string \<Rightarrow> ('w, go_error option) state" where
  "Rest_DeleteUser c userID = do {
     r \<leftarrow> rest_do c ''DELETE'' (''v2/users/'' @ userID) None (None :: (string \<Rightarrow> go_error + unit) option);
     State_Monad.return (only_error r)
   }"

definition Rest_DeactivateUser :: "'w rest_client \<Rightarrow> string \<Rightarrow> ('w, go_error option) state" where
  "Rest_DeactivateUser c userID = do {
     r \<leftarrow> rest_do c ''POST'' (''v2/users/'' @ userID @ ''/deactivate'') (Some (JObj []))
       (None :: (string \<Rightarrow> go_error + unit) option);
     State_Monad.return (only_error r)
   }"

definition Rest_ReactivateUser :: "'w rest_client \<Rightarrow> string \<Rightarrow> ('w, go_error option) state" where
  "Rest_ReactivateUser c userID = do {
     r \<leftarrow> rest_do c ''POST'' (''v2/users/'' @ userID @ ''/reactivate'') (Some (JObj []))
       (None :: (string \<Rightarrow> go_error + unit) option);
     State_Monad.return (only_error r)
   }"

section \<open>create_machine_user.go\<close>

definition AccessTokenTypeJWT :: string where "AccessTokenTypeJWT = ''ACCESS_TOKEN_TYPE_JWT''"

record machine_user_request =
  mu_UserName :: string
  mu_Name :: string
  mu_Description :: string
  mu_AccessTokenType :: string
  mu_UserId :: string

text \<open>An empty description is left out.\<close>

definition machine_user_json :: "machine_user_request \<Rightarrow> json" where
  "machine_user_json r =
     JObj ([(''userName'', JStr (mu_UserName r)), (''name'', JStr (mu_Name r))] @
       (if mu_Description r \<noteq> [] then [(''description'', JStr (mu_Description r))] else []) @
       [(''accessTokenType'', JStr (mu_AccessTokenType r)), (''userId'', JStr (mu_UserId r))])"

record machine_details =
  md_Sequence :: string
  md_ChangeDate :: string
  md_ResourceOwner :: string

definition zero_machine_details :: machine_details where
  "zero_machine_details = \<lparr>md_Sequence = [], md_ChangeDate = [], md_ResourceOwner = []\<rparr>"

definition machine_details_fields :: "(string \<times> machine_details decoder) list" where
  "machine_details_fields = [
     (''sequence'', json_string (\<lambda>v d. d\<lparr>md_Sequence := v\<rparr>)),
     (''changeDate'', json_string (\<lambda>v d. d\<lparr>md_ChangeDate := v\<rparr>)),
     (''resourceOwner'', json_string (\<lambda>v d. d\<lparr>md_ResourceOwner := v\<rparr>))]"

record machine_user_response =
  mur_UserID :: string
  mur_Details :: machine_details

definition machine_user_response_fields :: "(string \<times> machine_user_response decoder) list" where
  "machine_user_response_fields = [
     (''userId'', json_string (\<lambda>v r. r\<lparr>mur_UserID := v\<rparr>)),
     (''details'', json_struct machine_details_fields mur_Details (\<lambda>d r. r\<lparr>mur_Details := d\<rparr>))]"

definition Rest_CreateMachineUser ::
  "'w rest_client \<Rightarrow> machine_user_request \<Rightarrow> ('w, go_error + machine_user_response option) state" where
  "Rest_CreateMachineUser c req =
     rest_do c ''POST'' ''management/v1/users/machine'' (Some (machine_user_json req))
       (Some (DecodeFirst (rc_lib c) machine_user_response_fields \<lparr>mur_UserID = [], mur_Details = zero_machine_details\<rparr>))"

section \<open>Lemmas\<close>

lemma TrimLeft_id [simp]: "s \<noteq> [] \<Longrightarrow> hd s \<noteq> c \<Longrightarrow> TrimLeft s c = s"
  by (cases s) (auto simp: TrimLeft_def)

text \<open>A missing resource is the only failure that counts as not found.\<close>

lemma rest_do_not_found:
  assumes "run_state (rest_do c meth path body dest) w = (Inl e, w')" and "IsNotFound e"
    and "\<And>m u e. rc_NewRequest c m u = Some e \<Longrightarrow> \<not> IsNotFound e"
    and "\<And>m u b w e w'. run_state (rc_Do c m u b) w = (Inl e, w') \<Longrightarrow> \<not> IsNotFound e"
    and "\<And>t e d. dest = Some d \<Longrightarrow> d t = Inl e \<Longrightarrow> \<not> IsNotFound e"
  shows "\<exists>status text. run_state (rc_Do c meth (request_url c path) (map_option (EncodeJSON (rc_lib c)) body)) w =
    (Inr (404, status, text), w')"
proof (cases "rc_NewRequest c meth (request_url c path)")
  case None
  obtain r w1 where r: "run_state (rc_Do c meth (request_url c path) (map_option (EncodeJSON (rc_lib c)) body)) w = (r, w1)"
    by fastforce
  have plain: "\<not> IsNotFound (errorf m)" for m by (simp add: IsNotFound_def errorf_def)
  show ?thesis
  proof (cases r)
    case (Inl e')
    with r None assms(1,2,4) show ?thesis by (auto simp: rest_do_def)
  next
    case (Inr p)
    then obtain code status b where p: "r = Inr (code, status, b)" by (cases p) auto
    with r None assms(1,2,5) plain have "code = 404" "w1 = w'"
      by (auto simp: rest_do_def split: if_splits option.splits sum.splits)
    with r p show ?thesis by auto
  qed
qed (use assms in \<open>auto simp: rest_do_def\<close>)

end
