(* ===== verification/Object_Controllers.thy ===== *)
theory Object_Controllers
  imports Finalizing Zitadel_Rest Zitadel_Api
begin

text \<open>
  internal/controller/user_controller.go and project_controller.go: the controllers that remove the
  Zitadel account of a User and the Zitadel organization of a Project when the object is deleted.
  The type assertion at the head of each finalizer cannot fail here, as the objects are typed.
\<close>

section \<open>Users\<close>

definition userFinalizerKey :: string where
  "userFinalizerKey = ''iam.miloapis.com/user''"

definition userFinalizer_Finalize :: "'w rest_client \<Rightarrow> user \<Rightarrow> ('w, go_error option) state" where
  "userFinalizer_Finalize Z u = do {
     r \<leftarrow> Rest_GetUser Z (user_name u);
     (case r of
        Inl e \<Rightarrow> State_Monad.return
          (if IsNotFound e then None else Some (wrapf ''failed to get user from Zitadel: '' e))
      | Inr _ \<Rightarrow> do {
          d \<leftarrow> Rest_DeleteUser Z (user_name u);
          State_Monad.return (map_option (wrapf ''failed to delete user in Zitadel: '') d)
        })
   }"

definition UserController_Reconcile ::
  "('w, user) finalizers \<Rightarrow> 'w kube \<Rightarrow> 'w rest_client \<Rightarrow> string \<Rightarrow> ('w, reconcile_result) state" where
  "UserController_Reconcile F K Z name = do {
     g \<leftarrow> GetUser K name;
     (case g of
        Inl e \<Rightarrow> State_Monad.return
          (if IsNotFound e then Inr 0 else Inl (wrapf ''failed to get User resource: '' e))
      | Inr u \<Rightarrow> do {
          f \<leftarrow> F userFinalizerKey (userFinalizer_Finalize Z) u;
          (case f of
             Inl e \<Rightarrow> State_Monad.return (Inl (wrapf ''failed to run finalizers for User: '' e))
           | Inr (updated, u') \<Rightarrow>
               if updated then do {
                 e \<leftarrow> UpdateUser K u';
                 State_Monad.return (case e of
                     Some e \<Rightarrow> Inl (wrapf ''failed to update User after finalizer update: '' e)
                   | None \<Rightarrow> Inr 0)
               }
               else State_Monad.return (Inr 0))
        })
   }"

interpretation user_ctrl: finalizing "GetUser K name" "F userFinalizerKey (userFinalizer_Finalize Z)" "UpdateUser K"
  "UserController_Reconcile F K Z name"
  for F :: "('w, user) finalizers" and K :: "'w kube" and Z and name
  by unfold_locales (simp_all add: UserController_Reconcile_def)

section \<open>Projects\<close>

record project =
  proj_name :: string
  proj_resourceVersion :: string
  proj_finalizers :: "string list"
  proj_deletionTimestamp :: "int option"

definition projectFinalizerKey :: string where
  "projectFinalizerKey = ''auth-provider-zitadel.miloapis.com/project''"

definition projectConflictRequeue :: int where
  "projectConflictRequeue = Second"

definition projectFinalizer_Finalize :: "'w zitadel_api \<Rightarrow> project \<Rightarrow> ('w, go_error option) state" where
  "projectFinalizer_Finalize Z p = do {
     e \<leftarrow> DeleteOrganization Z (OrgIDForProject (proj_name p));
     State_Monad.return (map_option (wrapf ''delete organization: '') e)
   }"

definition ProjectController_Reconcile ::
  "('w, project) finalizers \<Rightarrow> ('w, project) object_client \<Rightarrow> 'w zitadel_api \<Rightarrow> string \<Rightarrow> ('w, reconcile_result) state" where
  "ProjectController_Reconcile F C Z name = do {
     g \<leftarrow> oc_Get C name;
     (case g of
        Inl e \<Rightarrow> State_Monad.return (if IsNotFound e then Inr 0 else Inl (wrapf ''get project: '' e))
      | Inr p \<Rightarrow> do {
          f \<leftarrow> F projectFinalizerKey (projectFinalizer_Finalize Z) p;
          (case f of
             Inl e \<Rightarrow> State_Monad.return (Inl (wrapf ''finalize: '' e))
           | Inr (updated, p') \<Rightarrow>
               if updated then do {
                 e \<leftarrow> oc_Update C p';
                 State_Monad.return (case e of
                     Some e \<Rightarrow>
                       if IsNotFound e then Inr 0
                       else if IsConflict e then Inr projectConflictRequeue
                       else Inl (wrapf ''update project after finalizer: '' e)
                   | None \<Rightarrow> Inr 0)
               }
               else State_Monad.return (Inr 0))
        })
   }"

interpretation project_ctrl: finalizing "oc_Get C name" "F projectFinalizerKey (projectFinalizer_Finalize Z)" "oc_Update C"
  "ProjectController_Reconcile F C Z name"
  for F :: "('w, project) finalizers" and C Z name
  by unfold_locales (simp_all add: ProjectController_Reconcile_def)

end
