(* ===== verification/Service_Account.thy ===== *)
theory Service_Account
  imports Finalizing Zitadel_Api
begin

text \<open>
  internal/controller/serviceaccount_controller.go: ServiceAccounts of the project control planes and
  their machine users in Zitadel. The condition list of the status is written by the
  apimachinery library, which is an argument.
\<close>

section \<open>Objects\<close>

record condition =
  cond_Type :: string
  cond_Status :: string
  cond_Reason :: string
  cond_Message :: string
  cond_LastTransitionTime :: int

text \<open>\<^verbatim>\<open>meta.FindStatusCondition\<close> and \<^verbatim>\<open>meta.SetStatusCondition\<close>.\<close>

record meta_lib =
  FindStatusCondition :: "condition list \<Rightarrow> string \<Rightarrow> condition option"
  SetStatusCondition :: "condition list \<Rightarrow> condition \<Rightarrow> condition list"

text \<open>
  What the library documents: after a set, the condition of that type has the given status, reason and
  message, and its time of transition is the given one when the status changed (or the condition is
  new) and the old one otherwise; a set that changes none of the three leaves the list as it is.
  Conditions of other types are untouched.
\<close>

definition condition_law :: "meta_lib \<Rightarrow> bool" where
  "condition_law M \<longleftrightarrow>
     (\<forall>cs c. (case FindStatusCondition M cs (cond_Type c) of
          None \<Rightarrow> FindStatusCondition M (SetStatusCondition M cs c) (cond_Type c) = Some c
        | Some old \<Rightarrow>
            if cond_Status old = cond_Status c \<and> cond_Reason old = cond_Reason c \<and> cond_Message old = cond_Message c
            then SetStatusCondition M cs c = cs
            else FindStatusCondition M (SetStatusCondition M cs c) (cond_Type c) =
              Some (c\<lparr>cond_LastTransitionTime :=
                if cond_Status old = cond_Status c then cond_LastTransitionTime old else cond_LastTransitionTime c\<rparr>)) \<and>
        (\<forall>t. t \<noteq> cond_Type c \<longrightarrow>
           FindStatusCondition M (SetStatusCondition M cs c) t = FindStatusCondition M cs t))"

record service_account_status =
  sas_ClientID :: string
  sas_Email :: string
  sas_State :: string
  sas_Conditions :: "condition list"

record service_account =
  sa_name :: string
  sa_uid :: string
  sa_resourceVersion :: string
  sa_finalizers :: "string list"
  sa_deletionTimestamp :: "int option"
  sa_spec_State :: string
  sa_status :: service_account_status

definition serviceAccountFinalizerKey :: string where
  "serviceAccountFinalizerKey = ''iam.miloapis.com/serviceaccount''"

definition inactiveServiceAccountState :: string where "inactiveServiceAccountState = ''Inactive''"
definition activeServiceAccountState :: string where "activeServiceAccountState = ''Active''"

section \<open>The finalizer\<close>

definition serviceAccountFinalizer_Finalize :: "'w zitadel_api \<Rightarrow> service_account \<Rightarrow> ('w, go_error option) state" where
  "serviceAccountFinalizer_Finalize Z sa = do {
     r \<leftarrow> GetUserByID Z (sa_uid sa);
     (case r of
        Inl e \<Rightarrow> State_Monad.return (Some (wrapf ''get user by id: '' e))
      | Inr None \<Rightarrow> State_Monad.return None
      | Inr (Some _) \<Rightarrow> do {
          e \<leftarrow> DeleteZitadelUser Z (sa_uid sa);
          State_Monad.return (map_option (wrapf ''delete user: '') e)
        })
   }"

section \<open>The reconciler\<close>

text \<open>
  \<^verbatim>\<open>mgr.GetCluster\<close> gives the client of the control plane with the given name.
\<close>

record 'w sa_controller =
  sac_Finalizers :: "('w, service_account) finalizers"
  sac_Zitadel :: "'w zitadel_api"
  sac_EmailAddressSuffix :: string
  sac_GetCluster :: "string \<Rightarrow> ('w, go_error + ('w, service_account) object_client) state"
  sac_runtime :: "'w runtime"
  sac_meta :: meta_lib

definition computeEmailAddress :: "'w sa_controller \<Rightarrow> service_account \<Rightarrow> string \<Rightarrow> string" where
  "computeEmailAddress C sa clusterName =
     sa_name sa @ ''@'' @ TrimPrefix clusterName ''/'' @ ''.'' @ sac_EmailAddressSuffix C"

definition updateServiceAccountState ::
  "'w sa_controller \<Rightarrow> string \<Rightarrow> service_account \<Rightarrow> ('w, go_error option) state" where
  "updateServiceAccountState C orgID sa =
     (if sa_spec_State sa = activeServiceAccountState
      then if sas_State (sa_status sa) = [] then State_Monad.return None
           else ReactivateUser (sac_Zitadel C) orgID (sa_uid sa)
      else if sa_spec_State sa = inactiveServiceAccountState
      then DeactivateUser (sac_Zitadel C) orgID (sa_uid sa)
      else State_Monad.return (Some (errorf (''invalid state: '' @ sa_spec_State sa))))"

definition ready_condition :: "int \<Rightarrow> condition" where
  "ready_condition now = \<lparr>cond_Type = ''Ready'', cond_Status = ''True'', cond_Reason = ''Reconciled'',
     cond_Message = ''ServiceAccount successfully reconciled'', cond_LastTransitionTime = now\<rparr>"

definition setServiceAccountReadyStatus ::
  "'w sa_controller \<Rightarrow> service_account \<Rightarrow> string option \<Rightarrow> string \<Rightarrow> ('w, go_error + service_account) state" where
  "setServiceAccountReadyStatus C sa userID email =
     (case userID of
        None \<Rightarrow> State_Monad.return (Inl (errorf ''authentication provider returned an empty service account client ID''))
      | Some i \<Rightarrow>
          if i = [] then State_Monad.return (Inl (errorf ''authentication provider returned an empty service account client ID''))
          else do {
            now \<leftarrow> Now (sac_runtime C);
            State_Monad.return (Inr (sa\<lparr>sa_status := \<lparr>sas_ClientID = i, sas_Email = email, sas_State = sa_spec_State sa,
              sas_Conditions = SetStatusCondition (sac_meta C) (sas_Conditions (sa_status sa)) (ready_condition now)\<rparr>\<rparr>))
          })"

text \<open>The organization of the project, which is made when it does not exist.\<close>

definition ensure_organization :: "'w sa_controller \<Rightarrow> string \<Rightarrow> ('w, go_error option) state" where
  "ensure_organization C projectName = do {
     org \<leftarrow> GetOrganization (sac_Zitadel C) (OrgIDForProject projectName);
     (case org of
        Inl e \<Rightarrow> State_Monad.return (Some (wrapf ''get organization: '' e))
      | Inr (Some _) \<Rightarrow> State_Monad.return None
      | Inr None \<Rightarrow> do {
          c \<leftarrow> CreateOrganizationWithID (sac_Zitadel C) (OrgDisplayNameForProject projectName) (OrgIDForProject projectName);
          State_Monad.return (case c of Inl e \<Rightarrow> Some (wrapf ''create organization: '' e) | Inr _ \<Rightarrow> None)
        })
   }"

text \<open>The machine user of the account, which is made when it does not exist; the result is its identifier.\<close>

definition ensure_machine_user ::
  "'w sa_controller \<Rightarrow> string \<Rightarrow> service_account \<Rightarrow> string \<Rightarrow> ('w, go_error + string) state" where
  "ensure_machine_user C orgID sa email = do {
     u \<leftarrow> GetUserByID (sac_Zitadel C) (sa_uid sa);
     (case u of
        Inl e \<Rightarrow> State_Monad.return (Inl (wrapf ''get user by id: '' e))
      | Inr (Some u) \<Rightarrow> State_Monad.return (Inr (zu_ID u))
      | Inr None \<Rightarrow> do {
          c \<leftarrow> AddMachineUserInOrganization (sac_Zitadel C) orgID (sa_uid sa) email (sa_name sa);
          State_Monad.return (case c of
              Inl e \<Rightarrow> Inl (wrapf ''add machine user in organization: '' e)
            | Inr i \<Rightarrow> Inr i)
        })
   }"

text \<open>The part after the finalizers.\<close>

definition sync_service_account ::
  "'w sa_controller \<Rightarrow> ('w, service_account) object_client \<Rightarrow> string \<Rightarrow> service_account \<Rightarrow> ('w, reconcile_result) state" where
  "sync_service_account C cl clusterName sa = do {
     let projectName = TrimPrefix clusterName ''/'';
     o1 \<leftarrow> ensure_organization C projectName;
     (case o1 of
        Some e \<Rightarrow> State_Monad.return (Inl e)
      | None \<Rightarrow> do {
          let orgID = OrgIDForProject projectName;
          let email = computeEmailAddress C sa clusterName;
          u \<leftarrow> ensure_machine_user C orgID sa email;
          (case u of
             Inl e \<Rightarrow> State_Monad.return (Inl e)
           | Inr userID \<Rightarrow> do {
               s \<leftarrow> (if sas_State (sa_status sa) \<noteq> sa_spec_State sa then updateServiceAccountState C orgID sa
                     else State_Monad.return None);
               (case s of
                  Some e \<Rightarrow> State_Monad.return (Inl (wrapf ''failed to update service account state: '' e))
                | None \<Rightarrow>
                    if sa_deletionTimestamp sa \<noteq> None then State_Monad.return (Inr 0)
                    else do {
                      ready \<leftarrow> setServiceAccountReadyStatus C sa (Some userID) email;
                      (case ready of
                         Inl e \<Rightarrow> State_Monad.return (Inl e)
                       | Inr sa' \<Rightarrow> do {
                           e \<leftarrow> oc_UpdateStatus cl sa';
                           State_Monad.return (case e of
                               Some e \<Rightarrow> Inl (wrapf ''failed to update ServiceAccount status: '' e)
                             | None \<Rightarrow> Inr 0)
                         })
                    })
             })
        })
   }"

definition sa_reconcile ::
  "'w sa_controller \<Rightarrow> ('w, service_account) object_client \<Rightarrow> string \<Rightarrow> string \<Rightarrow> ('w, reconcile_result) state" where
  "sa_reconcile C cl clusterName name = do {
     g \<leftarrow> oc_Get cl name;
     (case g of
        Inl e \<Rightarrow> State_Monad.return
          (if IsNotFound e then Inr 0 else Inl (wrapf ''failed to get ServiceAccount resource: '' e))
      | Inr sa \<Rightarrow> do {
          f \<leftarrow> sac_Finalizers C serviceAccountFinalizerKey (serviceAccountFinalizer_Finalize (sac_Zitadel C)) sa;
          (case f of
             Inl e \<Rightarrow> State_Monad.return (Inl (wrapf ''failed to run finalizers for ServiceAccount: '' e))
           | Inr (updated, sa') \<Rightarrow>
               if updated then do {
                 e \<leftarrow> oc_Update cl sa';
                 State_Monad.return (case e of Some e \<Rightarrow> Inl e | None \<Rightarrow> Inr 0)
               }
               else sync_service_account C cl clusterName sa')
        })
   }"

definition ServiceAccountController_Reconcile ::
  "'w sa_controller \<Rightarrow> string \<Rightarrow> string \<Rightarrow> ('w, reconcile_result) state" where
  "ServiceAccountController_Reconcile C clusterName name = do {
     cluster \<leftarrow> sac_GetCluster C clusterName;
     (case cluster of
        Inl e \<Rightarrow> State_Monad.return (Inl (wrapf (''failed to get cluster '' @ clusterName @ '' from manager: '') e))
      | Inr cl \<Rightarrow> sa_reconcile C cl clusterName name)
   }"

interpretation sa_ctrl: finalizing "oc_Get cl name"
  "sac_Finalizers C serviceAccountFinalizerKey (serviceAccountFinalizer_Finalize (sac_Zitadel C))" "oc_Update cl"
  "sa_reconcile C cl clusterName name"
  for C :: "'w sa_controller" and cl clusterName name
  by unfold_locales (simp_all add: sa_reconcile_def)

end
