(* ===== verification/Platform_Access.thy ===== *)
theory Platform_Access
  imports Service_Account Zitadel_Rest
begin

text \<open>
  internal/controller/platformaccess_controller.go: the controller that brings the state of a Zitadel
  account in line with the state of platform access. States are the text of the API's enumeration; its
  value for suspended access is declared outside the sources and a field of the controller.
\<close>

definition ZitadelReadyCondition :: string where "ZitadelReadyCondition = ''ZitadelReady''"
definition fieldOwnerName :: string where "fieldOwnerName = ''auth-provider-zitadel''"
definition userStateWaitReason :: string where "userStateWaitReason = ''WaitingForUserState''"
definition userStateRequeueAfter :: int where "userStateRequeueAfter = 30 * Second"

record platform_access =
  pacc_name :: string
  pacc_userRef :: string
  pacc_State :: string
  pacc_Conditions :: "condition list"

record 'w pa_controller =
  pac_Client :: "('w, platform_access) object_client"
  pac_kube :: "'w kube"
  pac_Zitadel :: "'w rest_client"
  pac_Suspended :: string
  pac_runtime :: "'w runtime"
  pac_meta :: meta_lib

definition expectActive :: "'w pa_controller \<Rightarrow> string \<Rightarrow> bool" where
  "expectActive C state \<longleftrightarrow> state \<noteq> pac_Suspended C"

definition stateChanged :: "'w pa_controller \<Rightarrow> platform_access \<Rightarrow> bool" where
  "stateChanged C p =
     (case FindStatusCondition (pac_meta C) (pacc_Conditions p) ZitadelReadyCondition of
        None \<Rightarrow> True
      | Some c \<Rightarrow> cond_Status c \<noteq> ''True'' \<or> cond_Reason c \<noteq> pacc_State p)"

text \<open>
  The result is the flag that the account is in a state from which it cannot be brought in line yet, together with
  the error.
\<close>

definition ensureZitadelUserState ::
  "'w rest_client \<Rightarrow> string \<Rightarrow> bool \<Rightarrow> ('w, bool \<times> go_error option) state" where
  "ensureZitadelUserState Z userName active = do {
     r \<leftarrow> Rest_GetUser Z userName;
     (case r of
        Inl e \<Rightarrow> State_Monad.return (False, Some (wrapf ''failed to get user state from Zitadel: '' e))
      | Inr resp \<Rightarrow>
          (let currentState = re_State (gur_User resp) in
           if active \<and> currentState = UserStateActive then State_Monad.return (False, None)
           else if \<not> active \<and> currentState = UserStateInactive then State_Monad.return (False, None)
           else if active
           then if currentState \<noteq> UserStateInactive then State_Monad.return (True, None)
                else do { e \<leftarrow> Rest_ReactivateUser Z userName; State_Monad.return (False, e) }
           else if currentState \<noteq> UserStateActive then State_Monad.return (True, None)
           else do { e \<leftarrow> Rest_DeactivateUser Z userName; State_Monad.return (False, e) }))
   }"

text \<open>The condition of an outcome; \<^verbatim>\<open>errors.IsNotFound\<close> is false on nil.\<close>

definition outcome_condition :: "string \<Rightarrow> go_error option \<Rightarrow> bool \<Rightarrow> int \<Rightarrow> condition" where
  "outcome_condition state err waiting now =
     (case err of
        Some e \<Rightarrow>
          if IsNotFound e
          then \<lparr>cond_Type = ZitadelReadyCondition, cond_Status = ''False'', cond_Reason = ''ZitadelUserNotFound'',
            cond_Message = ''Zitadel identity is missing; waiting for provisioning or identity repair: '' @ Error e,
            cond_LastTransitionTime = now\<rparr>
          else \<lparr>cond_Type = ZitadelReadyCondition, cond_Status = ''False'', cond_Reason = ''SyncFailed'',
            cond_Message = ''Failed to align Zitadel user state: '' @ Error e, cond_LastTransitionTime = now\<rparr>
      | None \<Rightarrow>
          if waiting
          then \<lparr>cond_Type = ZitadelReadyCondition, cond_Status = ''False'', cond_Reason = userStateWaitReason,
            cond_Message = ''Waiting for the Zitadel user to reach a state that allows syncing'',
            cond_LastTransitionTime = now\<rparr>
          else \<lparr>cond_Type = ZitadelReadyCondition, cond_Status = ''True'', cond_Reason = state,
            cond_Message = ''Zitadel user state successfully aligned to '' @ state, cond_LastTransitionTime = now\<rparr>)"

definition updateStatusConditions ::
  "'w pa_controller \<Rightarrow> platform_access \<Rightarrow> go_error option \<Rightarrow> bool \<Rightarrow> ('w, platform_access) state" where
  "updateStatusConditions C p err waiting = do {
     now \<leftarrow> Now (pac_runtime C);
     State_Monad.return (p\<lparr>pacc_Conditions :=
       SetStatusCondition (pac_meta C) (pacc_Conditions p) (outcome_condition (pacc_State p) err waiting now)\<rparr>)
   }"

definition shouldUpdateStatus :: "platform_access \<Rightarrow> platform_access \<Rightarrow> bool" where
  "shouldUpdateStatus old new \<longleftrightarrow> pacc_Conditions old \<noteq> pacc_Conditions new"

text \<open>What the reconciler reports at the end.\<close>

definition sync_result :: "go_error option \<Rightarrow> bool \<Rightarrow> reconcile_result" where
  "sync_result err waiting =
     (case err of
        Some e \<Rightarrow> if IsNotFound e then Inr userStateRequeueAfter else Inl e
      | None \<Rightarrow> if waiting then Inr userStateRequeueAfter else Inr 0)"

definition PlatformAccess_getUser :: "'w pa_controller \<Rightarrow> string \<Rightarrow> ('w, go_error + user) state" where
  [simp]: "PlatformAccess_getUser C userName = GetUser (pac_kube C) userName"

definition PlatformAccessController_Reconcile ::
  "'w pa_controller \<Rightarrow> string \<Rightarrow> ('w, reconcile_result) state" where
  "PlatformAccessController_Reconcile C name = do {
     g \<leftarrow> oc_Get (pac_Client C) name;
     (case g of
        Inl e \<Rightarrow> State_Monad.return
          (if IsNotFound e then Inr 0 else Inl (wrapf ''failed to get PlatformAccess resource: '' e))
      | Inr p \<Rightarrow> do {
          u \<leftarrow> PlatformAccess_getUser C (pacc_userRef p);
          (case u of
             Inl e \<Rightarrow> State_Monad.return (Inl (wrapf ''failed to get User resource: '' e))
           | Inr _ \<Rightarrow> do {
               (waiting, err) \<leftarrow> (if stateChanged C p
                 then ensureZitadelUserState (pac_Zitadel C) (pacc_userRef p) (expectActive C (pacc_State p))
                 else State_Monad.return (False, None));
               p' \<leftarrow> updateStatusConditions C p err waiting;
               e \<leftarrow> (if shouldUpdateStatus p p' then oc_PatchStatus (pac_Client C) p p' fieldOwnerName
                     else State_Monad.return None);
               State_Monad.return (case e of
                   Some e \<Rightarrow> Inl (wrapf ''failed to patch PlatformAccess status: '' e)
                 | None \<Rightarrow> sync_result err waiting)
             })
        })
   }"

end
