(* ===== verification/Service_Properties.thy ===== *)
theory Service_Properties
  imports Controller_Properties
begin

text \<open>
  The service account controller: what a successful reconciliation has stored, and two ways in which an
  account and its machine user drift apart.
\<close>

section \<open>The finalizer comes first\<close>

text \<open>C39. On a ServiceAccount that does not carry the finalizer yet, a reconciliation does nothing but store it: whatever
  reading and storing the object leave alone, such as the accounts and organizations of Zitadel,
  is as before. So nothing is made in Zitadel that the finalizer would not remove.\<close>

theorem service_account_finalizer_first:
  assumes "finalizer_law (sac_Finalizers C) sa_finalizers set_fin (\<lambda>sa. sa_deletionTimestamp sa \<noteq> None)"
    and "silent view (sac_GetCluster C cluster)"
    and "silent view (oc_Get cl name)" and "\<And>sa. silent view (oc_Update cl sa)"
    and "run_state (sac_GetCluster C cluster) w = (Inr cl, w0)" and "run_state (oc_Get cl name) w0 = (Inr sa, w1)"
    and "sa_deletionTimestamp sa = None" and "serviceAccountFinalizerKey \<notin> set (sa_finalizers sa)"
    and "run_state (ServiceAccountController_Reconcile C cluster name) w = (res, w')"
  shows "view w' = view w"
proof -
  have run: "run_state (sa_reconcile C cl cluster name) w0 = (res, w')"
    using assms(5,9) by (simp add: ServiceAccountController_Reconcile_def)
  have "view w' = view w0"
    by (rule sa_ctrl.key_is_stored_first [OF assms(1) refl _ _ assms(6) _ assms(8) run]) (use assms(3,4,7) in auto)
  with silent_run [OF assms(2,5)] show ?thesis by simp
qed

section \<open>From the request to the synchronisation\<close>

text \<open>An object on which the finalizer library has nothing to do.\<close>

definition settled_finalizer :: "service_account \<Rightarrow> bool" where
  "settled_finalizer sa \<longleftrightarrow>
     (if sa_deletionTimestamp sa = None then serviceAccountFinalizerKey \<in> set (sa_finalizers sa)
      else serviceAccountFinalizerKey \<notin> set (sa_finalizers sa))"

lemma reconcile_syncs:
  assumes "finalizer_law (sac_Finalizers C) sa_finalizers set_fin (\<lambda>sa. sa_deletionTimestamp sa \<noteq> None)"
    and "run_state (sac_GetCluster C cluster) w = (Inr cl, w0)" and "run_state (oc_Get cl name) w0 = (Inr sa, w1)"
    and "settled_finalizer sa"
  shows "run_state (ServiceAccountController_Reconcile C cluster name) w = run_state (sync_service_account C cl cluster sa) w1"
proof -
  have "run_state (sac_Finalizers C key cleanup sa) w1 = (Inr (False, sa), w1)" if "key = serviceAccountFinalizerKey" for key cleanup
    using assms(1) [unfolded finalizer_law_def, rule_format, of sa key cleanup w1] assms(4) that
    by (auto simp: settled_finalizer_def split: if_splits)
  with assms(2,3) show ?thesis by (simp add: ServiceAccountController_Reconcile_def sa_reconcile_def)
qed

section \<open>Success\<close>

lemma sync_ready:
  assumes "run_state (sync_service_account C cl cluster sa) w = (Inr t, w')" and "sa_deletionTimestamp sa = None"
  shows "\<exists>i now w2. i \<noteq> [] \<and> run_state (oc_UpdateStatus cl (sa\<lparr>sa_status := \<lparr>sas_ClientID = i,
        sas_Email = computeEmailAddress C sa cluster, sas_State = sa_spec_State sa,
        sas_Conditions = SetStatusCondition (sac_meta C) (sas_Conditions (sa_status sa)) (ready_condition now)\<rparr>\<rparr>)) w2 = (None, w') \<and>
    (sas_State (sa_status sa) = sa_spec_State sa \<or> sa_spec_State sa \<in> {activeServiceAccountState, inactiveServiceAccountState})"
  using assms
  by (auto simp: sync_service_account_def Let_def setServiceAccountReadyStatus_def updateServiceAccountState_def
      split: prod.splits option.splits sum.splits if_splits)


section \<open>Drift\<close>

text \<open>C40. A ServiceAccount that is being deleted, whose own finalizer has run and which another finalizer still
  keeps, is given a new machine user: the reconciler looks at the deletion only after it has made
  the account, and as the finalizer is gone nothing removes it again.\<close>

theorem deleted_account_is_made_again:
  assumes "finalizer_law (sac_Finalizers C) sa_finalizers set_fin (\<lambda>sa. sa_deletionTimestamp sa \<noteq> None)"
    and "run_state (sac_GetCluster C cluster) w = (Inr cl, w0)" and "run_state (oc_Get cl name) w0 = (Inr sa, w1)"
    and "sa_deletionTimestamp sa \<noteq> None" and "serviceAccountFinalizerKey \<notin> set (sa_finalizers sa)"
    and "sas_State (sa_status sa) = sa_spec_State sa"
    and "run_state (GetOrganization (sac_Zitadel C) (OrgIDForProject (TrimPrefix cluster ''/''))) w1 = (Inr (Some org), w2)"
    and "run_state (GetUserByID (sac_Zitadel C) (sa_uid sa)) w2 = (Inr None, w3)"
    and "run_state (AddMachineUserInOrganization (sac_Zitadel C) (OrgIDForProject (TrimPrefix cluster ''/'')) (sa_uid sa)
      (computeEmailAddress C sa cluster) (sa_name sa)) w3 = (Inr i, w4)"
  shows "run_state (ServiceAccountController_Reconcile C cluster name) w = (Inr 0, w4)"
proof -
  have "run_state (sync_service_account C cl cluster sa) w1 = (Inr 0, w4)"
    using assms(4,6-9) by (simp add: sync_service_account_def ensure_organization_def ensure_machine_user_def Let_def)
  with reconcile_syncs [OF assms(1-3)] assms(4,5) show ?thesis by (simp add: settled_finalizer_def)
qed

text \<open>When the machine user of a ServiceAccount whose specification and status are both Inactive has disappeared
  from Zitadel, the reconciler makes it anew and does not deactivate it: with respect to any view
  that the clock and the write of the status leave alone, such as the states of the accounts, the
  world is as the creation of the (active) user left it.\<close>

lemma inactive_account_comes_back_active:
  assumes "finalizer_law (sac_Finalizers C) sa_finalizers set_fin (\<lambda>sa. sa_deletionTimestamp sa \<noteq> None)"
    and "run_state (sac_GetCluster C cluster) w = (Inr cl, w0)" and "run_state (oc_Get cl name) w0 = (Inr sa, w1)"
    and "sa_deletionTimestamp sa = None" and "serviceAccountFinalizerKey \<in> set (sa_finalizers sa)"
    and "sa_spec_State sa = ''Inactive''" and "sas_State (sa_status sa) = ''Inactive''"
    and "run_state (GetOrganization (sac_Zitadel C) (OrgIDForProject (TrimPrefix cluster ''/''))) w1 = (Inr (Some org), w2)"
    and "run_state (GetUserByID (sac_Zitadel C) (sa_uid sa)) w2 = (Inr None, w3)"
    and "run_state (AddMachineUserInOrganization (sac_Zitadel C) (OrgIDForProject (TrimPrefix cluster ''/'')) (sa_uid sa)
      (computeEmailAddress C sa cluster) (sa_name sa)) w3 = (Inr i, w4)"
    and "silent view (Now (sac_runtime C))" and "\<And>x. silent view (oc_UpdateStatus cl x)"
    and "run_state (ServiceAccountController_Reconcile C cluster name) w = (res, w')"
  shows "view w' = view w4"
proof -
  have "run_state (sync_service_account C cl cluster sa) w1 = (res, w')"
    using reconcile_syncs [OF assms(1-3)] assms(4,5,13) by (simp add: settled_finalizer_def)
  with assms(4,6-10) have "w' = w4 \<or> (\<exists>now w5 x e. run_state (Now (sac_runtime C)) w4 = (now, w5) \<and>
      run_state (oc_UpdateStatus cl x) w5 = (e, w'))"
    by (auto simp: sync_service_account_def ensure_organization_def ensure_machine_user_def Let_def
        setServiceAccountReadyStatus_def split: if_splits prod.splits)
  then show ?thesis using silent_run [OF assms(11)] silent_run [OF assms(12)] by metis
qed

section \<open>A setting for the witnesses\<close>

fun set_condition :: "condition list \<Rightarrow> condition \<Rightarrow> condition list" where
  "set_condition [] c = [c]"
| "set_condition (x # xs) c =
     (if cond_Type x = cond_Type c
      then (if cond_Status x = cond_Status c \<and> cond_Reason x = cond_Reason c \<and> cond_Message x = cond_Message c then x
            else c\<lparr>cond_LastTransitionTime := if cond_Status x = cond_Status c then cond_LastTransitionTime x
                   else cond_LastTransitionTime c\<rparr>) # xs
      else x # set_condition xs c)"

definition std_meta :: meta_lib where
  "std_meta = \<lparr>FindStatusCondition = (\<lambda>cs t. find (\<lambda>c. cond_Type c = t) cs), SetStatusCondition = set_condition\<rparr>"

lemma std_condition_law: "condition_law std_meta"
proof -
  have sel: "FindStatusCondition std_meta = (\<lambda>cs t. find (\<lambda>c. cond_Type c = t) cs)"
    "SetStatusCondition std_meta = set_condition" by (simp_all add: std_meta_def)
  have "(case find (\<lambda>x. cond_Type x = cond_Type c) cs of
          None \<Rightarrow> find (\<lambda>x. cond_Type x = cond_Type c) (set_condition cs c) = Some c
        | Some old \<Rightarrow>
            if cond_Status old = cond_Status c \<and> cond_Reason old = cond_Reason c \<and> cond_Message old = cond_Message c
            then set_condition cs c = cs
            else find (\<lambda>x. cond_Type x = cond_Type c) (set_condition cs c) =
              Some (c\<lparr>cond_LastTransitionTime :=
                if cond_Status old = cond_Status c then cond_LastTransitionTime old else cond_LastTransitionTime c\<rparr>))" for cs c
    by (induction cs) (auto split: option.splits)
  moreover have "t \<noteq> cond_Type c \<Longrightarrow>
      find (\<lambda>x. cond_Type x = t) (set_condition cs c) = find (\<lambda>x. cond_Type x = t) cs" for t cs c
    by (induction cs) auto
  ultimately show ?thesis unfolding condition_law_def sel by blast
qed

text \<open>The world is one ServiceAccount and the machine users with their state.\<close>

type_synonym sa_world = "service_account \<times> (string \<times> bool) list"

definition machine_user :: "string \<Rightarrow> zuser" where
  "machine_user i = \<lparr>zu_ID = i, zu_Username = [], zu_Email = [], zu_State = [], zu_GivenName = [], zu_FamilyName = [],
     zu_IsEmailVerified = False, zu_CreatedAt = 0\<rparr>"

definition sa_api :: "sa_world zitadel_api" where
  "sa_api = (down_api not_found)
     \<lparr>GetOrganization := (\<lambda>i. State_Monad.return (Inr (Some \<lparr>org_ID = i, org_Name = []\<rparr>))),
      GetUserByID := (\<lambda>i. State (\<lambda>(sa, us). (Inr (map_option (\<lambda>_. machine_user i) (map_of us i)), (sa, us)))),
      AddMachineUserInOrganization := (\<lambda>orgID i email name. State (\<lambda>(sa, us). (Inr i, (sa, (i, True) # us)))),
      DeactivateUser := (\<lambda>orgID i. State (\<lambda>(sa, us). (None, (sa, map (\<lambda>(j, a). (j, a \<and> j \<noteq> i)) us))))\<rparr>"

definition sa_client :: "(sa_world, service_account) object_client" where
  "sa_client = \<lparr>oc_Get = (\<lambda>_. State (\<lambda>(sa, us). (Inr sa, (sa, us)))), oc_Update = (\<lambda>sa. State (\<lambda>(_, us). (None, (sa, us)))),
     oc_UpdateStatus = (\<lambda>sa. State (\<lambda>(old, us). (None, (old\<lparr>sa_status := sa_status sa\<rparr>, us)))),
     oc_PatchStatus = (\<lambda>_ _ _. State_Monad.return None)\<rparr>"

definition sa_demo :: "sa_world sa_controller" where
  "sa_demo = \<lparr>sac_Finalizers = std_finalizers sa_finalizers (\<lambda>fs sa. sa\<lparr>sa_finalizers := fs\<rparr>) (\<lambda>sa. sa_deletionTimestamp sa \<noteq> None),
     sac_Zitadel = sa_api, sac_EmailAddressSuffix = ''iam.example'', sac_GetCluster = (\<lambda>_. State_Monad.return (Inr sa_client)),
     sac_runtime = \<lparr>Now = State_Monad.return 5, NewUUID = State_Monad.return [], Sleep = (\<lambda>_. State_Monad.return ())\<rparr>,
     sac_meta = std_meta\<rparr>"

definition robot :: service_account where
  "robot = \<lparr>sa_name = ''robot'', sa_uid = ''1'', sa_resourceVersion = [], sa_finalizers = [serviceAccountFinalizerKey],
     sa_deletionTimestamp = None, sa_spec_State = ''Inactive'',
     sa_status = \<lparr>sas_ClientID = [], sas_Email = [], sas_State = ''Inactive'', sas_Conditions = []\<rparr>\<rparr>"

lemmas sa_demo_simps = sa_demo_def sa_client_def sa_api_def robot_def

lemma sa_demo_law: "finalizer_law (sac_Finalizers sa_demo) sa_finalizers (\<lambda>fs sa. sa\<lparr>sa_finalizers := fs\<rparr>)
    (\<lambda>sa. sa_deletionTimestamp sa \<noteq> None)"
  by (simp add: sa_demo_def std_finalizer_law)

lemma sa_demo_run:
  "run_state (sac_GetCluster sa_demo c) w = (Inr sa_client, w)" "run_state (oc_Get sa_client n) (sa, us) = (Inr sa, (sa, us))"
  "run_state (GetOrganization (sac_Zitadel sa_demo) i) w = (Inr (Some \<lparr>org_ID = i, org_Name = []\<rparr>), w)"
  "run_state (GetUserByID (sac_Zitadel sa_demo) i) (sa, []) = (Inr None, (sa, []))"
  "run_state (AddMachineUserInOrganization (sac_Zitadel sa_demo) orgID i email name) (sa, []) = (Inr i, (sa, [(i, True)]))"
  by (simp_all add: sa_demo_simps)

theorem deleted_account_is_made_again_witness:
  "run_state (ServiceAccountController_Reconcile sa_demo ''/p'' ''robot'')
     (robot\<lparr>sa_finalizers := [''other''], sa_deletionTimestamp := Some 1\<rparr>, []) =
   (Inr 0, (robot\<lparr>sa_finalizers := [''other''], sa_deletionTimestamp := Some 1\<rparr>, [(''1'', True)]))"
  using deleted_account_is_made_again [OF sa_demo_law sa_demo_run(1,2) _ _ _ sa_demo_run(3,4,5),
      of "robot\<lparr>sa_finalizers := [''other''], sa_deletionTimestamp := Some 1\<rparr>" "''/p''" "''robot''"]
  by (simp add: robot_def serviceAccountFinalizerKey_def)


theorem service_account_finalizer_first_witness:
  "snd (snd (run_state (ServiceAccountController_Reconcile sa_demo ''/p'' ''robot'') (robot\<lparr>sa_finalizers := []\<rparr>, []))) = []"
proof -
  have quiet: "silent snd (sac_GetCluster sa_demo c)" "silent snd (oc_Get sa_client n)" "silent snd (oc_Update sa_client x)" for c n x
    by (simp_all add: silent_def sa_demo_simps split: prod.splits)
  obtain res w' where run: "run_state (ServiceAccountController_Reconcile sa_demo ''/p'' ''robot'') (robot\<lparr>sa_finalizers := []\<rparr>, []) = (res, w')"
    by (meson surj_pair)
  from service_account_finalizer_first [OF sa_demo_law quiet sa_demo_run(1,2) _ _ run] run show ?thesis
    by (simp add: robot_def)
qed

end
