(* ===== verification/Access_Properties.thy ===== *)
theory Access_Properties
  imports Service_Properties
begin

text \<open>
  Platform access: the controller refines a table over three account states, a reconciliation that
  reports success has brought the account in line, and it is then left alone.
\<close>

section \<open>The abstract table\<close>

datatype account_state = AcActive | AcInactive | AcOther

definition abs_state :: "string option \<Rightarrow> account_state" where
  "abs_state s = (if s = Some ''USER_STATE_ACTIVE'' then AcActive
     else if s = Some ''USER_STATE_INACTIVE'' then AcInactive else AcOther)"

text \<open>
  Whether one has to wait, and the state afterwards: an account that is neither active nor inactive is
  left as it is.
\<close>

fun align :: "bool \<Rightarrow> account_state \<Rightarrow> bool \<times> account_state" where
  "align want AcOther = (True, AcOther)"
| "align want s = (False, if want then AcActive else AcInactive)"

lemma abs_state_simps [simp]:
  "abs_state (Some UserStateActive) = AcActive" "abs_state (Some UserStateInactive) = AcInactive"
  "s \<noteq> UserStateActive \<Longrightarrow> s \<noteq> UserStateInactive \<Longrightarrow> abs_state (Some s) = AcOther"
  by (simp_all add: abs_state_def UserStateActive_def UserStateInactive_def)

lemma user_states_differ [simp]: "UserStateActive \<noteq> UserStateInactive" "UserStateInactive \<noteq> UserStateActive"
  by (simp_all add: UserStateActive_def UserStateInactive_def)

lemma ensure_align:
  assumes "account_law Z states" and "run_state (ensureZitadelUserState Z n want) w = ((waiting, None), w')"
  shows "align want (abs_state (states w n)) = (waiting, abs_state (states w' n)) \<and> (\<forall>m. m \<noteq> n \<longrightarrow> states w' m = states w m)"
proof -
  obtain g w1 where g: "run_state (Rest_GetUser Z n) w = (g, w1)" by fastforce
  note get = Rest_GetUser_run [OF assms(1) g]
  from assms(2) g obtain resp where resp: "g = Inr resp" by (cases g) (auto simp: ensureZitadelUserState_def)
  let ?s = "re_State (gur_User resp)"
  have s: "states w n = Some ?s" "states w1 = states w" using get(1) get(2) [OF resp] by auto
  consider "?s = UserStateActive" | "?s = UserStateInactive" | "?s \<noteq> UserStateActive" "?s \<noteq> UserStateInactive" by blast
  then show ?thesis
    using assms(2) g resp s Rest_calls(2,3) [OF assms(1), of n w1]
    by cases (auto simp: ensureZitadelUserState_def Let_def split: if_splits prod.splits)
qed

text \<open>C35. As long as no call fails, what the controller does to the state of an account is what the table says: it waits
  exactly when the account is neither active nor inactive, and otherwise the account ends up as
  wanted; no other account changes.\<close>

theorem user_state_refines_align:
  assumes "account_law Z states" and "run_state (ensureZitadelUserState Z n want) w = ((waiting, None), w')"
  shows "align want (abs_state (states w n)) = (waiting, abs_state (states w' n)) \<and> (\<forall>m. m \<noteq> n \<longrightarrow> states w' m = states w m)"
  using assms by (rule ensure_align)

theorem user_state_refines_align_witness:
  "align False (abs_state (snd (None, [''u'' \<mapsto> ''USER_STATE_ACTIVE'']) ''u'')) =
     (False, abs_state (snd (snd (run_state (ensureZitadelUserState demo_rest ''u'' False)
        (None, [''u'' \<mapsto> ''USER_STATE_ACTIVE'']))) ''u''))"
proof -
  have "fst (run_state (ensureZitadelUserState demo_rest ''u'' False) (None, [''u'' \<mapsto> ''USER_STATE_ACTIVE''])) = (False, None)"
    by code_simp
  then obtain w' where run: "run_state (ensureZitadelUserState demo_rest ''u'' False) (None, [''u'' \<mapsto> ''USER_STATE_ACTIVE'']) =
      ((False, None), w')" by (metis prod.collapse)
  from user_state_refines_align [OF demo_rest_law(1) run] run show ?thesis by simp
qed

section \<open>Reconciliation\<close>

definition wanted_state :: "'w pa_controller \<Rightarrow> platform_access \<Rightarrow> string" where
  "wanted_state C p = (if pacc_State p = pac_Suspended C then ''USER_STATE_INACTIVE'' else ''USER_STATE_ACTIVE'')"

text \<open>C36. When a reconciliation that has to act on a PlatformAccess ends without an error and without asking to be called again, the
  account of the referenced user is inactive if access is suspended and active otherwise.\<close>

theorem reconciled_access_is_aligned:
  assumes "account_law (pac_Zitadel C) states"
    and "silent states (oc_Get (pac_Client C) name)" and "\<And>n. silent states (GetUser (pac_kube C) n)"
    and "silent states (Now (pac_runtime C))" and "\<And>a b c. silent states (oc_PatchStatus (pac_Client C) a b c)"
    and "run_state (oc_Get (pac_Client C) name) w = (Inr p, w1)" and "stateChanged C p"
    and "run_state (PlatformAccessController_Reconcile C name) w = (Inr 0, w')"
  shows "states w' (pacc_userRef p) = Some (wanted_state C p)"
proof -
  let ?n = "pacc_userRef p" and ?want = "expectActive C (pacc_State p)"
  obtain g w2 where g: "run_state (GetUser (pac_kube C) ?n) w1 = (g, w2)" by fastforce
  with assms(6,8) obtain u where u: "g = Inr u" by (cases g) (auto simp: PlatformAccessController_Reconcile_def)
  obtain waiting err w3 where e: "run_state (ensureZitadelUserState (pac_Zitadel C) ?n ?want) w2 = ((waiting, err), w3)"
    by (metis surj_pair)
  obtain now w4 where now: "run_state (Now (pac_runtime C)) w3 = (now, w4)" by fastforce
  let ?p = "p\<lparr>pacc_Conditions := SetStatusCondition (pac_meta C) (pacc_Conditions p) (outcome_condition (pacc_State p) err waiting now)\<rparr>"
  obtain k where patch: "run_state (if shouldUpdateStatus p ?p then oc_PatchStatus (pac_Client C) p ?p fieldOwnerName
      else State_Monad.return None) w4 = (k, w')" and k: "(case k of Some e \<Rightarrow> Inl (wrapf ''failed to patch PlatformAccess status: '' e)
      | None \<Rightarrow> sync_result err waiting) = Inr 0"
    using assms(6-8) g u e now by (auto simp: PlatformAccessController_Reconcile_def updateStatusConditions_def split: prod.splits)
  then have ok: "err = None" "\<not> waiting"
    by (auto simp: sync_result_def userStateRequeueAfter_def split: option.splits if_splits)
  have "states w' = states w3"
    using patch silent_run [OF assms(4) now] silent_run [OF assms(5)] by (auto split: if_splits)
  moreover have "align ?want (abs_state (states w2 ?n)) = (False, abs_state (states w3 ?n))"
    using ensure_align [OF assms(1) e [unfolded ok(1)]] ok by simp
  then have "abs_state (states w3 ?n) = (if ?want then AcActive else AcInactive)"
    by (cases "abs_state (states w2 ?n)") auto
  ultimately show ?thesis by (auto simp: wanted_state_def expectActive_def abs_state_def split: if_splits)
qed

text \<open>C37. The object that a successful reconciliation stores is left alone by the next one: it makes no call on Zitadel and does
  not write the object again, so that nothing but what reading the object, the user and the clock
  does to the world happens.\<close>

theorem aligned_access_is_left_alone:
  assumes "condition_law (pac_meta C)"
    and "run_state (oc_Get (pac_Client C) name) w = (Inr (p\<lparr>pacc_Conditions :=
      SetStatusCondition (pac_meta C) (pacc_Conditions p) (outcome_condition (pacc_State p) None False t)\<rparr>), w1)"
    and "run_state (GetUser (pac_kube C) (pacc_userRef p)) w1 = (Inr u, w2)"
    and "run_state (Now (pac_runtime C)) w2 = (now, w3)"
  shows "run_state (PlatformAccessController_Reconcile C name) w = (Inr 0, w3)"
proof -
  let ?M = "pac_meta C" and ?c = "\<lambda>t. outcome_condition (pacc_State p) None False t"
  let ?cs = "SetStatusCondition ?M (pacc_Conditions p) (?c t)"
  note law = assms(1) [unfolded condition_law_def, rule_format, THEN conjunct1]
  have type: "cond_Type (?c x) = ZitadelReadyCondition" for x by (simp add: outcome_condition_def)
  have "\<exists>old. FindStatusCondition ?M ?cs ZitadelReadyCondition = Some old \<and> cond_Status old = cond_Status (?c now) \<and>
      cond_Reason old = cond_Reason (?c now) \<and> cond_Message old = cond_Message (?c now)"
    using law [of "pacc_Conditions p" "?c t"] by (auto simp: type outcome_condition_def split: option.splits if_splits)
  then obtain old where old: "FindStatusCondition ?M ?cs ZitadelReadyCondition = Some old" "cond_Status old = cond_Status (?c now)"
    "cond_Reason old = cond_Reason (?c now)" "cond_Message old = cond_Message (?c now)" by blast
  have same: "SetStatusCondition ?M ?cs (?c now) = ?cs"
    using law [of ?cs "?c now"] old by (simp add: type)
  have "\<not> stateChanged C (p\<lparr>pacc_Conditions := ?cs\<rparr>)"
    using old by (simp add: stateChanged_def outcome_condition_def)
  with assms(2-4) same show ?thesis
    by (simp add: PlatformAccessController_Reconcile_def updateStatusConditions_def shouldUpdateStatus_def sync_result_def)
qed

definition demo_access :: platform_access where
  "demo_access = \<lparr>pacc_name = ''a'', pacc_userRef = ''u'', pacc_State = ''Suspended'', pacc_Conditions = []\<rparr>"

definition access_demo :: "platform_access \<Rightarrow> rest_world pa_controller" where
  "access_demo p = \<lparr>pac_Client = \<lparr>oc_Get = (\<lambda>_. State_Monad.return (Inr p)), oc_Update = (\<lambda>_. State_Monad.return None),
       oc_UpdateStatus = (\<lambda>_. State_Monad.return None), oc_PatchStatus = (\<lambda>_ _ _. State_Monad.return None)\<rparr>,
     pac_kube = demo_kube\<lparr>GetUser := (\<lambda>n. State_Monad.return (Inr (NewUser n [] [] [])))\<rparr>, pac_Zitadel = demo_rest,
     pac_Suspended = ''Suspended'',
     pac_runtime = \<lparr>Now = State_Monad.return 5, NewUUID = State_Monad.return [], Sleep = (\<lambda>_. State_Monad.return ())\<rparr>,
     pac_meta = std_meta\<rparr>"

theorem reconciled_access_is_aligned_witness:
  "snd (snd (run_state (PlatformAccessController_Reconcile (access_demo demo_access) ''a'')
     (None, [''u'' \<mapsto> ''USER_STATE_ACTIVE'']))) ''u'' = Some ''USER_STATE_INACTIVE''"
proof -
  let ?C = "access_demo demo_access" and ?w = "(None, [''u'' \<mapsto> ''USER_STATE_ACTIVE'']) :: rest_world"
  have law: "account_law (pac_Zitadel ?C) snd" by (simp add: access_demo_def demo_rest_law)
  have quiet: "silent snd (oc_Get (pac_Client ?C) n)" "silent snd (GetUser (pac_kube ?C) n)" "silent snd (Now (pac_runtime ?C))"
    "silent snd (oc_PatchStatus (pac_Client ?C) a b c)" for n a b c
    by (simp_all add: access_demo_def silent_return)
  have get: "run_state (oc_Get (pac_Client ?C) ''a'') ?w = (Inr demo_access, ?w)" by (simp add: access_demo_def)
  have ch: "stateChanged ?C demo_access"
    by (simp add: stateChanged_def access_demo_def std_meta_def demo_access_def)
  have "fst (run_state (PlatformAccessController_Reconcile ?C ''a'') ?w) = Inr 0" by code_simp
  then obtain w' where run: "run_state (PlatformAccessController_Reconcile ?C ''a'') ?w = (Inr 0, w')" by (metis prod.collapse)
  from reconciled_access_is_aligned [OF law quiet get ch run] run show ?thesis
    by (simp add: wanted_state_def access_demo_def demo_access_def)
qed

theorem aligned_access_is_left_alone_witness:
  "run_state (PlatformAccessController_Reconcile (access_demo (demo_access\<lparr>pacc_Conditions :=
      SetStatusCondition std_meta (pacc_Conditions demo_access) (outcome_condition (pacc_State demo_access) None False 4)\<rparr>)) ''a'')
     (None, [''u'' \<mapsto> ''x'']) = (Inr 0, (None, [''u'' \<mapsto> ''x'']))"
  by (rule aligned_access_is_left_alone) (simp_all add: access_demo_def std_condition_law)

end
