(* ===== verification/Server_Commands.thy ===== *)
theory Server_Commands
  imports Webhook_Mail Token_Review Zitadel_Sdk Abandoned_GC
begin

text \<open>
  cmd/webhookserver and cmd/controller with internal/config: what the commands check and build before
  they serve. Kubernetes clients, managers and the file system are the library's; the steps that may
  fail there are arguments.
\<close>

section \<open>internal/config/webhook\_server.go\<close>

record webhook_server_config =
  ws_CertDir :: string
  ws_CertFile :: string
  ws_KeyFile :: string
  ws_WebhookPort :: int
  ws_ZitadelPrivateKey :: string
  ws_ZitadelServiceAccountKey :: string
  ws_ZitadelDomain :: string
  ws_JwtExpiration :: int
  ws_JwtRefreshBefore :: int
  ws_MetricsBindAddress :: string
  ws_HealthProbeBindAddress :: string
  ws_EmailVerificationTemplate :: string
  ws_NotificationNamespace :: string
  ws_EmailVerificationAllowedOrigins :: "string list"
  ws_EmailVerificationExpiryMinutes :: int
  ws_EmailVerificationUserLookupAttempts :: int
  ws_EmailVerificationUserLookupBaseWait :: int
  ws_AccountRecoveryTemplate :: string
  ws_AccountRecoveryAllowedOrigins :: "string list"
  ws_AccountRecoveryExpiryMinutes :: int
  ws_AccountRecoveryCooldown :: int
  ws_AccountRecoveryMaxPerHour :: int
  ws_MailWebhookAllowedClientNames :: "string list"
  ws_ClientCAFile :: string

definition NewWebhookServerConfig :: webhook_server_config where
  "NewWebhookServerConfig =
     \<lparr>ws_CertDir = ''/etc/certs'', ws_CertFile = ''server.crt'', ws_KeyFile = ''server.key'', ws_WebhookPort = 9443,
      ws_ZitadelPrivateKey = [], ws_ZitadelServiceAccountKey = [], ws_ZitadelDomain = [], ws_JwtExpiration = 0,
      ws_JwtRefreshBefore = 0, ws_MetricsBindAddress = [], ws_HealthProbeBindAddress = [],
      ws_EmailVerificationTemplate = [], ws_NotificationNamespace = ''milo-system'',
      ws_EmailVerificationAllowedOrigins = [], ws_EmailVerificationExpiryMinutes = 60,
      ws_EmailVerificationUserLookupAttempts = 5, ws_EmailVerificationUserLookupBaseWait = 200 * 1000000,
      ws_AccountRecoveryTemplate = [], ws_AccountRecoveryAllowedOrigins = [], ws_AccountRecoveryExpiryMinutes = 60,
      ws_AccountRecoveryCooldown = 2 * Minute, ws_AccountRecoveryMaxPerHour = 5,
      ws_MailWebhookAllowedClientNames = [], ws_ClientCAFile = []\<rparr>"

text \<open>
  Registering a flag sets its variable to the default of the flag, which for some flags is not the
  value of the configuration.
\<close>

definition register_flags :: "webhook_server_config \<Rightarrow> webhook_server_config" where
  "register_flags cfg =
     cfg\<lparr>ws_WebhookPort := 9443, ws_CertDir := ''/etc/certs'', ws_CertFile := [], ws_KeyFile := [],
         ws_ZitadelPrivateKey := ''private-key.json'', ws_ZitadelServiceAccountKey := [],
         ws_ZitadelDomain := ''https://your_domain'', ws_JwtExpiration := Hour, ws_JwtRefreshBefore := 5 * Minute,
         ws_MetricsBindAddress := '':8080'', ws_HealthProbeBindAddress := '':8081'',
         ws_EmailVerificationAllowedOrigins := [], ws_AccountRecoveryAllowedOrigins := [],
         ws_MailWebhookAllowedClientNames := []\<rparr>"

section \<open>cmd/webhookserver/servicekey.go\<close>

definition serviceAccountKeyType :: string where "serviceAccountKeyType = ''serviceaccount''"
definition applicationKeyType :: string where "applicationKeyType = ''application''"

record zitadel_key =
  zk_Type :: string
  zk_UserID :: string
  zk_ClientID :: string
  zk_AppID :: string
  zk_KeyID :: string

definition zitadel_key_fields :: "(string \<times> zitadel_key decoder) list" where
  "zitadel_key_fields = [
     (''type'', json_string (\<lambda>v r. r\<lparr>zk_Type := v\<rparr>)), (''userId'', json_string (\<lambda>v r. r\<lparr>zk_UserID := v\<rparr>)),
     (''clientId'', json_string (\<lambda>v r. r\<lparr>zk_ClientID := v\<rparr>)), (''appId'', json_string (\<lambda>v r. r\<lparr>zk_AppID := v\<rparr>)),
     (''keyId'', json_string (\<lambda>v r. r\<lparr>zk_KeyID := v\<rparr>))]"

definition zero_key :: zitadel_key where
  "zero_key = \<lparr>zk_Type = [], zk_UserID = [], zk_ClientID = [], zk_AppID = [], zk_KeyID = []\<rparr>"

text \<open>\<^verbatim>\<open>fmt.Errorf\<close> with text on both sides of the verb \<^verbatim>\<open>%w\<close>.\<close>

definition wrap_between :: "string \<Rightarrow> go_error \<Rightarrow> string \<Rightarrow> go_error" where
  "wrap_between before e after = GoErr (wrapped_kind (err_kind e)) (before @ Error e @ after)"

definition em_dash :: string where
  "em_dash = [CHR 0xE2, CHR 0x80, CHR 0x94]"

definition application_key_text :: "string \<Rightarrow> zitadel_key \<Rightarrow> string" where
  "application_key_text path key =
     ''--zitadel-service-account-key: '' @ path @ '' is a Zitadel APPLICATION key (type '' @ Quote (zk_Type key) @
     '', clientId '' @ Quote (zk_ClientID key) @ '', appId '' @ Quote (zk_AppID key) @
     '') and carries no userId, so it cannot mint the service-user JWT the Zitadel API requires '' @ em_dash @
     '' the token exchange fails with an opaque HTTP 500 '' @ Quote ''Errors.Internal'' @
     ''. This flag needs the SERVICE ACCOUNT key (type '' @ Quote serviceAccountKeyType @
     '', userId set), which is the '' @ Quote ''iam-admin'' @ '' secret. The application key is the '' @
     Quote ''zitadel-machine-auth-api-key'' @ '' secret and belongs on --zitadel-private-key, which the token '' @
     ''introspector uses. The two are different credentials for different callers; one key cannot serve both''"

definition validateServiceAccountKey :: "'w token_lib \<Rightarrow> string \<Rightarrow> go_error option" where
  "validateServiceAccountKey L path =
     (case tl_ReadFile L path of
        Inl e \<Rightarrow> Some (wrap_between (''--zitadel-service-account-key: cannot read '' @ path @ '': '') e
          '' (the flag must point at a mounted Zitadel service account key JSON)'')
      | Inr raw \<Rightarrow>
          (case Unmarshal (tl_lib L) zitadel_key_fields zero_key raw of
             Inl e \<Rightarrow> Some (wrap_between (''--zitadel-service-account-key: cannot parse '' @ path @ '' as JSON: '') e
               '' (expected a Zitadel service account key file, not a bare PEM)'')
           | Inr key \<Rightarrow>
               if zk_Type key = applicationKeyType \<or> (zk_UserID key = [] \<and> (zk_ClientID key \<noteq> [] \<or> zk_AppID key \<noteq> []))
               then Some (errorf (application_key_text path key))
               else if zk_Type key \<noteq> serviceAccountKeyType
               then Some (errorf (''--zitadel-service-account-key: '' @ path @ '' declares type '' @ Quote (zk_Type key) @
                 '', want '' @ Quote serviceAccountKeyType @
                 '' (a Zitadel service account key; see the account-recovery runbook for which secret holds one)''))
               else if zk_UserID key = []
               then Some (errorf (''--zitadel-service-account-key: '' @ path @ '' declares type '' @ Quote (zk_Type key) @
                 '' but has no userId, which is the subject the service-user JWT assertion is minted for; '' @
                 ''the key file is incomplete''))
               else None))"

section \<open>cmd/webhookserver/register.go\<close>

definition tokenReviewEndpoint :: string where "tokenReviewEndpoint = ''/apis/authentication.k8s.io/v1/tokenreviews''"
definition EmailVerificationEndpoint :: string where "EmailVerificationEndpoint = ''/v1/email/verification''"
definition AccountRecoveryEndpoint :: string where "AccountRecoveryEndpoint = ''/v1/email/recovery''"

type_synonym 'w minter = "string \<Rightarrow> ('w, go_error + string \<times> string) state"

text \<open>What is registered under a path.\<close>

datatype 'w endpoint =
    TokenReviewWebhook introspector
  | VerificationHandler email_verification_config
  | RecoveryHandler "'w minter" account_recovery_config

text \<open>The services around the command: the file system and JSON, the environment and the gRPC dial of the
  SDK, the clock, and the steps of the Kubernetes library that may fail.\<close>

record 'w webhook_lib =
  wl_token :: "'w token_lib"
  wl_Getenv :: "string \<Rightarrow> string"
  wl_dial :: "string \<Rightarrow> nat \<Rightarrow> string \<Rightarrow> string \<Rightarrow> ('w, go_error + 'w grpc) state"
  wl_runtime :: "'w runtime"
  wl_GetConfig :: "go_error option"
  wl_AddToScheme :: "string \<Rightarrow> go_error option"
  wl_NewManager :: "go_error option"
  wl_AddReadyzCheck :: "go_error option"
  wl_NewClient :: "go_error option"

definition newRecoveryMinter :: "'w webhook_lib \<Rightarrow> webhook_server_config \<Rightarrow> ('w, go_error + 'w minter) state" where
  "newRecoveryMinter L cfg =
     (if ws_ZitadelServiceAccountKey cfg = []
      then State_Monad.return (Inl (errorf (
        ''--zitadel-service-account-key is empty but --account-recovery-template is set: '' @
        ''the recovery endpoint calls the Zitadel API as a service user, which --zitadel-private-key '' @
        ''(the application key used for token introspection) cannot do. '' @
        ''Set --zitadel-service-account-key to a mounted Zitadel service account key JSON, '' @
        ''or clear --account-recovery-template to turn recovery off deliberately'')))
      else (case validateServiceAccountKey (wl_token L) (ws_ZitadelServiceAccountKey cfg) of
          Some e \<Rightarrow> State_Monad.return (Inl e)
        | None \<Rightarrow> do {
            r \<leftarrow> NewSDK (wl_Getenv L) (wl_dial L) (wl_runtime L)
              \<lparr>sc_Domain = ws_ZitadelDomain cfg, sc_Issuer = ws_ZitadelDomain cfg,
               sc_KeyPath = ws_ZitadelServiceAccountKey cfg, sc_DefaultMachineKeyExpiration = 0\<rparr>;
            State_Monad.return (case r of Inl e \<Rightarrow> Inl e | Inr c \<Rightarrow> Inr (SDK_CreatePasskeyRegistrationLink c))
          }))"

definition verification_config :: "webhook_server_config \<Rightarrow> string list \<Rightarrow> email_verification_config" where
  "verification_config cfg allowedClients =
     \<lparr>ev_TemplateName = ws_EmailVerificationTemplate cfg, ev_NotificationNamespace = ws_NotificationNamespace cfg,
      ev_AllowedOrigins = ws_EmailVerificationAllowedOrigins cfg, ev_ExpiryMinutes = ws_EmailVerificationExpiryMinutes cfg,
      ev_AllowedClientNames = allowedClients, ev_UserLookupAttempts = ws_EmailVerificationUserLookupAttempts cfg,
      ev_UserLookupBaseWait = ws_EmailVerificationUserLookupBaseWait cfg\<rparr>"

definition recovery_config_of :: "webhook_server_config \<Rightarrow> string list \<Rightarrow> account_recovery_config" where
  "recovery_config_of cfg allowedClients =
     \<lparr>ar_TemplateName = ws_AccountRecoveryTemplate cfg, ar_NotificationNamespace = ws_NotificationNamespace cfg,
      ar_AllowedOrigins = ws_AccountRecoveryAllowedOrigins cfg, ar_ExpiryMinutes = ws_AccountRecoveryExpiryMinutes cfg,
      ar_AllowedClientNames = allowedClients, ar_UserLookupAttempts = ws_EmailVerificationUserLookupAttempts cfg,
      ar_UserLookupBaseWait = ws_EmailVerificationUserLookupBaseWait cfg, ar_Cooldown = ws_AccountRecoveryCooldown cfg,
      ar_MaxPerHour = ws_AccountRecoveryMaxPerHour cfg\<rparr>"

text \<open>The registrations, in the order they are made.\<close>

definition registerEndpoints ::
  "'w webhook_lib \<Rightarrow> webhook_server_config \<Rightarrow> introspector \<Rightarrow> string list \<Rightarrow> ('w, (string \<times> 'w endpoint) list) state" where
  "registerEndpoints L cfg i allowedClients =
     (let always = (tokenReviewEndpoint, TokenReviewWebhook i) #
          (if ws_EmailVerificationTemplate cfg \<noteq> []
           then [(EmailVerificationEndpoint, VerificationHandler (verification_config cfg allowedClients))] else [])
      in if ws_AccountRecoveryTemplate cfg = [] then State_Monad.return always
         else do {
           m \<leftarrow> newRecoveryMinter L cfg;
           State_Monad.return (case m of
               Inl e \<Rightarrow> always
             | Inr minter \<Rightarrow> always @ [(AccountRecoveryEndpoint, RecoveryHandler minter (recovery_config_of cfg allowedClients))])
         })"

section \<open>cmd/webhookserver/command.go\<close>

definition validateWebhookConfig :: "webhook_server_config \<Rightarrow> go_error option" where
  "validateWebhookConfig cfg =
     (if ws_EmailVerificationTemplate cfg \<noteq> [] \<and> ws_ClientCAFile cfg = []
      then Some (errorf (''--client-ca-file is required when --email-verification-template is set: '' @
        ''without it the verification endpoint accepts unauthenticated callers''))
      else if ws_AccountRecoveryTemplate cfg \<noteq> [] \<and> ws_ClientCAFile cfg = []
      then Some (errorf (''--client-ca-file is required when --account-recovery-template is set: '' @
        ''without it the recovery endpoint accepts unauthenticated callers''))
      else None)"

definition unpinnedCallerWarning :: "webhook_server_config \<Rightarrow> string" where
  "unpinnedCallerWarning cfg =
     (if ws_EmailVerificationTemplate cfg = [] \<and> ws_AccountRecoveryTemplate cfg = [] then []
      else if length (NormalizeClientNames (ws_MailWebhookAllowedClientNames cfg)) > 0 then []
      else ''mail endpoints accept any client signed by the CA; '' @
        ''set --mail-webhook-allowed-client-names to pin the caller'')"

fun newScheme :: "'w webhook_lib \<Rightarrow> (string \<times> string) list \<Rightarrow> go_error option" where
  "newScheme L [] = None"
| "newScheme L ((pkg, text') # rest) =
     (case wl_AddToScheme L pkg of
        Some e \<Rightarrow> Some (wrapf (''failed to add '' @ text' @ '' scheme: '') e)
      | None \<Rightarrow> newScheme L rest)"

definition webhook_types :: "(string \<times> string) list" where
  "webhook_types = [(''authentication/v1'', ''authenticationv1''), (''iam/v1alpha1'', ''iam''),
     (''notification/v1alpha1'', ''notification'')]"

record manager_options =
  mo_MetricsBindAddress :: string
  mo_HealthProbeBindAddress :: string
  mo_CertDir :: string
  mo_CertName :: string
  mo_KeyName :: string
  mo_ClientCAName :: string
  mo_Port :: int

definition managerOptions :: "webhook_server_config \<Rightarrow> manager_options" where
  "managerOptions cfg =
     \<lparr>mo_MetricsBindAddress = ws_MetricsBindAddress cfg, mo_HealthProbeBindAddress = ws_HealthProbeBindAddress cfg,
      mo_CertDir = ws_CertDir cfg, mo_CertName = ws_CertFile cfg, mo_KeyName = ws_KeyFile cfg,
      mo_ClientCAName = ws_ClientCAFile cfg, mo_Port = ws_WebhookPort cfg\<rparr>"

definition newManager :: "'w webhook_lib \<Rightarrow> webhook_server_config \<Rightarrow> go_error + manager_options" where
  "newManager L cfg =
     (case wl_NewManager L of
        Some e \<Rightarrow> Inl (wrapf ''failed to create manager: '' e)
      | None \<Rightarrow> (case wl_AddReadyzCheck L of
            Some e \<Rightarrow> Inl (wrapf (''failed to add the webhook server'' @ [CHR 0x27] @ ''s readiness check: '') e)
          | None \<Rightarrow> Inr (managerOptions cfg)))"

text \<open>
  The command up to \<^verbatim>\<open>mgr.Start\<close>: the options of the server that is started and the endpoints it has. Only the
  log sees the warning.
\<close>

definition runWebhookServer ::
  "'w webhook_lib \<Rightarrow> webhook_server_config \<Rightarrow> ('w, go_error + manager_options \<times> (string \<times> 'w endpoint) list) state" where
  "runWebhookServer L cfg =
     (case validateWebhookConfig cfg of
        Some e \<Rightarrow> State_Monad.return (Inl e)
      | None \<Rightarrow>
     (case NewIntrospector (wl_token L) (ws_ZitadelPrivateKey cfg) (ws_ZitadelDomain cfg) (ws_JwtExpiration cfg)
             (ws_JwtRefreshBefore cfg) of
        Inl e \<Rightarrow> State_Monad.return (Inl (wrapf ''failed to create auth provider introspector: '' e))
      | Inr i \<Rightarrow>
     (case wl_GetConfig L of
        Some e \<Rightarrow> State_Monad.return (Inl (wrapf ''failed to get rest config: '' e))
      | None \<Rightarrow>
     (case newScheme L webhook_types of
        Some e \<Rightarrow> State_Monad.return (Inl e)
      | None \<Rightarrow>
     (case newManager L cfg of
        Inl e \<Rightarrow> State_Monad.return (Inl e)
      | Inr opts \<Rightarrow>
     (case (if ws_EmailVerificationTemplate cfg \<noteq> [] \<or> ws_AccountRecoveryTemplate cfg \<noteq> [] then wl_NewClient L else None) of
        Some e \<Rightarrow> State_Monad.return (Inl (wrapf ''failed to create client: '' e))
      | None \<Rightarrow> do {
          endpoints \<leftarrow> registerEndpoints L cfg i (NormalizeClientNames (ws_MailWebhookAllowedClientNames cfg));
          State_Monad.return (Inr (opts, endpoints))
        }))))))"

end
