(* ===== verification/Controller_Command.thy ===== *)
theory Controller_Command
  imports Server_Commands
begin

text \<open>
  internal/config/config.go and cmd/controller/controller.go: the configuration of the controller
  manager with its defaults, what the command checks and derives from it, the leader election, and
  the discovery of clusters. Clusters and managers themselves are the library's.
\<close>

section \<open>internal/config/config.go\<close>

record zitadel_config =
  zc_BaseURL :: string
  zc_MachineAccountKeyPath :: string
  zc_SDKDomain :: string
  zc_SDKIssuer :: string
  zc_DefaultMachineKeyExpiration :: int

record leader_election_config =
  le_Enabled :: bool
  le_ID :: string
  le_Namespace :: string
  le_ResourceLock :: string
  le_LeaseDuration :: int
  le_RenewDeadline :: int
  le_RetryPeriod :: int
  le_ReleaseOnCancel :: bool

record metrics_config =
  mc_Addr :: string
  mc_CertPath :: string
  mc_CertName :: string
  mc_CertKey :: string
  mc_SecureMetrics :: bool

record webhook_cert_config =
  wc_CertPath :: string
  wc_CertName :: string
  wc_CertKey :: string

record controller_config =
  cc_LeaderElection :: leader_election_config
  cc_Metrics :: metrics_config
  cc_Webhook :: webhook_cert_config
  cc_ProbeAddr :: string
  cc_EnableHTTP2 :: bool
  cc_UpstreamClusterKubeconfig :: string
  cc_ServerConfigFile :: string
  cc_EmailAddressSuffix :: string
  cc_CoreControlPlaneKubeconfig :: string
  cc_UserSweepInterval :: int
  cc_AbandonedAccountRetention :: int
  cc_AbandonedAccountGCInterval :: int
  cc_AbandonedAccountGCDryRun :: bool
  cc_Zitadel :: zitadel_config

definition NewControllerConfig :: controller_config where
  "NewControllerConfig =
     \<lparr>cc_LeaderElection = \<lparr>le_Enabled = False, le_ID = ''auth-provider-zitadel-leader'', le_Namespace = [],
        le_ResourceLock = ''leases'', le_LeaseDuration = 15 * Second, le_RenewDeadline = 10 * Second,
        le_RetryPeriod = 2 * Second, le_ReleaseOnCancel = True\<rparr>,
      cc_Metrics = \<lparr>mc_Addr = ''0'', mc_CertPath = [], mc_CertName = ''tls.crt'', mc_CertKey = ''tls.key'',
        mc_SecureMetrics = True\<rparr>,
      cc_Webhook = \<lparr>wc_CertPath = [], wc_CertName = ''tls.crt'', wc_CertKey = ''tls.key''\<rparr>,
      cc_ProbeAddr = '':8081'', cc_EnableHTTP2 = False, cc_UpstreamClusterKubeconfig = [], cc_ServerConfigFile = [],
      cc_EmailAddressSuffix = [], cc_CoreControlPlaneKubeconfig = [], cc_UserSweepInterval = 10 * Minute,
      cc_AbandonedAccountRetention = 30 * 24 * Hour, cc_AbandonedAccountGCInterval = 6 * Hour,
      cc_AbandonedAccountGCDryRun = True,
      cc_Zitadel = \<lparr>zc_BaseURL = [], zc_MachineAccountKeyPath = [], zc_SDKDomain = [], zc_SDKIssuer = [],
        zc_DefaultMachineKeyExpiration = 10 * 365 * 24 * Hour\<rparr>\<rparr>"

text \<open>
  Registering the flags sets the variables to the defaults of the flags: the address suffix gets another
  default than the configuration has, all others keep theirs.
\<close>

definition register_controller_flags :: "controller_config \<Rightarrow> controller_config" where
  "register_controller_flags cfg =
     cfg\<lparr>cc_Zitadel := \<lparr>zc_BaseURL = [], zc_MachineAccountKeyPath = [], zc_SDKDomain = [], zc_SDKIssuer = [],
           zc_DefaultMachineKeyExpiration = 10 * 365 * 24 * Hour\<rparr>,
         cc_Metrics := \<lparr>mc_Addr = ''0'', mc_CertPath = [], mc_CertName = ''tls.crt'', mc_CertKey = ''tls.key'',
           mc_SecureMetrics = True\<rparr>,
         cc_Webhook := \<lparr>wc_CertPath = [], wc_CertName = ''tls.crt'', wc_CertKey = ''tls.key''\<rparr>,
         cc_EnableHTTP2 := False, cc_UpstreamClusterKubeconfig := [], cc_CoreControlPlaneKubeconfig := [],
         cc_ServerConfigFile := [], cc_EmailAddressSuffix := ''identity.miloapis.com'', cc_ProbeAddr := '':8081'',
         cc_UserSweepInterval := cc_UserSweepInterval cfg, cc_AbandonedAccountRetention := cc_AbandonedAccountRetention cfg,
         cc_AbandonedAccountGCInterval := cc_AbandonedAccountGCInterval cfg,
         cc_AbandonedAccountGCDryRun := cc_AbandonedAccountGCDryRun cfg,
         cc_LeaderElection := cc_LeaderElection cfg\<rparr>"

lemma register_controller_flags_default:
  "register_controller_flags NewControllerConfig = NewControllerConfig\<lparr>cc_EmailAddressSuffix := ''identity.miloapis.com''\<rparr>"
  by (simp add: register_controller_flags_def NewControllerConfig_def)

text \<open>The discovery mode as the configuration file has it; the names of the modes are the library's.\<close>

datatype discovery_mode = ModeUnset | ProviderSingle | ProviderMilo | OtherMode string

record discovery_config =
  dc_Mode :: discovery_mode
  dc_InternalServiceDiscovery :: bool
  dc_DiscoveryKubeconfigPath :: string
  dc_ProjectKubeconfigPath :: string

definition SetDefaults_DiscoveryConfig :: "discovery_config \<Rightarrow> discovery_config" where
  "SetDefaults_DiscoveryConfig obj = (if dc_Mode obj = ModeUnset then obj\<lparr>dc_Mode := ProviderSingle\<rparr> else obj)"

text \<open>
  The four methods that load a client configuration: the default one for an empty path. The two
  arguments are \<^verbatim>\<open>ctrl.GetConfig\<close> and \<^verbatim>\<open>clientcmd.BuildConfigFromFlags\<close>.
\<close>

definition rest_config_for :: "go_error + 'c \<Rightarrow> (string \<Rightarrow> go_error + 'c) \<Rightarrow> string \<Rightarrow> go_error + 'c" where
  "rest_config_for GetConfig BuildConfigFromFlags path = (if path = [] then GetConfig else BuildConfigFromFlags path)"

definition DownstreamRestConfig :: "go_error + 'c \<Rightarrow> (string \<Rightarrow> go_error + 'c) \<Rightarrow> string \<Rightarrow> go_error + 'c" where
  "DownstreamRestConfig get build kubeconfigPath = rest_config_for get build kubeconfigPath"

definition CoreControlPlaneRestConfig ::
  "go_error + 'c \<Rightarrow> (string \<Rightarrow> go_error + 'c) \<Rightarrow> controller_config \<Rightarrow> go_error + 'c" where
  "CoreControlPlaneRestConfig get build c = rest_config_for get build (cc_CoreControlPlaneKubeconfig c)"

definition DiscoveryRestConfig :: "go_error + 'c \<Rightarrow> (string \<Rightarrow> go_error + 'c) \<Rightarrow> discovery_config \<Rightarrow> go_error + 'c" where
  "DiscoveryRestConfig get build c = rest_config_for get build (dc_DiscoveryKubeconfigPath c)"

definition ProjectRestConfig :: "go_error + 'c \<Rightarrow> (string \<Rightarrow> go_error + 'c) \<Rightarrow> discovery_config \<Rightarrow> go_error + 'c" where
  "ProjectRestConfig get build c = rest_config_for get build (dc_ProjectKubeconfigPath c)"

section \<open>cmd/controller/controller.go\<close>

text \<open>The first checks of \<^verbatim>\<open>runController\<close>: the reason for which the process exits.\<close>

definition missing_option :: "controller_config \<Rightarrow> string option" where
  "missing_option cfg =
     (if zc_BaseURL (cc_Zitadel cfg) = [] then Some ''zitadel-base-url must be specified''
      else if zc_MachineAccountKeyPath (cc_Zitadel cfg) = [] then Some ''zitadel-machine-account-key-path must be specified''
      else if cc_ServerConfigFile cfg = [] then Some ''must provide --server-config''
      else None)"

definition controller_sdk_config :: "controller_config \<Rightarrow> sdk_config" where
  "controller_sdk_config cfg = (let z = cc_Zitadel cfg in
     \<lparr>sc_Domain = (if zc_SDKDomain z = [] then zc_BaseURL z else zc_SDKDomain z),
      sc_Issuer = (if zc_SDKIssuer z = [] then zc_BaseURL z else zc_SDKIssuer z),
      sc_KeyPath = zc_MachineAccountKeyPath z, sc_DefaultMachineKeyExpiration = zc_DefaultMachineKeyExpiration z\<rparr>)"

text \<open>The two periodic jobs the command adds to the core control plane manager.\<close>

definition controller_gc :: "controller_config \<Rightarrow> 'w kube \<Rightarrow> 'w sdk_client \<Rightarrow> ('w, int) state \<Rightarrow> 'w gc" where
  "controller_gc cfg K c clock =
     \<lparr>gc_Client = K, gc_Zitadel = sdk_api c, gc_Interval = cc_AbandonedAccountGCInterval cfg,
      gc_Retention = cc_AbandonedAccountRetention cfg, gc_DryRun = cc_AbandonedAccountGCDryRun cfg, gc_clock = clock\<rparr>"

definition controller_sweeper ::
  "controller_config \<Rightarrow> 'w kube \<Rightarrow> 'w sdk_client \<Rightarrow> 'w runtime \<Rightarrow> 'w retrier \<Rightarrow> 'w sweeper" where
  "controller_sweeper cfg K c rt retry =
     \<lparr>sw_Client = K, sw_Zitadel = sdk_api c, sw_runtime = rt, sw_retry = retry, sw_Interval = cc_UserSweepInterval cfg\<rparr>"

subsection \<open>Leader election\<close>

text \<open>The fields of a client configuration that are set here; the last holds all others.\<close>

record 'c rest_config =
  rcf_RateLimiter :: "string option"
  rcf_QPS :: int
  rcf_Burst :: int
  rcf_Dial :: "(int \<times> int) option"
  rcf_other :: 'c

definition leaderElectionQPS :: int where "leaderElectionQPS = 5"
definition leaderElectionBurst :: int where "leaderElectionBurst = 10"

definition leaderElectionRestConfig :: "'c rest_config \<Rightarrow> 'c rest_config" where
  "leaderElectionRestConfig base =
     base\<lparr>rcf_RateLimiter := None, rcf_QPS := leaderElectionQPS, rcf_Burst := leaderElectionBurst,
          rcf_Dial := Some (30 * Second, 30 * Second)\<rparr>"

record 'c leader_options =
  lopt_LeaderElection :: bool
  lopt_ID :: string
  lopt_Config :: "'c rest_config option"
  lopt_ReleaseOnCancel :: bool
  lopt_Namespace :: string
  lopt_ResourceLock :: string
  lopt_LeaseDuration :: "int option"
  lopt_RenewDeadline :: "int option"
  lopt_RetryPeriod :: "int option"

definition manager_leader_options :: "controller_config \<Rightarrow> 'c leader_options" where
  "manager_leader_options cfg =
     \<lparr>lopt_LeaderElection = le_Enabled (cc_LeaderElection cfg), lopt_ID = ''auth-provider-zitadel.datumapis.com'',
      lopt_Config = None, lopt_ReleaseOnCancel = False, lopt_Namespace = [], lopt_ResourceLock = [],
      lopt_LeaseDuration = None, lopt_RenewDeadline = None, lopt_RetryPeriod = None\<rparr>"

definition applyLeaderElection ::
  "'c leader_options \<Rightarrow> leader_election_config \<Rightarrow> 'c rest_config \<Rightarrow> 'c leader_options" where
  "applyLeaderElection opts le upstream =
     (if le_Enabled le
      then opts\<lparr>lopt_Config := Some (leaderElectionRestConfig upstream), lopt_ReleaseOnCancel := le_ReleaseOnCancel le,
        lopt_Namespace := (if le_Namespace le \<noteq> [] then le_Namespace le else lopt_Namespace opts),
        lopt_ResourceLock := (if le_ResourceLock le \<noteq> [] then le_ResourceLock le else lopt_ResourceLock opts),
        lopt_LeaseDuration := (if le_LeaseDuration le > 0 then Some (le_LeaseDuration le) else lopt_LeaseDuration opts),
        lopt_RenewDeadline := (if le_RenewDeadline le > 0 then Some (le_RenewDeadline le) else lopt_RenewDeadline opts),
        lopt_RetryPeriod := (if le_RetryPeriod le > 0 then Some (le_RetryPeriod le) else lopt_RetryPeriod opts)\<rparr>
      else opts)"

definition ignoreCanceled :: "go_error option \<Rightarrow> go_error option" where
  "ignoreCanceled e = (case e of Some e' \<Rightarrow> if err_kind e' = KCanceled then None else e | None \<Rightarrow> None)"

subsection \<open>Cluster discovery\<close>

datatype runnable = DeploymentCluster | DiscoveryManager | CoreControlPlaneCluster

datatype 'c provider = SingleProvider | MiloProvider 'c 'c bool

text \<open>
  The arguments are the two loaders of configurations and the two constructors of the library that
  may fail; the milo provider keeps the two configurations and the discovery flag.
\<close>

definition initializeClusterDiscovery ::
  "go_error + 'c \<Rightarrow> (string \<Rightarrow> go_error + 'c) \<Rightarrow> go_error option \<Rightarrow> go_error option \<Rightarrow> (discovery_mode \<Rightarrow> string) \<Rightarrow>
   discovery_config \<Rightarrow> go_error + runnable list \<times> 'c provider" where
  "initializeClusterDiscovery get build managerErr providerErr mode_text cfg =
     (case dc_Mode cfg of
        ProviderSingle \<Rightarrow> Inr ([DeploymentCluster], SingleProvider)
      | ProviderMilo \<Rightarrow>
          (case DiscoveryRestConfig get build cfg of
             Inl e \<Rightarrow> Inl (wrapf ''unable to get discovery rest config: '' e)
           | Inr d \<Rightarrow>
               (case ProjectRestConfig get build cfg of
                  Inl e \<Rightarrow> Inl (wrapf ''unable to get project rest config: '' e)
                | Inr p \<Rightarrow>
                    (case managerErr of
                       Some e \<Rightarrow> Inl (wrapf ''unable to set up overall controller manager: '' e)
                     | None \<Rightarrow>
                         (case providerErr of
                            Some e \<Rightarrow> Inl (wrapf ''unable to create datum project provider: '' e)
                          | None \<Rightarrow> Inr ([DeploymentCluster, DiscoveryManager],
                              MiloProvider d p (dc_InternalServiceDiscovery cfg))))))
      | _ \<Rightarrow> Inl (errorf (''unsupported cluster discovery mode '' @ mode_text (dc_Mode cfg))))"

end
