(* ===== verification/Command_Properties.thy ===== *)
theory Command_Properties
  imports Controller_Command
begin

text \<open>
  Properties of what the commands start: the endpoints of the webhook server and the caution of the
  default configuration of the collector.
\<close>

section \<open>The webhook server\<close>

lemma validateServiceAccountKey_ok:
  assumes "validateServiceAccountKey L path = None"
  shows "\<exists>raw key. tl_ReadFile L path = Inr raw \<and> Unmarshal (tl_lib L) zitadel_key_fields zero_key raw = Inr key \<and>
    zk_Type key = ''serviceaccount'' \<and> zk_UserID key \<noteq> []"
  using assms
  by (auto simp: validateServiceAccountKey_def serviceAccountKeyType_def split: sum.splits if_splits)

lemma newRecoveryMinter_checked:
  "run_state (newRecoveryMinter L cfg) w = (Inr m, w') \<Longrightarrow>
     validateServiceAccountKey (wl_token L) (ws_ZitadelServiceAccountKey cfg) = None"
  by (auto simp: newRecoveryMinter_def split: if_splits option.splits)

lemma registerEndpoints_cases:
  assumes "run_state (registerEndpoints L cfg i names) w = (eps, w')"
  shows "(tokenReviewEndpoint, TokenReviewWebhook i) \<in> set eps"
    and "(p, VerificationHandler c) \<in> set eps \<Longrightarrow>
      ws_EmailVerificationTemplate cfg \<noteq> [] \<and> c = verification_config cfg names"
    and "(p, RecoveryHandler m r) \<in> set eps \<Longrightarrow>
      ws_AccountRecoveryTemplate cfg \<noteq> [] \<and> r = recovery_config_of cfg names \<and>
      validateServiceAccountKey (wl_token L) (ws_ZitadelServiceAccountKey cfg) = None"
  using assms newRecoveryMinter_checked [of L cfg w]
  by (auto simp: registerEndpoints_def Let_def split: if_splits prod.splits sum.splits)

lemma runWebhookServer_started:
  assumes "run_state (runWebhookServer L cfg) w = (Inr (opts, eps), w')"
  shows "validateWebhookConfig cfg = None \<and> opts = managerOptions cfg \<and>
    (\<exists>i. run_state (registerEndpoints L cfg i (NormalizeClientNames (ws_MailWebhookAllowedClientNames cfg))) w = (eps, w'))"
  using assms
  by (auto simp: runWebhookServer_def newManager_def split: option.splits sum.splits prod.splits if_splits)

text \<open>C11. A webhook server that starts always answers TokenReviews, whatever becomes of the mail endpoints; it
  has a mail endpoint only when the server verifies client certificates against a configured CA, the
  endpoint admits exactly the configured callers, and a recovery endpoint only when the key it
  mints codes with is that of a service account.\<close>

theorem started_server_is_guarded:
  assumes "run_state (runWebhookServer L cfg) w = (Inr (opts, eps), w')"
  shows "(\<exists>i. (''/apis/authentication.k8s.io/v1/tokenreviews'', TokenReviewWebhook i) \<in> set eps) \<and>
    (\<forall>p c. (p, VerificationHandler c) \<in> set eps \<longrightarrow> mo_ClientCAName opts \<noteq> [] \<and> ev_TemplateName c \<noteq> [] \<and>
       ev_AllowedClientNames c = NormalizeClientNames (ws_MailWebhookAllowedClientNames cfg)) \<and>
    (\<forall>p m c. (p, RecoveryHandler m c) \<in> set eps \<longrightarrow> mo_ClientCAName opts \<noteq> [] \<and> ar_TemplateName c \<noteq> [] \<and>
       ar_AllowedClientNames c = NormalizeClientNames (ws_MailWebhookAllowedClientNames cfg) \<and>
       (\<exists>raw key. tl_ReadFile (wl_token L) (ws_ZitadelServiceAccountKey cfg) = Inr raw \<and>
          Unmarshal (tl_lib (wl_token L)) zitadel_key_fields zero_key raw = Inr key \<and>
          zk_Type key = ''serviceaccount'' \<and> zk_UserID key \<noteq> []))"
proof -
  obtain i where v: "validateWebhookConfig cfg = None" and o: "opts = managerOptions cfg"
    and r: "run_state (registerEndpoints L cfg i (NormalizeClientNames (ws_MailWebhookAllowedClientNames cfg))) w = (eps, w')"
    using runWebhookServer_started [OF assms] by blast
  note eps = registerEndpoints_cases [OF r]
  have ca: "ws_EmailVerificationTemplate cfg \<noteq> [] \<or> ws_AccountRecoveryTemplate cfg \<noteq> [] \<Longrightarrow> mo_ClientCAName opts \<noteq> []"
    using v o by (auto simp: validateWebhookConfig_def managerOptions_def split: if_splits)
  have "\<exists>i. (''/apis/authentication.k8s.io/v1/tokenreviews'', TokenReviewWebhook i) \<in> set eps"
    using eps(1) by (auto simp: tokenReviewEndpoint_def)
  moreover have "mo_ClientCAName opts \<noteq> [] \<and> ev_TemplateName c \<noteq> [] \<and>
      ev_AllowedClientNames c = NormalizeClientNames (ws_MailWebhookAllowedClientNames cfg)"
    if "(p, VerificationHandler c) \<in> set eps" for p c
    using eps(2) [OF that] ca by (simp add: verification_config_def)
  moreover have "mo_ClientCAName opts \<noteq> [] \<and> ar_TemplateName c \<noteq> [] \<and>
      ar_AllowedClientNames c = NormalizeClientNames (ws_MailWebhookAllowedClientNames cfg) \<and>
      (\<exists>raw key. tl_ReadFile (wl_token L) (ws_ZitadelServiceAccountKey cfg) = Inr raw \<and>
        Unmarshal (tl_lib (wl_token L)) zitadel_key_fields zero_key raw = Inr key \<and>
        zk_Type key = ''serviceaccount'' \<and> zk_UserID key \<noteq> [])"
    if "(p, RecoveryHandler m c) \<in> set eps" for p m c
    using eps(3) [OF that] ca validateServiceAccountKey_ok [of "wl_token L" "ws_ZitadelServiceAccountKey cfg"]
    by (simp add: recovery_config_of_def)
  ultimately show ?thesis by blast
qed

text \<open>A deployment with account recovery: one key file that serves both purposes.\<close>

definition key_text :: string where "key_text = ''k''"

definition demo_token_lib :: "unit token_lib" where
  "demo_token_lib =
     \<lparr>tl_lib = table_lib [(key_text, JObj [(''type'', JStr ''serviceaccount''), (''userId'', JStr ''u''), (''keyId'', JStr ''i''),
        (''clientId'', JStr ''c''), (''key'', JStr ''pem'')])],
      tl_ReadFile = (\<lambda>p. Inr key_text), tl_ParsePEM = (\<lambda>s. Some s), tl_ParsePKCS8 = (\<lambda>s. Some (Inr s)),
      tl_ParsePKCS1 = (\<lambda>s. Inr s), tl_SignJWT = (\<lambda>k i c. Inr ''jwt''), tl_NewRequest = (\<lambda>u. None),
      tl_Post = (\<lambda>u b. State_Monad.return (Inl not_found)), tl_now = State_Monad.return 0, tl_DurationString = (\<lambda>d. [])\<rparr>"

definition demo_webhook_lib :: "unit webhook_lib" where
  "demo_webhook_lib =
     \<lparr>wl_token = demo_token_lib, wl_Getenv = (\<lambda>v. []), wl_dial = (\<lambda>h p i k. State_Monad.return (Inr (down_grpc not_found))),
      wl_runtime = \<lparr>Now = State_Monad.return 0, NewUUID = State_Monad.return [], Sleep = (\<lambda>_. State_Monad.return ())\<rparr>,
      wl_GetConfig = None, wl_AddToScheme = (\<lambda>p. None), wl_NewManager = None, wl_AddReadyzCheck = None, wl_NewClient = None\<rparr>"

definition demo_webhook_config :: webhook_server_config where
  "demo_webhook_config = (register_flags NewWebhookServerConfig)\<lparr>ws_ZitadelDomain := ''https://a'',
     ws_ZitadelServiceAccountKey := ''sa.json'', ws_AccountRecoveryTemplate := ''t'', ws_ClientCAFile := ''ca.crt'',
     ws_MailWebhookAllowedClientNames := ['' auth-ui '']\<rparr>"

lemma demo_webhook_runs:
  "\<exists>opts i m w'. run_state (runWebhookServer demo_webhook_lib demo_webhook_config) () =
     (Inr (opts, [(tokenReviewEndpoint, TokenReviewWebhook i), (AccountRecoveryEndpoint, RecoveryHandler m
        (recovery_config_of demo_webhook_config (NormalizeClientNames ['' auth-ui ''])))]), w')"
proof -
  have f: "\<not> EqualFold ''type'' ''key''" "\<not> EqualFold ''userId'' ''key''" "\<not> EqualFold ''clientId'' ''key''"
      "\<not> EqualFold ''appId'' ''key''" "\<not> EqualFold ''keyId'' ''key''" "\<not> EqualFold ''key'' ''type''" "\<not> EqualFold ''key'' ''userId''"
      "\<not> EqualFold ''keyId'' ''type''" "\<not> EqualFold ''keyId'' ''userId''" "\<not> EqualFold ''clientId'' ''type''" "\<not> EqualFold ''clientId'' ''userId''"
    by code_simp+
  have i: "\<exists>i. NewIntrospector demo_token_lib ''private-key.json'' ''https://a'' Hour (5 * Minute) = Inr i"
    by (simp add: NewIntrospector_def LoadZitadelPrivateKey_def parsePEMPrivateKey_def demo_token_lib_def table_lib_def
        json_decode_simps key_text_def Ext_def go_str f)
  have k: "validateServiceAccountKey demo_token_lib ''sa.json'' = None"
    by (simp add: validateServiceAccountKey_def demo_token_lib_def table_lib_def json_decode_simps key_text_def
        zitadel_key_fields_def zero_key_def applicationKeyType_def serviceAccountKeyType_def f)
  have t: "sdk_target (\<lambda>v. []) \<lparr>sc_Domain = ''https://a'', sc_Issuer = ''https://a'', sc_KeyPath = ''sa.json'',
      sc_DefaultMachineKeyExpiration = 0\<rparr> = Inr (''a'', 0, \<lparr>sc_Domain = ''https://a'', sc_Issuer = ''https://a'',
      sc_KeyPath = ''sa.json'', sc_DefaultMachineKeyExpiration = 0\<rparr>)"
    by code_simp
  show ?thesis
    using i k t
    by (auto simp: runWebhookServer_def demo_webhook_config_def register_flags_def NewWebhookServerConfig_def
        validateWebhookConfig_def demo_webhook_lib_def newManager_def webhook_types_def registerEndpoints_def
        newRecoveryMinter_def NewSDK_def)
qed

theorem started_server_is_guarded_witness:
  "ar_AllowedClientNames (recovery_config_of demo_webhook_config (NormalizeClientNames ['' auth-ui ''])) = [''auth-ui''] \<and>
   mo_ClientCAName (managerOptions demo_webhook_config) \<noteq> []"
proof -
  obtain opts i m w' where run: "run_state (runWebhookServer demo_webhook_lib demo_webhook_config) () =
     (Inr (opts, [(tokenReviewEndpoint, TokenReviewWebhook i), (AccountRecoveryEndpoint, RecoveryHandler m
        (recovery_config_of demo_webhook_config (NormalizeClientNames ['' auth-ui ''])))]), w')"
    using demo_webhook_runs by blast
  have "NormalizeClientNames ['' auth-ui ''] = [''auth-ui'']" by code_simp
  with started_server_is_guarded [OF run] runWebhookServer_started [OF run] show ?thesis
    by (simp add: demo_webhook_config_def)
qed

section \<open>The collector\<close>

lemma dry_run_user:
  assumes "gc_DryRun G" and "\<And>i. silent view (ListAuthMethodTypes (gc_Zitadel G) i)"
    and "\<And>i. silent view (ListIDPLinks (gc_Zitadel G) i)"
  shows "silent view (gc_user G cutoff u n)"
proof -
  have l: "silent view (lacks_credential G u k)" for k
    unfolding lacks_credential_def by (intro silent_if silent_bind silent_return assms)
  have h: "silent view (hasIDPLink G i)" for i
    unfolding hasIDPLink_def by (intro silent_bind silent_return assms)
  show ?thesis
    unfolding gc_user_def Let_def
    by (intro silent_bind silent_if silent_cases l h silent_return) (simp add: assms(1) silent_return split: bool.split)
qed

lemma dry_run_pages:
  assumes "gc_DryRun G" and "\<And>i. silent view (ListAuthMethodTypes (gc_Zitadel G) i)"
    and "\<And>i. silent view (ListIDPLinks (gc_Zitadel G) i)" and "\<And>off lim. silent view (ListHumanUsers (gc_Zitadel G) off lim)"
  shows "silent view (gc_pages G cutoff fuel off n)"
proof (induction fuel arbitrary: off n)
  case (Suc fuel)
  have us: "silent view (gc_users G cutoff n us)" for n us
    by (induction us arbitrary: n) (simp_all add: silent_bind silent_return dry_run_user [OF assms(1-3)])
  show ?case
    unfolding gc_pages.simps by (intro silent_bind silent_cases silent_if silent_return assms us Suc)
qed (simp add: silent_return)

lemma dry_run_silent:
  assumes "gc_DryRun G" and "\<And>i. silent view (ListAuthMethodTypes (gc_Zitadel G) i)"
    and "\<And>i. silent view (ListIDPLinks (gc_Zitadel G) i)" and "\<And>off lim. silent view (ListHumanUsers (gc_Zitadel G) off lim)"
    and "silent view (gc_clock G)"
  shows "silent view (GC_Start fuel G ticks)"
proof -
  have s: "silent view (GC_sweepOnce fuel G)"
    unfolding GC_sweepOnce_def by (intro silent_bind assms dry_run_pages)
  have "silent view (gc_ticks fuel G ticks)"
    by (induction ticks) (auto intro!: silent_bind silent_return silent_cases s)
  then show ?thesis by (simp add: GC_Start_def silent_return)
qed

text \<open>C17. With the defaults of its flags the controller runs the collector, with a retention of thirty days and an
  interval of six hours, but however long it runs it changes nothing that reading Zitadel and the
  clock do not change: an upgrade alone never deletes an account or a User.\<close>

theorem default_collector_deletes_nothing:
  assumes "G = controller_gc (register_controller_flags NewControllerConfig) K c clock"
    and "\<And>i. silent view (SDK_ListAuthMethodTypes c i)" and "\<And>i. silent view (SDK_ListIDPLinks c i)"
    and "\<And>off lim. silent view (SDK_ListHumanUsers c off lim)" and "silent view clock"
  shows "gc_Retention G = DefaultAbandonedRetention \<and> gc_Interval G = DefaultAbandonedGCInterval \<and>
    (\<forall>fuel ticks w. GC_Start fuel G ticks = gc_ticks fuel G ticks \<and> view (snd (run_state (GC_Start fuel G ticks) w)) = view w)"
proof -
  have G: "gc_DryRun G" "gc_Zitadel G = sdk_api c" "gc_clock G = clock"
      "gc_Retention G = DefaultAbandonedRetention" "gc_Interval G = DefaultAbandonedGCInterval"
    by (simp_all add: assms(1) controller_gc_def register_controller_flags_def NewControllerConfig_def
        DefaultAbandonedRetention_def DefaultAbandonedGCInterval_def)
  have "silent view (GC_Start fuel G ticks)" for fuel ticks
    by (rule dry_run_silent) (use G assms in \<open>simp_all add: sdk_api_def\<close>)
  with G show ?thesis
    by (simp add: silent_def GC_Start_def DefaultAbandonedRetention_def DefaultAbandonedGCInterval_def)
qed

text \<open>A Zitadel with one account that is old, unverified and has neither links nor a name; the world is the list of its accounts.\<close>

definition forgotten :: raw_user where
  "forgotten = \<lparr>ru_UserId = ''1'', ru_PreferredLoginName = [], ru_LoginNames = [], ru_Username = [], ru_State = [],
     ru_Human = Some \<lparr>rh_Email = Some (''a@x'', False), rh_GivenName = [], rh_FamilyName = []\<rparr>, ru_Machine = False,
     ru_CreationDate = Some 1\<rparr>"

definition forgetful :: "raw_user list sdk_client" where
  "forgetful = \<lparr>sdk_grpc = (down_grpc not_found)\<lparr>
       g_ListUsers := (\<lambda>_ _ _. State (\<lambda>us. (Inr us, us))), g_ListIDPLinks := (\<lambda>_. State_Monad.return (Inr [])),
       g_GetUserByID := (\<lambda>_. State_Monad.return (Inr None)), g_DeleteUser := (\<lambda>i. State (\<lambda>us. (None, [])))\<rparr>,
     sdk_runtime = \<lparr>Now = State_Monad.return 0, NewUUID = State_Monad.return [], Sleep = (\<lambda>_. State_Monad.return ())\<rparr>,
     sdk_DefaultMachineKeyExpiration = 0\<rparr>"

theorem default_collector_deletes_nothing_witness:
  "snd (run_state (GC_Start 1 (controller_gc (register_controller_flags NewControllerConfig) (down_kube not_found)
     forgetful (State_Monad.return (60 * 24 * Hour))) 3) [forgotten]) = [forgotten]"
proof -
  have q: "silent id (SDK_ListAuthMethodTypes forgetful i)" "silent id (SDK_ListIDPLinks forgetful i)"
      "silent id (SDK_ListHumanUsers forgetful off lim)" "silent id (State_Monad.return (60 * 24 * Hour))" for i off lim
    by (simp_all add: silent_def SDK_ListAuthMethodTypes_def SDK_ListIDPLinks_def SDK_ListHumanUsers_def
        getLocalIdentityLink_def forgetful_def down_grpc_def)
  from default_collector_deletes_nothing [where view = id and K = "down_kube not_found", OF refl q] show ?thesis
    unfolding id_apply by blast
qed

end
