(* ===== verification/Actions_Command.thy ===== *)
theory Actions_Command
  imports Actions_Server Zitadel_Sdk
begin

text \<open>
  cmd/actionsserver/http\_server\_cmd.go and the rest of internal/httpactionsserver/server.go: what the
  command checks and builds before the actions server listens, the choice of the signature check, the
  HTTP client for the gateway and the listener. pkg/zitadel-actions/signature is the check that accepts
  everything.
\<close>

section \<open>pkg/zitadel-actions/signature\<close>

definition NoopValidatePayload :: "string \<Rightarrow> string \<Rightarrow> string \<Rightarrow> go_error option" where
  "NoopValidatePayload payload header signingKey = None"

section \<open>internal/httpactionsserver/server.go\<close>

text \<open>
  The HTTP client of the gateway: its timeout and the certificate pool it trusts, \<^verbatim>\<open>None\<close> for that of the
  system. The arguments are \<^verbatim>\<open>os.ReadFile\<close>, \<^verbatim>\<open>x509.SystemCertPool\<close>, \<^verbatim>\<open>x509.NewCertPool\<close> and
  \<^verbatim>\<open>AppendCertsFromPEM\<close>, which yields nothing for text without a certificate.
\<close>

record 'p http_client =
  hc_Timeout :: int
  hc_RootCAs :: "'p option"

definition buildHTTPClient ::
  "(string \<Rightarrow> go_error + string) \<Rightarrow> go_error + 'p \<Rightarrow> 'p \<Rightarrow> (string \<Rightarrow> 'p \<Rightarrow> 'p option) \<Rightarrow> string \<Rightarrow> 'p http_client" where
  "buildHTTPClient ReadFile SystemCertPool NewCertPool AppendCerts caCertFile =
     \<lparr>hc_Timeout = 5 * Second,
      hc_RootCAs =
        (if caCertFile \<noteq> []
         then (case ReadFile caCertFile of
             Inl e \<Rightarrow> None
           | Inr pem \<Rightarrow> AppendCerts pem (case SystemCertPool of Inl e \<Rightarrow> NewCertPool | Inr pool \<Rightarrow> pool))
         else None)\<rparr>"

text \<open>How the server listens: address, certificate and key, and the protocols it offers if they are restricted.\<close>

datatype listener = HTTP string | HTTPS string string string "string list option"

definition Server_listen :: "server_config \<Rightarrow> listener" where
  "Server_listen cfg =
     (if cfg_CertFile cfg \<noteq> [] \<and> cfg_KeyFile cfg \<noteq> []
      then HTTPS (cfg_Addr cfg) (cfg_CertFile cfg) (cfg_KeyFile cfg)
        (if cfg_DisableHTTP2 cfg then Some [''http/1.1''] else None)
      else HTTP (cfg_Addr cfg))"

section \<open>cmd/actionsserver/http\_server\_cmd.go\<close>

record zitadel_flags =
  zf_Issuer :: string
  zf_API :: string
  zf_Key :: string
  zf_DefaultMachineKeyExpiration :: int

text \<open>Registering the flags sets the variables to their defaults, most of which are those of the configuration.\<close>

definition register_actions_flags :: "server_config \<Rightarrow> server_config \<times> zitadel_flags" where
  "register_actions_flags cfg =
     (cfg\<lparr>cfg_Addr := cfg_Addr cfg, cfg_CertFile := cfg_CertFile cfg, cfg_KeyFile := cfg_KeyFile cfg,
          cfg_DisableHTTP2 := cfg_DisableHTTP2 cfg, cfg_Kubeconfig := [], cfg_SigningKey := [],
          cfg_DisableSignatureValidation := cfg_DisableSignatureValidation cfg,
          cfg_SuspiciousLoginEmailTemplate := cfg_SuspiciousLoginEmailTemplate cfg,
          cfg_PasskeyAddedEmailTemplate := cfg_PasskeyAddedEmailTemplate cfg,
          cfg_PasskeyRemovedEmailTemplate := cfg_PasskeyRemovedEmailTemplate cfg,
          cfg_NotificationNamespace := cfg_NotificationNamespace cfg, cfg_GraphQLGatewayURL := cfg_GraphQLGatewayURL cfg,
          cfg_GraphQLGatewayCACertFile := cfg_GraphQLGatewayCACertFile cfg,
          cfg_IdpIntentUserLookupAttempts := cfg_IdpIntentUserLookupAttempts cfg,
          cfg_IdpIntentUserLookupBaseWait := cfg_IdpIntentUserLookupBaseWait cfg\<rparr>,
      \<lparr>zf_Issuer = [], zf_API = [], zf_Key = [], zf_DefaultMachineKeyExpiration = 10 * 365 * 24 * Hour\<rparr>)"

text \<open>What the command uses of the libraries.\<close>

record ('w, 'p) actions_lib =
  al_BuildConfigFromFlags :: "string \<Rightarrow> go_error option"
  al_NewClient :: "go_error + 'w kube"
  al_ValidatePayload :: "string \<Rightarrow> string \<Rightarrow> string \<Rightarrow> go_error option"
  al_Getenv :: "string \<Rightarrow> string"
  al_dial :: "string \<Rightarrow> nat \<Rightarrow> string \<Rightarrow> string \<Rightarrow> ('w, go_error + 'w grpc) state"
  al_runtime :: "'w runtime"
  al_retry :: "'w retrier"
  al_lib :: golib
  al_ReadFile :: "string \<Rightarrow> go_error + string"
  al_SystemCertPool :: "go_error + 'p"
  al_NewCertPool :: 'p
  al_AppendCerts :: "string \<Rightarrow> 'p \<Rightarrow> 'p option"
  al_post :: "'p http_client \<Rightarrow> string \<Rightarrow> string \<Rightarrow> (string \<times> string) list \<Rightarrow> ('w, go_error + nat \<times> string) state"

text \<open>The connection to Zitadel that the flags describe; \<^verbatim>\<open>NewSDK\<close> returns a client of the gRPC API.\<close>

definition connect_zitadel ::
  "('w, 'p) actions_lib \<Rightarrow> zitadel_flags \<Rightarrow> ('w, 'w zitadel_api iface \<times> go_error option) state" where
  "connect_zitadel L z =
     createZitadelClient (al_Getenv L)
       (\<lambda>issuer domain keyPath. do {
          r \<leftarrow> NewSDK (al_Getenv L) (al_dial L) (al_runtime L)
            \<lparr>sc_Domain = domain, sc_Issuer = issuer, sc_KeyPath = keyPath,
             sc_DefaultMachineKeyExpiration = zf_DefaultMachineKeyExpiration z\<rparr>;
          State_Monad.return (map_sum id sdk_api r)
        })
       (zf_Issuer z) (zf_API z) (zf_Key z)"

definition new_server ::
  "('w, 'p) actions_lib \<Rightarrow> server_config \<Rightarrow> 'w kube \<Rightarrow> (string \<Rightarrow> string \<Rightarrow> string \<Rightarrow> go_error option) \<Rightarrow> 'w server" where
  "new_server L cfg k8sClient validateSignatureFunc =
     \<lparr>srv_config = cfg, srv_k8s = k8sClient, srv_validateSignature = validateSignatureFunc, srv_lib = al_lib L,
      srv_runtime = al_runtime L, srv_retry = al_retry L,
      srv_httpClient = al_post L (buildHTTPClient (al_ReadFile L) (al_SystemCertPool L) (al_NewCertPool L)
        (al_AppendCerts L) (cfg_GraphQLGatewayCACertFile cfg))\<rparr>"

text \<open>A server that listens: its fixed parts, its state, the listener, and whether the background retry runs.\<close>

record 'w actions_process =
  ap_server :: "'w server"
  ap_state :: "'w server_state"
  ap_listener :: listener
  ap_retrying :: bool

definition signature_check ::
  "('w, 'p) actions_lib \<Rightarrow> server_config \<Rightarrow> go_error + (string \<Rightarrow> string \<Rightarrow> string \<Rightarrow> go_error option)" where
  "signature_check L cfg =
     (if cfg_DisableSignatureValidation cfg then Inr NoopValidatePayload
      else if cfg_SigningKey cfg = [] then Inl (errorf ''signing key is required when signature validation is enabled'')
      else Inr (al_ValidatePayload L))"

definition runActionsServer ::
  "('w, 'p) actions_lib \<Rightarrow> server_config \<Rightarrow> zitadel_flags \<Rightarrow> 'w \<Rightarrow> go_error + 'w actions_process" where
  "runActionsServer L cfg z w =
     (case al_BuildConfigFromFlags L (cfg_Kubeconfig cfg) of
        Some e \<Rightarrow> Inl (wrapf (''unable to load kubeconfig from '' @ cfg_Kubeconfig cfg @ '': '') e)
      | None \<Rightarrow>
     (case al_NewClient L of
        Inl e \<Rightarrow> Inl e
      | Inr k8sClient \<Rightarrow>
     (case signature_check L cfg of
        Inl e \<Rightarrow> Inl e
      | Inr validateSignatureFunc \<Rightarrow>
          (case run_state (connect_zitadel L z) w of ((zitadelSDKClient, err), w') \<Rightarrow>
             Inr \<lparr>ap_server = new_server L cfg k8sClient validateSignatureFunc,
               ap_state = NewServer zitadelSDKClient w', ap_listener = Server_listen cfg, ap_retrying = (err \<noteq> None)\<rparr>))))"

section \<open>Properties\<close>

lemma runActionsServer_ok:
  "runActionsServer L cfg z w = Inr p \<longleftrightarrow>
     al_BuildConfigFromFlags L (cfg_Kubeconfig cfg) = None \<and>
     (\<exists>K check c err w'. al_NewClient L = Inr K \<and> signature_check L cfg = Inr check \<and>
        run_state (connect_zitadel L z) w = ((c, err), w') \<and>
        p = \<lparr>ap_server = new_server L cfg K check, ap_state = NewServer c w', ap_listener = Server_listen cfg,
          ap_retrying = (err \<noteq> None)\<rparr>)"
  by (auto simp: runActionsServer_def split: option.splits sum.splits prod.splits)

lemma signature_check_real:
  "signature_check L cfg = Inr check \<Longrightarrow> \<not> cfg_DisableSignatureValidation cfg \<Longrightarrow>
     check = al_ValidatePayload L \<and> cfg_SigningKey cfg \<noteq> []"
  by (auto simp: signature_check_def split: if_splits)

lemma connect_shape:
  "run_state (connect_zitadel L z) w = ((c, err), w') \<Longrightarrow> (err \<noteq> None) = (c = NilPointer)"
  by (auto simp: connect_zitadel_def createZitadelClient_def Let_def split: if_splits prod.splits sum.splits)

lemma started_refuses:
  assumes "runActionsServer L cfg z w = Inr p" and "\<not> cfg_DisableSignatureValidation cfg"
    and "\<forall>body. req_body r = Inr body \<longrightarrow>
      al_ValidatePayload L body (req_header r ''Zitadel-Signature'') (cfg_SigningKey cfg) \<noteq> None"
    and "run_state (serve path (ap_server p) r) s = (x, s')"
  shows "s' = s \<and> x \<noteq> Panicked \<and> reply_status x \<in> {400, 401, 404, 405}"
proof (rule serve_refuses [OF _ assms(4)])
  from assms(1,2) have "srv_validateSignature (ap_server p) = al_ValidatePayload L" "srv_config (ap_server p) = cfg"
    by (auto simp: runActionsServer_ok new_server_def dest: signature_check_real)
  with assms(3) show "not_signed (ap_server p) r"
    by (auto simp: not_signed_def signature_error_def split: sum.split)
qed

text \<open>C12. The actions server starts exactly when the kubeconfig loads, the Kubernetes client can be built, and
  the signature check has a key or is switched off, whether Zitadel can be reached or not; when it
  cannot, the background retry runs. A server started without switching the check off
  verifies every body with Zitadel's own check and a non-empty key: a request whose body fails
  it changes nothing in any state of the server and is refused.\<close>

theorem started_actions_server_checks_signatures:
  "((\<exists>p. runActionsServer L cfg z w = Inr p) \<longleftrightarrow>
     al_BuildConfigFromFlags L (cfg_Kubeconfig cfg) = None \<and> (\<exists>K. al_NewClient L = Inr K) \<and>
     (cfg_DisableSignatureValidation cfg \<or> cfg_SigningKey cfg \<noteq> [])) \<and>
   (\<forall>p. runActionsServer L cfg z w = Inr p \<longrightarrow>
     (ap_retrying p \<longleftrightarrow> (\<exists>c e w'. run_state (connect_zitadel L z) w = ((c, Some e), w'))) \<and>
     (\<not> cfg_DisableSignatureValidation cfg \<longrightarrow> cfg_SigningKey cfg \<noteq> [] \<and>
       (\<forall>path r s x s'. run_state (serve path (ap_server p) r) s = (x, s') \<longrightarrow>
          (\<forall>body. req_body r = Inr body \<longrightarrow>
             al_ValidatePayload L body (req_header r ''Zitadel-Signature'') (cfg_SigningKey cfg) \<noteq> None) \<longrightarrow>
          s' = s \<and> x \<noteq> Panicked \<and> reply_status x \<in> {400, 401, 404, 405})))"
proof (intro conjI allI impI)
  obtain c err w' where "run_state (connect_zitadel L z) w = ((c, err), w')" by (metis surj_pair)
  then show "(\<exists>p. runActionsServer L cfg z w = Inr p) \<longleftrightarrow>
     al_BuildConfigFromFlags L (cfg_Kubeconfig cfg) = None \<and> (\<exists>K. al_NewClient L = Inr K) \<and>
     (cfg_DisableSignatureValidation cfg \<or> cfg_SigningKey cfg \<noteq> [])"
    by (auto simp: runActionsServer_ok signature_check_def)
next
  fix p assume p: "runActionsServer L cfg z w = Inr p"
  then show "ap_retrying p \<longleftrightarrow> (\<exists>c e w'. run_state (connect_zitadel L z) w = ((c, Some e), w'))"
    by (auto simp: runActionsServer_ok)
  assume on: "\<not> cfg_DisableSignatureValidation cfg"
  with p show "cfg_SigningKey cfg \<noteq> []" by (auto simp: runActionsServer_ok dest: signature_check_real)
  fix path r s x s'
  assume "run_state (serve path (ap_server p) r) s = (x, s')" and "\<forall>body. req_body r = Inr body \<longrightarrow>
    al_ValidatePayload L body (req_header r ''Zitadel-Signature'') (cfg_SigningKey cfg) \<noteq> None"
  from started_refuses [OF p on this(2,1)]
  show "s' = s" "x \<noteq> Panicked" "reply_status x \<in> {400, 401, 404, 405}" by simp_all
qed

text \<open>A server whose Zitadel is down, and whose check accepts bodies sent with their own text as the signature.\<close>

definition down_actions_lib :: "(unit, string list) actions_lib" where
  "down_actions_lib =
     \<lparr>al_BuildConfigFromFlags = (\<lambda>p. None), al_NewClient = Inr (down_kube not_found),
      al_ValidatePayload = (\<lambda>b h k. if h = b then None else Some (errorf ''bad signature'')), al_Getenv = (\<lambda>v. []),
      al_dial = (\<lambda>h p i k. State_Monad.return (Inl (errorf ''unreachable''))),
      al_runtime = \<lparr>Now = State_Monad.return 0, NewUUID = State_Monad.return [], Sleep = (\<lambda>_. State_Monad.return ())\<rparr>,
      al_retry = (\<lambda>m. m), al_lib = table_lib [], al_ReadFile = (\<lambda>p. Inl not_found), al_SystemCertPool = Inr [],
      al_NewCertPool = [], al_AppendCerts = (\<lambda>p c. Some (p # c)),
      al_post = (\<lambda>c u q v. State_Monad.return (Inl (errorf ''no gateway'')))\<rparr>"

definition forged_post :: http_request where
  "forged_post = \<lparr>req_method = MethodPost, req_header = (\<lambda>_. ''x''), req_body = Inr ''{}'', req_peer_certificates = None\<rparr>"

theorem started_actions_server_checks_signatures_witness:
  "\<exists>p. runActionsServer down_actions_lib (NewServerConfig\<lparr>cfg_SigningKey := ''k''\<rparr>)
       \<lparr>zf_Issuer = ''https://a'', zf_API = ''a'', zf_Key = ''k.json'', zf_DefaultMachineKeyExpiration = 0\<rparr> () = Inr p \<and>
     reply_status (fst (run_state (serve ''/v1/actions/session-added'' (ap_server p) forged_post) (ap_state p)))
       \<in> {400, 401, 404, 405}"
proof -
  let ?cfg = "NewServerConfig\<lparr>cfg_SigningKey := ''k''\<rparr>"
  let ?z = "\<lparr>zf_Issuer = ''https://a'', zf_API = ''a'', zf_Key = ''k.json'', zf_DefaultMachineKeyExpiration = 0\<rparr>"
  note main = started_actions_server_checks_signatures [of down_actions_lib ?cfg ?z "()"]
  have "\<exists>p. runActionsServer down_actions_lib ?cfg ?z () = Inr p"
    using main [THEN conjunct1] by (simp add: down_actions_lib_def NewServerConfig_def)
  then obtain p where p: "runActionsServer down_actions_lib ?cfg ?z () = Inr p" ..
  obtain x s' where "run_state (serve ''/v1/actions/session-added'' (ap_server p) forged_post) (ap_state p) = (x, s')"
    by (meson surj_pair)
  with main [THEN conjunct2, rule_format, OF p, THEN conjunct2, rule_format, THEN conjunct2, rule_format, OF _ this]
  have "reply_status x \<in> {400, 401, 404, 405}"
    by (simp add: forged_post_def down_actions_lib_def NewServerConfig_def)
  with p \<open>run_state _ _ = (x, s')\<close> show ?thesis by simp
qed

end
