(* ===== verification/Run_Group.thy ===== *)
theory Run_Group
  imports Controller_Command Step_Systems
begin

text \<open>
  cmd/controller/controller.go: \<^verbatim>\<open>runUntilManagerStops\<close>, which runs the manager and the clusters of the
  controller side by side, as a system of steps; and the two small \<^verbatim>\<open>Start\<close> methods it leads to. The
  \<^verbatim>\<open>errgroup\<close> package is an argument with the law its documentation states.
\<close>

section \<open>The group\<close>

text \<open>
  An \<^verbatim>\<open>errgroup.Group\<close> with its context: the new group, what it becomes when a function passed to \<^verbatim>\<open>Go\<close>
  returns, the error \<^verbatim>\<open>Wait\<close> returns after all have, and whether its context is cancelled.
\<close>

record 'g errgroup =
  eg_WithContext :: 'g
  eg_returned :: "go_error option \<Rightarrow> 'g \<Rightarrow> 'g"
  eg_Wait :: "'g \<Rightarrow> go_error option"
  eg_cancelled :: "'g \<Rightarrow> bool"

fun first_error :: "go_error option list \<Rightarrow> go_error option" where
  "first_error [] = None"
| "first_error (None # rs) = first_error rs"
| "first_error (Some e # rs) = Some e"

text \<open>
  ``Wait blocks until all function calls from the Go method have returned, then returns the first non-nil error
  (if any) from them'', and ``the derived Context is canceled the first time a function passed to Go
  returns a non-nil error''.
\<close>

definition errgroup_law :: "'g errgroup \<Rightarrow> bool" where
  "errgroup_law G \<longleftrightarrow> (\<forall>rs. eg_Wait G (fold (eg_returned G) rs (eg_WithContext G)) = first_error rs \<and>
     (eg_cancelled G (fold (eg_returned G) rs (eg_WithContext G)) \<longleftrightarrow> first_error rs \<noteq> None))"

text \<open>
  A function that takes a context and runs for long: with which errors it can return, given whether the
  context is done.
\<close>

type_synonym task = "bool \<Rightarrow> go_error option \<Rightarrow> bool"

text \<open>
  The goroutine of the manager: running; returned, its deferred \<^verbatim>\<open>cancel\<close> called but the group not told
  yet; and over.
\<close>

datatype manager_phase = Running | Returning "go_error option" | Over

text \<open>The last field records what the group was told, in order.\<close>

record 'g run_sys =
  rg_signalled :: bool
  rg_cancelled :: bool
  rg_running :: "bool list"
  rg_manager :: manager_phase
  rg_group :: 'g
  rg_told :: "go_error option list"

definition ctx_done :: "'g errgroup \<Rightarrow> 'g run_sys \<Rightarrow> bool" where
  "ctx_done G s \<longleftrightarrow> rg_signalled s \<or> rg_cancelled s \<or> eg_cancelled G (rg_group s)"

definition tell :: "'g errgroup \<Rightarrow> go_error option \<Rightarrow> 'g run_sys \<Rightarrow> 'g run_sys" where
  "tell G r s = s\<lparr>rg_group := eg_returned G r (rg_group s), rg_told := rg_told s @ [r]\<rparr>"

inductive run_step :: "'g errgroup \<Rightarrow> task \<Rightarrow> task list \<Rightarrow> 'g run_sys \<Rightarrow> 'g run_sys \<Rightarrow> bool"
  for G :: "'g errgroup" and startManager :: task and workers :: "task list" where
  signal: "\<not> rg_signalled s \<Longrightarrow> run_step G startManager workers s (s\<lparr>rg_signalled := True\<rparr>)"
| worker_returns: "k < length workers \<Longrightarrow> rg_running s ! k \<Longrightarrow> (workers ! k) (ctx_done G s) e \<Longrightarrow>
    run_step G startManager workers s (tell G (ignoreCanceled e) (s\<lparr>rg_running := (rg_running s)[k := False]\<rparr>))"
| manager_returns: "rg_manager s = Running \<Longrightarrow> startManager (ctx_done G s) e \<Longrightarrow>
    run_step G startManager workers s (s\<lparr>rg_manager := Returning (ignoreCanceled e), rg_cancelled := True\<rparr>)"
| manager_counted: "rg_manager s = Returning r \<Longrightarrow>
    run_step G startManager workers s (tell G r (s\<lparr>rg_manager := Over\<rparr>))"

inductive_cases run_stepE: "run_step G startManager workers s s'"

abbreviation run_steps where "run_steps G m ws \<equiv> (run_step G m ws)\<^sup>*\<^sup>*"

definition runUntilManagerStops :: "'g errgroup \<Rightarrow> task list \<Rightarrow> 'g run_sys" where
  "runUntilManagerStops G workers =
     \<lparr>rg_signalled = False, rg_cancelled = False, rg_running = map (\<lambda>_. True) workers, rg_manager = Running,
      rg_group = eg_WithContext G, rg_told = []\<rparr>"

text \<open>\<^verbatim>\<open>g.Wait()\<close> returns when every goroutine is over.\<close>

definition all_returned :: "'g run_sys \<Rightarrow> bool" where
  "all_returned s \<longleftrightarrow> rg_manager s = Over \<and> \<not> (\<exists>b \<in> set (rg_running s). b)"

section \<open>The two methods \<^verbatim>\<open>Start\<close>\<close>

text \<open>Waits for the election whatever the context is, and then is the core control plane manager.\<close>

definition coreControlPlaneRunnable_Start :: "bool \<Rightarrow> task \<Rightarrow> task" where
  "coreControlPlaneRunnable_Start elected startCore done e \<longleftrightarrow> elected \<and> startCore done e"

text \<open>The second argument is the \<^verbatim>\<open>Start\<close> of the wrapped provider, if it is a \<^verbatim>\<open>ProviderRunnable\<close>.\<close>

definition wrappedSingleClusterProvider_Start ::
  "(string \<Rightarrow> ('w, go_error option) state) \<Rightarrow> ('w, go_error option) state option \<Rightarrow> ('w, go_error option) state" where
  "wrappedSingleClusterProvider_Start Engage start = do {
     e \<leftarrow> Engage ''single'';
     (case e of
        Some e \<Rightarrow> State_Monad.return (Some e)
      | None \<Rightarrow> (case start of Some m \<Rightarrow> m | None \<Rightarrow> State_Monad.return None))
   }"

section \<open>The invariant\<close>

definition phase_ok :: "manager_phase \<Rightarrow> bool \<Rightarrow> bool" where
  "phase_ok p cancelled \<longleftrightarrow> (cancelled \<longleftrightarrow> p \<noteq> Running) \<and> (\<forall>r. p = Returning r \<longrightarrow> ignoreCanceled r = r)"

definition run_ok :: "'g errgroup \<Rightarrow> task list \<Rightarrow> 'g run_sys \<Rightarrow> bool" where
  "run_ok G workers s \<longleftrightarrow>
     length (rg_running s) = length workers \<and>
     rg_group s = fold (eg_returned G) (rg_told s) (eg_WithContext G) \<and>
     (\<forall>r \<in> set (rg_told s). ignoreCanceled r = r) \<and>
     phase_ok (rg_manager s) (rg_cancelled s)"

lemma ignoreCanceled_idem [simp]: "ignoreCanceled (ignoreCanceled e) = ignoreCanceled e"
  by (simp add: ignoreCanceled_def split: option.splits)

lemma tell_simps [simp]:
  "rg_signalled (tell G r s) = rg_signalled s" "rg_cancelled (tell G r s) = rg_cancelled s"
  "rg_running (tell G r s) = rg_running s" "rg_manager (tell G r s) = rg_manager s"
  "rg_told (tell G r s) = rg_told s @ [r]" "rg_group (tell G r s) = eg_returned G r (rg_group s)"
  by (simp_all add: tell_def)

lemma run_ok_start: "run_ok G workers (runUntilManagerStops G workers)"
  by (simp add: run_ok_def runUntilManagerStops_def phase_ok_def)

lemma run_ok_step: "run_step G m ws s s' \<Longrightarrow> run_ok G ws s \<Longrightarrow> run_ok G ws s'"
  by (erule run_stepE) (auto simp: run_ok_def phase_ok_def)


lemma first_error_None: "first_error rs = None \<longleftrightarrow> (\<forall>r \<in> set rs. r = None)"
  by (induction rs rule: first_error.induct) auto

lemma first_error_in: "first_error rs = Some e \<Longrightarrow> Some e \<in> set rs"
  by (induction rs rule: first_error.induct) auto

text \<open>When the context is done: after a signal, after the manager has returned, after an error.\<close>

lemma ctx_done_iff:
  assumes "errgroup_law G" and "run_ok G ws s"
  shows "ctx_done G s \<longleftrightarrow> rg_signalled s \<or> rg_manager s \<noteq> Running \<or> (\<exists>e. Some e \<in> set (rg_told s))"
proof -
  have "eg_cancelled G (rg_group s) \<longleftrightarrow> first_error (rg_told s) \<noteq> None"
    using assms by (simp add: errgroup_law_def run_ok_def)
  with assms(2) show ?thesis
    by (auto simp: ctx_done_def run_ok_def phase_ok_def first_error_None)
qed

section \<open>The end of the group\<close>

definition prompt :: "task \<Rightarrow> bool" where
  "prompt t \<longleftrightarrow> (\<exists>e. t True e)"

fun phase_steps :: "manager_phase \<Rightarrow> nat" where
  "phase_steps Running = 2"
| "phase_steps (Returning _) = 1"
| "phase_steps Over = 0"

definition steps_left :: "'g run_sys \<Rightarrow> nat" where
  "steps_left s = (if rg_signalled s then 0 else 1) + length (filter id (rg_running s)) + phase_steps (rg_manager s)"

lemma stop_one_running:
  "k < length bs \<Longrightarrow> bs ! k \<Longrightarrow> Suc (length (filter id (bs[k := False]))) = length (filter id bs)"
  by (induction bs arbitrary: k) (auto simp: nth_Cons split: nat.splits)

lemma steps_left_step: "run_step G m ws s s' \<Longrightarrow> run_ok G ws s \<Longrightarrow> Suc (steps_left s') = steps_left s"
  by (erule run_stepE) (auto simp: steps_left_def run_ok_def stop_one_running)

interpretation controller: bounded_steps "run_step G m ws" "run_ok G ws" steps_left for G m ws
  by unfold_locales (fact run_ok_step, metis steps_left_step lessI)

lemma steps_left_bound: "run_ok G ws s \<Longrightarrow> steps_left s \<le> length ws + 3"
  using length_filter_le [of id "rg_running s"]
  by (cases "rg_manager s") (auto simp: steps_left_def run_ok_def split: if_splits)

lemma ctx_done_step:
  assumes "errgroup_law G" and "run_step G m ws s s'" and "run_ok G ws s" and "ctx_done G s"
  shows "ctx_done G s'"
  using assms(2,4) unfolding ctx_done_iff [OF assms(1,3)] ctx_done_iff [OF assms(1) run_ok_step [OF assms(2,3)]]
  by (auto elim!: run_stepE)

interpretation cancelled: step_invariant "run_step G m ws" "\<lambda>s. errgroup_law G \<and> run_ok G ws s \<and> ctx_done G s" for G m ws
  by unfold_locales (blast intro: ctx_done_step run_ok_step)

lemma never_stuck:
  assumes ok: "run_ok G ws s" and cdone: "ctx_done G s" and prompt: "prompt m" "\<forall>w \<in> set ws. prompt w"
    and "\<not> all_returned s"
  shows "\<exists>s'. run_step G m ws s s'"
proof (cases "rg_manager s")
  case Running
  moreover from prompt(1) obtain e where "m True e" unfolding prompt_def ..
  ultimately show ?thesis using cdone manager_returns [of s m G e ws] by auto
next
  case (Returning r)
  then show ?thesis by (blast intro: manager_counted)
next
  case Over
  with assms(5) obtain k where k: "k < length (rg_running s)" "rg_running s ! k"
    by (auto simp: all_returned_def in_set_conv_nth)
  from k(1) ok have "k < length ws" by (simp add: run_ok_def)
  moreover from this prompt(2) obtain e where "(ws ! k) True e" unfolding prompt_def by (meson nth_mem)
  then have "(ws ! k) (ctx_done G s) e" using cdone by simp
  ultimately show ?thesis using k(2) by (intro exI) (rule worker_returns)
qed

lemma group_returns:
  assumes "errgroup_law G" and "run_ok G ws s" and "ctx_done G s" and "prompt m" and "\<forall>w \<in> set ws. prompt w"
  shows "\<exists>s'. run_steps G m ws s s' \<and> all_returned s'"
  using controller.reaches_end [OF assms(2), of m] cancelled.inv_steps never_stuck [OF _ _ assms(4,5)] assms(1-3) by metis

lemma result_of_group:
  assumes "errgroup_law G" and "run_ok G ws s"
  shows "eg_Wait G (rg_group s) = first_error (rg_told s)"
  using assms by (simp add: errgroup_law_def run_ok_def)

text \<open>C15. The controller process: nothing cancels the context of the manager and of the clusters but a
  signal, the return of the manager, or an error, and until one of these the group does not end. After
  one of these it ends, if the manager and the clusters return once their context is done: whatever
  their order, there is a bounded number of steps, and a step is possible until all have
  returned. What \<^verbatim>\<open>Wait\<close> returns is then the first error that was returned other than a cancellation, and
  nil if there is none.\<close>

theorem group_ends_with_its_manager:
  assumes law: "errgroup_law G" and reach: "run_steps G m ws (runUntilManagerStops G ws) s"
    and prompt: "\<forall>t \<in> set (m # ws). prompt t"
  shows "(if \<not> rg_signalled s \<and> rg_manager s = Running \<and> (\<forall>e. Some e \<notin> set (rg_told s))
      then \<not> ctx_done G s \<and> \<not> all_returned s
      else (\<forall>n s'. (run_step G m ws ^^ n) s s' \<longrightarrow> n \<le> length ws + 3) \<and>
        (\<forall>s'. run_steps G m ws s s' \<longrightarrow> all_returned s' \<or> (\<exists>s''. run_step G m ws s' s''))) \<and>
    eg_Wait G (rg_group s) = first_error (rg_told s) \<and>
    (\<forall>e. eg_Wait G (rg_group s) = Some e \<longrightarrow> err_kind e \<noteq> KCanceled)"
proof -
  have ok: "run_ok G ws s" by (rule controller.inv_steps [OF reach run_ok_start])
  note cdone = ctx_done_iff [OF law ok]
  have "n \<le> length ws + 3" if "(run_step G m ws ^^ n) s s'" for n s'
    using controller.run_bounded [OF that ok] steps_left_bound [OF ok] by simp
  moreover have "all_returned s' \<or> (\<exists>s''. run_step G m ws s' s'')" if "run_steps G m ws s s'"
      "rg_signalled s \<or> rg_manager s \<noteq> Running \<or> (\<exists>e. Some e \<in> set (rg_told s))" for s'
    using cancelled.inv_steps [OF that(1)] law ok that(2) cdone never_stuck [of G ws s' m] prompt by auto
  moreover have "\<not> all_returned s" if "rg_manager s = Running" using that by (simp add: all_returned_def)
  moreover have "err_kind e \<noteq> KCanceled" if "first_error (rg_told s) = Some e" for e
    using ok first_error_in [OF that] by (auto simp: run_ok_def ignoreCanceled_def split: if_splits)
  ultimately show ?thesis unfolding result_of_group [OF law ok] cdone by (split if_split) blast
qed

text \<open>One cluster and a manager that fails: the cluster is cancelled, and the error of the manager is the result.\<close>

definition list_group :: "go_error option list errgroup" where
  "list_group = \<lparr>eg_WithContext = [], eg_returned = (\<lambda>r g. g @ [r]), eg_Wait = first_error, eg_cancelled = (\<lambda>g. first_error g \<noteq> None)\<rparr>"

definition failing_manager :: task where
  "failing_manager d e \<longleftrightarrow> e = Some (errorf ''lost the lease'')"

definition quiet_cluster :: task where
  "quiet_cluster d e \<longleftrightarrow> d \<and> e = Some (GoErr KCanceled ''context canceled'')"

lemma list_group_law: "errgroup_law list_group"
proof -
  have "fold (\<lambda>r g. g @ [r]) rs g = g @ rs" for rs and g :: "go_error option list"
    by (induction rs arbitrary: g) auto
  then show ?thesis by (simp add: errgroup_law_def list_group_def)
qed

definition stopped_controller :: "go_error option list run_sys" where
  "stopped_controller = \<lparr>rg_signalled = False, rg_cancelled = True, rg_running = [False], rg_manager = Over,
     rg_group = [None, Some (errorf ''lost the lease'')], rg_told = [None, Some (errorf ''lost the lease'')]\<rparr>"

lemma stopped_controller_run:
  "run_steps list_group failing_manager [quiet_cluster] (runUntilManagerStops list_group [quiet_cluster]) stopped_controller"
proof -
  let ?step = "run_step list_group failing_manager [quiet_cluster]"
  let ?s0 = "runUntilManagerStops list_group [quiet_cluster]"
  define s1 where "s1 = ?s0\<lparr>rg_manager := Returning (Some (errorf ''lost the lease'')), rg_cancelled := True\<rparr>"
  define s2 where "s2 = tell list_group None (s1\<lparr>rg_running := [False]\<rparr>)"
  note s_defs = s1_def s2_def runUntilManagerStops_def tell_def list_group_def stopped_controller_def
  have "?step ?s0 s1"
    using manager_returns [of ?s0 failing_manager list_group "Some (errorf ''lost the lease'')" "[quiet_cluster]"]
    by (simp add: s1_def runUntilManagerStops_def failing_manager_def ignoreCanceled_def errorf_def)
  moreover have "?step s1 s2"
    using worker_returns [of 0 "[quiet_cluster]" s1 list_group "Some (GoErr KCanceled ''context canceled'')" failing_manager]
    by (simp add: s2_def s1_def runUntilManagerStops_def quiet_cluster_def ctx_done_def ignoreCanceled_def)
  moreover have "?step s2 stopped_controller"
    using manager_counted [of s2 "Some (errorf ''lost the lease'')" list_group failing_manager "[quiet_cluster]"]
    by (simp add: s_defs)
  ultimately show ?thesis by (meson converse_rtranclp_into_rtranclp rtranclp.rtrancl_refl)
qed

theorem group_ends_with_its_manager_witness:
  "eg_Wait list_group (rg_group stopped_controller) = Some (errorf ''lost the lease'') \<and> all_returned stopped_controller"
proof -
  have "\<forall>t \<in> set [failing_manager, quiet_cluster]. prompt t"
    by (auto simp: prompt_def failing_manager_def quiet_cluster_def fun_eq_iff)
  from group_ends_with_its_manager [OF list_group_law stopped_controller_run this] show ?thesis
    by (simp add: stopped_controller_def all_returned_def)
qed

end
