(* ===== verification/Controller_Start.thy ===== *)
theory Controller_Start
  imports Run_Group Object_Controllers Service_Account Platform_Access
begin

text \<open>
  cmd/controller/controller.go: \<^verbatim>\<open>runController\<close> from the flags to the group that runs, in the blocks it has in
  the code, and the \<^verbatim>\<open>SetupWithManager\<close> methods of internal/controller. The libraries it builds with
  are arguments; a step that fails there exits the process with the text that is logged.
\<close>

section \<open>What the command builds\<close>

text \<open>
  The options that change a TLS configuration: the closure \<^verbatim>\<open>disableHTTP2\<close>, and the one that takes the
  certificate from a watcher of two files. The slice of the configuration is nil or has one element and no spare
  capacity, so that the two servers that append to it do not share an element.
\<close>

datatype tls_option = DisableHTTP2 | GetCertificate string string

record tls_config =
  tc_NextProtos :: "string list option"
  tc_Certificate :: "(string \<times> string) option"

fun apply_tls :: "tls_option \<Rightarrow> tls_config \<Rightarrow> tls_config" where
  "apply_tls DisableHTTP2 c = c\<lparr>tc_NextProtos := Some [''http/1.1'']\<rparr>"
| "apply_tls (GetCertificate cert key) c = c\<lparr>tc_Certificate := Some (cert, key)\<rparr>"

definition tls_of :: "tls_option list \<Rightarrow> tls_config" where
  "tls_of opts = fold apply_tls opts \<lparr>tc_NextProtos = None, tc_Certificate = None\<rparr>"

record metrics_options =
  mt_BindAddress :: string
  mt_SecureServing :: bool
  mt_Filtered :: bool
  mt_TLSOpts :: "tls_option list"

text \<open>What is added to the core control plane manager.\<close>

datatype 'w core_part =
    ProjectReconciler "('w, project) finalizers" "('w, project) object_client" "'w zitadel_api"
  | AccessReconciler "'w pa_controller"
  | UserReconciler "('w, user) finalizers" "'w kube" "'w rest_client"
  | Collector "'w gc"
  | Sweeper "'w sweeper"

text \<open>The process that runs: the two servers, the lease, the discovery, the two managers and the workers.\<close>

record ('w, 'c) controller_process =
  cp_webhookTLS :: "tls_option list"
  cp_metrics :: metrics_options
  cp_probe :: string
  cp_leader :: "'c leader_options"
  cp_provider :: "'c rest_config provider"
  cp_serviceAccounts :: "'w sa_controller"
  cp_core :: "'w core_part list"
  cp_workers :: "runnable list"

record ('w, 'c) controller_lib =
  cl_ReadFile :: "string \<Rightarrow> go_error + string"
  cl_DecodeInto :: "string \<Rightarrow> go_error + discovery_config"
  cl_Join :: "string \<Rightarrow> string \<Rightarrow> string"
  cl_NewCertWatcher :: "string \<Rightarrow> string \<Rightarrow> go_error option"
  cl_GetConfig :: "go_error + 'c rest_config"
  cl_BuildConfigFromFlags :: "string \<Rightarrow> go_error + 'c rest_config"
  cl_NewCluster :: "'c rest_config \<Rightarrow> go_error option"
  cl_NewDiscoveryManager :: "go_error option"
  cl_NewProvider :: "go_error option"
  cl_mode_text :: "discovery_mode \<Rightarrow> string"
  cl_NewMultiManager :: "'c rest_config \<Rightarrow> 'c leader_options \<Rightarrow> go_error option"
  cl_NewManager :: "'c rest_config \<Rightarrow> go_error option"
  cl_TokenSource :: "string \<Rightarrow> string \<Rightarrow> go_error + (string \<Rightarrow> string \<Rightarrow> string option \<Rightarrow> ('w, go_error + int \<times> string \<times> string) state)"
  cl_NewRequest :: "string \<Rightarrow> string \<Rightarrow> go_error option"
  cl_Getenv :: "string \<Rightarrow> string"
  cl_dial :: "string \<Rightarrow> nat \<Rightarrow> string \<Rightarrow> string \<Rightarrow> ('w, go_error + 'w grpc) state"
  cl_lib :: golib
  cl_runtime :: "'w runtime"
  cl_retry :: "'w retrier"
  cl_meta :: meta_lib
  cl_Suspended :: string
  cl_kube :: "'w kube"
  cl_projects :: "('w, project) object_client"
  cl_accesses :: "('w, platform_access) object_client"
  cl_GetCluster :: "string \<Rightarrow> ('w, go_error + ('w, service_account) object_client) state"
  cl_userFinalizers :: "('w, user) finalizers"
  cl_projectFinalizers :: "('w, project) finalizers"
  cl_accountFinalizers :: "('w, service_account) finalizers"
  cl_Register :: "string \<Rightarrow> go_error option"
  cl_Complete :: "string \<Rightarrow> go_error option"
  cl_Add :: "string \<Rightarrow> go_error option"
  cl_AddHealthzCheck :: "go_error option"
  cl_AddReadyzCheck :: "go_error option"

section \<open>Setting up the controllers\<close>

text \<open>The finalizer is registered under its key, then the controller is built on the manager.\<close>

definition UserController_SetupWithManager ::
  "('w, 'c) controller_lib \<Rightarrow> 'w kube \<Rightarrow> 'w rest_client \<Rightarrow> go_error + 'w core_part" where
  "UserController_SetupWithManager L K Z =
     (case cl_Register L userFinalizerKey of
        Some e \<Rightarrow> Inl (wrapf ''failed to register user finalizer: '' e)
      | None \<Rightarrow> (case cl_Complete L ''user'' of
            Some e \<Rightarrow> Inl e
          | None \<Rightarrow> Inr (UserReconciler (cl_userFinalizers L) K Z)))"

definition ProjectController_SetupWithManager ::
  "('w, 'c) controller_lib \<Rightarrow> 'w zitadel_api \<Rightarrow> go_error + 'w core_part" where
  "ProjectController_SetupWithManager L Z =
     (case cl_Register L projectFinalizerKey of
        Some e \<Rightarrow> Inl (wrapf ''register project finalizer: '' e)
      | None \<Rightarrow> (case cl_Complete L ''project'' of
            Some e \<Rightarrow> Inl e
          | None \<Rightarrow> Inr (ProjectReconciler (cl_projectFinalizers L) (cl_projects L) Z)))"

definition ServiceAccountController_SetupWithManager ::
  "('w, 'c) controller_lib \<Rightarrow> 'w zitadel_api \<Rightarrow> string \<Rightarrow> go_error + 'w sa_controller" where
  "ServiceAccountController_SetupWithManager L Z suffix =
     (case cl_Register L serviceAccountFinalizerKey of
        Some e \<Rightarrow> Inl (wrapf ''failed to register service account finalizer: '' e)
      | None \<Rightarrow> (case cl_Complete L ''serviceaccount'' of
            Some e \<Rightarrow> Inl e
          | None \<Rightarrow> Inr \<lparr>sac_Finalizers = cl_accountFinalizers L, sac_Zitadel = Z, sac_EmailAddressSuffix = suffix,
              sac_GetCluster = cl_GetCluster L, sac_runtime = cl_runtime L, sac_meta = cl_meta L\<rparr>))"

definition PlatformAccessController_SetupWithManager ::
  "('w, 'c) controller_lib \<Rightarrow> 'w kube \<Rightarrow> 'w rest_client \<Rightarrow> go_error + 'w core_part" where
  "PlatformAccessController_SetupWithManager L K Z =
     (case cl_Complete L ''platformaccess'' of
        Some e \<Rightarrow> Inl e
      | None \<Rightarrow> Inr (AccessReconciler \<lparr>pac_Client = cl_accesses L, pac_kube = K, pac_Zitadel = Z,
          pac_Suspended = cl_Suspended L, pac_runtime = cl_runtime L, pac_meta = cl_meta L\<rparr>))"

section \<open>The blocks of \<^verbatim>\<open>runController\<close>\<close>

text \<open>\<^verbatim>\<open>if err != nil { setupLog.Error(err, msg); os.Exit(1) }\<close>, for a call with a value and for one without.\<close>

definition must :: "string \<Rightarrow> go_error + 'a \<Rightarrow> ('a \<Rightarrow> string + 'b) \<Rightarrow> string + 'b" where
  "must msg r k = (case r of Inl e \<Rightarrow> Inl msg | Inr a \<Rightarrow> k a)"

definition must_do :: "string \<Rightarrow> go_error option \<Rightarrow> string + 'b \<Rightarrow> string + 'b" where
  "must_do msg e k = (case e of Some e \<Rightarrow> Inl msg | None \<Rightarrow> k)"

definition read_server_config :: "('w, 'c) controller_lib \<Rightarrow> controller_config \<Rightarrow> string + discovery_config" where
  "read_server_config L cfg =
     (case missing_option cfg of
        Some reason \<Rightarrow> Inl reason
      | None \<Rightarrow>
          must (''unable to read server config from '' @ Quote (cc_ServerConfigFile cfg)) (cl_ReadFile L (cc_ServerConfigFile cfg))
            (\<lambda>data. must ''unable to decode server config'' (cl_DecodeInto L data) Inr))"

definition base_tls_opts :: "controller_config \<Rightarrow> tls_option list" where
  "base_tls_opts cfg = (if \<not> cc_EnableHTTP2 cfg then [DisableHTTP2] else [])"

text \<open>The options of a server with its certificate directory, if it has one.\<close>

definition watched_tls ::
  "('w, 'c) controller_lib \<Rightarrow> string \<Rightarrow> tls_option list \<Rightarrow> string \<Rightarrow> string \<Rightarrow> string \<Rightarrow> string + tls_option list" where
  "watched_tls L msg opts path name key =
     (if length path > 0
      then must_do msg (cl_NewCertWatcher L (cl_Join L path name) (cl_Join L path key))
        (Inr (opts @ [GetCertificate (cl_Join L path name) (cl_Join L path key)]))
      else Inr opts)"

definition webhook_tls :: "('w, 'c) controller_lib \<Rightarrow> controller_config \<Rightarrow> string + tls_option list" where
  "webhook_tls L cfg = (let c = cc_Webhook cfg in
     watched_tls L ''Failed to initialize webhook certificate watcher'' (base_tls_opts cfg)
       (wc_CertPath c) (wc_CertName c) (wc_CertKey c))"

definition metrics_server_options :: "('w, 'c) controller_lib \<Rightarrow> controller_config \<Rightarrow> string + metrics_options" where
  "metrics_server_options L cfg = (let c = cc_Metrics cfg in
     case watched_tls L ''to initialize metrics certificate watcher'' (base_tls_opts cfg)
         (mc_CertPath c) (mc_CertName c) (mc_CertKey c) of
       Inl msg \<Rightarrow> Inl msg
     | Inr opts \<Rightarrow> Inr \<lparr>mt_BindAddress = mc_Addr c, mt_SecureServing = mc_SecureMetrics c,
         mt_Filtered = mc_SecureMetrics c, mt_TLSOpts = opts\<rparr>)"

definition upstream_config :: "('w, 'c) controller_lib \<Rightarrow> controller_config \<Rightarrow> string + 'c rest_config" where
  "upstream_config L cfg =
     (if cc_UpstreamClusterKubeconfig cfg \<noteq> []
      then must ''unable to load upstream kubeconfig'' (cl_BuildConfigFromFlags L (cc_UpstreamClusterKubeconfig cfg)) Inr
      else must ''unable to load default kubeconfig'' (cl_GetConfig L) Inr)"

text \<open>The clusters that run beside the manager and the provider; \<^verbatim>\<open>GetConfigOrDie\<close> exits by itself.\<close>

definition controller_clusters ::
  "('w, 'c) controller_lib \<Rightarrow> controller_config \<Rightarrow> discovery_config \<Rightarrow>
   string + runnable list \<times> 'c rest_config provider \<times> 'c rest_config" where
  "controller_clusters L cfg discovery =
     must ''unable to get kubeconfig'' (cl_GetConfig L) (\<lambda>deployment.
     must_do ''failed to construct downstream cluster'' (cl_NewCluster L deployment) (
     must ''unable to initialize cluster discovery''
       (initializeClusterDiscovery (cl_GetConfig L) (cl_BuildConfigFromFlags L) (cl_NewDiscoveryManager L)
          (cl_NewProvider L) (cl_mode_text L) discovery) (\<lambda>(runnables, provider).
     must ''failed to construct core control plane cluster config''
       (CoreControlPlaneRestConfig (cl_GetConfig L) (cl_BuildConfigFromFlags L) cfg) (\<lambda>core.
     must_do ''failed to construct core control plane cluster'' (cl_NewCluster L core) (
     Inr (runnables @ [CoreControlPlaneCluster], provider, core))))))"

definition controller_clients ::
  "('w, 'c) controller_lib \<Rightarrow> controller_config \<Rightarrow> ('w, string + 'w rest_client \<times> 'w sdk_client) state" where
  "controller_clients L cfg =
     (case cl_TokenSource L (zc_BaseURL (cc_Zitadel cfg)) (zc_MachineAccountKeyPath (cc_Zitadel cfg)) of
        Inl e \<Rightarrow> State_Monad.return (Inl ''unable to create token source'')
      | Inr tokenClient \<Rightarrow> do {
          r \<leftarrow> NewSDK (cl_Getenv L) (cl_dial L) (cl_runtime L) (controller_sdk_config cfg);
          State_Monad.return (must ''unable to create Zitadel SDK client'' r (\<lambda>sdk.
            Inr (NewClientWithTokenSource (cl_lib L) (zc_BaseURL (cc_Zitadel cfg)) (cl_NewRequest L) tokenClient, sdk)))
        })"

definition setup_controllers ::
  "('w, 'c) controller_lib \<Rightarrow> controller_config \<Rightarrow> 'w rest_client \<Rightarrow> 'w sdk_client \<Rightarrow>
   string + 'w sa_controller \<times> 'w core_part list" where
  "setup_controllers L cfg rest sdk = (let K = cl_kube L; Z = sdk_api sdk in
     must ''unable to create controller'' (ServiceAccountController_SetupWithManager L Z (cc_EmailAddressSuffix cfg)) (\<lambda>sa.
     must ''unable to create controller'' (ProjectController_SetupWithManager L Z) (\<lambda>projects.
     must ''unable to create controller'' (PlatformAccessController_SetupWithManager L K rest) (\<lambda>access.
     must ''unable to create controller'' (UserController_SetupWithManager L K rest) (\<lambda>users.
     must_do ''unable to add abandoned-account GC'' (cl_Add L ''AbandonedUserGC'') (
     must_do ''unable to add user sweeper'' (cl_Add L ''UserSweeper'') (
     must_do ''unable to set up core control plane manager'' (cl_Add L ''coreControlPlaneRunnable'') (
     Inr (sa, [projects, access, users, Collector (controller_gc cfg K sdk (GC_now None (Now (cl_runtime L)))),
       Sweeper (controller_sweeper cfg K sdk (cl_runtime L) (cl_retry L))])))))))))"

text \<open>
  The command up to \<^verbatim>\<open>runUntilManagerStops\<close>. Inl is the process that exits; the blocks before the clients are
  free of effects here.
\<close>

definition controller_managers ::
  "('w, 'c) controller_lib \<Rightarrow> controller_config \<Rightarrow>
   string + tls_option list \<times> metrics_options \<times> 'c leader_options \<times> runnable list \<times> 'c rest_config provider" where
  "controller_managers L cfg =
     (case read_server_config L cfg of Inl msg \<Rightarrow> Inl msg | Inr discovery \<Rightarrow>
     (case webhook_tls L cfg of Inl msg \<Rightarrow> Inl msg | Inr webhookTLS \<Rightarrow>
     (case metrics_server_options L cfg of Inl msg \<Rightarrow> Inl msg | Inr metrics \<Rightarrow>
     (case upstream_config L cfg of Inl msg \<Rightarrow> Inl msg | Inr upstream \<Rightarrow>
     (case controller_clusters L cfg discovery of Inl msg \<Rightarrow> Inl msg | Inr (runnables, provider, core) \<Rightarrow>
        (let leader = applyLeaderElection (manager_leader_options cfg) (cc_LeaderElection cfg) upstream in
         must_do ''unable to start multicluster manager'' (cl_NewMultiManager L upstream leader) (
         must_do ''unable to create core control plane manager'' (cl_NewManager L core) (
         Inr (webhookTLS, metrics, leader, runnables, provider)))))))))"

definition runController ::
  "('w, 'c) controller_lib \<Rightarrow> controller_config \<Rightarrow> ('w, string + ('w, 'c) controller_process) state" where
  "runController L cfg =
     (case controller_managers L cfg of
        Inl msg \<Rightarrow> State_Monad.return (Inl msg)
      | Inr (webhookTLS, metrics, leader, runnables, provider) \<Rightarrow> do {
          clients \<leftarrow> controller_clients L cfg;
          State_Monad.return (case clients of
              Inl msg \<Rightarrow> Inl msg
            | Inr (rest, sdk) \<Rightarrow>
                (case setup_controllers L cfg rest sdk of
                   Inl msg \<Rightarrow> Inl msg
                 | Inr (sa, core) \<Rightarrow>
                     must_do ''unable to set up health check'' (cl_AddHealthzCheck L) (
                     must_do ''unable to set up ready check'' (cl_AddReadyzCheck L) (
                     Inr \<lparr>cp_webhookTLS = webhookTLS, cp_metrics = metrics, cp_probe = cc_ProbeAddr cfg, cp_leader = leader,
                       cp_provider = provider, cp_serviceAccounts = sa, cp_core = core, cp_workers = runnables\<rparr>))))
        })"

end
