(* ===== verification/Start_Properties.thy ===== *)
theory Start_Properties
  imports Controller_Start
begin

text \<open>
  Properties of the controller command: how the process that runs is configured.
\<close>

section \<open>What a started controller has\<close>

lemma must_Inr [simp]: "must msg r k = Inr b \<longleftrightarrow> (\<exists>a. r = Inr a \<and> k a = Inr b)"
  by (simp add: must_def split: sum.splits)

lemma must_do_Inr [simp]: "must_do msg e k = Inr b \<longleftrightarrow> e = None \<and> k = Inr b"
  by (simp add: must_do_def split: option.splits)

lemma sum_case_Inr:
  "(case r of Inl msg \<Rightarrow> Inl msg | Inr a \<Rightarrow> k a) = Inr b \<longleftrightarrow> (\<exists>a. r = Inr a \<and> k a = Inr b)"
  by (simp split: sum.splits)

lemma watched_tls_ok:
  assumes "watched_tls L msg (base_tls_opts cfg) path name key = Inr opts"
  shows "tls_of opts = \<lparr>tc_NextProtos = (if cc_EnableHTTP2 cfg then None else Some [''http/1.1'']),
    tc_Certificate = (if path = [] then None else Some (cl_Join L path name, cl_Join L path key))\<rparr>"
  using assms by (auto simp: watched_tls_def base_tls_opts_def tls_of_def split: if_splits)

lemma metrics_server_options_ok:
  assumes "metrics_server_options L cfg = Inr m"
  shows "mt_Filtered m = mc_SecureMetrics (cc_Metrics cfg)" "mt_SecureServing m = mc_SecureMetrics (cc_Metrics cfg)"
    "\<exists>msg. watched_tls L msg (base_tls_opts cfg) (mc_CertPath (cc_Metrics cfg)) (mc_CertName (cc_Metrics cfg))
      (mc_CertKey (cc_Metrics cfg)) = Inr (mt_TLSOpts m)"
  using assms by (auto simp: metrics_server_options_def Let_def split: sum.splits)

lemma controller_clusters_ok:
  assumes "controller_clusters L cfg d = Inr (runnables, provider, core)"
  shows "dc_Mode d \<in> {ProviderSingle, ProviderMilo}" and "{DeploymentCluster, CoreControlPlaneCluster} \<subseteq> set runnables"
  using assms
  by (auto simp: controller_clusters_def initializeClusterDiscovery_def
      split: discovery_mode.splits sum.splits option.splits)

lemma setup_controllers_ok:
  assumes "setup_controllers L cfg rest sdk = Inr (sa, core)"
  shows "Collector g \<in> set core \<longleftrightarrow> g = controller_gc cfg (cl_kube L) sdk (GC_now None (Now (cl_runtime L)))"
    and "sac_Zitadel sa = sdk_api sdk" "sac_EmailAddressSuffix sa = cc_EmailAddressSuffix cfg"
  using assms
  by (auto simp: setup_controllers_def Let_def ServiceAccountController_SetupWithManager_def
      ProjectController_SetupWithManager_def PlatformAccessController_SetupWithManager_def
      UserController_SetupWithManager_def split: option.splits)

lemma runController_ok:
  assumes "run_state (runController L cfg) w = (Inr s, w')"
  shows "\<exists>d upstream core rest sdk. read_server_config L cfg = Inr d \<and> webhook_tls L cfg = Inr (cp_webhookTLS s) \<and>
    metrics_server_options L cfg = Inr (cp_metrics s) \<and> upstream_config L cfg = Inr upstream \<and>
    controller_clusters L cfg d = Inr (cp_workers s, cp_provider s, core) \<and>
    cp_leader s = applyLeaderElection (manager_leader_options cfg) (cc_LeaderElection cfg) upstream \<and>
    run_state (controller_clients L cfg) w = (Inr (rest, sdk), w') \<and>
    setup_controllers L cfg rest sdk = Inr (cp_serviceAccounts s, cp_core s)"
  using assms
  by (auto simp: runController_def controller_managers_def Let_def sum_case_Inr split: sum.splits prod.splits)

lemma read_server_config_ok:
  "read_server_config L cfg = Inr d \<Longrightarrow>
     missing_option cfg = None \<and> (\<exists>data. cl_ReadFile L (cc_ServerConfigFile cfg) = Inr data \<and> cl_DecodeInto L data = Inr d)"
  by (auto simp: read_server_config_def split: option.splits)

text \<open>C14. A controller process that reaches its group: the required options were given and the configuration file
  names one of the two discovery modes (an unset mode is not defaulted, as its documentation says, but
  exits the process). Unless HTTP/2 was enabled both servers offer HTTP/1.1 only, each has the
  certificate of its own directory if it was given one, and a metrics endpoint served securely
  authenticates and authorizes. The lease, when enabled, has a client of its own with its own rate limit.
  The clusters that run beside the manager include both control planes. The one collector works with the
  retention, interval and dry-run of the flags, through the client that the
  controllers of service accounts use.\<close>

theorem started_controller_is_configured:
  assumes "run_state (runController L cfg) w = (Inr s, w')"
  shows "missing_option cfg = None \<and>
    (\<exists>data d. cl_ReadFile L (cc_ServerConfigFile cfg) = Inr data \<and> cl_DecodeInto L data = Inr d \<and>
       dc_Mode d \<in> {ProviderSingle, ProviderMilo}) \<and>
    tls_of (cp_webhookTLS s) = \<lparr>tc_NextProtos = (if cc_EnableHTTP2 cfg then None else Some [''http/1.1'']),
      tc_Certificate = (let c = cc_Webhook cfg in if wc_CertPath c = [] then None
        else Some (cl_Join L (wc_CertPath c) (wc_CertName c), cl_Join L (wc_CertPath c) (wc_CertKey c)))\<rparr> \<and>
    tls_of (mt_TLSOpts (cp_metrics s)) = \<lparr>tc_NextProtos = (if cc_EnableHTTP2 cfg then None else Some [''http/1.1'']),
      tc_Certificate = (let c = cc_Metrics cfg in if mc_CertPath c = [] then None
        else Some (cl_Join L (mc_CertPath c) (mc_CertName c), cl_Join L (mc_CertPath c) (mc_CertKey c)))\<rparr> \<and>
    (mt_SecureServing (cp_metrics s) \<longrightarrow> mt_Filtered (cp_metrics s)) \<and>
    (le_Enabled (cc_LeaderElection cfg) \<longrightarrow> (\<exists>c. lopt_Config (cp_leader s) = Some c \<and> rcf_RateLimiter c = None \<and>
       rcf_QPS c = 5 \<and> rcf_Burst c = 10)) \<and>
    {DeploymentCluster, CoreControlPlaneCluster} \<subseteq> set (cp_workers s) \<and>
    (\<exists>!g. Collector g \<in> set (cp_core s)) \<and>
    (\<forall>g. Collector g \<in> set (cp_core s) \<longrightarrow> gc_DryRun g = cc_AbandonedAccountGCDryRun cfg \<and>
       gc_Retention g = cc_AbandonedAccountRetention cfg \<and> gc_Interval g = cc_AbandonedAccountGCInterval cfg \<and>
       gc_Zitadel g = sac_Zitadel (cp_serviceAccounts s))"
proof -
  from runController_ok [OF assms] obtain d upstream core rest sdk where
    read: "read_server_config L cfg = Inr d" and web: "webhook_tls L cfg = Inr (cp_webhookTLS s)"
    and met: "metrics_server_options L cfg = Inr (cp_metrics s)"
    and clusters: "controller_clusters L cfg d = Inr (cp_workers s, cp_provider s, core)"
    and leader: "cp_leader s = applyLeaderElection (manager_leader_options cfg) (cc_LeaderElection cfg) upstream"
    and ctrls: "setup_controllers L cfg rest sdk = Inr (cp_serviceAccounts s, cp_core s)" by blast
  note parts = setup_controllers_ok [OF ctrls]
  from metrics_server_options_ok(3) [OF met] obtain msg where m: "watched_tls L msg (base_tls_opts cfg)
    (mc_CertPath (cc_Metrics cfg)) (mc_CertName (cc_Metrics cfg)) (mc_CertKey (cc_Metrics cfg)) = Inr (mt_TLSOpts (cp_metrics s))" ..
  have lease: "le_Enabled (cc_LeaderElection cfg) \<longrightarrow> (\<exists>c. lopt_Config (cp_leader s) = Some c \<and> rcf_RateLimiter c = None \<and>
       rcf_QPS c = 5 \<and> rcf_Burst c = 10)"
    by (simp add: leader applyLeaderElection_def leaderElectionRestConfig_def leaderElectionQPS_def leaderElectionBurst_def)
  have collector: "Collector g \<in> set (cp_core s) \<longrightarrow> gc_DryRun g = cc_AbandonedAccountGCDryRun cfg \<and>
       gc_Retention g = cc_AbandonedAccountRetention cfg \<and> gc_Interval g = cc_AbandonedAccountGCInterval cfg \<and>
       gc_Zitadel g = sac_Zitadel (cp_serviceAccounts s)" for g
    by (simp add: parts(1,2) controller_gc_def)
  have conf: "missing_option cfg = None" "\<exists>data d. cl_ReadFile L (cc_ServerConfigFile cfg) = Inr data \<and>
      cl_DecodeInto L data = Inr d \<and> dc_Mode d \<in> {ProviderSingle, ProviderMilo}"
    using read_server_config_ok [OF read] controller_clusters_ok(1) [OF clusters] by blast+
  have filtered: "mt_SecureServing (cp_metrics s) \<longrightarrow> mt_Filtered (cp_metrics s)"
    using metrics_server_options_ok(1,2) [OF met] by simp
  have one: "\<exists>!g. Collector g \<in> set (cp_core s)" by (simp add: parts(1))
  show ?thesis unfolding Let_def
    by (intro conjI allI conf filtered one lease collector controller_clusters_ok(2) [OF clusters]
        watched_tls_ok [OF web [unfolded webhook_tls_def Let_def]] watched_tls_ok [OF m])
qed

text \<open>A process on libraries where every step succeeds.\<close>

definition calm_objects :: "(unit, 'o) object_client" where
  "calm_objects = \<lparr>oc_Get = (\<lambda>n. State_Monad.return (Inl not_found)), oc_Update = (\<lambda>x. State_Monad.return None),
     oc_UpdateStatus = (\<lambda>x. State_Monad.return None), oc_PatchStatus = (\<lambda>x y f. State_Monad.return None)\<rparr>"

definition calm_finalizers :: "(unit, 'o) finalizers" where
  "calm_finalizers key cleanup obj = State_Monad.return (Inr (False, obj))"

definition calm_config :: "unit rest_config" where
  "calm_config = \<lparr>rcf_RateLimiter = Some ''shared'', rcf_QPS = 20, rcf_Burst = 30, rcf_Dial = None, rcf_other = ()\<rparr>"

definition calm_lib :: "(unit, unit) controller_lib" where
  "calm_lib =
     \<lparr>cl_ReadFile = (\<lambda>p. Inr ''mode: single''),
      cl_DecodeInto = (\<lambda>t. Inr \<lparr>dc_Mode = ProviderSingle, dc_InternalServiceDiscovery = False,
        dc_DiscoveryKubeconfigPath = [], dc_ProjectKubeconfigPath = []\<rparr>),
      cl_Join = (\<lambda>d f. d @ ''/'' @ f), cl_NewCertWatcher = (\<lambda>c k. None), cl_GetConfig = Inr calm_config,
      cl_BuildConfigFromFlags = (\<lambda>p. Inr calm_config), cl_NewCluster = (\<lambda>c. None), cl_NewDiscoveryManager = None,
      cl_NewProvider = None, cl_mode_text = (\<lambda>m. []), cl_NewMultiManager = (\<lambda>c l. None), cl_NewManager = (\<lambda>c. None),
      cl_TokenSource = (\<lambda>u k. Inr (\<lambda>m p b. State_Monad.return (Inl not_found))), cl_NewRequest = (\<lambda>m p. None),
      cl_Getenv = (\<lambda>v. []), cl_dial = (\<lambda>h p i k. State_Monad.return (Inr (down_grpc not_found))), cl_lib = table_lib [],
      cl_runtime = \<lparr>Now = State_Monad.return 0, NewUUID = State_Monad.return [], Sleep = (\<lambda>d. State_Monad.return ())\<rparr>,
      cl_retry = (\<lambda>m. m), cl_meta = \<lparr>FindStatusCondition = (\<lambda>cs t. None), SetStatusCondition = (\<lambda>cs c. c # cs)\<rparr>,
      cl_Suspended = ''Suspended'', cl_kube = down_kube not_found, cl_projects = calm_objects, cl_accesses = calm_objects,
      cl_GetCluster = (\<lambda>n. State_Monad.return (Inr calm_objects)), cl_userFinalizers = calm_finalizers,
      cl_projectFinalizers = calm_finalizers, cl_accountFinalizers = calm_finalizers, cl_Register = (\<lambda>k. None),
      cl_Complete = (\<lambda>n. None), cl_Add = (\<lambda>n. None), cl_AddHealthzCheck = None, cl_AddReadyzCheck = None\<rparr>"

definition calm_flags :: controller_config where
  "calm_flags = (register_controller_flags NewControllerConfig)\<lparr>cc_ServerConfigFile := ''config.yaml'',
     cc_Zitadel := \<lparr>zc_BaseURL = ''https://a'', zc_MachineAccountKeyPath = ''k.json'', zc_SDKDomain = [], zc_SDKIssuer = [],
       zc_DefaultMachineKeyExpiration = 0\<rparr>\<rparr>"

lemma calm_lib_simps:
  "cl_ReadFile calm_lib p = Inr ''mode: single''"
  "\<exists>d. cl_DecodeInto calm_lib t = Inr d \<and> dc_Mode d = ProviderSingle"
  "cl_GetConfig calm_lib = Inr calm_config" "cl_NewCluster calm_lib c = None" "cl_NewMultiManager calm_lib c l = None"
  "cl_NewManager calm_lib c = None" "\<exists>k. cl_TokenSource calm_lib u key = Inr k" "cl_Getenv calm_lib = (\<lambda>v. [])"
  "cl_dial calm_lib h n x key = State_Monad.return (Inr (down_grpc not_found))"
  "cl_Register calm_lib key = None" "cl_Complete calm_lib n' = None" "cl_Add calm_lib n' = None"
  "cl_AddHealthzCheck calm_lib = None" "cl_AddReadyzCheck calm_lib = None"
  by (simp_all add: calm_lib_def)

lemma calm_flags_simps:
  "missing_option calm_flags = None" "wc_CertPath (cc_Webhook calm_flags) = []" "mc_CertPath (cc_Metrics calm_flags) = []"
  "cc_UpstreamClusterKubeconfig calm_flags = []" "cc_CoreControlPlaneKubeconfig calm_flags = []"
  by (simp_all add: calm_flags_def register_controller_flags_def NewControllerConfig_def missing_option_def)

lemma calm_flags_dry: "cc_AbandonedAccountGCDryRun calm_flags" "\<not> cc_EnableHTTP2 calm_flags"
  by (simp_all add: calm_flags_def register_controller_flags_def NewControllerConfig_def)

lemma calm_managers: "\<exists>x. controller_managers calm_lib calm_flags = Inr x"
proof -
  obtain d where d: "read_server_config calm_lib calm_flags = Inr d" "dc_Mode d = ProviderSingle"
    using calm_lib_simps(2) [of "''mode: single''"] by (auto simp: read_server_config_def calm_flags_simps(1) calm_lib_simps(1) must_def)
  moreover have "\<exists>r p c. controller_clusters calm_lib calm_flags d = Inr (r, p, c)"
    by (simp add: controller_clusters_def initializeClusterDiscovery_def d(2) CoreControlPlaneRestConfig_def rest_config_for_def
        calm_lib_simps calm_flags_simps)
  moreover have "\<exists>x. webhook_tls calm_lib calm_flags = Inr x" "\<exists>x. metrics_server_options calm_lib calm_flags = Inr x"
    "\<exists>x. upstream_config calm_lib calm_flags = Inr x"
    by (simp_all add: webhook_tls_def metrics_server_options_def upstream_config_def watched_tls_def Let_def calm_flags_simps
        calm_lib_simps)
  ultimately show ?thesis by (auto simp: controller_managers_def Let_def must_do_def calm_lib_simps)
qed

lemma calm_start: "\<exists>s w'. run_state (runController calm_lib calm_flags) () = (Inr s, w')"
proof -
  have "controller_sdk_config calm_flags = \<lparr>sc_Domain = ''https://a'', sc_Issuer = ''https://a'', sc_KeyPath = ''k.json'',
      sc_DefaultMachineKeyExpiration = 0\<rparr>"
    by (simp add: calm_flags_def controller_sdk_config_def)
  moreover have "sdk_target (\<lambda>v. []) \<lparr>sc_Domain = ''https://a'', sc_Issuer = ''https://a'', sc_KeyPath = ''k.json'',
      sc_DefaultMachineKeyExpiration = 0\<rparr> = Inr (''a'', 0, \<lparr>sc_Domain = ''https://a'', sc_Issuer = ''https://a'',
      sc_KeyPath = ''k.json'', sc_DefaultMachineKeyExpiration = 0\<rparr>)" by code_simp
  moreover obtain k where
    "cl_TokenSource calm_lib (zc_BaseURL (cc_Zitadel calm_flags)) (zc_MachineAccountKeyPath (cc_Zitadel calm_flags)) = Inr k"
    using calm_lib_simps(7) by blast
  ultimately have "\<exists>rest sdk. run_state (controller_clients calm_lib calm_flags) () = (Inr (rest, sdk), ())"
    by (simp add: controller_clients_def NewSDK_def calm_lib_simps(8,9) must_def)
  then obtain rest sdk where "run_state (controller_clients calm_lib calm_flags) () = (Inr (rest, sdk), ())" by blast
  moreover have "\<exists>sa core. setup_controllers calm_lib calm_flags rest sdk = Inr (sa, core)"
    by (simp add: setup_controllers_def Let_def ServiceAccountController_SetupWithManager_def ProjectController_SetupWithManager_def
        PlatformAccessController_SetupWithManager_def UserController_SetupWithManager_def calm_lib_simps)
  moreover note calm_managers
  ultimately show ?thesis by (auto simp: runController_def must_do_def calm_lib_simps split: prod.splits)
qed

theorem started_controller_is_configured_witness:
  "\<exists>s w'. run_state (runController calm_lib calm_flags) () = (Inr s, w') \<and>
     tc_NextProtos (tls_of (cp_webhookTLS s)) = Some [''http/1.1''] \<and> (\<forall>g. Collector g \<in> set (cp_core s) \<longrightarrow> gc_DryRun g)"
proof -
  obtain s w' where run: "run_state (runController calm_lib calm_flags) () = (Inr s, w')" using calm_start by blast
  from started_controller_is_configured [OF run]
  have "tls_of (cp_webhookTLS s) = \<lparr>tc_NextProtos = Some [''http/1.1''], tc_Certificate = None\<rparr>"
    "\<forall>g. Collector g \<in> set (cp_core s) \<longrightarrow> gc_DryRun g"
    by (simp_all add: calm_flags_simps calm_flags_dry)
  with run show ?thesis by auto
qed

end
