(* ===== verification/Identity_Api.thy ===== *)
theory Identity_Api
  imports Zitadel_Rest Zitadel_Api Milo_Api "HOL-Library.AList"
begin

text \<open>
  internal/apiserver/identity: the REST storage of the identity API server. This theory holds the
  shared authorization helpers (utils/utils.go), the three read-only or nearly read-only resources
  (sessions, useridentities, passkeys) and the interface they share. The API server itself, its
  table convertors and the review of access by Milo are library code or other services; a review is
  an action of the storage.
\<close>

section \<open>API errors\<close>

definition NewUnauthorized :: "string \<Rightarrow> go_error" where
  "NewUnauthorized reason = GoErr KUnauthorized reason"

definition NewBadRequest :: "string \<Rightarrow> go_error" where
  "NewBadRequest reason = GoErr KBadRequest reason"

definition NewServiceUnavailable :: "string \<Rightarrow> go_error" where
  "NewServiceUnavailable reason = GoErr KServiceUnavailable reason"

definition NewTooManyRequests :: "string \<Rightarrow> go_error" where
  "NewTooManyRequests message = GoErr KTooManyRequests message"

definition NewInternalError :: "go_error \<Rightarrow> go_error" where
  "NewInternalError e = GoErr KInternal (''Internal error occurred: '' @ Error e)"

definition identity_group :: string where
  "identity_group = ''identity.miloapis.com''"

text \<open>The cause of a refusal may be nil.\<close>

definition NewForbidden :: "string \<Rightarrow> string \<Rightarrow> string option \<Rightarrow> go_error" where
  "NewForbidden resource name cause =
     GoErr KForbidden (resource @ ''.'' @ identity_group @
       (if name = [] then [] else '' '' @ Quote name) @ '' is forbidden: '' @
       (case cause of None \<Rightarrow> ''<nil>'' | Some c \<Rightarrow> c))"

text \<open>
  \<^verbatim>\<open>translateErr\<close>, which every resource has a copy of; two of them also translate an invalid argument, given
  the description of the status.
\<close>

definition translate_status :: "string \<Rightarrow> (string \<Rightarrow> go_error option) \<Rightarrow> go_error \<Rightarrow> string \<Rightarrow> go_error" where
  "translate_status resource invalid e name =
     (case FromError e of
        None \<Rightarrow> e
      | Some (c, msg) \<Rightarrow>
          (case c of
             NotFound \<Rightarrow> NewNotFound identity_group resource name
           | PermissionDenied \<Rightarrow> NewForbidden resource name None
           | Unauthenticated \<Rightarrow> NewUnauthorized ''unauthenticated''
           | InvalidArgument \<Rightarrow> (case invalid msg of Some b \<Rightarrow> b | None \<Rightarrow> NewInternalError e)
           | DeadlineExceeded \<Rightarrow> NewServiceUnavailable ''zitadel unavailable''
           | Unavailable \<Rightarrow> NewServiceUnavailable ''zitadel unavailable''
           | _ \<Rightarrow> NewInternalError e))"

definition sessions_translateErr :: "go_error \<Rightarrow> string \<Rightarrow> go_error" where
  "sessions_translateErr e name = translate_status ''sessions'' (\<lambda>_. None) e name"

definition passkeys_translateErr :: "go_error \<Rightarrow> string \<Rightarrow> go_error" where
  "passkeys_translateErr e name = translate_status ''passkeys'' (\<lambda>_. None) e name"

definition identities_translateErr :: "go_error \<Rightarrow> string \<Rightarrow> go_error" where
  "identities_translateErr e name = translate_status ''useridentities'' (\<lambda>_. None) e name"

section \<open>utils/utils.go\<close>

record user_info =
  ui_Name :: string
  ui_UID :: string
  ui_Groups :: "string list"
  ui_Extra :: "(string \<times> string list) list"

record access_review =
  sar_User :: string
  sar_UID :: string
  sar_Groups :: "string list"
  sar_Extra :: "(string \<times> string list) list"
  sar_Verb :: string
  sar_Group :: string
  sar_Resource :: string
  sar_Name :: string

text \<open>The reviewer: it answers whether the access is allowed.\<close>

type_synonym 'w reviewer = "access_review \<Rightarrow> ('w, go_error + bool) state"

text \<open>What the sources ask of a field selector.\<close>

record field_selector =
  fs_Empty :: bool
  fs_RequiresExactMatch :: "string \<Rightarrow> string option"

definition ExtractUserUIDFromFieldSelector :: "field_selector option \<Rightarrow> go_error + string" where
  "ExtractUserUIDFromFieldSelector selector =
     (case selector of
        None \<Rightarrow> Inl (errorf ''empty field selector'')
      | Some s \<Rightarrow>
          if fs_Empty s then Inl (errorf ''empty field selector'')
          else (case fs_RequiresExactMatch s ''status.userUID'' of
              Some v \<Rightarrow> Inr v
            | None \<Rightarrow> Inl (errorf ''status.userUID not found in field selector'')))"

text \<open>Extras are association lists with one entry for a key; the copy of an empty map is nil, here the same list.\<close>

definition toAuthzExtra :: "(string \<times> string list) list \<Rightarrow> (string \<times> string list) list" where
  "toAuthzExtra extra = (if length extra = 0 then [] else map (\<lambda>(k, v). (k, v)) extra)"

lemma toAuthzExtra_id [simp]: "toAuthzExtra extra = extra"
  by (simp add: toAuthzExtra_def)

definition CanGetUser :: "'w reviewer option \<Rightarrow> user_info option \<Rightarrow> string \<Rightarrow> ('w, go_error + bool) state" where
  "CanGetUser sar caller targetUID =
     (case sar of
        None \<Rightarrow> State_Monad.return (Inl (errorf ''no SubjectAccessReviewer configured''))
      | Some create \<Rightarrow>
          (case caller of
             None \<Rightarrow> State_Monad.return (Inl (errorf ''no caller info in context''))
           | Some u \<Rightarrow> do {
               r \<leftarrow> create \<lparr>sar_User = ui_Name u, sar_UID = ui_UID u, sar_Groups = ui_Groups u,
                 sar_Extra = toAuthzExtra (ui_Extra u), sar_Verb = ''get'', sar_Group = ''iam.miloapis.com'', sar_Resource = ''users'', sar_Name = targetUID\<rparr>;
               State_Monad.return (case r of Inl e \<Rightarrow> Inl (wrapf ''subjectaccessreview against milo: '' e) | Inr b \<Rightarrow> Inr b)
             }))"

definition link_review :: "user_info \<Rightarrow> string \<Rightarrow> access_review" where
  "link_review u targetUserName =
     \<lparr>sar_User = ui_Name u, sar_UID = ui_UID u, sar_Groups = ui_Groups u,
      sar_Extra = AList.update ''iam.miloapis.com/parent-name'' [targetUserName]
        (AList.update ''iam.miloapis.com/parent-type'' [''User''] (toAuthzExtra (ui_Extra u))),
      sar_Verb = ''create'', sar_Group = ''identity.miloapis.com'', sar_Resource = ''passkeyregistrationlinks'',
      sar_Name = targetUserName\<rparr>"

definition CanCreatePasskeyRegistrationLink ::
  "'w reviewer option \<Rightarrow> user_info option \<Rightarrow> string \<Rightarrow> ('w, go_error + bool) state" where
  "CanCreatePasskeyRegistrationLink sar caller targetUserName =
     (case sar of
        None \<Rightarrow> State_Monad.return (Inl (errorf ''no SubjectAccessReviewer configured''))
      | Some create \<Rightarrow>
          (case caller of
             None \<Rightarrow> State_Monad.return (Inl (errorf ''no caller info in context''))
           | Some u \<Rightarrow> do {
               r \<leftarrow> create (link_review u targetUserName);
               State_Monad.return (case r of Inl e \<Rightarrow> Inl (wrapf ''subjectaccessreview against milo: '' e) | Inr b \<Rightarrow> Inr b)
             }))"

section \<open>The target of a list\<close>

record 'w identity_rest =
  ir_Z :: "'w zitadel_api"
  ir_MiloSAR :: "'w reviewer option"
  ir_runtime :: "'w runtime"

text \<open>
  The head of the three \<^verbatim>\<open>List\<close> methods: whose entries are listed. The texts differ in one word (the
  second argument, with its plural).
\<close>

definition list_target ::
  "string \<Rightarrow> string \<Rightarrow> string \<Rightarrow> 'w identity_rest \<Rightarrow> user_info \<Rightarrow> field_selector option \<Rightarrow> ('w, go_error + string) state" where
  "list_target resource one many R u selector =
     (case ExtractUserUIDFromFieldSelector selector of
        Inl _ \<Rightarrow> State_Monad.return (Inr (ui_UID u))
      | Inr targetUID \<Rightarrow>
          if targetUID = [] \<or> targetUID = ui_UID u then State_Monad.return (Inr (ui_UID u))
          else if ir_MiloSAR R = None
          then State_Monad.return (Inl (NewForbidden resource []
            (Some (''cross-user '' @ one @ '' lookup requires the apiserver to be configured with a milo kubeconfig''))))
          else do {
            allowed \<leftarrow> CanGetUser (ir_MiloSAR R) (Some u) targetUID;
            State_Monad.return (case allowed of
                Inl e \<Rightarrow> Inl (NewInternalError e)
              | Inr False \<Rightarrow> Inl (NewForbidden resource []
                  (Some (''not authorized to query '' @ many @ '' for user '' @ Quote targetUID @
                    '' (requires get on iam.miloapis.com/users)'')))
              | Inr True \<Rightarrow> Inr targetUID)
          })"

section \<open>sessions/rest.go\<close>

record milo_session =
  mse_Name :: string
  mse_CreationTimestamp :: "int option"
  mse_Annotations :: "(string \<times> string) list"
  mse_UserUID :: string
  mse_Provider :: string
  mse_IP :: string
  mse_FingerprintID :: string
  mse_CreatedAt :: int
  mse_LastUpdatedAt :: "int option"
  mse_UserAgent :: string

definition metadataAnnotationKeys :: "(string \<times> string) list" where
  "metadataAnnotationKeys = [(''maxmind/tracking-token'', ''iam.miloapis.com/maxmind-tracking-token'')]"

definition sessionAnnotations :: "(string \<times> string) list \<Rightarrow> (string \<times> string) list" where
  "sessionAnnotations metadata =
     List.map_filter (\<lambda>(src, dst). case map_of metadata src of
         Some v \<Rightarrow> if v \<noteq> [] then Some (dst, v) else None
       | None \<Rightarrow> None) metadataAnnotationKeys"

definition timeToMeta :: "int option \<Rightarrow> int option" where
  "timeToMeta t = (case t of None \<Rightarrow> None | Some x \<Rightarrow> Some x)"

definition toMiloSession :: "session \<Rightarrow> string \<Rightarrow> int option \<Rightarrow> milo_session" where
  "toMiloSession s uid created =
     \<lparr>mse_Name = sess_ID s, mse_CreationTimestamp = created, mse_Annotations = sessionAnnotations (sess_Metadata s),
      mse_UserUID = uid, mse_Provider = ''zitadel'', mse_IP = sess_IP s, mse_FingerprintID = sess_FingerprintID s,
      mse_CreatedAt = sess_CreatedAt s, mse_LastUpdatedAt = timeToMeta (sess_LastUpdated s), mse_UserAgent = sess_UserAgent s\<rparr>"

definition no_user :: go_error where
  "no_user = NewUnauthorized ''no user in context''"

text \<open>From the resolved user on.\<close>

definition session_entries :: "'w identity_rest \<Rightarrow> string \<Rightarrow> ('w, go_error + milo_session list) state" where
  "session_entries R uid = do {
     zs \<leftarrow> ListSessions (ir_Z R) uid;
     (case zs of
        Inl e \<Rightarrow> State_Monad.return (Inl (sessions_translateErr e []))
      | Inr zs \<Rightarrow> do {
          now \<leftarrow> Now (ir_runtime R);
          State_Monad.return (Inr (map (\<lambda>s. toMiloSession s uid (Some now)) zs))
        })
   }"

definition Sessions_List ::
  "'w identity_rest \<Rightarrow> user_info option \<Rightarrow> field_selector option \<Rightarrow> ('w, go_error + milo_session list) state" where
  "Sessions_List R caller selector =
     (case caller of
        None \<Rightarrow> State_Monad.return (Inl no_user)
      | Some u \<Rightarrow> do {
          t \<leftarrow> list_target ''sessions'' ''session'' ''sessions'' R u selector;
          (case t of
             Inl e \<Rightarrow> State_Monad.return (Inl e)
           | Inr uid \<Rightarrow> session_entries R uid)
        })"

definition Sessions_Get :: "'w identity_rest \<Rightarrow> user_info option \<Rightarrow> string \<Rightarrow> ('w, go_error + milo_session) state" where
  "Sessions_Get R caller name =
     (case caller of
        None \<Rightarrow> State_Monad.return (Inl no_user)
      | Some u \<Rightarrow> do {
          r \<leftarrow> GetSession (ir_Z R) name;
          State_Monad.return (case r of
              Inl e \<Rightarrow> Inl (sessions_translateErr e name)
            | Inr s \<Rightarrow>
                if sess_UserID s \<noteq> ui_UID u then Inl (NewForbidden ''sessions'' name (Some ''not owner''))
                else Inr (toMiloSession s (sess_UserID s) None))
        })"

definition Sessions_Delete :: "'w identity_rest \<Rightarrow> user_info option \<Rightarrow> string \<Rightarrow> ('w, go_error option) state" where
  "Sessions_Delete R caller name =
     (case caller of
        None \<Rightarrow> State_Monad.return (Some no_user)
      | Some u \<Rightarrow> do {
          e \<leftarrow> DeleteSession (ir_Z R) (ui_UID u) name;
          State_Monad.return (map_option (\<lambda>e. sessions_translateErr e name) e)
        })"

section \<open>passkeys/rest.go\<close>

record milo_passkey =
  mp_Name :: string
  mp_CreationTimestamp :: int
  mp_UserUID :: string
  mp_DisplayName :: string
  mp_State :: string

definition passkeyState :: "string \<Rightarrow> string" where
  "passkeyState raw = (if raw = ''AUTH_FACTOR_STATE_READY'' then ''Active'' else ''Inactive'')"

definition toMiloPasskey :: "'w identity_rest \<Rightarrow> passkey \<Rightarrow> string \<Rightarrow> ('w, milo_passkey) state" where
  "toMiloPasskey R p uid = do {
     now \<leftarrow> Now (ir_runtime R);
     State_Monad.return \<lparr>mp_Name = pk_ID p, mp_CreationTimestamp = now, mp_UserUID = uid, mp_DisplayName = pk_Name p,
       mp_State = passkeyState (pk_State p)\<rparr>
   }"

fun toMiloPasskeys :: "'w identity_rest \<Rightarrow> passkey list \<Rightarrow> string \<Rightarrow> ('w, milo_passkey list) state" where
  "toMiloPasskeys R [] uid = State_Monad.return []"
| "toMiloPasskeys R (p # ps) uid = do {
     m \<leftarrow> toMiloPasskey R p uid;
     ms \<leftarrow> toMiloPasskeys R ps uid;
     State_Monad.return (m # ms)
   }"

text \<open>From the resolved user on.\<close>

definition passkey_entries :: "'w identity_rest \<Rightarrow> string \<Rightarrow> ('w, go_error + milo_passkey list) state" where
  "passkey_entries R uid = do {
     zp \<leftarrow> ListPasskeys (ir_Z R) uid;
     (case zp of
        Inl e \<Rightarrow> State_Monad.return (Inl (passkeys_translateErr e []))
      | Inr zp \<Rightarrow> do {
          items \<leftarrow> toMiloPasskeys R zp uid;
          State_Monad.return (Inr items)
        })
   }"

definition Passkeys_List ::
  "'w identity_rest \<Rightarrow> user_info option \<Rightarrow> field_selector option \<Rightarrow> ('w, go_error + milo_passkey list) state" where
  "Passkeys_List R caller selector =
     (case caller of
        None \<Rightarrow> State_Monad.return (Inl no_user)
      | Some u \<Rightarrow> do {
          t \<leftarrow> list_target ''passkeys'' ''passkey'' ''passkeys'' R u selector;
          (case t of
             Inl e \<Rightarrow> State_Monad.return (Inl e)
           | Inr uid \<Rightarrow> passkey_entries R uid)
        })"

definition Passkeys_Get :: "'w identity_rest \<Rightarrow> user_info option \<Rightarrow> string \<Rightarrow> ('w, go_error + milo_passkey) state" where
  "Passkeys_Get R caller name =
     (case caller of
        None \<Rightarrow> State_Monad.return (Inl no_user)
      | Some u \<Rightarrow> do {
          zp \<leftarrow> ListPasskeys (ir_Z R) (ui_UID u);
          (case zp of
             Inl e \<Rightarrow> State_Monad.return (Inl (passkeys_translateErr e name))
           | Inr zp \<Rightarrow>
               (case find (\<lambda>p. pk_ID p = name) zp of
                  Some p \<Rightarrow> do {
                    m \<leftarrow> toMiloPasskey R p (ui_UID u);
                    State_Monad.return (Inr m)
                  }
                | None \<Rightarrow> State_Monad.return (Inl (NewNotFound identity_group ''passkeys'' name))))
        })"

section \<open>useridentities/rest.go\<close>

record milo_identity =
  mi_Name :: string
  mi_CreationTimestamp :: "int option"
  mi_UserUID :: string
  mi_ProviderID :: string
  mi_ProviderName :: string
  mi_Username :: string

definition toMiloIdentity :: "idp_link \<Rightarrow> string \<Rightarrow> int option \<Rightarrow> milo_identity" where
  "toMiloIdentity l uid created =
     \<lparr>mi_Name = idp_IDPID l, mi_CreationTimestamp = created, mi_UserUID = uid, mi_ProviderID = idp_IDPID l,
      mi_ProviderName = idp_IDPName l, mi_Username = idp_IDPUserName l\<rparr>"

fun milo_identities :: "'w identity_rest \<Rightarrow> idp_link list \<Rightarrow> string \<Rightarrow> ('w, milo_identity list) state" where
  "milo_identities R [] uid = State_Monad.return []"
| "milo_identities R (l # ls) uid = do {
     now \<leftarrow> Now (ir_runtime R);
     ms \<leftarrow> milo_identities R ls uid;
     State_Monad.return (toMiloIdentity l uid (Some now) # ms)
   }"

text \<open>From the resolved user on.\<close>

definition identity_entries :: "'w identity_rest \<Rightarrow> string \<Rightarrow> ('w, go_error + milo_identity list) state" where
  "identity_entries R uid = do {
     links \<leftarrow> ListIDPLinks (ir_Z R) uid;
     (case links of
        Inl e \<Rightarrow> State_Monad.return (Inl (identities_translateErr e []))
      | Inr links \<Rightarrow> do {
          items \<leftarrow> milo_identities R links uid;
          State_Monad.return (Inr items)
        })
   }"

definition UserIdentities_List ::
  "'w identity_rest \<Rightarrow> user_info option \<Rightarrow> field_selector option \<Rightarrow> ('w, go_error + milo_identity list) state" where
  "UserIdentities_List R caller selector =
     (case caller of
        None \<Rightarrow> State_Monad.return (Inl no_user)
      | Some u \<Rightarrow> do {
          t \<leftarrow> list_target ''useridentities'' ''identity'' ''identities'' R u selector;
          (case t of
             Inl e \<Rightarrow> State_Monad.return (Inl e)
           | Inr uid \<Rightarrow> identity_entries R uid)
        })"

definition UserIdentities_Get :: "'w identity_rest \<Rightarrow> user_info option \<Rightarrow> string \<Rightarrow> ('w, go_error + milo_identity) state" where
  "UserIdentities_Get R caller name =
     (case caller of
        None \<Rightarrow> State_Monad.return (Inl no_user)
      | Some u \<Rightarrow> do {
          links \<leftarrow> ListIDPLinks (ir_Z R) (ui_UID u);
          State_Monad.return (case links of
              Inl e \<Rightarrow> Inl (identities_translateErr e name)
            | Inr links \<Rightarrow>
                (case find (\<lambda>l. idp_IDPID l = name) links of
                   Some l \<Rightarrow> Inr (toMiloIdentity l (ui_UID u) None)
                 | None \<Rightarrow> Inl (NewNotFound identity_group ''useridentities'' name)))
        })"

end
