(* ===== verification/Registration_Links.thy ===== *)
theory Registration_Links
  imports Identity_Api Recovery_Mail "HOL-Library.Word"
begin

text \<open>
  internal/apiserver/identity/passkeyregistrationlinks: the resource through which support sends a
  recovery link to a user. It is create-only: the create mints a registration code and mails it.
\<close>

definition passkeyRegistrationLinks :: string where
  "passkeyRegistrationLinks = ''passkeyregistrationlinks''"

definition linkNamePrefix :: string where
  "linkNamePrefix = ''passkey-recovery-''"

section \<open>Configuration\<close>

record 'w link_options =
  lo_Z :: "'w zitadel_api"
  lo_Milo :: "'w kube"
  lo_MiloSAR :: "'w reviewer option"
  lo_Enabled :: bool
  lo_SupportTemplateName :: string
  lo_NotificationNamespace :: string
  lo_CompleteURL :: string
  lo_ExpiryMinutes :: int
  lo_Cooldown :: int
  lo_MaxPerHour :: int

record 'w link_rest =
  lr_Z :: "'w zitadel_api"
  lr_Milo :: "'w kube"
  lr_MiloSAR :: "'w reviewer option"
  lr_Enabled :: bool
  lr_SupportTemplateName :: string
  lr_NotificationNamespace :: string
  lr_ExpiryMinutes :: int
  lr_Cooldown :: int
  lr_MaxPerHour :: int
  lr_completeURL :: url
  lr_lib :: golib
  lr_runtime :: "'w runtime"

text \<open>The first argument is \<^verbatim>\<open>url.Parse\<close> with its errors.\<close>

definition Links_New ::
  "(string \<Rightarrow> go_error + url) \<Rightarrow> golib \<Rightarrow> 'w runtime \<Rightarrow> 'w link_options \<Rightarrow> go_error + 'w link_rest" where
  "Links_New parse lib rt opts =
     (case parse (lo_CompleteURL opts) of
        Inl e \<Rightarrow> Inl (wrapf ''parse --account-recovery-complete-url: '' e)
      | Inr completeURL \<Rightarrow>
          if lo_Enabled opts \<and> lo_SupportTemplateName opts = []
          then Inl (errorf ''--account-recovery-support-template is required when --recovery-links-enabled is set'')
          else if lo_Enabled opts \<and>
            (url_scheme completeURL = [] \<or> url_host completeURL = [] \<or> url_user completeURL \<noteq> None)
          then Inl (errorf (''--account-recovery-complete-url must be an absolute URL with no userinfo, e.g. '' @
            ''https://auth.example.net/recover/complete (got '' @ Quote (lo_CompleteURL opts) @ '')''))
          else Inr \<lparr>lr_Z = lo_Z opts, lr_Milo = lo_Milo opts, lr_MiloSAR = lo_MiloSAR opts, lr_Enabled = lo_Enabled opts,
            lr_SupportTemplateName = lo_SupportTemplateName opts, lr_NotificationNamespace = lo_NotificationNamespace opts,
            lr_ExpiryMinutes = lo_ExpiryMinutes opts, lr_Cooldown = lo_Cooldown opts, lr_MaxPerHour = lo_MaxPerHour opts,
            lr_completeURL = completeURL, lr_lib = lib, lr_runtime = rt\<rparr>)"

section \<open>Create\<close>

record registration_link =
  rl_Name :: string
  rl_UserRefName :: string
  rl_Reason :: string
  rl_RequestedBy :: string
  rl_StatusUserUID :: string
  rl_StatusEmailName :: string
  rl_StatusExpiresAt :: "int option"

text \<open>The texts of the switch over the specification: none when it passes.\<close>

definition link_spec_error :: "registration_link \<Rightarrow> string \<Rightarrow> string option" where
  "link_spec_error link callerID =
     (if rl_UserRefName link = [] then Some ''spec.userRef.name is required''
      else if TrimSpace (rl_Reason link) = [] then Some ''spec.reason is required''
      else if rl_RequestedBy link \<noteq> callerID then Some ''spec.requestedBy must be the authenticated caller''
      else None)"

definition links_translateErr :: "go_error \<Rightarrow> string \<Rightarrow> go_error" where
  "links_translateErr e name =
     translate_status passkeyRegistrationLinks
       (\<lambda>_. Some (NewBadRequest ''invalid request to the auth provider'')) e name"

definition support_mail :: "'w link_rest \<Rightarrow> user_info \<Rightarrow> registration_link \<Rightarrow> user \<Rightarrow> string \<Rightarrow> string \<Rightarrow> email" where
  "support_mail R caller link u codeID code =
     Build (lr_lib R) \<lparr>in_User = u, in_UserID = rl_UserRefName link, in_CodeID = codeID, in_Code = code,
       in_ActionURL = ActionURL (lr_lib R) (lr_completeURL R) (rl_UserRefName link) codeID code,
       in_TemplateName = lr_SupportTemplateName R, in_Namespace = lr_NotificationNamespace R,
       in_ExpiryMinutes = lr_ExpiryMinutes R, in_RequestedBy = RequestedBySupport,
       in_RequestedByUser = ui_Name caller, in_Reason = rl_Reason link\<rparr>"

definition sent_link :: "'w link_rest \<Rightarrow> registration_link \<Rightarrow> user \<Rightarrow> email \<Rightarrow> int \<Rightarrow> registration_link" where
  "sent_link R link u mail now =
     link\<lparr>rl_Name := linkNamePrefix @ TrimPrefix (email_name mail) ''account-recovery-'',
          rl_StatusUserUID := user_uid u, rl_StatusEmailName := email_name mail,
          rl_StatusExpiresAt := Some (now + sint ((word_of_int (lr_ExpiryMinutes R) :: 64 word) * word_of_int Minute))\<rparr>"

text \<open>From the mint on.\<close>

definition send_link ::
  "'w link_rest \<Rightarrow> user_info \<Rightarrow> registration_link \<Rightarrow> user \<Rightarrow> ('w, go_error + registration_link) state" where
  "send_link R caller link u = do {
     minted \<leftarrow> CreatePasskeyRegistrationLink (lr_Z R) (rl_UserRefName link);
     (case minted of
        Inl e \<Rightarrow> State_Monad.return (Inl (links_translateErr e (rl_UserRefName link)))
      | Inr (codeID, code) \<Rightarrow> do {
          e \<leftarrow> CreateEmail (lr_Milo R) (support_mail R caller link u codeID code);
          (if (case e of Some e \<Rightarrow> \<not> IsAlreadyExists e | None \<Rightarrow> False)
           then State_Monad.return (Inl (NewInternalError (errorf ''create recovery email'')))
           else do {
             now \<leftarrow> Now (lr_runtime R);
             State_Monad.return (Inr (sent_link R link u (support_mail R caller link u codeID code) now))
           })
        })
   }"

text \<open>From the lookup of the user on.\<close>

definition link_for_user ::
  "'w link_rest \<Rightarrow> user_info \<Rightarrow> registration_link \<Rightarrow> ('w, go_error + registration_link) state" where
  "link_for_user R caller link = do {
     r \<leftarrow> GetUser (lr_Milo R) (rl_UserRefName link);
     (case r of
        Inl e \<Rightarrow> State_Monad.return (Inl (if IsNotFound e
          then NewNotFound identity_group passkeyRegistrationLinks (rl_UserRefName link) else NewInternalError e))
      | Inr u \<Rightarrow>
          if \<not> IsVerified (Some u)
          then State_Monad.return (Inl (NewBadRequest
            ''the user's email address is not verified; ask them to sign up again to receive a verification link''))
          else do {
            tooSoon \<leftarrow> TooSoon (lr_runtime R) (lr_Milo R) (lr_NotificationNamespace R) (rl_UserRefName link)
              RequestedBySupport (lr_Cooldown R) (lr_MaxPerHour R);
            (case tooSoon of
               Inl e \<Rightarrow> State_Monad.return (Inl (NewInternalError (errorf ''check recent recovery mail'')))
             | Inr True \<Rightarrow> State_Monad.return (Inl (NewTooManyRequests (''a recovery link was already sent to user '' @
                 Quote (rl_UserRefName link) @ '' recently; wait before sending another'')))
             | Inr False \<Rightarrow> send_link R caller link u)
          })
   }"

text \<open>The object is none when it is not a \<^verbatim>\<open>PasskeyRegistrationLink\<close>.\<close>

definition Links_Create ::
  "'w link_rest \<Rightarrow> user_info option \<Rightarrow> registration_link option \<Rightarrow> ('w, go_error + registration_link) state" where
  "Links_Create R caller obj =
     (case obj of
        None \<Rightarrow> State_Monad.return (Inl (NewBadRequest ''invalid object type''))
      | Some link \<Rightarrow>
          if \<not> lr_Enabled R
          then State_Monad.return (Inl (NewServiceUnavailable
            ''recovery links are disabled (--recovery-links-enabled=false)''))
          else (case caller of
             None \<Rightarrow> State_Monad.return (Inl no_user)
           | Some u \<Rightarrow>
               (case link_spec_error link (if ui_UID u = [] then ui_Name u else ui_UID u) of
                  Some reason \<Rightarrow> State_Monad.return (Inl (NewBadRequest reason))
                | None \<Rightarrow> do {
                    allowed \<leftarrow> CanCreatePasskeyRegistrationLink (lr_MiloSAR R) (Some u) (rl_UserRefName link);
                    (case allowed of
                       Inl e \<Rightarrow> State_Monad.return (Inl (NewInternalError e))
                     | Inr False \<Rightarrow> State_Monad.return (Inl (NewForbidden passkeyRegistrationLinks []
                         (Some (''not authorized to send a recovery link to user '' @ Quote (rl_UserRefName link)))))
                     | Inr True \<Rightarrow> link_for_user R u link)
                  })))"

end
