(* ===== verification/Service_Keys.thy ===== *)
theory Service_Keys
  imports Identity_Api
begin

text \<open>
  internal/apiserver/identity/serviceaccountkeys: the keys of service accounts. Every operation works
  in the Zitadel organization of the project the request was made in; the keys themselves live in
  Zitadel only.
\<close>

section \<open>The storage\<close>

text \<open>What parsing a public key yields: an RSA key, or a key of another type with the name of that type.\<close>

datatype public_key = RSAKey | OtherKey string

record 'w key_rest =
  kr_Z :: "'w zitadel_api"
  kr_EnableImpersonationFallback :: bool
  kr_IntrospectionProjectID :: string
  kr_lib :: golib
  kr_runtime :: "'w runtime"
  kr_DecodePEM :: "string \<Rightarrow> string option"
  kr_ParsePKIXPublicKey :: "string \<Rightarrow> go_error + public_key"

record service_account_key =
  sak_Name :: string
  sak_CreationTimestamp :: int
  sak_ServiceAccountUserName :: string
  sak_PublicKey :: string
  sak_ExpirationDate :: "int option"
  sak_AuthProviderKeyID :: string
  sak_PrivateKey :: string

definition serviceAccountKeys :: string where
  "serviceAccountKeys = ''serviceaccountkeys''"

text \<open>The first entry of a key of the extras, when it has one.\<close>

definition first_extra :: "user_info \<Rightarrow> string \<Rightarrow> string option" where
  "first_extra u k = (case map_of (ui_Extra u) k of Some (v # _) \<Rightarrow> Some v | _ \<Rightarrow> None)"

definition parent_project :: "user_info \<Rightarrow> string" where
  "parent_project u =
     (if first_extra u ''iam.miloapis.com/parent-type'' = Some ''Project''
      then (case first_extra u ''iam.miloapis.com/parent-name'' of Some n \<Rightarrow> n | None \<Rightarrow> [])
      else [])"

definition project_name :: "'w key_rest \<Rightarrow> user_info \<Rightarrow> string" where
  "project_name R u =
     (if parent_project u = [] \<and> kr_EnableImpersonationFallback R
      then (case first_extra u ''project'' of Some p \<Rightarrow> p | None \<Rightarrow> [])
      else parent_project u)"

definition getOrgID :: "'w key_rest \<Rightarrow> user_info option \<Rightarrow> string option" where
  "getOrgID R caller =
     (case caller of
        None \<Rightarrow> None
      | Some u \<Rightarrow> if project_name R u = [] then None else Some (OrgIDForProject (project_name R u)))"

definition no_project :: go_error where
  "no_project = NewBadRequest (''request must be made within a project context '' @
     ''(/projects/{projectID}/control-plane/...) or use --as-extra=project={orgID} for testing'')"

definition lookup_failed :: go_error where
  "lookup_failed = NewInternalError (errorf ''failed to look up service account'')"

definition keys_translateErr :: "go_error \<Rightarrow> string \<Rightarrow> go_error" where
  "keys_translateErr e name = translate_status serviceAccountKeys (\<lambda>msg. Some (NewBadRequest msg)) e name"

section \<open>Credentials\<close>

definition datumCredentialsType :: string where
  "datumCredentialsType = ''datum_service_account''"

definition defaultServiceAccountScopes :: string where
  "defaultServiceAccountScopes = ''openid profile email offline_access''"

record datum_credentials =
  dc_Type :: string
  dc_ClientID :: string
  dc_PrivateKeyID :: string
  dc_PrivateKey :: string
  dc_ClientEmail :: string
  dc_Scope :: string

definition credentials_json :: "datum_credentials \<Rightarrow> json" where
  "credentials_json c = JObj ([(''type'', JStr (dc_Type c)), (''client_id'', JStr (dc_ClientID c)),
     (''private_key_id'', JStr (dc_PrivateKeyID c)), (''private_key'', JStr (dc_PrivateKey c))] @
     (if dc_ClientEmail c = [] then [] else [(''client_email'', JStr (dc_ClientEmail c))]) @
     (if dc_Scope c = [] then [] else [(''scope'', JStr (dc_Scope c))]))"

definition key_envelope_fields :: "(string \<times> string decoder) list" where
  "key_envelope_fields = [(''key'', json_string (\<lambda>v _. v))]"

definition buildDatumCredentials ::
  "golib \<Rightarrow> string \<Rightarrow> string \<Rightarrow> string \<Rightarrow> string \<Rightarrow> string \<Rightarrow> go_error + string" where
  "buildDatumCredentials lib keyContent keyID clientID clientEmail introspectionProjectID =
     (if keyContent = [] then Inr []
      else (case Unmarshal lib key_envelope_fields [] keyContent of
          Inl e \<Rightarrow> Inl (wrapf ''parse zitadel key envelope: '' e)
        | Inr key \<Rightarrow> Inr (EncodeJSON lib (credentials_json
            \<lparr>dc_Type = datumCredentialsType, dc_ClientID = clientID, dc_PrivateKeyID = keyID, dc_PrivateKey = key,
             dc_ClientEmail = clientEmail,
             dc_Scope = (if introspectionProjectID \<noteq> []
               then defaultServiceAccountScopes @ '' urn:zitadel:iam:org:project:id:'' @ introspectionProjectID @ '':aud''
               else [])\<rparr>))))"

definition validatePublicKey :: "'w key_rest \<Rightarrow> string \<Rightarrow> go_error option" where
  "validatePublicKey R publicKeyPEM =
     (if publicKeyPEM = [] then Some (errorf ''public key is empty'')
      else (case kr_DecodePEM R publicKeyPEM of
          None \<Rightarrow> Some (errorf ''public key is not in valid PEM format'')
        | Some bytes \<Rightarrow>
            (case kr_ParsePKIXPublicKey R bytes of
               Inl e \<Rightarrow> Some (wrapf ''failed to parse public key: '' e)
             | Inr RSAKey \<Rightarrow> None
             | Inr (OtherKey t) \<Rightarrow>
                 Some (errorf (''unsupported public key type: expected RSA or ECDSA, got '' @ t)))))"

section \<open>Create\<close>

text \<open>The check of the expiration date, which reads the clock only when there is one.\<close>

definition expired :: "'w key_rest \<Rightarrow> service_account_key \<Rightarrow> ('w, bool) state" where
  "expired R sak =
     (case sak_ExpirationDate sak of
        None \<Rightarrow> State_Monad.return False
      | Some t \<Rightarrow> do { now \<leftarrow> Now (kr_runtime R); State_Monad.return (t < now) })"

definition add_key ::
  "'w key_rest \<Rightarrow> string \<Rightarrow> string \<Rightarrow> service_account_key \<Rightarrow> ('w, go_error + service_account_key) state" where
  "add_key R orgID userID sak = do {
     r \<leftarrow> AddMachineKeyInOrganization (kr_Z R) orgID userID (sak_PublicKey sak) (sak_ExpirationDate sak);
     State_Monad.return (case r of
         Inl e \<Rightarrow> Inl (keys_translateErr e (sak_Name sak))
       | Inr (keyID, keyContent) \<Rightarrow>
           (case buildDatumCredentials (kr_lib R) keyContent keyID userID (sak_ServiceAccountUserName sak)
                   (kr_IntrospectionProjectID R) of
              Inl e \<Rightarrow> Inl (NewInternalError (errorf ''failed to build credentials response''))
            | Inr credsJSON \<Rightarrow> Inr (sak\<lparr>sak_AuthProviderKeyID := keyID, sak_PrivateKey := credsJSON\<rparr>)))
   }"

definition Keys_Create ::
  "'w key_rest \<Rightarrow> user_info option \<Rightarrow> service_account_key option \<Rightarrow> ('w, go_error + service_account_key) state" where
  "Keys_Create R caller obj =
     (case obj of
        None \<Rightarrow> State_Monad.return (Inl (NewBadRequest ''invalid object type''))
      | Some sak \<Rightarrow>
          if sak_ServiceAccountUserName sak = []
          then State_Monad.return (Inl (NewBadRequest ''serviceAccountUserName is required''))
          else (case getOrgID R caller of
             None \<Rightarrow> State_Monad.return (Inl no_project)
           | Some orgID \<Rightarrow> do {
               r \<leftarrow> GetMachineUserByUsername (kr_Z R) orgID (sak_ServiceAccountUserName sak);
               (case r of
                  Inl e \<Rightarrow> State_Monad.return (Inl lookup_failed)
                | Inr None \<Rightarrow> State_Monad.return (Inl (NewNotFound identity_group serviceAccountKeys (sak_Name sak)))
                | Inr (Some user) \<Rightarrow>
                    (case (if sak_PublicKey sak \<noteq> [] then validatePublicKey R (sak_PublicKey sak) else None) of
                       Some e \<Rightarrow> State_Monad.return (Inl (NewBadRequest (''invalid public key: '' @ Error e)))
                     | None \<Rightarrow> do {
                         past \<leftarrow> expired R sak;
                         (if past then State_Monad.return (Inl (NewBadRequest ''expiration date must be in the future''))
                          else add_key R orgID (zu_ID user) sak)
                       }))
             }))"

section \<open>List, get and delete\<close>

definition key_item :: "string \<Rightarrow> machine_key \<Rightarrow> service_account_key" where
  "key_item serviceAccountName k =
     \<lparr>sak_Name = mk_ID k, sak_CreationTimestamp = mk_CreatedDate k, sak_ServiceAccountUserName = serviceAccountName,
      sak_PublicKey = [], sak_ExpirationDate = mk_ExpirationDate k, sak_AuthProviderKeyID = mk_ID k, sak_PrivateKey = []\<rparr>"

definition addKeysToList :: "service_account_key list \<Rightarrow> string \<Rightarrow> machine_key list \<Rightarrow> service_account_key list" where
  "addKeysToList items serviceAccountName machineKeys = items @ map (key_item serviceAccountName) machineKeys"

definition listAndAddKeysToList ::
  "'w key_rest \<Rightarrow> service_account_key list \<Rightarrow> string \<Rightarrow> string \<Rightarrow> string \<Rightarrow> ('w, go_error + service_account_key list) state" where
  "listAndAddKeysToList R items orgID userID serviceAccountName = do {
     r \<leftarrow> ListMachineKeysInOrganization (kr_Z R) orgID userID;
     State_Monad.return (case r of
         Inl e \<Rightarrow> Inl (NewInternalError (errorf ''failed to list service account keys''))
       | Inr machineKeys \<Rightarrow> Inr (addKeysToList items serviceAccountName machineKeys))
   }"

fun list_accounts ::
  "'w key_rest \<Rightarrow> string \<Rightarrow> zuser list \<Rightarrow> service_account_key list \<Rightarrow> ('w, go_error + service_account_key list) state" where
  "list_accounts R orgID [] items = State_Monad.return (Inr items)"
| "list_accounts R orgID (a # as) items = do {
     r \<leftarrow> listAndAddKeysToList R items orgID (zu_ID a) (zu_Username a);
     (case r of
        Inl e \<Rightarrow> State_Monad.return (Inl e)
      | Inr items' \<Rightarrow> list_accounts R orgID as items')
   }"

definition selected_account :: "field_selector option \<Rightarrow> string" where
  "selected_account selector =
     (case selector of
        Some s \<Rightarrow> if fs_Empty s then []
          else (case fs_RequiresExactMatch s ''spec.serviceAccountUserName'' of Some v \<Rightarrow> v | None \<Rightarrow> [])
      | None \<Rightarrow> [])"

definition Keys_List ::
  "'w key_rest \<Rightarrow> user_info option \<Rightarrow> field_selector option \<Rightarrow> ('w, go_error + service_account_key list) state" where
  "Keys_List R caller selector =
     (case getOrgID R caller of
        None \<Rightarrow> State_Monad.return (Inl no_project)
      | Some orgID \<Rightarrow>
          if selected_account selector \<noteq> []
          then do {
            r \<leftarrow> GetMachineUserByUsername (kr_Z R) orgID (selected_account selector);
            (case r of
               Inl e \<Rightarrow> State_Monad.return (Inl lookup_failed)
             | Inr None \<Rightarrow> State_Monad.return
                 (Inl (NewNotFound identity_group ''serviceaccounts'' (selected_account selector)))
             | Inr (Some user) \<Rightarrow> listAndAddKeysToList R [] orgID (zu_ID user) (selected_account selector))
          }
          else do {
            r \<leftarrow> ListMachineAccountsInOrganization (kr_Z R) orgID;
            (case r of
               Inl e \<Rightarrow> State_Monad.return (Inl (NewInternalError (errorf ''failed to list service accounts'')))
             | Inr accounts \<Rightarrow> list_accounts R orgID accounts [])
          })"

definition Keys_Get :: "'w key_rest \<Rightarrow> user_info option \<Rightarrow> string \<Rightarrow> ('w, go_error + service_account_key) state" where
  "Keys_Get R caller name = do {
     r \<leftarrow> Keys_List R caller None;
     State_Monad.return (case r of
         Inl e \<Rightarrow> Inl e
       | Inr items \<Rightarrow>
           (case find (\<lambda>k. sak_AuthProviderKeyID k = name) items of
              Some k \<Rightarrow> Inr k
            | None \<Rightarrow> Inl (NewNotFound identity_group serviceAccountKeys name)))
   }"

definition Keys_Delete :: "'w key_rest \<Rightarrow> user_info option \<Rightarrow> string \<Rightarrow> ('w, go_error + service_account_key) state" where
  "Keys_Delete R caller name =
     (case getOrgID R caller of
        None \<Rightarrow> State_Monad.return (Inl no_project)
      | Some orgID \<Rightarrow> do {
          r \<leftarrow> Keys_Get R caller name;
          (case r of
             Inl e \<Rightarrow> State_Monad.return (Inl e)
           | Inr key \<Rightarrow> do {
               usr \<leftarrow> GetMachineUserByUsername (kr_Z R) orgID (sak_ServiceAccountUserName key);
               (case usr of
                  Inl e \<Rightarrow> State_Monad.return (Inl lookup_failed)
                | Inr None \<Rightarrow> State_Monad.return (Inl (NewNotFound identity_group serviceAccountKeys name))
                | Inr (Some user) \<Rightarrow> do {
                    e \<leftarrow> RemoveMachineKeyInOrganization (kr_Z R) orgID (zu_ID user) name;
                    State_Monad.return (case e of Some e \<Rightarrow> Inl (keys_translateErr e name) | None \<Rightarrow> Inr key)
                  })
             })
        })"

section \<open>The table\<close>

datatype table_object = KeyList "service_account_key list" | OneKey service_account_key | OtherObject

definition key_columns :: "(string \<times> string \<times> string) list" where
  "key_columns = [(''Name'', ''string'', ''name''), (''Service Account'', ''string'', []), (''Key ID'', ''string'', []),
     (''Created'', ''string'', []), (''Expires'', ''string'', [])]"

text \<open>The cells of a row and the object it carries; the first argument prints a time.\<close>

definition key_row :: "(int \<Rightarrow> string) \<Rightarrow> service_account_key \<Rightarrow> string list \<times> service_account_key" where
  "key_row show_time k =
     ([sak_Name k, sak_ServiceAccountUserName k, sak_AuthProviderKeyID k, show_time (sak_CreationTimestamp k),
       case sak_ExpirationDate k of Some t \<Rightarrow> show_time t | None \<Rightarrow> ''<none>''], k)"

definition Keys_ConvertToTable ::
  "(int \<Rightarrow> string) \<Rightarrow> table_object \<Rightarrow> (string \<times> string \<times> string) list \<times> (string list \<times> service_account_key) list" where
  "Keys_ConvertToTable show_time obj =
     (key_columns,
      case obj of KeyList ks \<Rightarrow> map (key_row show_time) ks | OneKey k \<Rightarrow> [key_row show_time k] | OtherObject \<Rightarrow> [])"

end
