(* ===== verification/Identity_Properties.thy ===== *)
theory Identity_Properties
  imports Registration_Links Service_Keys Zitadel_Sdk
begin

text \<open>
  Properties of the identity API server: who may read whose sessions, passkeys and identities, what
  deleting a session checks, when a support link is sent, and which organization the operations on
  service account keys work in.
\<close>

section \<open>Reading the entries of a user\<close>

definition user_review :: "user_info \<Rightarrow> string \<Rightarrow> access_review" where
  "user_review u target =
     \<lparr>sar_User = ui_Name u, sar_UID = ui_UID u, sar_Groups = ui_Groups u, sar_Extra = ui_Extra u,
      sar_Verb = ''get'', sar_Group = ''iam.miloapis.com'', sar_Resource = ''users'', sar_Name = target\<rparr>"

text \<open>What lets a caller read the entries of a user: they are the caller's own, or Milo allows the caller to get that user.\<close>

definition may_read :: "'w identity_rest \<Rightarrow> user_info \<Rightarrow> string \<Rightarrow> 'w \<Rightarrow> bool" where
  "may_read R u uid w \<longleftrightarrow>
     uid = ui_UID u \<or>
     (\<exists>create w1. ir_MiloSAR R = Some create \<and> run_state (create (user_review u uid)) w = (Inr True, w1))"

lemma silent_reviews:
  assumes "\<And>create x. sar = Some create \<Longrightarrow> silent view (create x)"
  shows "silent view (CanGetUser sar c n)" and "silent view (CanCreatePasskeyRegistrationLink sar c n)"
  unfolding CanGetUser_def CanCreatePasskeyRegistrationLink_def
  by (cases sar; cases c; simp add: assms silent_bind silent_return)+

lemma silent_list_target:
  assumes "\<And>create x. ir_MiloSAR R = Some create \<Longrightarrow> silent view (create x)"
  shows "silent view (list_target resource one many R u selector)"
  unfolding list_target_def by (intro silent_cases silent_if silent_return silent_bind silent_reviews assms)

lemma list_target_authorized:
  assumes "run_state (list_target resource one many R u selector) w = (Inr uid, w')"
  shows "may_read R u uid w"
  using assms
  by (auto simp: list_target_def may_read_def CanGetUser_def user_review_def split: sum.splits if_splits bool.splits prod.splits)

text \<open>
  The contract of the three resources: the head of the method decides whose entries are listed, the
  rest lists them and marks each with the user.
\<close>

locale user_entries =
  fixes lister :: "'w identity_rest \<Rightarrow> user_info option \<Rightarrow> field_selector option \<Rightarrow> ('w, go_error + 'i list) state"
    and entries :: "'w identity_rest \<Rightarrow> string \<Rightarrow> ('w, go_error + 'i list) state"
    and owner :: "'i \<Rightarrow> string"
    and resource one many :: string
  assumes lister_anonymous: "lister R None selector = State_Monad.return (Inl no_user)"
    and lister_caller: "lister R (Some u) selector = do {
        t \<leftarrow> list_target resource one many R u selector;
        (case t of Inl e \<Rightarrow> State_Monad.return (Inl e) | Inr uid \<Rightarrow> entries R uid)
      }"
    and entries_owner: "run_state (entries R uid) w = (Inr items, w') \<Longrightarrow> i \<in> set items \<Longrightarrow> owner i = uid"
begin

lemma authorized:
  assumes sar: "\<And>create x. ir_MiloSAR R = Some create \<Longrightarrow> silent view (create x)"
    and run: "run_state (lister R caller selector) w = (r, w')"
    and act: "view w' \<noteq> view w \<or> (\<exists>items. r = Inr items)"
  shows "\<exists>u uid. caller = Some u \<and> may_read R u uid w \<and> (\<forall>items. r = Inr items \<longrightarrow> (\<forall>i \<in> set items. owner i = uid))"
proof -
  obtain u where u: "caller = Some u" using run act by (cases caller) (auto simp: lister_anonymous)
  obtain t w1 where t: "run_state (list_target resource one many R u selector) w = (t, w1)" by (meson surj_pair)
  have v: "view w1 = view w" by (rule silent_run [OF silent_list_target t]) (rule sar)
  obtain uid where uid: "t = Inr uid" "run_state (entries R uid) w1 = (r, w')"
    using run act v t u by (cases t) (auto simp: lister_caller)
  have "may_read R u uid w" by (rule list_target_authorized [OF t [unfolded uid(1)]])
  moreover have "\<forall>items. r = Inr items \<longrightarrow> (\<forall>i \<in> set items. owner i = uid)"
    by (metis entries_owner uid(2))
  ultimately show ?thesis using u by blast
qed

end

lemma toMiloPasskeys_owner:
  "run_state (toMiloPasskeys R ps uid) w = (items, w') \<Longrightarrow> i \<in> set items \<Longrightarrow> mp_UserUID i = uid"
  by (induction ps arbitrary: w items) (auto simp: toMiloPasskey_def split: prod.splits)

lemma milo_identities_owner:
  "run_state (milo_identities R ls uid) w = (items, w') \<Longrightarrow> i \<in> set items \<Longrightarrow> mi_UserUID i = uid"
  by (induction ls arbitrary: w items) (auto simp: toMiloIdentity_def split: prod.splits)

interpretation sessions: user_entries Sessions_List session_entries mse_UserUID "''sessions''" "''session''" "''sessions''"
  by unfold_locales
    (auto simp: Sessions_List_def session_entries_def toMiloSession_def split: prod.splits sum.splits)

interpretation passkeys: user_entries Passkeys_List passkey_entries mp_UserUID "''passkeys''" "''passkey''" "''passkeys''"
  by unfold_locales
    (auto simp: Passkeys_List_def passkey_entries_def dest: toMiloPasskeys_owner split: prod.splits sum.splits)

interpretation identities: user_entries UserIdentities_List identity_entries mi_UserUID
    "''useridentities''" "''identity''" "''identities''"
  by unfold_locales
    (auto simp: UserIdentities_List_def identity_entries_def dest: milo_identities_owner split: prod.splits sum.splits)


text \<open>A support engineer lists the sessions of another user.\<close>

definition staff :: user_info where
  "staff = \<lparr>ui_Name = ''staff@x'', ui_UID = ''1'', ui_Groups = [], ui_Extra = []\<rparr>"

definition demo_session :: session where
  "demo_session = \<lparr>sess_ID = ''s'', sess_UserID = ''2'', sess_IP = [], sess_FingerprintID = [], sess_CreatedAt = 0,
     sess_LastUpdated = None, sess_UserAgent = [], sess_Metadata = [], sess_PasskeyVerified = False\<rparr>"

definition still_clock :: "'w runtime" where
  "still_clock = \<lparr>Now = State_Monad.return 0, NewUUID = State_Monad.return [], Sleep = (\<lambda>_. State_Monad.return ())\<rparr>"

definition staff_rest :: "unit identity_rest" where
  "staff_rest = \<lparr>ir_Z = (down_api not_found)\<lparr>ListSessions := (\<lambda>_. State_Monad.return (Inr [demo_session]))\<rparr>,
     ir_MiloSAR = Some (\<lambda>x. State_Monad.return (Inr (sar_User x = ''staff@x''))), ir_runtime = still_clock\<rparr>"

definition select :: "string \<Rightarrow> string \<Rightarrow> field_selector" where
  "select k v = \<lparr>fs_Empty = False, fs_RequiresExactMatch = (\<lambda>x. if x = k then Some v else None)\<rparr>"


section \<open>Deleting a session\<close>

text \<open>C10. Reading a session that belongs to another user is refused, but deleting it is not: the
  identifier of the caller reaches the Zitadel client, which does not use it, so the answer and the
  effect of a delete are the same whoever asks for it.\<close>

theorem session_delete_ignores_owner:
  assumes "ir_Z R = sdk_api c"
    and "run_state (g_GetSession (sdk_grpc c) name) w = (Inr s, w1)"
    and "sess_UserID (mapZitadelSession s) \<noteq> ui_UID u"
    and "run_state (g_DeleteSession (sdk_grpc c) name) w = (None, w2)"
  shows "run_state (Sessions_Get R (Some u) name) w = (Inl (NewForbidden ''sessions'' name (Some ''not owner'')), w1) \<and>
    run_state (Sessions_Delete R (Some u) name) w = (None, w2) \<and>
    (\<forall>v. run_state (Sessions_Delete R (Some v) name) w = run_state (Sessions_Delete R (Some u) name) w)"
  using assms
  by (simp add: Sessions_Get_def Sessions_Delete_def sdk_api_def SDK_GetSession_def SDK_DeleteSession_def)

section \<open>The link of support\<close>

lemma Links_New_checked:
  assumes "Links_New parse lib rt opts = Inr R" and "lr_Enabled R"
  shows "lr_SupportTemplateName R \<noteq> [] \<and> url_scheme (lr_completeURL R) \<noteq> [] \<and> url_host (lr_completeURL R) \<noteq> [] \<and>
    url_user (lr_completeURL R) = None"
  using assms by (auto simp: Links_New_def split: sum.splits if_splits)

lemma link_for_user_gate:
  assumes "\<And>n. silent view (GetUser (lr_Milo R) n)" and "\<And>n l. silent view (ListEmails (lr_Milo R) n l)"
    and "silent view (Now (lr_runtime R))"
    and run: "run_state (link_for_user R c link) w = (r, w')"
    and act: "view w' \<noteq> view w \<or> (\<exists>out. r = Inr out)"
  shows "\<exists>u w1 w2. run_state (GetUser (lr_Milo R) (rl_UserRefName link)) w = (Inr u, w1) \<and> IsVerified (Some u) \<and>
    run_state (TooSoon (lr_runtime R) (lr_Milo R) (lr_NotificationNamespace R) (rl_UserRefName link)
      RequestedBySupport (lr_Cooldown R) (lr_MaxPerHour R)) w1 = (Inr False, w2)"
proof -
  obtain g w1 where g: "run_state (GetUser (lr_Milo R) (rl_UserRefName link)) w = (g, w1)" by (meson surj_pair)
  obtain t w2 where t: "run_state (TooSoon (lr_runtime R) (lr_Milo R) (lr_NotificationNamespace R) (rl_UserRefName link)
      RequestedBySupport (lr_Cooldown R) (lr_MaxPerHour R)) w1 = (t, w2)" by (meson surj_pair)
  have v: "view w1 = view w" "view w2 = view w1"
    by (rule silent_run [OF assms(1) g]) (rule silent_run [OF silent_TooSoon [OF assms(2,3)] t])
  obtain u where u: "g = Inr u" "IsVerified (Some u)"
    using run act g v by (cases g) (auto simp: link_for_user_def split: if_splits)
  have "t = Inr False"
    using run act g t u v by (cases t) (auto simp: link_for_user_def split: bool.splits)
  with g t u show ?thesis by blast
qed

text \<open>C8. In a storage that start-up accepted, a create that mints a code, sends a mail or has any
  other visible effect, or that succeeds, was made while the feature is on, with a template and an
  absolute destination that hides no host, by an authenticated caller who names themselves as the
  requester and gives a reason, and only after Milo allowed exactly this caller to create a link for
  exactly this user, the user's address was verified and the mail budget of support allowed it.\<close>

theorem support_link_is_gated:
  assumes "Links_New parse lib rt opts = Inr R"
    and "\<forall>create x. lr_MiloSAR R = Some create \<longrightarrow> silent view (create x)"
    and "\<And>n. silent view (GetUser (lr_Milo R) n)" and "\<And>n l. silent view (ListEmails (lr_Milo R) n l)"
    and "silent view (Now (lr_runtime R))"
    and "run_state (Links_Create R caller obj) w = (r, w')"
    and "view w' \<noteq> view w \<or> (\<exists>out. r = Inr out)"
  shows "lr_Enabled R \<and> lr_SupportTemplateName R \<noteq> [] \<and>
    url_scheme (lr_completeURL R) \<noteq> [] \<and> url_host (lr_completeURL R) \<noteq> [] \<and> url_user (lr_completeURL R) = None \<and>
    (\<exists>link c create u w1 w2 w3. obj = Some link \<and> caller = Some c \<and>
       TrimSpace (rl_Reason link) \<noteq> [] \<and> rl_RequestedBy link = (if ui_UID c = [] then ui_Name c else ui_UID c) \<and>
       lr_MiloSAR R = Some create \<and> run_state (create (link_review c (rl_UserRefName link))) w = (Inr True, w1) \<and>
       run_state (GetUser (lr_Milo R) (rl_UserRefName link)) w1 = (Inr u, w2) \<and>
       us_emailVerification (user_status u) = Verified \<and>
       run_state (TooSoon (lr_runtime R) (lr_Milo R) (lr_NotificationNamespace R) (rl_UserRefName link) ''support''
         (lr_Cooldown R) (lr_MaxPerHour R)) w2 = (Inr False, w3))"
proof -
  obtain link c where pre: "obj = Some link" "lr_Enabled R" "caller = Some c"
      "link_spec_error link (if ui_UID c = [] then ui_Name c else ui_UID c) = None"
    using assms(6,7) by (auto simp: Links_Create_def split: option.splits if_splits)
  obtain a w1 where a: "run_state (CanCreatePasskeyRegistrationLink (lr_MiloSAR R) (Some c) (rl_UserRefName link)) w = (a, w1)"
    by (meson surj_pair)
  have v: "view w1 = view w" by (rule silent_run [OF silent_reviews(2) a]) (use assms(2) in auto)
  have ok: "a = Inr True" "run_state (link_for_user R c link) w1 = (r, w')"
    using assms(6,7) pre a v by (auto simp: Links_Create_def split: sum.splits bool.splits)
  obtain create where sar: "lr_MiloSAR R = Some create" "run_state (create (link_review c (rl_UserRefName link))) w = (Inr True, w1)"
    using a ok(1) by (cases "lr_MiloSAR R") (auto simp: CanCreatePasskeyRegistrationLink_def split: prod.splits sum.splits)
  have act: "view w' \<noteq> view w1 \<or> (\<exists>out. r = Inr out)" using assms(7) v by simp
  obtain u w2 w3 where "run_state (GetUser (lr_Milo R) (rl_UserRefName link)) w1 = (Inr u, w2)" "IsVerified (Some u)"
      "run_state (TooSoon (lr_runtime R) (lr_Milo R) (lr_NotificationNamespace R) (rl_UserRefName link)
        RequestedBySupport (lr_Cooldown R) (lr_MaxPerHour R)) w2 = (Inr False, w3)"
    using link_for_user_gate [OF assms(3,4,5) ok(2) act] by blast
  moreover have "TrimSpace (rl_Reason link) \<noteq> []" "rl_RequestedBy link = (if ui_UID c = [] then ui_Name c else ui_UID c)"
    using pre(4) by (auto simp: link_spec_error_def split: if_splits)
  ultimately show ?thesis
    using pre sar Links_New_checked [OF assms(1) pre(2)] by (simp add: IsVerified_def RequestedBySupport_def)
qed

section \<open>Service account keys\<close>

text \<open>Two clients that agree on one organization, as far as keys are concerned.\<close>

definition agree_on :: "string \<Rightarrow> 'w zitadel_api \<Rightarrow> 'w zitadel_api \<Rightarrow> bool" where
  "agree_on org Z Z' \<longleftrightarrow>
     GetMachineUserByUsername Z org = GetMachineUserByUsername Z' org \<and>
     AddMachineKeyInOrganization Z org = AddMachineKeyInOrganization Z' org \<and>
     ListMachineAccountsInOrganization Z org = ListMachineAccountsInOrganization Z' org \<and>
     ListMachineKeysInOrganization Z org = ListMachineKeysInOrganization Z' org \<and>
     RemoveMachineKeyInOrganization Z org = RemoveMachineKeyInOrganization Z' org"

lemma list_accounts_agree:
  assumes "agree_on org (kr_Z R) Z'"
  shows "list_accounts (R\<lparr>kr_Z := Z'\<rparr>) org as items = list_accounts R org as items"
proof (induction as arbitrary: items)
  case (Cons a as)
  have "listAndAddKeysToList (R\<lparr>kr_Z := Z'\<rparr>) items org u n = listAndAddKeysToList R items org u n" for u n
    using assms by (simp add: listAndAddKeysToList_def agree_on_def)
  moreover have "list_accounts (R\<lparr>kr_Z := Z'\<rparr>) org as = list_accounts R org as"
    by (rule ext) (rule Cons.IH)
  ultimately show ?case by simp
qed simp

lemma client_free [simp]:
  "getOrgID (R\<lparr>kr_Z := Z'\<rparr>) caller = getOrgID R caller"
  "validatePublicKey (R\<lparr>kr_Z := Z'\<rparr>) pk = validatePublicKey R pk"
  "expired (R\<lparr>kr_Z := Z'\<rparr>) sak = expired R sak"
  by (simp_all add: getOrgID_def project_name_def validatePublicKey_def expired_def split: option.split)

lemma add_key_agree: "agree_on org (kr_Z R) Z' \<Longrightarrow> add_key (R\<lparr>kr_Z := Z'\<rparr>) org = add_key R org"
  by (intro ext) (simp add: add_key_def agree_on_def cong: sum.case_cong prod.case_cong)

lemma Keys_List_agree:
  assumes "\<And>org. getOrgID R caller = Some org \<Longrightarrow> agree_on org (kr_Z R) Z'"
  shows "Keys_List (R\<lparr>kr_Z := Z'\<rparr>) caller selector = Keys_List R caller selector"
  using assms list_accounts_agree [of _ R Z']
  by (auto simp: Keys_List_def listAndAddKeysToList_def agree_on_def split: option.split)

lemma Keys_Create_agree:
  assumes "\<And>org. getOrgID R caller = Some org \<Longrightarrow> agree_on org (kr_Z R) Z'"
  shows "Keys_Create (R\<lparr>kr_Z := Z'\<rparr>) caller obj = Keys_Create R caller obj"
proof (cases "getOrgID R caller")
  case None
  show ?thesis unfolding Keys_Create_def client_free None option.case ..
next
  case (Some org)
  have a: "agree_on org (kr_Z R) Z'" using assms [OF Some] .
  have g: "GetMachineUserByUsername (kr_Z (R\<lparr>kr_Z := Z'\<rparr>)) org = GetMachineUserByUsername (kr_Z R) org"
    using a by (simp add: agree_on_def)
  show ?thesis
    unfolding Keys_Create_def client_free Some option.case add_key_agree [OF a] g ..
qed

text \<open>C9. The operations on service account keys see and change nothing outside the organization of
  the project of the request: with any other Zitadel that agrees on that one organization they run
  exactly alike, and without a project they never reach Zitadel. The project is the parent the
  request was authorized for, whenever there is one, whatever else the caller puts into the request.\<close>

theorem keys_stay_in_project:
  assumes "\<And>org. getOrgID R caller = Some org \<Longrightarrow> agree_on org (kr_Z R) Z'"
  shows "Keys_Create (R\<lparr>kr_Z := Z'\<rparr>) caller obj = Keys_Create R caller obj \<and>
    Keys_List (R\<lparr>kr_Z := Z'\<rparr>) caller selector = Keys_List R caller selector \<and>
    Keys_Get (R\<lparr>kr_Z := Z'\<rparr>) caller name = Keys_Get R caller name \<and>
    Keys_Delete (R\<lparr>kr_Z := Z'\<rparr>) caller name = Keys_Delete R caller name \<and>
    (\<forall>u p. caller = Some u \<longrightarrow> first_extra u ''iam.miloapis.com/parent-type'' = Some ''Project'' \<longrightarrow>
      first_extra u ''iam.miloapis.com/parent-name'' = Some p \<longrightarrow> p \<noteq> [] \<longrightarrow> getOrgID R caller = Some (''project-'' @ p))"
proof (intro conjI)
  show "Keys_Create (R\<lparr>kr_Z := Z'\<rparr>) caller obj = Keys_Create R caller obj"
    by (rule Keys_Create_agree [OF assms])
  show get: "Keys_Get (R\<lparr>kr_Z := Z'\<rparr>) caller name = Keys_Get R caller name"
    by (simp add: Keys_Get_def Keys_List_agree [OF assms])
  show "Keys_Delete (R\<lparr>kr_Z := Z'\<rparr>) caller name = Keys_Delete R caller name"
    using assms by (cases "getOrgID R caller") (simp_all add: Keys_Delete_def get agree_on_def)
  show "Keys_List (R\<lparr>kr_Z := Z'\<rparr>) caller selector = Keys_List R caller selector"
    by (rule Keys_List_agree) (rule assms)
qed (auto simp: getOrgID_def project_name_def parent_project_def OrgIDForProject_def)

text \<open>A project with one service account and one key.\<close>

definition project_caller :: user_info where
  "project_caller = staff\<lparr>ui_Extra := [(''iam.miloapis.com/parent-type'', [''Project'']),
     (''iam.miloapis.com/parent-name'', [''p'']), (''project'', [''other''])]\<rparr>"

definition robot :: zuser where
  "robot = \<lparr>zu_ID = ''9'', zu_Username = ''robot'', zu_Email = [], zu_State = [], zu_GivenName = [], zu_FamilyName = [],
     zu_IsEmailVerified = False, zu_CreatedAt = 0\<rparr>"

definition key_api :: "unit zitadel_api" where
  "key_api = (down_api not_found)\<lparr>
     ListMachineAccountsInOrganization := (\<lambda>_. State_Monad.return (Inr [robot])),
     ListMachineKeysInOrganization := (\<lambda>_ _. State_Monad.return
       (Inr [\<lparr>mk_ID = ''k'', mk_CreatedDate = 1, mk_ExpirationDate = None\<rparr>]))\<rparr>"

definition key_rest_demo :: "unit key_rest" where
  "key_rest_demo = \<lparr>kr_Z = key_api, kr_EnableImpersonationFallback = True, kr_IntrospectionProjectID = [],
     kr_lib = table_lib [], kr_runtime = still_clock, kr_DecodePEM = (\<lambda>_. None), kr_ParsePKIXPublicKey = (\<lambda>_. Inr RSAKey)\<rparr>"

text \<open>The same Zitadel, except that every other organization has no accounts.\<close>

definition only_p :: "unit zitadel_api" where
  "only_p = key_api\<lparr>ListMachineAccountsInOrganization :=
     (\<lambda>org. State_Monad.return (Inr (if org = ''project-p'' then [robot] else [])))\<rparr>"

theorem keys_stay_in_project_witness:
  "getOrgID key_rest_demo (Some project_caller) = Some ''project-p'' \<and>
   run_state (Keys_Get (key_rest_demo\<lparr>kr_Z := only_p\<rparr>) (Some project_caller) ''k'') () =
     (Inr (key_item ''robot'' \<lparr>mk_ID = ''k'', mk_CreatedDate = 1, mk_ExpirationDate = None\<rparr>), ())"
proof -
  have o: "getOrgID key_rest_demo (Some project_caller) = Some ''project-p''"
    by (simp add: getOrgID_def project_name_def parent_project_def first_extra_def project_caller_def staff_def
        OrgIDForProject_def)
  have a: "agree_on org (kr_Z key_rest_demo) only_p" if "getOrgID key_rest_demo (Some project_caller) = Some org" for org
    using that o by (simp add: agree_on_def key_rest_demo_def only_p_def key_api_def)
  have "run_state (Keys_Get key_rest_demo (Some project_caller) ''k'') () =
     (Inr (key_item ''robot'' \<lparr>mk_ID = ''k'', mk_CreatedDate = 1, mk_ExpirationDate = None\<rparr>), ())"
    by (simp add: Keys_Get_def Keys_List_def o selected_account_def)
      (simp add: key_rest_demo_def key_api_def robot_def key_item_def listAndAddKeysToList_def addKeysToList_def)
  with o keys_stay_in_project [of key_rest_demo "Some project_caller" only_p, OF a, where name = "''k''"] show ?thesis by simp
qed

text \<open>A link for a verified user; the Zitadel client of this world mints a code.\<close>

definition link_opts :: "mem_world link_options" where
  "link_opts = \<lparr>lo_Z = (down_api not_found)\<lparr>CreatePasskeyRegistrationLink := (\<lambda>_. State_Monad.return (Inr (''id'', ''code'')))\<rparr>,
     lo_Milo = mem_kube, lo_MiloSAR = Some (\<lambda>x. State_Monad.return (Inr (sar_Name x = ''u''))), lo_Enabled = True,
     lo_SupportTemplateName = ''t'', lo_NotificationNamespace = ''ns'', lo_CompleteURL = ''https://a'',
     lo_ExpiryMinutes = 60, lo_Cooldown = 120, lo_MaxPerHour = 5\<rparr>"

definition link_demo :: "mem_world link_rest" where
  "link_demo = \<lparr>lr_Z = lo_Z link_opts, lr_Milo = mem_kube, lr_MiloSAR = lo_MiloSAR link_opts, lr_Enabled = True,
     lr_SupportTemplateName = ''t'', lr_NotificationNamespace = ''ns'', lr_ExpiryMinutes = 60, lr_Cooldown = 120,
     lr_MaxPerHour = 5, lr_completeURL = \<lparr>url_scheme = ''https'', url_user = None, url_host = ''a'', url_path = [],
       url_rawQuery = [], url_fragment = []\<rparr>,
     lr_lib = table_lib [], lr_runtime = mem_runtime\<rparr>"

definition demo_link :: registration_link where
  "demo_link = \<lparr>rl_Name = [], rl_UserRefName = ''u'', rl_Reason = ''lost key'', rl_RequestedBy = ''1'', rl_StatusUserUID = [],
     rl_StatusEmailName = [], rl_StatusExpiresAt = None\<rparr>"

definition recoverable :: mem_world where
  "recoverable = empty_world\<lparr>mem_users := [set_verification True (NewUser ''u'' ''u@x'' [] [])]\<rparr>"

lemma link_demo_run:
  "\<exists>out w'. run_state (Links_Create link_demo (Some staff) (Some demo_link)) recoverable = (Inr out, w')"
proof -
  have s: "link_spec_error demo_link ''1'' = None"
    by (simp add: link_spec_error_def demo_link_def TrimSpace_def is_space_def)
  have u: "run_state (GetUser mem_kube ''u'') recoverable = (Inr (set_verification True (NewUser ''u'' ''u@x'' [] [])), recoverable)"
    by (simp add: mem_kube_def mem_find_def recoverable_def NewUser_def set_verification_def)
  have v: "IsVerified (Some (set_verification True (NewUser ''u'' ''u@x'' [] [])))"
    by (simp add: IsVerified_def Desired_def set_verification_def)
  have t: "run_state (TooSoon mem_runtime mem_kube ''ns'' ''u'' RequestedBySupport 120 5) recoverable = (Inr False, recoverable)"
    by (simp add: TooSoon_def mem_kube_def mem_runtime_def recoverable_def empty_world_def)
  have c: "run_state (CreateEmail mem_kube m) recoverable =
      (None, recoverable\<lparr>mem_emails := [m\<lparr>email_creationTimestamp := 0\<rparr>]\<rparr>)" for m
    by (simp add: mem_kube_def recoverable_def empty_world_def)
  show ?thesis
    using s u v t c
    by (simp add: Links_Create_def CanCreatePasskeyRegistrationLink_def link_review_def link_for_user_def send_link_def
        link_demo_def link_opts_def staff_def mem_runtime_def demo_link_def)
qed

theorem support_link_is_gated_witness:
  "\<exists>u w1 w2. run_state (GetUser mem_kube ''u'') w1 = (Inr u, w2) \<and> us_emailVerification (user_status u) = Verified"
proof -
  obtain out w' where run: "run_state (Links_Create link_demo (Some staff) (Some demo_link)) recoverable = (Inr out, w')"
    using link_demo_run by blast
  have new: "Links_New (\<lambda>_. Inr (lr_completeURL link_demo)) (table_lib []) mem_runtime link_opts = Inr link_demo"
    by (simp add: Links_New_def link_opts_def link_demo_def)
  have quiet: "\<forall>create x. lr_MiloSAR link_demo = Some create \<longrightarrow> silent mem_emails (create x)"
    "\<And>n. silent mem_emails (GetUser (lr_Milo link_demo) n)" "\<And>n l. silent mem_emails (ListEmails (lr_Milo link_demo) n l)"
    "silent mem_emails (Now (lr_runtime link_demo))"
    by (auto simp: silent_def link_demo_def link_opts_def mem_kube_def mem_runtime_def)
  have k: "lr_Milo link_demo = mem_kube" by (simp add: link_demo_def)
  from support_link_is_gated [where view = mem_emails, OF new quiet run] show ?thesis
    by (auto simp: k demo_link_def)
qed

text \<open>A session of user 2 that user 1 deletes.\<close>

definition other_session :: raw_session where
  "other_session = \<lparr>rs_Id = ''s'', rs_UserId = ''2'', rs_UserAgent = None, rs_CreationDate = None, rs_ChangeDate = None,
     rs_Metadata = [], rs_UserVerified = False\<rparr>"

text \<open>The world is the list of the sessions that are stored.\<close>

definition session_grpc :: "raw_session list grpc" where
  "session_grpc = (down_grpc not_found)\<lparr>
     g_GetSession := (\<lambda>i. State (\<lambda>ss. (Inr (find (\<lambda>s. rs_Id s = i) ss), ss))),
     g_DeleteSession := (\<lambda>i. State (\<lambda>ss. (None, filter (\<lambda>s. rs_Id s \<noteq> i) ss)))\<rparr>"

definition session_client :: "raw_session list sdk_client" where
  "session_client = \<lparr>sdk_grpc = session_grpc, sdk_runtime = still_clock, sdk_DefaultMachineKeyExpiration = 0\<rparr>"

definition session_rest :: "raw_session list identity_rest" where
  "session_rest = \<lparr>ir_Z = sdk_api session_client, ir_MiloSAR = None, ir_runtime = still_clock\<rparr>"

theorem session_delete_ignores_owner_witness:
  "rs_UserId other_session \<noteq> ui_UID staff \<and>
   run_state (Sessions_Delete session_rest (Some staff) ''s'') [other_session] = (None, [])"
proof -
  have z: "ir_Z session_rest = sdk_api session_client" by (simp add: session_rest_def)
  have g: "run_state (g_GetSession (sdk_grpc session_client) ''s'') [other_session] = (Inr (Some other_session), [other_session])"
    by (simp add: session_client_def session_grpc_def other_session_def)
  have d: "run_state (g_DeleteSession (sdk_grpc session_client) ''s'') [other_session] = (None, [])"
    by (simp add: session_client_def session_grpc_def other_session_def)
  have n: "sess_UserID (mapZitadelSession (Some other_session)) \<noteq> ui_UID staff"
    by (simp add: mapZitadelSession_def other_session_def staff_def)
  from session_delete_ignores_owner [OF z g n d] n show ?thesis
    by (simp add: mapZitadelSession_def)
qed

end
