(* ===== verification/Api_Command.thy ===== *)
theory Api_Command
  imports Identity_Properties
begin

text \<open>
  cmd/apiserver/command.go: from the flags to the storages the identity API server installs, with
  pkg/apis/identity/scheme.go, internal/config/logging.go, the flags and status of cmd/main.go and the version text. The
  generic API server is the library's.
\<close>

section \<open>internal/config/logging.go\<close>

record global_config =
  gl_Development :: bool
  gl_LogLevel :: string
  gl_LogFormat :: string

datatype zap_level = DebugLevel | InfoLevel | WarnLevel | ErrorLevel

record zap_options =
  zo_Development :: bool
  zo_Level :: zap_level

definition log_level :: "string \<Rightarrow> zap_level" where
  "log_level name = (let n = ToLower name in
     if n = ''debug'' then DebugLevel else if n = ''info'' then InfoLevel
     else if n = ''warn'' \<or> n = ''warning'' then WarnLevel else if n = ''error'' then ErrorLevel else InfoLevel)"

text \<open>The first argument is \<^verbatim>\<open>klog.V(1).Enabled()\<close>; the logger is set from the options, and the error is always nil.\<close>

definition InitializeLogging :: "bool \<Rightarrow> global_config \<Rightarrow> zap_options \<times> go_error option" where
  "InitializeLogging verbose cfg =
     (\<lparr>zo_Development = gl_Development cfg \<or> gl_LogFormat cfg = ''console'' \<or> verbose,
       zo_Level = (if verbose then DebugLevel else log_level (gl_LogLevel cfg))\<rparr>, None)"

section \<open>Global flags, exit status and version\<close>

definition global_flags :: global_config where
  "global_flags = \<lparr>gl_Development = False, gl_LogLevel = ''info'', gl_LogFormat = ''json''\<rparr>"

text \<open>The exit status of the process, for the error of the command that was executed.\<close>

definition main_status :: "go_error option \<Rightarrow> nat" where
  "main_status err = (case err of Some e \<Rightarrow> 1 | None \<Rightarrow> 0)"

record version_info =
  vi_Version :: string
  vi_GitCommit :: string
  vi_BuildDate :: string
  vi_GoVersion :: string
  vi_Compiler :: string
  vi_Platform :: string

text \<open>The arguments are what the build sets and what the runtime reports.\<close>

definition version_Get :: "string \<Rightarrow> string \<Rightarrow> string \<Rightarrow> string \<Rightarrow> string \<Rightarrow> string \<Rightarrow> string \<Rightarrow> version_info" where
  "version_Get version commit date goVersion compiler goos goarch =
     \<lparr>vi_Version = version, vi_GitCommit = commit, vi_BuildDate = date, vi_GoVersion = goVersion,
      vi_Compiler = compiler, vi_Platform = goos @ ''/'' @ goarch\<rparr>"

definition newline :: string where
  "newline = [CHR 0x0A]"

definition version_String :: "version_info \<Rightarrow> string" where
  "version_String i =
     ''Version: '' @ vi_Version i @ newline @ ''Git Commit: '' @ vi_GitCommit i @ newline @
     ''Build Date: '' @ vi_BuildDate i @ newline @ ''Go Version: '' @ vi_GoVersion i @ newline @
     ''Compiler: '' @ vi_Compiler i @ newline @ ''Platform: '' @ vi_Platform i"

text \<open>What is printed; \<^verbatim>\<open>json.MarshalIndent\<close> is an argument.\<close>

definition runVersion :: "(version_info \<Rightarrow> go_error + string) \<Rightarrow> version_info \<Rightarrow> string \<Rightarrow> go_error + string" where
  "runVersion MarshalIndent info output =
     (if output = ''json''
      then (case MarshalIndent info of
          Inl e \<Rightarrow> Inl (wrapf ''failed to marshal version info: '' e)
        | Inr data \<Rightarrow> Inr (data @ newline))
      else if output = ''text'' then Inr (version_String info @ newline)
      else Inl (errorf (''unsupported output format: '' @ output)))"

section \<open>pkg/apis/identity/scheme.go\<close>

text \<open>The conversions of field labels that are registered for the kinds of the group.\<close>

type_synonym label_conversion = "string \<Rightarrow> string \<Rightarrow> string \<times> string"

definition serviceAccountKeySelector :: label_conversion where
  "serviceAccountKeySelector label v =
     (if label \<in> {''spec.serviceAccountUserName'', ''metadata.name''} then (label, v) else ([], []))"

definition userScopedSelector :: label_conversion where
  "userScopedSelector label v =
     (if label \<in> {''status.userUID'', ''metadata.name'', ''metadata.namespace''} then (label, v) else ([], []))"

definition Install :: "(string \<times> label_conversion) list" where
  "Install = [(''ServiceAccountKey'', serviceAccountKeySelector), (''Session'', userScopedSelector),
     (''UserIdentity'', userScopedSelector), (''Passkey'', userScopedSelector)]"

text \<open>
  What the API server does with a selector before the storage sees it (\<^verbatim>\<open>fields.Selector.Transform\<close>): a list of
  exact requirements is converted one by one; ``if for a given requirement both field and value are transformed to
  empty string, the requirement is skipped''.
\<close>

definition transform_law :: "(label_conversion \<Rightarrow> (string \<times> string) list \<Rightarrow> (string \<times> string) list) \<Rightarrow> bool" where
  "transform_law T \<longleftrightarrow> (\<forall>conv reqs. T conv reqs = filter (\<lambda>(l, v). \<not> (l = [] \<and> v = [])) (map (\<lambda>(l, v). conv l v) reqs))"

definition selector_of :: "(string \<times> string) list \<Rightarrow> field_selector" where
  "selector_of reqs = \<lparr>fs_Empty = (reqs = []), fs_RequiresExactMatch = map_of reqs\<rparr>"

section \<open>cmd/apiserver/command.go\<close>

record api_flags =
  apf_tlsCertFile :: string
  apf_tlsKeyFile :: string
  apf_securePort :: int
  apf_requestHeaderCAFile :: string
  apf_requestHeaderAllowedNames :: "string list"
  apf_requestHeaderUsernameHeaders :: "string list"
  apf_requestHeaderGroupHeaders :: "string list"
  apf_requestHeaderUIDHeaders :: "string list"
  apf_requestHeaderExtraHeadersPref :: "string list"
  apf_zitadelIssuer :: string
  apf_zitadelAPI :: string
  apf_zitadelKeyPath :: string
  apf_zitadelDefaultMachineKeyExpirary :: int
  apf_zitadelIntrospectionProjectID :: string
  apf_enableImpersonationFallback :: bool
  apf_recoveryLinksEnabled :: bool
  apf_accountRecoverySupportTemplate :: string
  apf_accountRecoveryCompleteURL :: string
  apf_accountRecoveryExpiryMinutes :: int
  apf_accountRecoveryCooldown :: int
  apf_accountRecoveryMaxPerHour :: int
  apf_notificationNamespace :: string

definition default_api_flags :: api_flags where
  "default_api_flags =
     \<lparr>apf_tlsCertFile = [], apf_tlsKeyFile = [], apf_securePort = 8443, apf_requestHeaderCAFile = [],
      apf_requestHeaderAllowedNames = [], apf_requestHeaderUsernameHeaders = [], apf_requestHeaderGroupHeaders = [],
      apf_requestHeaderUIDHeaders = [], apf_requestHeaderExtraHeadersPref = [], apf_zitadelIssuer = [], apf_zitadelAPI = [],
      apf_zitadelKeyPath = [], apf_zitadelDefaultMachineKeyExpirary = 10 * 365 * 24 * Hour,
      apf_zitadelIntrospectionProjectID = [], apf_enableImpersonationFallback = False, apf_recoveryLinksEnabled = False,
      apf_accountRecoverySupportTemplate = [], apf_accountRecoveryCompleteURL = [], apf_accountRecoveryExpiryMinutes = 60,
      apf_accountRecoveryCooldown = 2 * Minute, apf_accountRecoveryMaxPerHour = 5, apf_notificationNamespace = ''milo-system''\<rparr>"

text \<open>The options given to the generic server; authorization, etcd, admission, core API and audit are nil.\<close>

record serving_options =
  ro_BindPort :: int
  ro_CertKey :: "(string \<times> string) option"
  ro_SkipInClusterLookup :: bool
  ro_Anonymous :: bool
  ro_ClientCAFile :: string
  ro_AllowedNames :: "string list"
  ro_UsernameHeaders :: "string list"
  ro_GroupHeaders :: "string list"
  ro_UIDHeaders :: "string list"
  ro_ExtraHeaderPrefixes :: "string list"
  ro_EnablePriorityAndFairness :: bool

definition recommended_options :: "api_flags \<Rightarrow> serving_options" where
  "recommended_options f =
     \<lparr>ro_BindPort = apf_securePort f,
      ro_CertKey = (if apf_tlsCertFile f \<noteq> [] \<and> apf_tlsKeyFile f \<noteq> [] then Some (apf_tlsCertFile f, apf_tlsKeyFile f) else None),
      ro_SkipInClusterLookup = True, ro_Anonymous = False, ro_ClientCAFile = apf_requestHeaderCAFile f,
      ro_AllowedNames = apf_requestHeaderAllowedNames f, ro_UsernameHeaders = apf_requestHeaderUsernameHeaders f,
      ro_GroupHeaders = apf_requestHeaderGroupHeaders f, ro_UIDHeaders = apf_requestHeaderUIDHeaders f,
      ro_ExtraHeaderPrefixes = apf_requestHeaderExtraHeadersPref f, ro_EnablePriorityAndFairness = False\<rparr>"

text \<open>The definitions of the OpenAPI document: those of Kubernetes, overwritten and extended by those of the group.\<close>

definition getOpenAPIDefinitions :: "(string \<rightharpoonup> 'd) \<Rightarrow> (string \<rightharpoonup> 'd) \<Rightarrow> (string \<rightharpoonup> 'd)" where
  "getOpenAPIDefinitions base ident = base ++ ident"

datatype 'w storage =
    Sessions "'w identity_rest"
  | UserIdentities "'w identity_rest"
  | Passkeys "'w identity_rest"
  | ServiceAccountKeys "'w key_rest"
  | PasskeyRegistrationLinks "'w link_rest"

text \<open>
  What the command uses of the libraries. The last field is the value of a nil client, which a method call
  dereferences; the theorems hold for any.
\<close>

record ('w, 'c) api_lib =
  ab_ApplyTo :: "serving_options \<Rightarrow> go_error option"
  ab_NewServer :: "go_error option"
  ab_Getenv :: "string \<Rightarrow> string"
  ab_dial :: "string \<Rightarrow> nat \<Rightarrow> string \<Rightarrow> string \<Rightarrow> ('w, go_error + 'w grpc) state"
  ab_runtime :: "'w runtime"
  ab_lib :: golib
  ab_ParseURL :: "string \<Rightarrow> go_error + url"
  ab_ClientConfig :: "go_error + 'c"
  ab_NewForConfig :: "'c \<Rightarrow> go_error + 'w reviewer"
  ab_AddToScheme :: "string \<Rightarrow> go_error option"
  ab_NewClient :: "'c \<Rightarrow> go_error + 'w kube"
  ab_DecodePEM :: "string \<Rightarrow> string option"
  ab_ParsePKIXPublicKey :: "string \<Rightarrow> go_error + public_key"
  ab_InstallAPIGroup :: "string list \<Rightarrow> go_error option"
  ab_nilClient :: "'w kube"

text \<open>The access reviews and the client for Milo: both or neither, from one configuration.\<close>

definition milo_clients :: "('w, 'c) api_lib \<Rightarrow> go_error + 'w reviewer option \<times> 'w kube" where
  "milo_clients L =
     (case ab_ClientConfig L of
        Inl e \<Rightarrow> Inr (None, ab_nilClient L)
      | Inr restCfg \<Rightarrow>
     (case ab_NewForConfig L restCfg of
        Inl e \<Rightarrow> Inl (wrapf ''build milo clientset from kube client config: '' e)
      | Inr miloSAR \<Rightarrow>
     (case ab_AddToScheme L ''iam/v1alpha1'' of
        Some e \<Rightarrow> Inl (wrapf ''add iam types to milo scheme: '' e)
      | None \<Rightarrow>
     (case ab_AddToScheme L ''notification/v1alpha1'' of
        Some e \<Rightarrow> Inl (wrapf ''add notification types to milo scheme: '' e)
      | None \<Rightarrow>
     (case ab_NewClient L restCfg of
        Inl e \<Rightarrow> Inl (wrapf ''build milo client: '' e)
      | Inr miloClient \<Rightarrow> Inr (Some miloSAR, miloClient))))))"

definition link_options_of :: "api_flags \<Rightarrow> 'w zitadel_api \<Rightarrow> 'w reviewer option \<Rightarrow> 'w kube \<Rightarrow> 'w link_options" where
  "link_options_of f zc miloSAR miloClient =
     \<lparr>lo_Z = zc, lo_Milo = miloClient, lo_MiloSAR = miloSAR, lo_Enabled = apf_recoveryLinksEnabled f,
      lo_SupportTemplateName = apf_accountRecoverySupportTemplate f, lo_NotificationNamespace = apf_notificationNamespace f,
      lo_CompleteURL = apf_accountRecoveryCompleteURL f, lo_ExpiryMinutes = apf_accountRecoveryExpiryMinutes f,
      lo_Cooldown = apf_accountRecoveryCooldown f, lo_MaxPerHour = apf_accountRecoveryMaxPerHour f\<rparr>"

definition api_storage ::
  "('w, 'c) api_lib \<Rightarrow> api_flags \<Rightarrow> 'w zitadel_api \<Rightarrow> 'w reviewer option \<Rightarrow> 'w link_rest \<Rightarrow> (string \<times> 'w storage) list" where
  "api_storage L f zc miloSAR links =
     (let R = \<lparr>ir_Z = zc, ir_MiloSAR = miloSAR, ir_runtime = ab_runtime L\<rparr> in
      [(''sessions'', Sessions R), (''useridentities'', UserIdentities R), (''passkeys'', Passkeys R),
       (''serviceaccountkeys'', ServiceAccountKeys
          \<lparr>kr_Z = zc, kr_EnableImpersonationFallback = apf_enableImpersonationFallback f,
           kr_IntrospectionProjectID = apf_zitadelIntrospectionProjectID f, kr_lib = ab_lib L, kr_runtime = ab_runtime L,
           kr_DecodePEM = ab_DecodePEM L, kr_ParsePKIXPublicKey = ab_ParsePKIXPublicKey L\<rparr>),
       (''passkeyregistrationlinks'', PasskeyRegistrationLinks links)])"

text \<open>The command up to the start of the server: its options and what it serves.\<close>

definition runAPIServer ::
  "('w, 'c) api_lib \<Rightarrow> bool \<Rightarrow> global_config \<Rightarrow> api_flags \<Rightarrow>
   ('w, go_error + serving_options \<times> (string \<times> 'w storage) list) state" where
  "runAPIServer L verbose global f =
     (case snd (InitializeLogging verbose global) of
        Some e \<Rightarrow> State_Monad.return (Inl (wrapf ''init logging: '' e))
      | None \<Rightarrow>
     (case ab_ApplyTo L (recommended_options f) of
        Some e \<Rightarrow> State_Monad.return (Inl (wrapf ''apply recommended options: '' e))
      | None \<Rightarrow>
     (case ab_NewServer L of
        Some e \<Rightarrow> State_Monad.return (Inl (wrapf ''build server: '' e))
      | None \<Rightarrow> do {
          zc \<leftarrow> NewSDK (ab_Getenv L) (ab_dial L) (ab_runtime L)
            \<lparr>sc_Domain = apf_zitadelAPI f, sc_Issuer = apf_zitadelIssuer f, sc_KeyPath = apf_zitadelKeyPath f,
             sc_DefaultMachineKeyExpiration = apf_zitadelDefaultMachineKeyExpirary f\<rparr>;
          State_Monad.return
            (case zc of Inl e \<Rightarrow> Inl (wrapf ''init zitadel sdk: '' e) | Inr zc \<Rightarrow>
            (case milo_clients L of Inl e \<Rightarrow> Inl e | Inr (miloSAR, miloClient) \<Rightarrow>
            (case Links_New (ab_ParseURL L) (ab_lib L) (ab_runtime L) (link_options_of f (sdk_api zc) miloSAR miloClient) of
               Inl e \<Rightarrow> Inl (wrapf ''init passkeyregistrationlinks storage: '' e)
             | Inr links \<Rightarrow>
                 (let storage = api_storage L f (sdk_api zc) miloSAR links in
                  case ab_InstallAPIGroup L (map fst storage) of
                    Some e \<Rightarrow> Inl (wrapf ''install api group: '' e)
                  | None \<Rightarrow> Inr (recommended_options f, storage)))))
        })))"

section \<open>The selectors that reach the storages\<close>

lemma map_of_transform:
  assumes "transform_law T" and "\<And>l v. conv l v = (if l \<in> S then (l, v) else ([], []))" and "k \<in> S" and "[] \<notin> S"
  shows "map_of (T conv reqs) k = map_of reqs k"
  using assms(2-) unfolding assms(1) [unfolded transform_law_def, rule_format]
  by (induction reqs) (auto split: if_splits)

lemma selector_target:
  assumes "transform_law T"
  shows "ExtractUserUIDFromFieldSelector (Some (selector_of (T userScopedSelector reqs))) = Inr uid \<longleftrightarrow>
    map_of reqs ''status.userUID'' = Some uid"
proof -
  have "map_of (T userScopedSelector reqs) ''status.userUID'' = map_of reqs ''status.userUID''"
    by (rule map_of_transform [OF assms userScopedSelector_def]) simp_all
  then show ?thesis by (auto simp: ExtractUserUIDFromFieldSelector_def selector_of_def split: option.splits)
qed

end
