(* ===== verification/Api_Start_Properties.thy ===== *)
theory Api_Start_Properties
  imports Api_Command
begin

text \<open>
  Properties of the API server command: what its storages can do with and without a configuration for
  Milo, and that the selectors the storages read are those the scheme lets through.
\<close>

section \<open>The storages of a started server\<close>

lemma runAPIServer_ok:
  assumes "run_state (runAPIServer L verbose global f) w = (Inr (opts, storage), w')"
  shows "opts = recommended_options f \<and> (\<exists>zc sar kube links. milo_clients L = Inr (sar, kube) \<and>
    Links_New (ab_ParseURL L) (ab_lib L) (ab_runtime L) (link_options_of f (sdk_api zc) sar kube) = Inr links \<and>
    storage = api_storage L f (sdk_api zc) sar links)"
  using assms
  by (auto simp: runAPIServer_def Let_def split: option.splits sum.splits prod.splits)

lemma milo_clients_offline: "ab_ClientConfig L = Inl e \<Longrightarrow> milo_clients L = Inr (None, ab_nilClient L)"
  by (simp add: milo_clients_def)

lemma milo_clients_online:
  "milo_clients L = Inr (sar, kube) \<Longrightarrow> ab_ClientConfig L = Inr c \<Longrightarrow>
     \<exists>create. sar = Some create \<and> ab_NewForConfig L c = Inr create \<and> ab_NewClient L c = Inr kube"
  by (auto simp: milo_clients_def split: sum.splits option.splits)

lemma Links_New_fields:
  "Links_New parse lib rt opts = Inr R \<Longrightarrow> lr_MiloSAR R = lo_MiloSAR opts \<and> lr_Milo R = lo_Milo opts \<and> lr_Z R = lo_Z opts \<and>
     lr_Enabled R = lo_Enabled opts"
  by (auto simp: Links_New_def split: sum.splits if_splits)

lemma links_without_reviews:
  "lr_MiloSAR R = None \<Longrightarrow> \<exists>e. run_state (Links_Create R caller obj) w = (Inl e, w)"
  by (auto simp: Links_Create_def CanCreatePasskeyRegistrationLink_def split: option.splits)

lemma links_disabled: "\<not> lr_Enabled R \<Longrightarrow> \<exists>e. run_state (Links_Create R caller obj) w = (Inl e, w)"
  by (auto simp: Links_Create_def split: option.splits)

text \<open>Without reviews a list is about the caller.\<close>

lemma own_entries_only:
  assumes "ir_MiloSAR R = None"
  shows "run_state (Sessions_List R caller sel) w = (Inr ss, w') \<Longrightarrow> \<exists>u. caller = Some u \<and> (\<forall>x \<in> set ss. mse_UserUID x = ui_UID u)"
    and "run_state (Passkeys_List R caller sel) w = (Inr ps, w') \<Longrightarrow> \<exists>u. caller = Some u \<and> (\<forall>x \<in> set ps. mp_UserUID x = ui_UID u)"
    and "run_state (UserIdentities_List R caller sel) w = (Inr us, w') \<Longrightarrow> \<exists>u. caller = Some u \<and> (\<forall>x \<in> set us. mi_UserUID x = ui_UID u)"
  using assms sessions.authorized [of R "\<lambda>_. ()" caller sel w "Inr ss" w'] passkeys.authorized [of R "\<lambda>_. ()" caller sel w "Inr ps" w']
    identities.authorized [of R "\<lambda>_. ()" caller sel w "Inr us" w']
  by (auto simp: may_read_def)


section \<open>Selectors\<close>

text \<open>The conversions of labels that the scheme registers let through what the storages read: a request for the
  sessions, passkeys or identities of a user, and one for the keys of a service account, reaches the
  storage with that user and that account, whatever else it selects by. A label the storages
  do not know is not an error: it is dropped, and the list is the one without it.\<close>

lemma selectors_reach_the_storages:
  assumes "transform_law T" and "map_of Install kind = Some conv"
  shows "(kind \<in> {''Session'', ''UserIdentity'', ''Passkey''} \<longrightarrow>
      (\<forall>uid. ExtractUserUIDFromFieldSelector (Some (selector_of (T conv reqs))) = Inr uid \<longleftrightarrow>
         map_of reqs ''status.userUID'' = Some uid)) \<and>
    (kind = ''ServiceAccountKey'' \<longrightarrow> selected_account (Some (selector_of (T conv reqs))) =
       (case map_of reqs ''spec.serviceAccountUserName'' of Some v \<Rightarrow> v | None \<Rightarrow> [])) \<and>
    (label \<notin> {''status.userUID'', ''spec.serviceAccountUserName'', ''metadata.name'', ''metadata.namespace''} \<longrightarrow>
       T conv ((label, v) # reqs) = T conv reqs)"
proof -
  have conv: "conv = (if kind = ''ServiceAccountKey'' then serviceAccountKeySelector else userScopedSelector)"
    using assms(2) by (auto simp: Install_def split: if_splits)
  have "map_of (T serviceAccountKeySelector reqs) ''spec.serviceAccountUserName'' = map_of reqs ''spec.serviceAccountUserName''"
    by (rule map_of_transform [OF assms(1) serviceAccountKeySelector_def]) simp_all
  then have "selected_account (Some (selector_of (T serviceAccountKeySelector reqs))) =
      (case map_of reqs ''spec.serviceAccountUserName'' of Some v \<Rightarrow> v | None \<Rightarrow> [])"
    by (auto simp: selected_account_def selector_of_def split: option.splits)
  moreover have "T conv ((label, v) # reqs) = T conv reqs"
    if "label \<notin> {''status.userUID'', ''spec.serviceAccountUserName'', ''metadata.name'', ''metadata.namespace''}"
    using that unfolding assms(1) [unfolded transform_law_def, rule_format] conv
    by (simp add: serviceAccountKeySelector_def userScopedSelector_def)
  ultimately show ?thesis using selector_target [OF assms(1)] conv by auto
qed

text \<open>A server without a configuration for Milo; recovery links are enabled.\<close>

definition lone_api_lib :: "(unit, unit) api_lib" where
  "lone_api_lib =
     \<lparr>ab_ApplyTo = (\<lambda>o'. None), ab_NewServer = None, ab_Getenv = (\<lambda>v. []),
      ab_dial = (\<lambda>h p i k. State_Monad.return (Inr (down_grpc not_found))), ab_runtime = still_clock, ab_lib = table_lib [],
      ab_ParseURL = (\<lambda>u. Inr \<lparr>url_scheme = ''https'', url_user = None, url_host = ''a'', url_path = [], url_rawQuery = [], url_fragment = []\<rparr>),
      ab_ClientConfig = Inl not_found, ab_NewForConfig = (\<lambda>c. Inl not_found), ab_AddToScheme = (\<lambda>p. None),
      ab_NewClient = (\<lambda>c. Inl not_found), ab_DecodePEM = (\<lambda>t. None), ab_ParsePKIXPublicKey = (\<lambda>t. Inl not_found),
      ab_InstallAPIGroup = (\<lambda>names. None), ab_nilClient = down_kube not_found\<rparr>"

definition lone_flags :: api_flags where
  "lone_flags = default_api_flags\<lparr>apf_zitadelIssuer := ''https://a'', apf_zitadelAPI := ''a'', apf_zitadelKeyPath := ''k'',
     apf_recoveryLinksEnabled := True, apf_accountRecoverySupportTemplate := ''t''\<rparr>"

lemma lone_start:
  "\<exists>opts storage w'. run_state (runAPIServer lone_api_lib False global_flags lone_flags) () = (Inr (opts, storage), w')"
proof -
  have "sdk_target (\<lambda>v. []) \<lparr>sc_Domain = ''a'', sc_Issuer = ''https://a'', sc_KeyPath = ''k'',
      sc_DefaultMachineKeyExpiration = 10 * 365 * 24 * Hour\<rparr> = Inr (''a'', 0, \<lparr>sc_Domain = ''a'', sc_Issuer = ''https://a'',
      sc_KeyPath = ''k'', sc_DefaultMachineKeyExpiration = 10 * 365 * 24 * Hour\<rparr>)" by code_simp
  then show ?thesis
    by (simp add: runAPIServer_def InitializeLogging_def lone_api_lib_def lone_flags_def default_api_flags_def NewSDK_def
        milo_clients_def Links_New_def link_options_of_def Let_def)
qed


end
