(* ===== verification/Budget_Races.thy ===== *)
theory Budget_Races
  imports Mail_Properties Step_Systems
begin

text \<open>
  internal/webhook/accountrecovery.go with several requests at once: the budget is read from the stored Emails
  before a code is minted, and the Email that counts against it is created afterwards. A step is one call of
  \<^verbatim>\<open>recover\<close>, and between the calls of one request those of others happen.
\<close>

section \<open>Requests in flight\<close>

text \<open>
  Where a request for a verified User is: not there, before the budget check, within the budget, and with a code.
\<close>

datatype recovery_pc =
    Idle
  | Asking user string url
  | InBudget user string url
  | WithCode user string url string string

record 'w recovery_sys =
  rs_world :: 'w
  rs_pc :: "nat \<Rightarrow> recovery_pc"

definition rs_go :: "nat \<Rightarrow> recovery_pc \<Rightarrow> 'w \<Rightarrow> 'w recovery_sys \<Rightarrow> 'w recovery_sys" where
  "rs_go r p w s = \<lparr>rs_world = w, rs_pc = (rs_pc s)(r := p)\<rparr>"

text \<open>
  At most \<^verbatim>\<open>n\<close> requests are handled at once. What other processes do, and time that passes, is a step of the
  relation \<^verbatim>\<open>others\<close>.
\<close>

inductive recovery_step ::
  "nat \<Rightarrow> 'w mail_server \<Rightarrow> (string \<Rightarrow> ('w, go_error + string \<times> string) state) \<Rightarrow> account_recovery_config \<Rightarrow>
   ('w \<Rightarrow> 'w \<Rightarrow> bool) \<Rightarrow> 'w recovery_sys \<Rightarrow> 'w recovery_sys \<Rightarrow> bool"
  for n srv mint cfg others where
  arrive: "r < n \<Longrightarrow> rs_pc s r = Idle \<Longrightarrow> recovery_step n srv mint cfg others s (rs_go r (Asking u i to) (rs_world s) s)"
| check: "rs_pc s r = Asking u i to \<Longrightarrow>
    run_state (TooSoon (ms_runtime srv) (ms_k8s srv) (ar_NotificationNamespace cfg) i RequestedBySelf
      (ar_Cooldown cfg) (ar_MaxPerHour cfg)) (rs_world s) = (t, w) \<Longrightarrow>
    recovery_step n srv mint cfg others s (rs_go r (if t = Inr False then InBudget u i to else Idle) w s)"
| mint_code: "rs_pc s r = InBudget u i to \<Longrightarrow> run_state (mint i) (rs_world s) = (c, w) \<Longrightarrow>
    recovery_step n srv mint cfg others s
      (rs_go r (case c of Inl _ \<Rightarrow> Idle | Inr (codeID, code) \<Rightarrow> WithCode u i to codeID code) w s)"
| send: "rs_pc s r = WithCode u i to codeID code \<Longrightarrow>
    run_state (CreateEmail (ms_k8s srv) (recovery_mail (ms_lib srv) cfg u i to codeID code)) (rs_world s) = (e, w) \<Longrightarrow>
    recovery_step n srv mint cfg others s (rs_go r Idle w s)"
| other: "others (rs_world s) w \<Longrightarrow> recovery_step n srv mint cfg others s (s\<lparr>rs_world := w\<rparr>)"

inductive_cases recovery_stepE: "recovery_step n srv mint cfg others s s'"

abbreviation recoveries where
  "recoveries n srv mint cfg others \<equiv> (recovery_step n srv mint cfg others)\<^sup>*\<^sup>*"

definition recovery_start :: "'w \<Rightarrow> 'w recovery_sys" where
  "recovery_start w = \<lparr>rs_world = w, rs_pc = (\<lambda>_. Idle)\<rparr>"

lemma rs_go_simps [simp]: "rs_world (rs_go r p w s) = w" "rs_pc (rs_go r p w s) = (rs_pc s)(r := p)"
  by (simp_all add: rs_go_def)

text \<open>A request that runs alone from its budget check on takes these steps, and ends in the world of the definition.\<close>

lemma recover_alone:
  assumes "rs_pc s r = Asking u i to" and "run_state (recover srv mint cfg u i to) (rs_world s) = (x, w)"
  shows "recoveries n srv mint cfg others s (rs_go r Idle w s)"
proof -
  let ?R = "recovery_step n srv mint cfg others"
  have go: "rs_go r p w2 (rs_go r q w1 s) = rs_go r p w2 s" for p q w1 w2 by (simp add: rs_go_def)
  obtain t w1 where t: "run_state (TooSoon (ms_runtime srv) (ms_k8s srv) (ar_NotificationNamespace cfg) i RequestedBySelf
      (ar_Cooldown cfg) (ar_MaxPerHour cfg)) (rs_world s) = (t, w1)" by (meson surj_pair)
  note s1 = check [of s r u i to srv cfg t w1 n mint others, OF assms(1) t]
  show ?thesis
  proof (cases "t = Inr False")
    case False
    with assms(2) t have "w = w1" by (cases t) (auto simp: recover_def split: bool.splits)
    with s1 False show ?thesis by auto
  next
    case True
    let ?s1 = "rs_go r (InBudget u i to) w1 s"
    have s1: "?R s ?s1" using s1 True by simp
    obtain c w2 where c: "run_state (mint i) w1 = (c, w2)" by (meson surj_pair)
    note s2 = mint_code [of ?s1 r u i to mint c w2 n srv cfg others]
    show ?thesis
    proof (cases c)
      case (Inl e)
      with assms(2) t True c have "w = w2" by (simp add: recover_def)
      with s1 s2 c Inl show ?thesis by (simp add: go)
    next
      case (Inr p)
      obtain codeID code where p: "p = (codeID, code)" by (meson surj_pair)
      let ?s2 = "rs_go r (WithCode u i to codeID code) w2 s"
      have s2: "?R ?s1 ?s2" using s2 c Inr p by (simp add: go)
      obtain e w3 where e: "run_state (CreateEmail (ms_k8s srv) (recovery_mail (ms_lib srv) cfg u i to codeID code)) w2 = (e, w3)"
        by (meson surj_pair)
      with assms(2) t True c Inr p have "w = w3" by (simp add: recover_def)
      moreover have "?R ?s2 (rs_go r Idle w3 s)"
        using send [of ?s2 r u i to codeID code srv cfg e w3 n mint others] e by (simp add: go)
      ultimately show ?thesis using s1 s2 by (meson converse_rtranclp_into_rtranclp r_into_rtranclp)
    qed
  qed
qed

section \<open>What the budget relies on\<close>

text \<open>
  The stored Emails and the time are views of the world. Time does not go back. A list returns the Emails of the
  namespace with the labels asked for; a successful create stores the Email with the time of its creation in whole
  seconds, and a failed one stores nothing; the rest leaves the Emails alone, and other processes leave alone those
  that count.
\<close>

definition seconds :: "int \<Rightarrow> int" where
  "seconds t = t - t mod Second"

definition sent :: "('w \<Rightarrow> email list) \<Rightarrow> string \<Rightarrow> string \<Rightarrow> 'w \<Rightarrow> email list" where
  "sent mails ns i w = filter (\<lambda>e. email_namespace e = ns \<and>
     {(LabelUser, i), (LabelRequestedBy, RequestedBySelf)} \<subseteq> set (email_labels e)) (mails w)"

definition budget_law ::
  "'w mail_server \<Rightarrow> (string \<Rightarrow> ('w, go_error + string \<times> string) state) \<Rightarrow> ('w \<Rightarrow> email list) \<Rightarrow> ('w \<Rightarrow> int) \<Rightarrow>
   ('w \<Rightarrow> 'w \<Rightarrow> bool) \<Rightarrow> bool" where
  "budget_law srv mint mails clock others \<longleftrightarrow>
     (\<forall>ns i w r w'. run_state (ListEmails (ms_k8s srv) ns [(LabelUser, i), (LabelRequestedBy, RequestedBySelf)]) w = (r, w') \<longrightarrow>
        mails w' = mails w \<and> clock w \<le> clock w' \<and> (\<forall>es. r = Inr es \<longrightarrow> es = sent mails ns i w)) \<and>
     (\<forall>w t w'. run_state (Now (ms_runtime srv)) w = (t, w') \<longrightarrow> mails w' = mails w \<and> clock w \<le> t \<and> t \<le> clock w') \<and>
     (\<forall>i w c w'. run_state (mint i) w = (c, w') \<longrightarrow> mails w' = mails w \<and> clock w \<le> clock w') \<and>
     (\<forall>m w e w'. run_state (CreateEmail (ms_k8s srv) m) w = (e, w') \<longrightarrow> clock w \<le> clock w' \<and>
        (case e of
           None \<Rightarrow> (\<exists>t. clock w \<le> t \<and> t \<le> clock w' \<and> mails w' = mails w @ [m\<lparr>email_creationTimestamp := seconds t\<rparr>])
         | Some _ \<Rightarrow> mails w' = mails w)) \<and>
     (\<forall>w w'. others w w' \<longrightarrow> clock w \<le> clock w' \<and> (\<forall>ns i. sent mails ns i w' = sent mails ns i w))"

lemma budget_law_run:
  assumes "budget_law srv mint mails clock others"
  shows "run_state (ListEmails (ms_k8s srv) ns [(LabelUser, i), (LabelRequestedBy, RequestedBySelf)]) w = (r, w') \<Longrightarrow>
      mails w' = mails w \<and> clock w \<le> clock w' \<and> (\<forall>es. r = Inr es \<longrightarrow> es = sent mails ns i w)"
    and "run_state (Now (ms_runtime srv)) w = (t, w') \<Longrightarrow> mails w' = mails w \<and> clock w \<le> t \<and> t \<le> clock w'"
    and "run_state (mint i) w = (c, w') \<Longrightarrow> mails w' = mails w \<and> clock w \<le> clock w'"
    and "run_state (CreateEmail (ms_k8s srv) m) w = (e, w') \<Longrightarrow> clock w \<le> clock w' \<and>
        (case e of
           None \<Rightarrow> (\<exists>t. clock w \<le> t \<and> t \<le> clock w' \<and> mails w' = mails w @ [m\<lparr>email_creationTimestamp := seconds t\<rparr>])
         | Some _ \<Rightarrow> mails w' = mails w)"
    and "others w w' \<Longrightarrow> clock w \<le> clock w' \<and> sent mails ns i w' = sent mails ns i w"
proof -
  note law = assms [unfolded budget_law_def]
  note rest = law [THEN conjunct2, THEN conjunct2]
  show "run_state (ListEmails (ms_k8s srv) ns [(LabelUser, i), (LabelRequestedBy, RequestedBySelf)]) w = (r, w') \<Longrightarrow>
      mails w' = mails w \<and> clock w \<le> clock w' \<and> (\<forall>es. r = Inr es \<longrightarrow> es = sent mails ns i w)"
    using law [THEN conjunct1] by blast
  show "run_state (Now (ms_runtime srv)) w = (t, w') \<Longrightarrow> mails w' = mails w \<and> clock w \<le> t \<and> t \<le> clock w'"
    using law [THEN conjunct2, THEN conjunct1] by blast
  show "run_state (mint i) w = (c, w') \<Longrightarrow> mails w' = mails w \<and> clock w \<le> clock w'"
    using rest [THEN conjunct1] by blast
  show "run_state (CreateEmail (ms_k8s srv) m) w = (e, w') \<Longrightarrow> clock w \<le> clock w' \<and>
        (case e of
           None \<Rightarrow> (\<exists>t. clock w \<le> t \<and> t \<le> clock w' \<and> mails w' = mails w @ [m\<lparr>email_creationTimestamp := seconds t\<rparr>])
         | Some _ \<Rightarrow> mails w' = mails w)"
    using rest [THEN conjunct2, THEN conjunct1] by blast
  show "others w w' \<Longrightarrow> clock w \<le> clock w' \<and> sent mails ns i w' = sent mails ns i w"
    using rest [THEN conjunct2, THEN conjunct2] by blast
qed

lemma seconds_le: "seconds t \<le> t" and seconds_gt: "t < seconds t + Second"
  by (simp_all add: seconds_def)

lemma seconds_mono: "Second dvd b \<Longrightarrow> b \<le> t \<Longrightarrow> b \<le> seconds t"
  unfolding seconds_def by (simp add: dvd_def minus_mod_eq_mult_div) (auto intro: zdiv_mono1)

text \<open>A check that lets a request pass: when it read the time, the Emails that counted were within the budget.\<close>

lemma too_soon_passes:
  assumes law: "budget_law srv mint mails clock others"
    and run: "run_state (TooSoon (ms_runtime srv) (ms_k8s srv) ns i RequestedBySelf cooldown cap) w = (t, w')"
  shows "sent mails ns' i' w' = sent mails ns' i' w" and "clock w \<le> clock w'"
    and "t = Inr False \<Longrightarrow> 0 < cooldown \<Longrightarrow> e \<in> set (sent mails ns i w) \<Longrightarrow>
      email_creationTimestamp e + cooldown \<le> clock w'"
    and "t = Inr False \<Longrightarrow> 0 < cap \<Longrightarrow> \<exists>now \<le> clock w'.
      int (length (filter (\<lambda>e. now < email_creationTimestamp e + Hour) (sent mails ns i w))) < cap"
proof -
  obtain l w1 where l: "run_state (ListEmails (ms_k8s srv) ns [(LabelUser, i), (LabelRequestedBy, RequestedBySelf)]) w = (l, w1)"
    by (meson surj_pair)
  note l' = budget_law_run(1) [OF law l]
  obtain now w2 where now: "run_state (Now (ms_runtime srv)) w1 = (now, w2)" by (meson surj_pair)
  note now' = budget_law_run(2) [OF law now]
  consider "w' = w \<and> \<not> 0 < cooldown \<and> \<not> 0 < cap" | "w' = w1 \<and> t \<noteq> Inr False"
    | es where "l = Inr es" "w' = w2" "t = Inr (case count_recent now cooldown es 0 of None \<Rightarrow> True | Some k \<Rightarrow> cap > 0 \<and> k \<ge> cap)"
    using run l now by (cases l) (auto simp: TooSoon_def split: if_splits)
  note runs = this
  from runs show "sent mails ns' i' w' = sent mails ns' i' w" by cases (use l' now' in \<open>simp_all add: sent_def\<close>)
  from runs show "clock w \<le> clock w'" by cases (use l' now' in simp_all)
  have passed: "(0 < cooldown \<longrightarrow> (\<forall>e \<in> set (sent mails ns i w). \<not> recent now cooldown e)) \<and> now \<le> clock w' \<and>
      (0 < cap \<longrightarrow> int (length (filter (recent now capWindow) (sent mails ns i w))) < cap)"
    if "t = Inr False" "0 < cooldown \<or> 0 < cap"
    using runs
  proof cases
    case (3 es)
    then have "es = sent mails ns i w" using l' by blast
    with 3 that now' show ?thesis by (auto simp: count_recent_eq split: if_splits)
  qed (use that in auto)
  show "email_creationTimestamp e + cooldown \<le> clock w'"
    if "t = Inr False" "0 < cooldown" "e \<in> set (sent mails ns i w)"
    using passed that by (auto simp: recent_def time_Sub_def)
  have hour: "recent now capWindow e \<longleftrightarrow> now < email_creationTimestamp e + Hour" for e
    by (auto simp: recent_def time_Sub_def capWindow_def)
  show "\<exists>now \<le> clock w'. int (length (filter (\<lambda>e. now < email_creationTimestamp e + Hour) (sent mails ns i w))) < cap"
    if "t = Inr False" "0 < cap"
    using passed that unfolding hour [abs_def] by blast
qed

section \<open>The invariants\<close>

fun in_flight :: "string \<Rightarrow> recovery_pc \<Rightarrow> bool" where
  "in_flight i (InBudget u j to) \<longleftrightarrow> j = i"
| "in_flight i (WithCode u j to codeID code) \<longleftrightarrow> j = i"
| "in_flight i _ \<longleftrightarrow> False"

definition flying :: "nat \<Rightarrow> string \<Rightarrow> 'w recovery_sys \<Rightarrow> nat" where
  "flying n i s = card {r. r < n \<and> in_flight i (rs_pc s r)}"

definition in_window :: "int \<Rightarrow> email list \<Rightarrow> email list" where
  "in_window a es = filter (\<lambda>e. a < email_creationTimestamp e \<and> email_creationTimestamp e < a + Hour) es"

text \<open>Requests only exist in the slots, and those within the budget count as if their Email were sent.\<close>

definition window_ok ::
  "nat \<Rightarrow> int \<Rightarrow> ('w \<Rightarrow> email list) \<Rightarrow> ('w \<Rightarrow> int) \<Rightarrow> int \<Rightarrow> string \<Rightarrow> string \<Rightarrow> 'w recovery_sys \<Rightarrow> bool" where
  "window_ok n cap mails clock a ns i s \<longleftrightarrow>
     (\<forall>r. rs_pc s r \<noteq> Idle \<longrightarrow> r < n) \<and>
     int (length (in_window a (sent mails ns i (rs_world s)))) +
       (if clock (rs_world s) < a + Hour then int (flying n i s) else 0) \<le> cap - 1 + int n"

definition spaced_ok ::
  "int \<Rightarrow> ('w \<Rightarrow> email list) \<Rightarrow> ('w \<Rightarrow> int) \<Rightarrow> string \<Rightarrow> string \<Rightarrow> 'w recovery_sys \<Rightarrow> bool" where
  "spaced_ok cooldown mails clock ns i s \<longleftrightarrow>
     (\<forall>r. rs_pc s r \<noteq> Idle \<longrightarrow> r = 0) \<and>
     (in_flight i (rs_pc s 0) \<longrightarrow>
        (\<forall>e \<in> set (sent mails ns i (rs_world s)). email_creationTimestamp e + cooldown \<le> clock (rs_world s))) \<and>
     sorted_wrt (\<lambda>e e'. email_creationTimestamp e + cooldown < email_creationTimestamp e' + Second)
       (sent mails ns i (rs_world s))"

lemma flying_le: "flying n i s \<le> n"
  unfolding flying_def using card_mono [of "{..<n}" "{r. r < n \<and> in_flight i (rs_pc s r)}"] by auto

lemma flying_same: "(\<And>r. in_flight i (rs_pc s' r) = in_flight i (rs_pc s r)) \<Longrightarrow> flying n i s' = flying n i s"
  by (simp add: flying_def)

lemma flying_lands:
  assumes "r < n" and "in_flight i (rs_pc s r)" and "\<not> in_flight i p"
  shows "Suc (flying n i (rs_go r p w s)) = flying n i s"
proof -
  have "{q. q < n \<and> in_flight i (rs_pc s q)} = insert r {q. q < n \<and> in_flight i (rs_pc (rs_go r p w s) q)}"
    using assms by auto
  then show ?thesis using assms(3) by (simp add: flying_def)
qed

lemma flying_drops: "\<not> in_flight i p \<Longrightarrow> flying n i (rs_go r p w s) \<le> flying n i s"
  unfolding flying_def by (intro card_mono) auto

lemma sent_mail:
  "sent mails (ar_NotificationNamespace cfg) j w' =
     sent mails (ar_NotificationNamespace cfg) j w @ (if j = i then [(recovery_mail lib cfg u i to c d)\<lparr>email_creationTimestamp := t\<rparr>] else [])"
  if "mails w' = mails w @ [(recovery_mail lib cfg u i to c d)\<lparr>email_creationTimestamp := t\<rparr>]"
  using that by (auto simp: sent_def recovery_mail_def Build_def LabelUser_def LabelRequestedBy_def)

lemma hour_later: "Second dvd a \<Longrightarrow> Second dvd a + Hour"
  by (rule dvd_add) simp_all

lemma in_window_append [simp]: "in_window a (xs @ ys) = in_window a xs @ in_window a ys"
  by (simp add: in_window_def)

lemma in_window_one: "length (in_window a [e]) \<le> 1" "a + Hour \<le> email_creationTimestamp e \<Longrightarrow> in_window a [e] = []"
  by (simp_all add: in_window_def)

lemma window_check:
  assumes law: "budget_law srv mint mails clock others" and "0 < cap"
    and run: "run_state (TooSoon (ms_runtime srv) (ms_k8s srv) ns i RequestedBySelf cooldown cap) w = (Inr False, w')"
    and "clock w' < a + Hour"
  shows "int (length (in_window a (sent mails ns i w))) < cap"
proof -
  from too_soon_passes(4) [OF law run _ assms(2)] obtain now where now: "now \<le> clock w'"
    "int (length (filter (\<lambda>e. now < email_creationTimestamp e + Hour) (sent mails ns i w))) < cap" by blast
  have "in_window a (sent mails ns i w) = filter (\<lambda>e. a < email_creationTimestamp e \<and> email_creationTimestamp e < a + Hour)
      (filter (\<lambda>e. now < email_creationTimestamp e + Hour) (sent mails ns i w))"
    unfolding in_window_def filter_filter using now(1) assms(4) by (intro filter_cong) auto
  then have "length (in_window a (sent mails ns i w)) \<le> length (filter (\<lambda>e. now < email_creationTimestamp e + Hour) (sent mails ns i w))"
    by (simp only: length_filter_le)
  with now(2) show ?thesis by linarith
qed

lemma slots_step:
  assumes "recovery_step n srv mint cfg others s s'" and "\<forall>r. rs_pc s r \<noteq> Idle \<longrightarrow> r < n"
  shows "\<forall>r. rs_pc s' r \<noteq> Idle \<longrightarrow> r < n"
  using assms(1)
proof cases
  case (arrive r u i to)
  with assms(2) show ?thesis by (auto split: if_splits)
next
  case (check r u i to t w)
  then have "r < n" using assms(2) by auto
  with check assms(2) show ?thesis by (auto split: if_splits)
next
  case (mint_code r u i to c w)
  then have "r < n" using assms(2) by auto
  with mint_code assms(2) show ?thesis by (auto split: if_splits)
qed (use assms(2) in \<open>auto split: if_splits\<close>)

text \<open>
  What a step is for the budget of one User: nothing, a request that the check lets pass, or a mail of such a request.
\<close>

lemma create_effect:
  assumes "budget_law srv mint mails clock others"
    and "run_state (CreateEmail (ms_k8s srv) (recovery_mail (ms_lib srv) cfg u j to codeID code)) w = (e, w')"
  obtains (nothing) "sent mails (ar_NotificationNamespace cfg) i w' = sent mails (ar_NotificationNamespace cfg) i w"
      "clock w \<le> clock w'"
  | (mail) t m where "j = i" "clock w \<le> t" "t \<le> clock w'" "email_creationTimestamp m = seconds t"
      "sent mails (ar_NotificationNamespace cfg) i w' = sent mails (ar_NotificationNamespace cfg) i w @ [m]"
proof (cases "e = None \<and> j = i")
  case False
  note m = budget_law_run(4) [OF assms]
  have "sent mails (ar_NotificationNamespace cfg) i w' = sent mails (ar_NotificationNamespace cfg) i w"
    using m False by (cases e) (auto simp: sent_mail, simp add: sent_def)
  then show thesis by (rule nothing) (use m in simp)
next
  case True
  then obtain t where t: "clock w \<le> t" "t \<le> clock w'" and
    mails: "mails w' = mails w @ [(recovery_mail (ms_lib srv) cfg u j to codeID code)\<lparr>email_creationTimestamp := seconds t\<rparr>]"
    using budget_law_run(4) [OF assms] by auto
  from sent_mail [of mails, OF mails] True t show thesis by (intro mail [where t = t]) simp_all
qed

lemma recovery_step_effect:
  assumes law: "budget_law srv mint mails clock others" and step: "recovery_step n srv mint cfg others s s'"
  obtains (quiet) "sent mails (ar_NotificationNamespace cfg) i (rs_world s') = sent mails (ar_NotificationNamespace cfg) i (rs_world s)"
      "clock (rs_world s) \<le> clock (rs_world s')" "\<And>r. in_flight i (rs_pc s' r) \<Longrightarrow> in_flight i (rs_pc s r)"
  | (pass) r p w where "s' = rs_go r p w s" "run_state (TooSoon (ms_runtime srv) (ms_k8s srv) (ar_NotificationNamespace cfg) i
      RequestedBySelf (ar_Cooldown cfg) (ar_MaxPerHour cfg)) (rs_world s) = (Inr False, w)"
  | (mail) r t m w where "s' = rs_go r Idle w s" "in_flight i (rs_pc s r)" "clock (rs_world s) \<le> t" "t \<le> clock w"
      "email_creationTimestamp m = seconds t"
      "sent mails (ar_NotificationNamespace cfg) i w = sent mails (ar_NotificationNamespace cfg) i (rs_world s) @ [m]"
  using step
proof cases
  case (arrive r u j to)
  then show thesis by (intro quiet) (auto split: if_splits)
next
  case (check r u j to t w)
  note c = too_soon_passes [OF law check(3)]
  show thesis
  proof (cases "t = Inr False \<and> j = i")
    case True
    then show thesis using check(1,3) by (intro pass) auto
  next
    case False
    then show thesis using check c(1,2) by (intro quiet) (auto split: if_splits)
  qed
next
  case (mint_code r u j to c w)
  then show thesis using budget_law_run(3) [OF law mint_code(3)]
    by (intro quiet) (auto simp: sent_def split: sum.splits prod.splits if_splits)
next
  case (send r u j to codeID code e w)
  from law send(3) show thesis
  proof (cases rule: create_effect [where i = i])
    case nothing
    with send show thesis by (intro quiet) (auto split: if_splits)
  next
    case (mail t m)
    with send show thesis by (intro that(3)) auto
  qed
next
  case (other w)
  then show thesis using budget_law_run(5) [OF law other(2)] by (intro quiet) auto
qed

lemma window_ok_step:
  assumes law: "budget_law srv mint mails clock others" and cap: "0 < ar_MaxPerHour cfg" and a: "Second dvd a"
    and step: "recovery_step n srv mint cfg others s s'"
    and ok: "window_ok n (ar_MaxPerHour cfg) mails clock a (ar_NotificationNamespace cfg) i s"
  shows "window_ok n (ar_MaxPerHour cfg) mails clock a (ar_NotificationNamespace cfg) i s'"
proof -
  let ?ns = "ar_NotificationNamespace cfg"
  have slots: "\<forall>r. rs_pc s r \<noteq> Idle \<longrightarrow> r < n" using ok by (simp add: window_ok_def)
  note slots' = slots_step [OF step slots]
  from law step show ?thesis
  proof (cases rule: recovery_step_effect [where i = i])
    case quiet
    then have "flying n i s' \<le> flying n i s" unfolding flying_def by (intro card_mono) auto
    with quiet ok slots' show ?thesis by (auto simp: window_ok_def split: if_splits)
  next
    case (pass r p w)
    note c = too_soon_passes [OF law pass(2)]
    have "clock w < a + Hour \<Longrightarrow> int (length (in_window a (sent mails ?ns i (rs_world s)))) < ar_MaxPerHour cfg"
      using window_check [OF law cap pass(2)] by blast
    moreover have "int (flying n i s') \<le> int n" using flying_le by simp
    ultimately show ?thesis using pass(1) ok c(1,2) slots' by (auto simp: window_ok_def split: if_splits)
  next
    case (mail r t m w)
    from mail(2) have "rs_pc s r \<noteq> Idle" by auto
    with slots have "Suc (flying n i s') = flying n i s" using mail(1,2) flying_lands [of r n i s Idle] by simp
    moreover have "in_window a [m] = []" if "\<not> clock (rs_world s) < a + Hour"
      using that mail(3,5) seconds_mono [OF hour_later [OF a], of t] by (intro in_window_one(2)) simp
    ultimately show ?thesis using mail ok slots' in_window_one(1) [of a m] by (auto simp: window_ok_def split: if_splits)
  qed
qed

lemma spaced_ok_step:
  assumes law: "budget_law srv mint mails clock others" and cd: "0 < ar_Cooldown cfg"
    and step: "recovery_step 1 srv mint cfg others s s'"
    and ok: "spaced_ok (ar_Cooldown cfg) mails clock (ar_NotificationNamespace cfg) i s"
  shows "spaced_ok (ar_Cooldown cfg) mails clock (ar_NotificationNamespace cfg) i s'"
proof -
  let ?ns = "ar_NotificationNamespace cfg" and ?c = "ar_Cooldown cfg"
  have slot: "rs_pc s r \<noteq> Idle \<Longrightarrow> r = 0" for r using ok by (simp add: spaced_ok_def)
  have slots: "\<forall>r. rs_pc s' r \<noteq> Idle \<longrightarrow> r = 0" using slots_step [OF step] slot by (metis less_one)
  from law step show ?thesis
  proof (cases rule: recovery_step_effect [where i = i])
    case quiet
    from quiet(2) ok have "\<forall>e \<in> set (sent mails ?ns i (rs_world s)). email_creationTimestamp e + ?c \<le> clock (rs_world s')"
      if "in_flight i (rs_pc s 0)" using that by (fastforce simp: spaced_ok_def)
    with quiet(1,3) ok slots show ?thesis by (auto simp: spaced_ok_def)
  next
    case (pass r p w)
    note c = too_soon_passes [OF law pass(2)]
    from c(3) cd have "\<forall>e \<in> set (sent mails ?ns i (rs_world s)). email_creationTimestamp e + ?c \<le> clock w" by blast
    then show ?thesis using pass(1) ok c(1) slots by (simp add: spaced_ok_def)
  next
    case (mail r t m w)
    then have "rs_pc s r \<noteq> Idle" by auto
    with slot have r: "r = 0" .
    have old: "\<forall>e \<in> set (sent mails ?ns i (rs_world s)). email_creationTimestamp e + ?c \<le> clock (rs_world s)"
      using ok mail(2) r by (simp add: spaced_ok_def)
    have "email_creationTimestamp e + ?c < seconds t + Second" if "e \<in> set (sent mails ?ns i (rs_world s))" for e
      using old that mail(3) seconds_gt [of t] by fastforce
    moreover have "sorted_wrt (\<lambda>e e'. email_creationTimestamp e + ?c < email_creationTimestamp e' + Second)
        (sent mails ?ns i (rs_world s))" using ok by (simp add: spaced_ok_def)
    moreover have "\<not> in_flight i (rs_pc s' 0)" "sent mails ?ns i (rs_world s') = sent mails ?ns i (rs_world s) @ [m]"
      using mail(1,6) r by simp_all
    ultimately show ?thesis using slots mail(5) by (simp add: spaced_ok_def sorted_wrt_append)
  qed
qed

lemma recovery_reachable:
  assumes "budget_law srv mint mails clock others" and "recoveries n srv mint cfg others (recovery_start w0) s"
    and "sent mails (ar_NotificationNamespace cfg) i w0 = []"
  shows "0 < ar_MaxPerHour cfg \<Longrightarrow> Second dvd a \<Longrightarrow>
      window_ok n (ar_MaxPerHour cfg) mails clock a (ar_NotificationNamespace cfg) i s"
    and "0 < ar_Cooldown cfg \<Longrightarrow> n = 1 \<Longrightarrow>
      spaced_ok (ar_Cooldown cfg) mails clock (ar_NotificationNamespace cfg) i s"
proof -
  show "window_ok n (ar_MaxPerHour cfg) mails clock a (ar_NotificationNamespace cfg) i s"
    if "0 < ar_MaxPerHour cfg" "Second dvd a"
  proof (rule step_invariant.inv_steps [OF _ assms(2)])
    show "step_invariant (recovery_step n srv mint cfg others)
        (window_ok n (ar_MaxPerHour cfg) mails clock a (ar_NotificationNamespace cfg) i)"
      by unfold_locales (rule window_ok_step [OF assms(1) that])
    show "window_ok n (ar_MaxPerHour cfg) mails clock a (ar_NotificationNamespace cfg) i (recovery_start w0)"
      using assms(3) that(1) by (simp add: window_ok_def recovery_start_def in_window_def flying_def)
  qed
  show "spaced_ok (ar_Cooldown cfg) mails clock (ar_NotificationNamespace cfg) i s"
    if "0 < ar_Cooldown cfg" "n = 1"
  proof (rule step_invariant.inv_steps [OF _ assms(2)])
    show "step_invariant (recovery_step n srv mint cfg others)
        (spaced_ok (ar_Cooldown cfg) mails clock (ar_NotificationNamespace cfg) i)"
      unfolding that(2) by unfold_locales (rule spaced_ok_step [OF assms(1) that(1)])
    show "spaced_ok (ar_Cooldown cfg) mails clock (ar_NotificationNamespace cfg) i (recovery_start w0)"
      using assms(3) by (simp add: spaced_ok_def recovery_start_def)
  qed
qed

text \<open>C19. However the requests for recovery mails interleave, with at most n handled at once: of the mails a User has been
  sent, the number created within an hour is at most the hourly cap less one plus n. With one request at a time
  the cap is therefore exact, and the mails are also the cooldown apart, up to the second to which creation times
  are cut off.\<close>

theorem recovery_budget_under_load:
  assumes "budget_law srv mint mails clock others" and "recoveries n srv mint cfg others (recovery_start w0) s"
    and "sent mails (ar_NotificationNamespace cfg) i w0 = []"
  shows "(0 < ar_MaxPerHour cfg \<longrightarrow> Second dvd a \<longrightarrow>
      int (length (filter (\<lambda>e. a < email_creationTimestamp e \<and> email_creationTimestamp e < a + 3600 * Second)
        (sent mails (ar_NotificationNamespace cfg) i (rs_world s)))) \<le> ar_MaxPerHour cfg - 1 + int n) \<and>
    (0 < ar_Cooldown cfg \<longrightarrow> n = 1 \<longrightarrow>
      sorted_wrt (\<lambda>e e'. email_creationTimestamp e + ar_Cooldown cfg < email_creationTimestamp e' + Second)
        (sent mails (ar_NotificationNamespace cfg) i (rs_world s)))"
proof (intro conjI impI)
  show "int (length (filter (\<lambda>e. a < email_creationTimestamp e \<and> email_creationTimestamp e < a + 3600 * Second)
        (sent mails (ar_NotificationNamespace cfg) i (rs_world s)))) \<le> ar_MaxPerHour cfg - 1 + int n"
    if "0 < ar_MaxPerHour cfg" "Second dvd a"
    using recovery_reachable(1) [OF assms that] by (simp add: window_ok_def in_window_def split: if_splits)
  show "sorted_wrt (\<lambda>e e'. email_creationTimestamp e + ar_Cooldown cfg < email_creationTimestamp e' + Second)
        (sent mails (ar_NotificationNamespace cfg) i (rs_world s))" if "0 < ar_Cooldown cfg" "n = 1"
    using recovery_reachable(2) [OF assms that] by (simp add: spaced_ok_def)
qed

section \<open>The bound is reached\<close>

text \<open>
  The API server in memory, of which the codes differ from call to call: with a cap of one mail an hour and two
  requests at once, both pass the check before either has sent its mail, and two mails are sent in the same second.
\<close>

definition fresh_mint :: "string \<Rightarrow> (mem_world, go_error + string \<times> string) state" where
  "fresh_mint u = State (\<lambda>w. (Inr (Itoa (int (mem_version w)), ''code''), w\<lparr>mem_version := Suc (mem_version w)\<rparr>))"

definition whole_server :: "mem_world mail_server" where
  "whole_server = recovery_server\<lparr>ms_k8s := mem_kube\<lparr>CreateEmail := (\<lambda>e. State (\<lambda>w.
       if \<exists>x \<in> set (mem_emails w). email_name x = email_name e then (Some already_exists, w)
       else (None, w\<lparr>mem_emails := mem_emails w @ [e\<lparr>email_creationTimestamp := seconds (mem_clock w)\<rparr>]\<rparr>)))\<rparr>\<rparr>"

definition capped_config :: account_recovery_config where
  "capped_config = recovery_config\<lparr>ar_Cooldown := 0, ar_MaxPerHour := 1\<rparr>"

lemma whole_budget_law: "budget_law whole_server fresh_mint mem_emails mem_clock (\<lambda>_ _. False)"
  by (auto simp: budget_law_def whole_server_def recovery_server_def mem_kube_def mem_runtime_def fresh_mint_def sent_def
      split: if_splits)

definition two_requests :: "recovery_pc \<Rightarrow> recovery_pc \<Rightarrow> mem_world \<Rightarrow> mem_world recovery_sys" where
  "two_requests p q w = \<lparr>rs_world = w, rs_pc = (\<lambda>_. Idle)(0 := p, 1 := q)\<rparr>"

lemma two_requests_simps [simp]:
  "rs_world (two_requests p q w) = w" "rs_pc (two_requests p q w) 0 = p" "rs_pc (two_requests p q w) (Suc 0) = q"
  "rs_go 0 p' w' (two_requests p q w) = two_requests p' q w'"
  "rs_go (Suc 0) q' w' (two_requests p q w) = two_requests p q' w'"
  "recovery_start w = two_requests Idle Idle w"
  by (auto simp: two_requests_def rs_go_def recovery_start_def fun_eq_iff)

definition demo_mail :: "string \<Rightarrow> email" where
  "demo_mail codeID = (recovery_mail (ms_lib whole_server) capped_config (NewUser ''u'' ''u@x'' [] []) ''u'' demo_url codeID ''code'')
     \<lparr>email_creationTimestamp := 0\<rparr>"

lemma demo_calls:
  "run_state (TooSoon (ms_runtime whole_server) (ms_k8s whole_server) (ar_NotificationNamespace capped_config) ''u'' RequestedBySelf
     (ar_Cooldown capped_config) (ar_MaxPerHour capped_config)) empty_world = (Inr False, empty_world)"
  "run_state (fresh_mint ''u'') w = (Inr (Itoa (int (mem_version w)), ''code''), w\<lparr>mem_version := Suc (mem_version w)\<rparr>)"
  "email_name (recovery_mail (ms_lib whole_server) capped_config v ''u'' to c d) \<notin> email_name ` set (mem_emails w) \<Longrightarrow>
   run_state (CreateEmail (ms_k8s whole_server) (recovery_mail (ms_lib whole_server) capped_config v ''u'' to c d)) w =
     (None, w\<lparr>mem_emails := mem_emails w @ [(recovery_mail (ms_lib whole_server) capped_config v ''u'' to c d)
       \<lparr>email_creationTimestamp := seconds (mem_clock w)\<rparr>]\<rparr>)"
  by (auto simp: TooSoon_def whole_server_def recovery_server_def mem_kube_def mem_runtime_def empty_world_def capped_config_def
      recovery_config_def fresh_mint_def image_iff)

lemma two_mails_at_once:
  "recoveries 2 whole_server fresh_mint capped_config (\<lambda>_ _. False) (recovery_start empty_world)
     (two_requests Idle Idle (empty_world\<lparr>mem_version := 3, mem_emails := [demo_mail ''1'', demo_mail ''2'']\<rparr>))"
proof -
  let ?R = "recovery_step 2 whole_server fresh_mint capped_config (\<lambda>_ _. False)" and ?w = empty_world
  let ?u = "NewUser ''u'' ''u@x'' [] []" and ?s = "recovery_start empty_world"
  let ?ask = "Asking ?u ''u'' demo_url" and ?in = "InBudget ?u ''u'' demo_url"
  let ?code = "\<lambda>c. WithCode ?u ''u'' demo_url c ''code''"
  let ?w2 = "?w\<lparr>mem_version := 2\<rparr>" and ?w3 = "?w\<lparr>mem_version := 3\<rparr>"
  note step = rtranclp.rtrancl_into_rtrancl [where r = ?R and a = ?s]
  have v: "mem_version ?w = 1" "mem_emails ?w = []" "mem_clock ?w = 0" by (simp_all add: empty_world_def)
  have "Itoa 1 = ''1''" "Itoa 2 = ''2''" by code_simp+
  then have mint: "run_state (fresh_mint ''u'') ?w = (Inr (''1'', ''code''), ?w2)"
    "run_state (fresh_mint ''u'') ?w2 = (Inr (''2'', ''code''), ?w3)" using v by (simp_all add: demo_calls(2))
  have names: "email_name (demo_mail ''2'') \<noteq> email_name (demo_mail ''1'')"
    by (simp add: demo_mail_def recovery_mail_def Build_def whole_server_def recovery_server_def table_lib_def)
  have create: "run_state (CreateEmail (ms_k8s whole_server) (recovery_mail (ms_lib whole_server) capped_config ?u ''u'' demo_url
      ''1'' ''code'')) ?w3 = (None, ?w3\<lparr>mem_emails := [demo_mail ''1'']\<rparr>)"
    "run_state (CreateEmail (ms_k8s whole_server) (recovery_mail (ms_lib whole_server) capped_config ?u ''u'' demo_url
      ''2'' ''code'')) (?w3\<lparr>mem_emails := [demo_mail ''1'']\<rparr>) = (None, ?w3\<lparr>mem_emails := [demo_mail ''1'', demo_mail ''2'']\<rparr>)"
    using v names by (simp_all add: demo_calls(3) demo_mail_def seconds_def)
  have "?R\<^sup>*\<^sup>* ?s (two_requests Idle Idle ?w)" by simp
  from step [OF this arrive [of 0 2 _ _ _ _ _ ?u "''u''" demo_url]] have "?R\<^sup>*\<^sup>* ?s (two_requests ?ask Idle ?w)" by simp
  from step [OF this arrive [of 1 2 _ _ _ _ _ ?u "''u''" demo_url]] have "?R\<^sup>*\<^sup>* ?s (two_requests ?ask ?ask ?w)" by simp
  from step [OF this check [of _ 0 ?u "''u''" demo_url]] demo_calls(1) have "?R\<^sup>*\<^sup>* ?s (two_requests ?in ?ask ?w)" by simp
  from step [OF this check [of _ 1 ?u "''u''" demo_url]] demo_calls(1) have "?R\<^sup>*\<^sup>* ?s (two_requests ?in ?in ?w)" by simp
  from step [OF this mint_code [of "two_requests ?in ?in ?w" 0 ?u "''u''" demo_url fresh_mint "Inr (''1'', ''code'')" ?w2]] mint(1)
  have "?R\<^sup>*\<^sup>* ?s (two_requests (?code ''1'') ?in ?w2)" by simp
  from step [OF this mint_code [of "two_requests (?code ''1'') ?in ?w2" 1 ?u "''u''" demo_url fresh_mint "Inr (''2'', ''code'')" ?w3]] mint(2)
  have "?R\<^sup>*\<^sup>* ?s (two_requests (?code ''1'') (?code ''2'') ?w3)" by simp
  from step [OF this send [of "two_requests (?code ''1'') (?code ''2'') ?w3" 0 ?u "''u''" demo_url "''1''" "''code''" whole_server capped_config None]] create(1)
  have "?R\<^sup>*\<^sup>* ?s (two_requests Idle (?code ''2'') (?w3\<lparr>mem_emails := [demo_mail ''1'']\<rparr>))" by simp
  from step [OF this send [of "two_requests Idle (?code ''2'') (?w3\<lparr>mem_emails := [demo_mail ''1'']\<rparr>)" 1 ?u "''u''" demo_url "''2''" "''code''" whole_server capped_config None]] create(2) show ?thesis by simp
qed

theorem recovery_budget_under_load_witness:
  "length (filter (\<lambda>e. - Second < email_creationTimestamp e \<and> email_creationTimestamp e < - Second + 3600 * Second)
      (sent mem_emails (ar_NotificationNamespace capped_config) ''u''
        (empty_world\<lparr>mem_version := 3, mem_emails := [demo_mail ''1'', demo_mail ''2'']\<rparr>))) = 2 \<and>
   (2::int) \<le> ar_MaxPerHour capped_config - 1 + int 2"
proof -
  have none: "sent mem_emails (ar_NotificationNamespace capped_config) ''u'' empty_world = []"
    by (simp add: sent_def empty_world_def)
  have "sent mem_emails (ar_NotificationNamespace capped_config) ''u''
      (empty_world\<lparr>mem_version := 3, mem_emails := [demo_mail ''1'', demo_mail ''2'']\<rparr>) = [demo_mail ''1'', demo_mail ''2'']"
    by (simp add: sent_def demo_mail_def recovery_mail_def Build_def capped_config_def)
  then have two: "length (filter (\<lambda>e. - Second < email_creationTimestamp e \<and> email_creationTimestamp e < - Second + 3600 * Second)
      (sent mem_emails (ar_NotificationNamespace capped_config) ''u''
        (empty_world\<lparr>mem_version := 3, mem_emails := [demo_mail ''1'', demo_mail ''2'']\<rparr>))) = 2"
    by (simp add: demo_mail_def)
  have "0 < ar_MaxPerHour capped_config" "Second dvd - Second" by (simp_all add: capped_config_def)
  with recovery_budget_under_load [OF whole_budget_law two_mails_at_once none, of "- Second"] two show ?thesis
    unfolding two_requests_simps by simp
qed

end
