(* ===== verification/Mail_Types.thy ===== *)
theory Mail_Types
  imports Mail_Properties Identity_Properties
begin

text \<open>
  The type of the Emails: what the API server demands of an object of that kind, and that every Email the
  program stores, by whichever of its six ways, meets it.
\<close>

section \<open>Well-formed Emails\<close>

text \<open>
  A name is a DNS label: lower-case letters, digits and hyphens, with none at its ends, of at most 63 characters.
  Variables, labels and annotations are maps, so that each key occurs once. The time of creation is the server's.
\<close>

definition hex_digit :: "char \<Rightarrow> bool" where
  "hex_digit c \<longleftrightarrow> c \<in> set ''0123456789abcdef''"

definition name_char :: "char \<Rightarrow> bool" where
  "name_char c \<longleftrightarrow> c \<in> set ''abcdefghijklmnopqrstuvwxyz0123456789-''"

definition dns_label :: "string \<Rightarrow> bool" where
  "dns_label s \<longleftrightarrow> s \<noteq> [] \<and> list_all name_char s \<and> hd s \<noteq> CHR ''-'' \<and> last s \<noteq> CHR ''-'' \<and> length s \<le> 63"

definition well_formed_email :: "email \<Rightarrow> bool" where
  "well_formed_email e \<longleftrightarrow> dns_label (email_name e) \<and> distinct (map fst (email_variables e)) \<and>
     distinct (map fst (email_labels e)) \<and> distinct (map fst (email_annotations e)) \<and> email_priority e = PriorityHigh"

lemma hex_name: "hex_digit c \<Longrightarrow> name_char c \<and> c \<noteq> CHR ''-''"
  by (auto simp: hex_digit_def name_char_def)

lemma well_formed_stamp [simp]: "well_formed_email (e\<lparr>email_creationTimestamp := t\<rparr>) = well_formed_email e"
  by (simp add: well_formed_email_def)

text \<open>A hash in hexadecimal digits, and a random identifier of 36 hexadecimal digits and hyphens.\<close>

definition sha_law :: "golib \<Rightarrow> bool" where
  "sha_law lib \<longleftrightarrow> (\<forall>s. length (Sha256Hex lib s) = 64 \<and> list_all hex_digit (Sha256Hex lib s))"

definition uuid_text :: "string \<Rightarrow> bool" where
  "uuid_text s \<longleftrightarrow> length s = 36 \<and> list_all (\<lambda>c. hex_digit c \<or> c = CHR ''-'') s \<and> hex_digit (hd s) \<and> hex_digit (last s)"

definition uuid_law :: "'w runtime \<Rightarrow> bool" where
  "uuid_law rt \<longleftrightarrow> (\<forall>w x w'. run_state (NewUUID rt) w = (x, w') \<longrightarrow> uuid_text x)"

lemma uuid_run: "uuid_law rt \<Longrightarrow> run_state (NewUUID rt) w = (x, w') \<Longrightarrow> uuid_text x"
  unfolding uuid_law_def by blast

lemma dns_label_prefix:
  assumes "p \<noteq> []" and "list_all name_char p" and "hd p \<noteq> CHR ''-''" and "list_all name_char s" and "s \<noteq> []"
    and "last s \<noteq> CHR ''-''" and "length p + length s \<le> 63"
  shows "dns_label (p @ s)"
  using assms by (simp add: dns_label_def)

lemma hash_name:
  assumes "sha_law lib" and "list_all name_char p" and "p \<noteq> []" and "hd p \<noteq> CHR ''-''" and "length p \<le> 47"
  shows "dns_label (p @ take 16 (Sha256Hex lib x))"
proof (rule dns_label_prefix)
  let ?h = "take 16 (Sha256Hex lib x)"
  have len: "length ?h = 16" and hex: "list_all hex_digit ?h"
    using assms(1) by (auto simp: sha_law_def list_all_iff dest: in_set_takeD)
  then show "?h \<noteq> []" by auto
  then have "last ?h \<in> set ?h" by (rule last_in_set)
  with hex hex_name show "list_all name_char ?h" "last ?h \<noteq> CHR ''-''" by (auto simp: list_all_iff)
  show "length p + length ?h \<le> 63" using assms(5) len by simp
qed (use assms in auto)

lemma uuid_name:
  assumes "uuid_text x" and "list_all name_char p" and "p \<noteq> []" and "hd p \<noteq> CHR ''-''" and "length p \<le> 27"
  shows "dns_label (p @ x)"
proof (rule dns_label_prefix)
  have "name_char CHR ''-''" by (simp add: name_char_def)
  with assms(1) hex_name show "list_all name_char x" by (auto simp: uuid_text_def list_all_iff)
qed (use assms hex_name in \<open>auto simp: uuid_text_def\<close>)

section \<open>The six kinds of mail\<close>

lemmas name_simps = name_char_def LabelUser_def LabelRequestedBy_def AnnotationRequester_def AnnotationReason_def

lemma recovery_well_formed:
  assumes "sha_law lib"
  shows "well_formed_email (Build lib i)"
proof -
  have "dns_label (email_name (Build lib i))"
    using hash_name [OF assms, of "''account-recovery-''"] by (simp add: Build_def namePrefix_def name_simps)
  then show ?thesis by (simp add: well_formed_email_def Build_def name_simps)
qed

lemma verification_well_formed:
  assumes "sha_law lib"
  shows "well_formed_email (verificationEmail lib cfg u req link)"
proof -
  have "dns_label (verification_name lib req)"
    using hash_name [OF assms, of "''email-verification-''"] by (simp add: verification_name_def name_simps)
  then show ?thesis by (simp add: well_formed_email_def verificationEmail_def)
qed

lemma notification_well_formed:
  assumes "uuid_text x"
  shows "well_formed_email (suspiciousLoginEmail srv u x t ip device browser location)"
    and "well_formed_email (passkeyAddedEmail srv u x t name)"
    and "well_formed_email (passkeyRemovedEmail srv u x t name)"
  using uuid_name [OF assms, of "''suspicious-login-''"] uuid_name [OF assms, of "''passkey-added-''"]
    uuid_name [OF assms, of "''passkey-removed-''"]
  by (simp_all add: well_formed_email_def suspiciousLoginEmail_def passkeyAddedEmail_def passkeyRemovedEmail_def name_simps)

section \<open>The store\<close>

text \<open>The reads leave the stored Emails alone, and a create stores the Email it is given or nothing.\<close>

definition mail_store :: "'w kube \<Rightarrow> ('w \<Rightarrow> email list) \<Rightarrow> bool" where
  "mail_store K mails \<longleftrightarrow>
     (\<forall>n. silent mails (GetUser K n)) \<and> (\<forall>ns l. silent mails (ListEmails K ns l)) \<and>
     (\<forall>e w r w'. run_state (CreateEmail K e) w = (r, w') \<longrightarrow>
        (\<exists>t. set (mails w') \<subseteq> insert (e\<lparr>email_creationTimestamp := t\<rparr>) (set (mails w))))"

definition well_formed_mails :: "('w \<Rightarrow> email list) \<Rightarrow> 'w \<Rightarrow> bool" where
  "well_formed_mails mails w \<longleftrightarrow> (\<forall>e \<in> set (mails w). well_formed_email e)"

lemma quiet_mails: "silent mails m \<Longrightarrow> keeps (well_formed_mails mails) m"
  unfolding well_formed_mails_def by (rule keeps_silent)

lemma create_well_formed:
  assumes "mail_store K mails" and "well_formed_email e"
  shows "keeps (well_formed_mails mails) (CreateEmail K e)"
proof (rule keepsI)
  fix w r w'
  assume ok: "well_formed_mails mails w" and "run_state (CreateEmail K e) w = (r, w')"
  with assms(1) obtain t where "set (mails w') \<subseteq> insert (e\<lparr>email_creationTimestamp := t\<rparr>) (set (mails w))"
    unfolding mail_store_def by blast
  with ok assms(2) well_formed_stamp show "well_formed_mails mails w'" unfolding well_formed_mails_def by blast
qed

lemma store_reads:
  "mail_store K mails \<Longrightarrow> silent mails (GetUser K n)" "mail_store K mails \<Longrightarrow> silent mails (ListEmails K ns l)"
  by (simp_all add: mail_store_def)

lemma keeps_snd: "keeps I m \<Longrightarrow> I w \<Longrightarrow> I (snd (run_state m w))"
  by (metis keepsD prod.collapse)

lemma keeps_bool: "keeps I m \<Longrightarrow> keeps I k \<Longrightarrow> keeps I (case b of True \<Rightarrow> m | False \<Rightarrow> k)"
  by (cases b) simp_all

lemma webhook_well_formed:
  assumes store: "mail_store (ms_k8s srv) mails" and sha: "sha_law (ms_lib srv)"
    and "\<And>d. silent mails (ms_wait srv d)" and now: "silent mails (Now (ms_runtime srv))" and mint: "\<And>i. silent mails (mint i)"
  shows "keeps (well_formed_mails mails) (AccountRecovery_ServeHTTP srv mint cfg r)"
    and "keeps (well_formed_mails mails) (EmailVerification_ServeHTTP srv cfg' r)"
proof -
  have look: "keeps (well_formed_mails mails) (userWithRetry srv i a b)" for i a b
    using store_reads(1) [OF store] assms(3) by (intro quiet_mails silent_userWithRetry)
  have soon: "keeps (well_formed_mails mails) (TooSoon (ms_runtime srv) (ms_k8s srv) ns i by c m)" for ns i "by" c m
    using store_reads(2) [OF store] now by (intro quiet_mails silent_TooSoon)
  have send: "keeps (well_formed_mails mails) (CreateEmail (ms_k8s srv) (recovery_mail (ms_lib srv) cfg u i to c d))" for u i to c d
    unfolding recovery_mail_def by (intro create_well_formed [OF store] recovery_well_formed [OF sha])
  have rec: "keeps (well_formed_mails mails) (recover srv mint cfg u i to)" for u i to
    unfolding recover_def by (intro keeps_intro keeps_bool soon send quiet_mails [OF mint])
  then show "keeps (well_formed_mails mails) (AccountRecovery_ServeHTTP srv mint cfg r)"
    unfolding AccountRecovery_ServeHTTP_def by (intro keeps_intro look)
  have create: "keeps (well_formed_mails mails) (createEmail srv cfg' u req link)" for u req link
    unfolding createEmail_def by (intro keeps_intro create_well_formed [OF store] verification_well_formed [OF sha])
  then show "keeps (well_formed_mails mails) (EmailVerification_ServeHTTP srv cfg' r)"
    unfolding EmailVerification_ServeHTTP_def by (intro keeps_intro look)
qed

lemma support_well_formed:
  assumes store: "mail_store (lr_Milo R) mails" and sha: "sha_law (lr_lib R)"
    and mint: "\<And>i. silent mails (CreatePasskeyRegistrationLink (lr_Z R) i)"
    and review: "\<forall>create x. lr_MiloSAR R = Some create \<longrightarrow> silent mails (create x)" and now: "silent mails (Now (lr_runtime R))"
  shows "keeps (well_formed_mails mails) (Links_Create R caller obj)"
proof -
  have soon: "keeps (well_formed_mails mails) (TooSoon (lr_runtime R) (lr_Milo R) ns i by c m)" for ns i "by" c m
    using store_reads(2) [OF store] now by (intro quiet_mails silent_TooSoon)
  have create: "keeps (well_formed_mails mails) (CreateEmail (lr_Milo R) (support_mail R u link v c d))" for u link v c d
    unfolding support_mail_def by (intro create_well_formed [OF store] recovery_well_formed [OF sha])
  have "keeps (well_formed_mails mails) (send_link R u link v)" for u link v
    unfolding send_link_def by (intro keeps_intro create quiet_mails [OF mint] quiet_mails [OF now])
  then have user: "keeps (well_formed_mails mails) (link_for_user R u link)" for u link
    unfolding link_for_user_def by (intro keeps_intro keeps_bool soon quiet_mails [OF store_reads(1) [OF store]])
  have "keeps (well_formed_mails mails) (CanCreatePasskeyRegistrationLink (lr_MiloSAR R) u n)" for u n
    unfolding CanCreatePasskeyRegistrationLink_def by (intro keeps_intro) (simp add: quiet_mails review)
  with user show ?thesis
    unfolding Links_Create_def by (intro keeps_intro keeps_bool)
qed

text \<open>The senders of the actions server share their interface, so that one lemma is enough for the three.\<close>

context notifier
begin

lemma keeps_well_formed:
  assumes store: "mail_store (srv_k8s srv) mails" and uuid: "silent mails (NewUUID (srv_runtime srv))"
    and ident: "uuid_law (srv_runtime srv)"
    and mail: "\<And>u x. uuid_text x \<Longrightarrow> well_formed_email (mail srv u x)"
  shows "keeps (well_formed_mails mails) (send srv userID)"
proof -
  have body: "keeps (well_formed_mails mails) (do { x \<leftarrow> NewUUID (srv_runtime srv); e \<leftarrow> CreateEmail (srv_k8s srv) (mail srv u x);
      State_Monad.return (map_option (wrapf create_text) e) })" for u
    by (rule keeps_bind_when [where C = uuid_text, OF quiet_mails [OF uuid] uuid_run [OF ident]])
      (auto intro!: keeps_intro create_well_formed [OF store] mail)
  show ?thesis unfolding send
    by (intro keeps_if keeps_return keeps_bind [OF quiet_mails [OF store_reads(1) [OF store]]] keeps_cases(1) body)
qed

end

text \<open>C21. Every Email the program stores is well-formed. A store of Emails of which each has a valid name and no key twice in its
  variables, labels and annotations is still one after a recovery request, a verification request,
  the creation of a support link, and each of the three notifications of the actions server, whatever the request.\<close>

theorem stored_mails_are_well_formed:
  assumes "mail_store (ms_k8s srv) mails" and "sha_law (ms_lib srv)" and "\<And>d. silent mails (ms_wait srv d)"
    and "silent mails (Now (ms_runtime srv))" and "\<And>i. silent mails (mint i)"
    and "mail_store (lr_Milo R) mails" and "sha_law (lr_lib R)" and "\<And>i. silent mails (CreatePasskeyRegistrationLink (lr_Z R) i)"
    and "\<forall>create x. lr_MiloSAR R = Some create \<longrightarrow> silent mails (create x)" and "silent mails (Now (lr_runtime R))"
    and "mail_store (srv_k8s asrv) mails" and "silent mails (NewUUID (srv_runtime asrv))"
    and "uuid_law (srv_runtime asrv)"
  shows "keeps (well_formed_mails mails) (AccountRecovery_ServeHTTP srv mint cfg r) \<and>
    keeps (well_formed_mails mails) (EmailVerification_ServeHTTP srv cfg' r) \<and>
    keeps (well_formed_mails mails) (Links_Create R caller obj) \<and>
    keeps (well_formed_mails mails) (sendSuspiciousLoginEmail asrv userID t ip device browser location) \<and>
    keeps (well_formed_mails mails) (sendPasskeyAddedEmail asrv userID t name) \<and>
    keeps (well_formed_mails mails) (sendPasskeyRemovedEmail asrv userID t name)"
proof -
  note sender = assms(11-13)
  show ?thesis
    using webhook_well_formed [where mails = mails and mint = mint, OF assms(1-5)] support_well_formed [where mails = mails, OF assms(6-10)]
      login_mail.keeps_well_formed [where mails = mails, OF sender notification_well_formed(1)]
      passkey_added_mail.keeps_well_formed [where mails = mails, OF sender notification_well_formed(2)]
      passkey_removed_mail.keeps_well_formed [where mails = mails, OF sender notification_well_formed(3)]
    by blast
qed

text \<open>A library with a constant hash and a constant identifier, and the store in memory.\<close>

definition hash_lib :: golib where
  "hash_lib = (ms_lib recovery_server)\<lparr>Sha256Hex := (\<lambda>_. replicate 64 (CHR ''a''))\<rparr>"

definition demo_uuid :: string where
  "demo_uuid = ''0f8fad5b-d9cb-469f-a165-70867728950e''"

lemma demo_identifiers: "sha_law hash_lib" "uuid_text demo_uuid"
  by (simp add: sha_law_def hash_lib_def hex_digit_def list_all_iff) (simp add: uuid_text_def demo_uuid_def hex_digit_def)

lemma mem_mail_store: "mail_store mem_kube mem_emails"
  by (auto simp: mail_store_def silent_def mem_kube_def split: if_splits)

theorem stored_mails_are_well_formed_witness:
  "well_formed_mails mem_emails (snd (run_state (AccountRecovery_ServeHTTP (recovery_server\<lparr>ms_lib := hash_lib\<rparr>) demo_mint
      recovery_config (signed_post ''b'')) verified_world)) \<and>
   well_formed_mails mem_emails (snd (run_state (Links_Create (link_demo\<lparr>lr_lib := hash_lib\<rparr>) (Some staff) (Some demo_link))
      recoverable))"
proof -
  let ?srv = "recovery_server\<lparr>ms_lib := hash_lib\<rparr>" and ?R = "link_demo\<lparr>lr_lib := hash_lib\<rparr>"
  let ?a = "(mem_server [])\<lparr>srv_runtime := mem_runtime\<lparr>NewUUID := State_Monad.return demo_uuid\<rparr>\<rparr>"
  have server: "mail_store (ms_k8s ?srv) mem_emails" "sha_law (ms_lib ?srv)" "silent mem_emails (ms_wait ?srv d)"
    "silent mem_emails (Now (ms_runtime ?srv))" "silent mem_emails (demo_mint i)" for d i
    using mem_mail_store demo_identifiers by (simp_all add: recovery_server_def mem_runtime_def demo_mint_def silent_def)
  have rest: "mail_store (lr_Milo ?R) mem_emails" "sha_law (lr_lib ?R)"
    "silent mem_emails (CreatePasskeyRegistrationLink (lr_Z ?R) i)"
    "\<forall>create x. lr_MiloSAR ?R = Some create \<longrightarrow> silent mem_emails (create x)" "silent mem_emails (Now (lr_runtime ?R))" for i
    using mem_mail_store demo_identifiers by (auto simp: link_demo_def link_opts_def mem_runtime_def silent_def)
  have sender: "mail_store (srv_k8s ?a) mem_emails" "silent mem_emails (NewUUID (srv_runtime ?a))" "uuid_law (srv_runtime ?a)"
    using mem_mail_store demo_identifiers by (simp_all add: mem_server_def silent_def uuid_law_def)
  have start: "well_formed_mails mem_emails verified_world" "well_formed_mails mem_emails recoverable"
    by (simp_all add: well_formed_mails_def verified_world_def recoverable_def empty_world_def)
  note kept = stored_mails_are_well_formed [where srv = ?srv and R = ?R and asrv = ?a and mails = mem_emails and
      mint = demo_mint, OF server rest sender]
  show ?thesis
    using keeps_snd [OF kept [THEN conjunct1] start(1)] keeps_snd [OF kept [THEN conjunct2, THEN conjunct2, THEN conjunct1] start(2)]
    by (rule conjI)
qed

end
