(* ===== verification/GC_Metrics.thy ===== *)
theory GC_Metrics
  imports GC_Skips
begin

text \<open>
  The counters of the collector: what a dry run reports is what a sweep that is none deletes.
\<close>

section \<open>A listing with links\<close>

text \<open>
  Zitadel as the list of its human accounts and the links of each. Every read succeeds and changes nothing, but what
  the authentication methods of an account are may also be unreadable; a delete takes the account off the list.
\<close>

definition gc_listing :: "'w gc \<Rightarrow> ('w \<Rightarrow> zuser list) \<Rightarrow> (string \<Rightarrow> idp_link list) \<Rightarrow> bool" where
  "gc_listing G listing links \<longleftrightarrow>
     (\<forall>w off lim. run_state (ListHumanUsers (gc_Zitadel G) off lim) w =
        (Inr (take lim (drop off (listing w)), length (take lim (drop off (listing w)))), w)) \<and>
     (\<forall>w i. run_state (ListIDPLinks (gc_Zitadel G) i) w = (Inr (links i), w)) \<and>
     (\<forall>w i. \<exists>r. run_state (ListAuthMethodTypes (gc_Zitadel G) i) w = (r, w)) \<and>
     (\<forall>w i. \<exists>w'. run_state (DeleteZitadelUser (gc_Zitadel G) i) w = (None, w') \<and>
        listing w' = filter (\<lambda>u. zu_ID u \<noteq> i) (listing w)) \<and>
     (\<forall>w i. \<exists>w'. run_state (DeleteUserObject (gc_Client G) i) w = (None, w') \<and> listing w' = listing w)"

definition gc_eligible :: "int \<Rightarrow> (string \<Rightarrow> idp_link list) \<Rightarrow> zuser \<Rightarrow> bool" where
  "gc_eligible cutoff links u \<longleftrightarrow> isAbandoned u cutoff \<and> links (zu_ID u) = []"

definition gc_spared :: "int \<Rightarrow> (string \<Rightarrow> idp_link list) \<Rightarrow> zuser \<Rightarrow> bool" where
  "gc_spared cutoff links u \<longleftrightarrow> isAbandoned u cutoff \<and> links (zu_ID u) \<noteq> []"

text \<open>What some accounts add to the counters.\<close>

definition counted :: "bool \<Rightarrow> int \<Rightarrow> (string \<Rightarrow> idp_link list) \<Rightarrow> zuser list \<Rightarrow> gc_counts \<Rightarrow> gc_counts \<Rightarrow> bool" where
  "counted dry cutoff links us n n' \<longleftrightarrow>
     n_scanned n' = n_scanned n + int (length us) \<and>
     n_eligible n' = n_eligible n + int (length (filter (gc_eligible cutoff links) us)) \<and>
     n_deleted n' = n_deleted n + (if dry then 0 else int (length (filter (gc_eligible cutoff links) us))) \<and>
     n_skippedIDP n' = n_skippedIDP n + int (length (filter (gc_spared cutoff links) us))"

lemma counted_Nil [simp]: "counted dry cutoff links [] n n"
  by (simp add: counted_def)

lemma counted_append:
  "counted dry cutoff links us n k \<Longrightarrow> counted dry cutoff links vs k m \<Longrightarrow> counted dry cutoff links (us @ vs) n m"
  by (simp add: counted_def)

lemma counted_no_gc:
  "counted dry cutoff links us no_gc n \<Longrightarrow> n_scanned n = int (length us) \<and>
     n_eligible n = int (length (filter (gc_eligible cutoff links) us)) \<and>
     n_deleted n = (if dry then 0 else int (length (filter (gc_eligible cutoff links) us))) \<and>
     n_skippedIDP n = int (length (filter (gc_spared cutoff links) us))"
  by (simp add: counted_def no_gc_def)

lemma gc_listing_calls:
  assumes "gc_listing G listing links"
  shows "run_state (ListHumanUsers (gc_Zitadel G) off lim) w =
      (Inr (take lim (drop off (listing w)), length (take lim (drop off (listing w)))), w)"
    and "run_state (hasIDPLink G i) w = (Inr (links i \<noteq> []), w)"
    and "\<exists>k. run_state (lacks_credential G u n) w = (k, w) \<and> counted dry cutoff links [] n k"
    and "\<exists>w'. run_state (collect_user G i) w = (None, w') \<and> listing w' = filter (\<lambda>u. zu_ID u \<noteq> i) (listing w)"
proof -
  note law = assms [unfolded gc_listing_def]
  show "run_state (ListHumanUsers (gc_Zitadel G) off lim) w =
      (Inr (take lim (drop off (listing w)), length (take lim (drop off (listing w)))), w)" using law by blast
  show "run_state (hasIDPLink G i) w = (Inr (links i \<noteq> []), w)" using law by (simp add: hasIDPLink_def)
  obtain r where "run_state (ListAuthMethodTypes (gc_Zitadel G) (zu_ID u)) w = (r, w)" using law by blast
  then show "\<exists>k. run_state (lacks_credential G u n) w = (k, w) \<and> counted dry cutoff links [] n k"
    by (cases r) (auto simp: lacks_credential_def counted_def gc_failed_def)
  obtain w1 where w1: "run_state (DeleteZitadelUser (gc_Zitadel G) i) w = (None, w1)"
    "listing w1 = filter (\<lambda>u. zu_ID u \<noteq> i) (listing w)" using law by blast
  moreover obtain w2 where "run_state (DeleteUserObject (gc_Client G) i) w1 = (None, w2)" "listing w2 = listing w1"
    using law by blast
  ultimately show "\<exists>w'. run_state (collect_user G i) w = (None, w') \<and> listing w' = filter (\<lambda>u. zu_ID u \<noteq> i) (listing w)"
    by (simp add: collect_user_def)
qed

section \<open>The sweep\<close>

lemma gc_user_counted:
  assumes law: "gc_listing G listing links"
  shows "\<exists>n' w'. run_state (gc_user G cutoff u n) w = (n', w') \<and> counted (gc_DryRun G) cutoff links [u] n n' \<and>
    (if gc_eligible cutoff links u \<and> \<not> gc_DryRun G then listing w' = filter (\<lambda>x. zu_ID x \<noteq> zu_ID u) (listing w) else w' = w)"
proof -
  obtain k where k: "run_state (lacks_credential G u (n\<lparr>n_scanned := n_scanned n + 1\<rparr>)) w = (k, w)"
    "counted (gc_DryRun G) cutoff links [] (n\<lparr>n_scanned := n_scanned n + 1\<rparr>) k"
    using gc_listing_calls(3) [OF law] by blast
  obtain w' where "run_state (collect_user G (zu_ID u)) w = (None, w')"
    "listing w' = filter (\<lambda>x. zu_ID x \<noteq> zu_ID u) (listing w)" using gc_listing_calls(4) [OF law] by blast
  with k gc_listing_calls(2) [OF law, of "zu_ID u" w] show ?thesis
    by (auto simp: gc_user_def counted_def gc_eligible_def gc_spared_def Let_def split: bool.splits)
qed

lemma gc_users_dry:
  assumes "gc_listing G listing links" and "gc_DryRun G"
  shows "\<exists>n'. run_state (gc_users G cutoff n us) w = (Inr n', w) \<and> counted True cutoff links us n n'"
proof (induction us arbitrary: n)
  case (Cons u us)
  obtain k where k: "run_state (gc_user G cutoff u n) w = (k, w)" "counted True cutoff links [u] n k"
    using gc_user_counted [OF assms(1)] assms(2) by (metis (full_types))
  with Cons.IH [of k] counted_append [OF k(2)] show ?case by fastforce
qed simp

lemma gc_users_live:
  assumes "gc_listing G listing links" and "\<not> gc_DryRun G" and "listing w = vs @ us" and "distinct (map zu_ID (vs @ us))"
  shows "\<exists>n' w'. run_state (gc_users G cutoff n us) w = (Inr n', w') \<and> counted False cutoff links us n n' \<and>
    listing w' = vs @ filter (\<lambda>u. \<not> gc_eligible cutoff links u) us"
  using assms(3,4)
proof (induction us arbitrary: n w vs)
  case (Cons u us)
  obtain k w1 where k: "run_state (gc_user G cutoff u n) w = (k, w1)" "counted False cutoff links [u] n k"
    "if gc_eligible cutoff links u then listing w1 = filter (\<lambda>x. zu_ID x \<noteq> zu_ID u) (listing w) else w1 = w"
    using gc_user_counted [OF assms(1)] assms(2) by (metis (full_types))
  have same: "filter (\<lambda>x. zu_ID x \<noteq> zu_ID u) xs = xs" if "zu_ID u \<notin> zu_ID ` set xs" for xs
    using that by (intro filter_True) (metis imageI)
  have others: "filter (\<lambda>x. zu_ID x \<noteq> zu_ID u) (vs @ u # us) = vs @ us"
    using Cons.prems(2) same [of vs] same [of us] by auto
  let ?vs = "vs @ (if gc_eligible cutoff links u then [] else [u])"
  have "listing w1 = ?vs @ us" using k(3) Cons.prems(1) others by (auto split: if_splits)
  moreover have "distinct (map zu_ID (?vs @ us))" using Cons.prems(2) by auto
  ultimately obtain n' w' where "run_state (gc_users G cutoff k us) w1 = (Inr n', w')" "counted False cutoff links us k n'"
    "listing w' = ?vs @ filter (\<lambda>u. \<not> gc_eligible cutoff links u) us" using Cons.IH [of w1 ?vs k] by blast
  with k(1) counted_append [OF k(2)] show ?case by fastforce
qed simp

lemma gc_pages_dry:
  assumes law: "gc_listing G listing links" and dry: "gc_DryRun G" and "(length (listing w) - off) div 100 < fuel"
  shows "\<exists>n'. run_state (gc_pages G cutoff fuel off n) w = (Some (Inr n'), w) \<and> counted True cutoff links (drop off (listing w)) n n'"
  using assms(3)
proof (induction fuel arbitrary: off n)
  case (Suc fuel)
  let ?page = "take 100 (drop off (listing w))"
  obtain k where k: "run_state (gc_users G cutoff n ?page) w = (Inr k, w)" "counted True cutoff links ?page n k"
    using gc_users_dry [OF law dry] by blast
  note page = gc_listing_calls(1) [OF law, of off sweepPageSize w]
  show ?case
  proof (cases "length ?page < 100")
    case True
    then have "?page = drop off (listing w)" by auto
    with True k page show ?thesis by (auto simp: sweepPageSize_def)
  next
    case False
    then have full: "length ?page = 100" "100 \<le> length (listing w) - off" by auto
    then have "(length (listing w) - (off + 100)) div 100 < fuel" using Suc.prems by (simp add: le_div_geq)
    from Suc.IH [OF this, of k] obtain n' where n': "run_state (gc_pages G cutoff fuel (off + 100) k) w = (Some (Inr n'), w)"
      "counted True cutoff links (drop (off + 100) (listing w)) k n'" by blast
    have "drop off (listing w) = ?page @ drop (off + 100) (listing w)"
      by (metis add.commute append_take_drop_id drop_drop)
    with counted_append [OF k(2) n'(2)] n'(1) k(1) page full show ?thesis by (auto simp: sweepPageSize_def)
  qed
qed simp

text \<open>C22. The counter of eligible accounts that a dry run reports is the blast radius it is documented to be. Over a
  listing of any length a dry run changes nothing, scans every account once, and counts as eligible exactly those that are
  abandoned and have no link, and as spared those that are abandoned and have one. For a listing of
  less than a page, a sweep that is no dry run, in the same state, deletes that many accounts: the eligible ones, and no other.\<close>

theorem dry_run_is_exact:
  assumes law: "gc_listing G listing links" and now: "run_state (gc_clock G) w = (now, w)"
    and fuel: "length (listing w) div 100 < fuel" and "distinct (map zu_ID (listing w))"
  shows "\<exists>n. run_state (GC_sweepOnce fuel (G\<lparr>gc_DryRun := True\<rparr>)) w = (Some (Inr n), w) \<and>
    n_scanned n = int (length (listing w)) \<and> n_deleted n = 0 \<and>
    n_eligible n = int (length (filter (\<lambda>u. isAbandoned u (now - gc_Retention G) \<and> links (zu_ID u) = []) (listing w))) \<and>
    n_skippedIDP n = int (length (filter (\<lambda>u. isAbandoned u (now - gc_Retention G) \<and> links (zu_ID u) \<noteq> []) (listing w))) \<and>
    (length (listing w) < 100 \<longrightarrow>
      (\<exists>n' w'. run_state (GC_sweepOnce fuel (G\<lparr>gc_DryRun := False\<rparr>)) w = (Some (Inr n'), w') \<and> n_deleted n' = n_eligible n \<and>
        listing w' = filter (\<lambda>u. \<not> (isAbandoned u (now - gc_Retention G) \<and> links (zu_ID u) = [])) (listing w)))"
proof -
  let ?c = "now - gc_Retention G" and ?dry = "G\<lparr>gc_DryRun := True\<rparr>" and ?live = "G\<lparr>gc_DryRun := False\<rparr>"
  have laws: "gc_listing ?dry listing links" "gc_listing ?live listing links" using law by (simp_all add: gc_listing_def)
  have elig: "gc_eligible ?c links = (\<lambda>u. isAbandoned u ?c \<and> links (zu_ID u) = [])"
    "gc_spared ?c links = (\<lambda>u. isAbandoned u ?c \<and> links (zu_ID u) \<noteq> [])"
    by (simp_all add: fun_eq_iff gc_eligible_def gc_spared_def)
  obtain n where n: "run_state (gc_pages ?dry ?c fuel 0 no_gc) w = (Some (Inr n), w)" "counted True ?c links (listing w) no_gc n"
    using gc_pages_dry [OF laws(1), of w 0 fuel ?c no_gc] fuel by auto
  have run: "run_state (GC_sweepOnce fuel ?dry) w = (Some (Inr n), w)" using n(1) now by (simp add: GC_sweepOnce_def)
  have live: "\<exists>n' w'. run_state (GC_sweepOnce fuel ?live) w = (Some (Inr n'), w') \<and> n_deleted n' = n_eligible n \<and>
      listing w' = filter (\<lambda>u. \<not> gc_eligible ?c links u) (listing w)" if "length (listing w) < 100"
  proof -
    obtain k where "fuel = Suc k" using fuel by (cases fuel) auto
    moreover obtain n' w' where "run_state (gc_users ?live ?c no_gc (listing w)) w = (Inr n', w')"
      "counted False ?c links (listing w) no_gc n'" "listing w' = filter (\<lambda>u. \<not> gc_eligible ?c links u) (listing w)"
      using gc_users_live [OF laws(2), of w "[]" "listing w" ?c no_gc] assms(4) by auto
    ultimately show ?thesis
      using now that gc_listing_calls(1) [OF laws(2), of 0 100 w] counted_no_gc n(2)
      by (simp add: GC_sweepOnce_def sweepPageSize_def)
  qed
  with run counted_no_gc [OF n(2)] show ?thesis unfolding elig by auto
qed

text \<open>The pool with a link of one account: of three old accounts two are eligible.\<close>

definition linked_gc :: "pool gc" where
  "linked_gc = pool_gc\<lparr>gc_Zitadel := pool_api\<lparr>ListIDPLinks := (\<lambda>i. State_Monad.return (Inr (if i = ''2''
     then [\<lparr>idp_IDPID = ''g'', idp_IDPName = ''Google'', idp_UserID = ''x'', idp_IDPUserName = ''x''\<rparr>] else [])))\<rparr>\<rparr>"

lemma linked_listing:
  "gc_listing linked_gc fst (\<lambda>i. if i = ''2'' then [\<lparr>idp_IDPID = ''g'', idp_IDPName = ''Google'', idp_UserID = ''x'',
     idp_IDPUserName = ''x''\<rparr>] else [])"
  by (auto simp: gc_listing_def linked_gc_def pool_gc_def pool_api_def split: prod.splits)

theorem dry_run_is_exact_witness:
  "\<exists>n n' w'. run_state (GC_sweepOnce 1 (linked_gc\<lparr>gc_DryRun := True\<rparr>)) ([stale ''1'', stale ''2'', stale ''3''], []) =
      (Some (Inr n), ([stale ''1'', stale ''2'', stale ''3''], [])) \<and> n_eligible n = 2 \<and> n_skippedIDP n = 1 \<and>
    run_state (GC_sweepOnce 1 (linked_gc\<lparr>gc_DryRun := False\<rparr>)) ([stale ''1'', stale ''2'', stale ''3''], []) =
      (Some (Inr n'), w') \<and> n_deleted n' = 2 \<and> fst w' = [stale ''2'']"
proof -
  have clock: "run_state (gc_clock linked_gc) w = (60 * 24 * Hour, w)" "gc_Retention linked_gc = DefaultAbandonedRetention" for w
    by (simp_all add: linked_gc_def pool_gc_def)
  have "isAbandoned (stale i) (60 * 24 * Hour - DefaultAbandonedRetention)" for i
    by (simp add: isAbandoned_def stale_def IsZero_def zero_time_def DefaultAbandonedRetention_def)
  moreover have "zu_ID (stale i) = i" for i by (simp add: stale_def)
  ultimately show ?thesis
    using dry_run_is_exact [OF linked_listing clock(1), of "([stale ''1'', stale ''2'', stale ''3''], [])" 1]
    by (auto simp: clock(2))
qed

end
