(* ===== verification/Collect_Races.thy ===== *)
theory Collect_Races
  imports GC_Properties Step_Systems
begin

text \<open>
  The sweeper and the collector of the controller at the same time. The sweeper provisions a User for every account
  of Zitadel, the collector deletes accounts and their Users; each lists first and acts on what it has listed. A step
  is a call of one of them, and between the calls of one those of the other happen.
\<close>

section \<open>The two jobs\<close>

text \<open>
  Where a job is: between sweeps; a sweeper with the Users it has listed and the offset of the next page, or with the
  accounts of a page that it has not yet looked at; a collector with its cutoff at the same two points, with an
  abandoned account, with one that also has no link, and after it has deleted the account of a name.
\<close>

datatype job_pc =
    Resting
  | Diffing "string \<Rightarrow> user option" nat
  | Provisioning "string \<Rightarrow> user option" nat nat "zuser list"
  | Scanning int nat
  | Collecting int nat nat "zuser list"
  | Suspecting int nat nat zuser "zuser list"
  | Condemning int nat nat string "zuser list"
  | Orphaning int nat nat string "zuser list"

record 'w job_sys =
  js_world :: 'w
  js_pc :: "nat \<Rightarrow> job_pc"

definition js_go :: "nat \<Rightarrow> job_pc \<Rightarrow> 'w \<Rightarrow> 'w job_sys \<Rightarrow> 'w job_sys" where
  "js_go j p w s = \<lparr>js_world = w, js_pc = (js_pc s)(j := p)\<rparr>"

inductive job_step :: "'w sweeper \<Rightarrow> 'w gc \<Rightarrow> ('w \<Rightarrow> 'w \<Rightarrow> bool) \<Rightarrow> 'w job_sys \<Rightarrow> 'w job_sys \<Rightarrow> bool"
  for S G others where
  list_users: "js_pc s j = Resting \<Longrightarrow> run_state (ListUsers (sw_Client S)) (js_world s) = (r, w) \<Longrightarrow>
    job_step S G others s (js_go j (case r of Inl _ \<Rightarrow> Resting | Inr items \<Rightarrow> Diffing (existing_users items) 0) w s)"
| list_page: "js_pc s j = Diffing ex off \<Longrightarrow> run_state (ListHumanUsers (sw_Zitadel S) off sweepPageSize) (js_world s) = (r, w) \<Longrightarrow>
    job_step S G others s (js_go j (case r of Inl _ \<Rightarrow> Resting | Inr (us, raw) \<Rightarrow> Provisioning ex off raw us) w s)"
| reconcile: "js_pc s j = Provisioning ex off raw (u # us) \<Longrightarrow> ex (zu_ID u) = Some v \<Longrightarrow>
    run_state (sweep_existing S v u n) (js_world s) = (n', w) \<Longrightarrow>
    job_step S G others s (js_go j (Provisioning ex off raw us) w s)"
| provision: "js_pc s j = Provisioning ex off raw (u # us) \<Longrightarrow> ex (zu_ID u) = None \<Longrightarrow>
    run_state (sweep_missing S u n) (js_world s) = (r, w) \<Longrightarrow>
    job_step S G others s (js_go j (case r of Inl _ \<Rightarrow> Resting | Inr _ \<Rightarrow> Provisioning ex off raw us) w s)"
| next_page: "js_pc s j = Provisioning ex off raw [] \<Longrightarrow> \<not> raw < sweepPageSize \<Longrightarrow>
    job_step S G others s (js_go j (Diffing ex (off + raw)) (js_world s) s)"
| sweep_ends: "js_pc s j = Provisioning ex off raw [] \<Longrightarrow> raw < sweepPageSize \<Longrightarrow>
    run_state (Now (sw_runtime S)) (js_world s) = (t, w) \<Longrightarrow> job_step S G others s (js_go j Resting w s)"
| read_clock: "js_pc s j = Resting \<Longrightarrow> run_state (gc_clock G) (js_world s) = (now, w) \<Longrightarrow>
    job_step S G others s (js_go j (Scanning (now - gc_Retention G) 0) w s)"
| list_accounts: "js_pc s j = Scanning c off \<Longrightarrow> run_state (ListHumanUsers (gc_Zitadel G) off sweepPageSize) (js_world s) = (r, w) \<Longrightarrow>
    job_step S G others s (js_go j (case r of Inl _ \<Rightarrow> Resting | Inr (us, raw) \<Rightarrow> Collecting c off raw us) w s)"
| measure_account: "js_pc s j = Collecting c off raw (u # us) \<Longrightarrow> run_state (lacks_credential G u n) (js_world s) = (n', w) \<Longrightarrow>
    job_step S G others s (js_go j (if isAbandoned u c then Suspecting c off raw u us else Collecting c off raw us) w s)"
| check_links: "js_pc s j = Suspecting c off raw u us \<Longrightarrow> run_state (hasIDPLink G (zu_ID u)) (js_world s) = (l, w) \<Longrightarrow>
    job_step S G others s (js_go j
      (if l = Inr False \<and> \<not> gc_DryRun G then Condemning c off raw (zu_ID u) us else Collecting c off raw us) w s)"
| delete_account: "js_pc s j = Condemning c off raw i us \<Longrightarrow>
    run_state (DeleteZitadelUser (gc_Zitadel G) i) (js_world s) = (e, w) \<Longrightarrow>
    job_step S G others s (js_go j (case e of None \<Rightarrow> Orphaning c off raw i us | Some _ \<Rightarrow> Collecting c off raw us) w s)"
| delete_user: "js_pc s j = Orphaning c off raw i us \<Longrightarrow> run_state (DeleteUserObject (gc_Client G) i) (js_world s) = (e, w) \<Longrightarrow>
    job_step S G others s (js_go j (Collecting c off raw us) w s)"
| more_accounts: "js_pc s j = Collecting c off raw [] \<Longrightarrow> \<not> raw < sweepPageSize \<Longrightarrow>
    job_step S G others s (js_go j (Scanning c (off + raw)) (js_world s) s)"
| collect_ends: "js_pc s j = Collecting c off raw [] \<Longrightarrow> raw < sweepPageSize \<Longrightarrow>
    job_step S G others s (js_go j Resting (js_world s) s)"
| other: "others (js_world s) w \<Longrightarrow> job_step S G others s (s\<lparr>js_world := w\<rparr>)"

abbreviation jobs where "jobs S G others \<equiv> (job_step S G others)\<^sup>*\<^sup>*"

definition job_start :: "'w \<Rightarrow> 'w job_sys" where
  "job_start w = \<lparr>js_world = w, js_pc = (\<lambda>_. Resting)\<rparr>"

lemma js_go_simps [simp]:
  "js_world (js_go j p w s) = w" "js_pc (js_go j p w s) = (js_pc s)(j := p)" "js_go j p w (js_go j q v s) = js_go j p w s"
  by (simp_all add: js_go_def)

lemma js_go_here: "js_pc s j = p \<Longrightarrow> js_go j p (js_world s) s = s"
  by (cases s) (auto simp: js_go_def)

section \<open>A sweep on its own\<close>

text \<open>
  Without others in between, the steps of a job make up the sweeps as they are defined: from each point on to the end
  of the page, of the sweep.
\<close>

lemma jobs_go:
  assumes "job_step S G others s (js_go j p w s)" and "jobs S G others (js_go j p w s) (js_go j q v (js_go j p w s))"
  shows "jobs S G others s (js_go j q v s)"
  using converse_rtranclp_into_rtranclp [OF assms] by simp

lemma jobs_last: "job_step S G others s (js_go j p w s) \<Longrightarrow> jobs S G others s (js_go j p w s)"
  by (rule r_into_rtranclp)

lemma jobs_on:
  assumes "jobs S G others s (js_go j p w s)" and "jobs S G others (js_go j p w s) (js_go j q v (js_go j p w s))"
  shows "jobs S G others s (js_go j q v s)"
  using rtranclp_trans [OF assms] by simp

lemma collect_alone:
  assumes "js_pc s j = Condemning c off raw i us" and "run_state (collect_user G i) (js_world s) = (e, w)"
  shows "jobs S G others s (js_go j (Collecting c off raw us) w s)"
proof -
  obtain d w1 where d: "run_state (DeleteZitadelUser (gc_Zitadel G) i) (js_world s) = (d, w1)" by (meson surj_pair)
  note s1 = delete_account [of s j c off raw i us G d w1 S others, OF assms(1) d]
  show ?thesis
  proof (cases d)
    case (Some x)
    with assms(2) d s1 show ?thesis by (auto simp: collect_user_def)
  next
    case None
    obtain k w2 where k: "run_state (DeleteUserObject (gc_Client G) i) w1 = (k, w2)" by (meson surj_pair)
    with assms(2) d None have w: "w = w2" by (simp add: collect_user_def)
    let ?s1 = "js_go j (Orphaning c off raw i us) w1 s"
    have "job_step S G others ?s1 (js_go j (Collecting c off raw us) w2 ?s1)"
      by (rule delete_user [where e = k]) (use k in simp_all)
    with s1 None show ?thesis unfolding w by (intro jobs_go [of S G others s j _ w1] jobs_last) auto
  qed
qed

lemma gc_user_alone:
  assumes pc: "js_pc s j = Collecting c off raw (u # us)" and run: "run_state (gc_user G c u n) (js_world s) = (n', w)"
  shows "jobs S G others s (js_go j (Collecting c off raw us) w s)"
proof -
  let ?n = "n\<lparr>n_scanned := n_scanned n + 1\<rparr>"
  obtain n1 w1 where m: "run_state (lacks_credential G u ?n) (js_world s) = (n1, w1)" by (meson surj_pair)
  note s1 = measure_account [of s j c off raw u us G ?n n1 w1 S others, OF pc m]
  show ?thesis
  proof (cases "isAbandoned u c")
    case False
    with run m have "w = w1" by (simp add: gc_user_def)
    with s1 False show ?thesis by (auto intro: jobs_last)
  next
    case True
    let ?s1 = "js_go j (Suspecting c off raw u us) w1 s"
    obtain l w2 where l: "run_state (hasIDPLink G (zu_ID u)) w1 = (l, w2)" by (meson surj_pair)
    have pc1: "js_pc ?s1 j = Suspecting c off raw u us" by simp
    note s2 = check_links [of ?s1 j c off raw u us G l w2 S others, OF pc1, unfolded js_go_simps, OF l]
    show ?thesis
    proof (cases "l = Inr False \<and> \<not> gc_DryRun G")
      case False
      with run m True l have "w = w2" by (auto simp: gc_user_def Let_def split: sum.splits bool.splits)
      with s1 s2 True False show ?thesis by (intro jobs_go [of S G others s j _ w1]) auto
    next
      case go: True
      obtain e w3 where e: "run_state (collect_user G (zu_ID u)) w2 = (e, w3)" by (meson surj_pair)
      with run m True l go have w: "w = w3" by (auto simp: gc_user_def Let_def)
      let ?s2 = "js_go j (Condemning c off raw (zu_ID u) us) w2 s"
      have "jobs S G others ?s2 (js_go j (Collecting c off raw us) w3 ?s2)" by (rule collect_alone) (use e in simp_all)
      with s2 go have "jobs S G others ?s1 (js_go j (Collecting c off raw us) w3 ?s1)"
        by (intro jobs_go [of S G others ?s1 j _ w2]) auto
      with s1 True show ?thesis unfolding w by (intro jobs_go [of S G others s j _ w1]) auto
    qed
  qed
qed

lemma gc_users_alone:
  assumes "js_pc s j = Collecting c off raw us" and "run_state (gc_users G c n us) (js_world s) = (r, w)"
  shows "jobs S G others s (js_go j (Collecting c off raw []) w s)"
  using assms
proof (induction us arbitrary: s n)
  case Nil
  then show ?case using js_go_here [of s j] by simp
next
  case (Cons u us)
  obtain n1 w1 where g: "run_state (gc_user G c u n) (js_world s) = (n1, w1)" by (meson surj_pair)
  let ?s1 = "js_go j (Collecting c off raw us) w1 s"
  have "jobs S G others ?s1 (js_go j (Collecting c off raw []) w ?s1)"
    by (rule Cons.IH [of _ n1]) (use Cons.prems(2) g in simp_all)
  with gc_user_alone [OF Cons.prems(1) g] show ?case by (rule jobs_on)
qed

lemma gc_users_succeed: "\<exists>n'. fst (run_state (gc_users G c n us) w) = Inr n'"
  by (induction us arbitrary: n w) (auto split: prod.split)

lemma gc_pages_alone:
  assumes "js_pc s j = Scanning c off" and "run_state (gc_pages G c fuel off n) (js_world s) = (Some r, w)"
  shows "jobs S G others s (js_go j Resting w s)"
  using assms
proof (induction fuel arbitrary: s off n)
  case (Suc fuel)
  obtain l w1 where l: "run_state (ListHumanUsers (gc_Zitadel G) off sweepPageSize) (js_world s) = (l, w1)" by (meson surj_pair)
  note s1 = list_accounts [of s j c off G l w1 S others, OF Suc.prems(1) l]
  show ?case
  proof (cases l)
    case (Inl e)
    with Suc.prems(2) l s1 show ?thesis by (auto intro: jobs_last)
  next
    case (Inr p)
    obtain us raw where p: "p = (us, raw)" by (meson surj_pair)
    let ?s1 = "js_go j (Collecting c off raw us) w1 s"
    obtain b w2 where b: "run_state (gc_users G c n us) w1 = (b, w2)" by (meson surj_pair)
    then obtain n' where n': "b = Inr n'" using gc_users_succeed [of G c n us w1] by auto
    let ?s2 = "js_go j (Collecting c off raw []) w2 s"
    have s1: "job_step S G others s ?s1" using s1 Inr p by simp
    have s2: "jobs S G others ?s1 (js_go j (Collecting c off raw []) w2 ?s1)" by (rule gc_users_alone) (use b in simp_all)
    have "jobs S G others ?s2 (js_go j Resting w ?s2)"
    proof (cases "raw < sweepPageSize")
      case True
      with Suc.prems(2) l Inr p b n' have "w = w2" by simp
      with collect_ends [of ?s2 j c off raw S G others] True show ?thesis by (auto intro: jobs_last)
    next
      case False
      let ?s3 = "js_go j (Scanning c (off + raw)) w2 ?s2"
      have "jobs S G others ?s3 (js_go j Resting w ?s3)"
        by (rule Suc.IH [of _ "off + raw" n']) (use Suc.prems(2) l Inr p b n' False in simp_all)
      with more_accounts [of ?s2 j c off raw S G others] False show ?thesis
        by (intro jobs_go [of S G others ?s2 j _ w2]) auto
    qed
    with jobs_go [OF s1 s2] show ?thesis by (rule jobs_on)
  qed
qed simp

lemma gc_sweep_alone:
  assumes "js_pc s j = Resting" and "run_state (GC_sweepOnce fuel G) (js_world s) = (Some r, w)"
  shows "jobs S G others s (js_go j Resting w s)"
proof -
  obtain now w1 where now: "run_state (gc_clock G) (js_world s) = (now, w1)" by (meson surj_pair)
  let ?s1 = "js_go j (Scanning (now - gc_Retention G) 0) w1 s"
  have "run_state (gc_pages G (now - gc_Retention G) fuel 0 no_gc) (js_world ?s1) = (Some r, w)"
    using assms(2) now by (simp add: GC_sweepOnce_def)
  from gc_pages_alone [OF _ this, of j S others] have "jobs S G others ?s1 (js_go j Resting w ?s1)" by simp
  with read_clock [of s j G now w1 S others, OF assms(1) now] show ?thesis by (rule jobs_go)
qed

lemma sweep_users_alone:
  assumes "js_pc s j = Provisioning ex off raw us" and "run_state (sweep_users S ex n us) (js_world s) = (r, w)"
  shows "jobs S G others s (js_go j (case r of Inl _ \<Rightarrow> Resting | Inr _ \<Rightarrow> Provisioning ex off raw []) w s)"
  using assms
proof (induction us arbitrary: s n)
  case Nil
  then show ?case using js_go_here [of s j] by auto
next
  case (Cons u us)
  let ?n = "n\<lparr>s_scanned := s_scanned n + 1\<rparr>" and ?p = "Provisioning ex off raw us"
  show ?case
  proof (cases "ex (zu_ID u)")
    case (Some v)
    obtain n1 w1 where e: "run_state (sweep_existing S v u ?n) (js_world s) = (n1, w1)" by (meson surj_pair)
    let ?s1 = "js_go j ?p w1 s"
    have "jobs S G others ?s1 (js_go j (case r of Inl _ \<Rightarrow> Resting | Inr _ \<Rightarrow> Provisioning ex off raw []) w ?s1)"
      by (rule Cons.IH [of _ n1]) (use Cons.prems(2) Some e in simp_all)
    with reconcile [of s j ex off raw u us v S ?n n1 w1 G others, OF Cons.prems(1) Some e] show ?thesis by (rule jobs_go)
  next
    case None
    obtain m w1 where m: "run_state (sweep_missing S u ?n) (js_world s) = (m, w1)" by (meson surj_pair)
    note s1 = provision [of s j ex off raw u us S ?n m w1 G others, OF Cons.prems(1) None m]
    show ?thesis
    proof (cases m)
      case (Inl e)
      with Cons.prems(2) None m s1 show ?thesis by (auto intro: jobs_last)
    next
      case (Inr n1)
      let ?s1 = "js_go j ?p w1 s"
      have "jobs S G others ?s1 (js_go j (case r of Inl _ \<Rightarrow> Resting | Inr _ \<Rightarrow> Provisioning ex off raw []) w ?s1)"
        by (rule Cons.IH [of _ n1]) (use Cons.prems(2) None m Inr in simp_all)
      with s1 Inr show ?thesis by (intro jobs_go [of S G others s j _ w1]) auto
    qed
  qed
qed

lemma sweep_pages_alone:
  assumes "js_pc s j = Diffing ex off" and "run_state (sweep_pages S ex fuel off n) (js_world s) = (Some r, w)"
  shows "\<exists>raw off. jobs S G others s
    (js_go j (case r of Inl _ \<Rightarrow> Resting | Inr _ \<Rightarrow> Provisioning ex off raw []) w s) \<and> raw < sweepPageSize"
  using assms
proof (induction fuel arbitrary: s off n)
  case (Suc fuel)
  obtain l w1 where l: "run_state (ListHumanUsers (sw_Zitadel S) off sweepPageSize) (js_world s) = (l, w1)" by (meson surj_pair)
  note s1 = list_page [of s j ex off S l w1 G others, OF Suc.prems(1) l]
  have some: "0 < sweepPageSize" by (simp add: sweepPageSize_def)
  show ?case
  proof (cases l)
    case (Inl e)
    with Suc.prems(2) l have "isl r" "w = w1" by auto
    with s1 Inl some show ?thesis by (cases r) (auto intro: jobs_last)
  next
    case (Inr p)
    obtain us raw where p: "p = (us, raw)" by (meson surj_pair)
    let ?s1 = "js_go j (Provisioning ex off raw us) w1 s"
    have s1: "job_step S G others s ?s1" using s1 Inr p by simp
    obtain b w2 where b: "run_state (sweep_users S ex n us) w1 = (b, w2)" by (meson surj_pair)
    have s2: "jobs S G others ?s1 (js_go j (case b of Inl _ \<Rightarrow> Resting | Inr _ \<Rightarrow> Provisioning ex off raw []) w2 ?s1)"
      by (rule sweep_users_alone) (use b in simp_all)
    note s2 = jobs_go [OF s1 s2]
    show ?thesis
    proof (cases b)
      case (Inl e)
      with Suc.prems(2) l Inr p b have "r = Inl e" "w = w2" by auto
      with s2 Inl some show ?thesis by auto
    next
      case b': (Inr n')
      let ?s2 = "js_go j (Provisioning ex off raw []) w2 s"
      have s2: "jobs S G others s ?s2" using s2 b' by simp
      show ?thesis
      proof (cases "raw < sweepPageSize")
        case True
        with Suc.prems(2) l Inr p b b' have "r = Inr n'" "w = w2" by auto
        with s2 True show ?thesis by auto
      next
        case False
        let ?s3 = "js_go j (Diffing ex (off + raw)) w2 s"
        have run: "run_state (sweep_pages S ex fuel (off + raw) n') (js_world ?s3) = (Some r, w)"
          using Suc.prems(2) l Inr p b b' False by simp
        have "js_pc ?s3 j = Diffing ex (off + raw)" by simp
        from Suc.IH [OF this run] obtain raw' off' where
          "jobs S G others ?s3 (js_go j (case r of Inl _ \<Rightarrow> Resting | Inr _ \<Rightarrow> Provisioning ex off' raw' []) w s)" "raw' < sweepPageSize"
          by auto
        moreover have "job_step S G others ?s2 ?s3" using next_page [of ?s2 j ex off raw S G others] False by simp
        ultimately show ?thesis using s2 by (meson rtranclp.rtrancl_into_rtrancl rtranclp_trans)
      qed
    qed
  qed
qed simp

lemma user_sweep_alone:
  assumes "js_pc s j = Resting" and "run_state (UserSweeper_sweepOnce fuel S) (js_world s) = (Some r, w)"
  shows "jobs S G others s (js_go j Resting w s)"
proof -
  obtain l w1 where l: "run_state (ListUsers (sw_Client S)) (js_world s) = (l, w1)" by (meson surj_pair)
  note s1 = list_users [of s j S l w1 G others, OF assms(1) l]
  show ?thesis
  proof (cases l)
    case (Inl e)
    with assms(2) l s1 show ?thesis by (auto simp: UserSweeper_sweepOnce_def intro: jobs_last)
  next
    case (Inr items)
    let ?ex = "existing_users items" and ?s1 = "js_go j (Diffing (existing_users items) 0) w1 s"
    have s1: "job_step S G others s ?s1" using s1 Inr by simp
    obtain q w2 where q: "run_state (sweep_pages S ?ex fuel 0 no_sweep) w1 = (q, w2)" by (meson surj_pair)
    then obtain x where x: "q = Some x" using assms(2) l Inr by (cases q) (auto simp: UserSweeper_sweepOnce_def)
    have "js_pc ?s1 j = Diffing ?ex 0" "run_state (sweep_pages S ?ex fuel 0 no_sweep) (js_world ?s1) = (Some x, w2)"
      using q x by simp_all
    from sweep_pages_alone [OF this, of G others] obtain raw off where
      "jobs S G others ?s1 (js_go j (case x of Inl _ \<Rightarrow> Resting | Inr _ \<Rightarrow> Provisioning ?ex off raw []) w2 ?s1)"
      and last: "raw < sweepPageSize" by blast
    note s2 = jobs_go [OF s1 this(1)]
    show ?thesis
    proof (cases x)
      case (Inl e)
      with assms(2) l Inr q x have "w = w2" by (simp add: UserSweeper_sweepOnce_def)
      with s2 Inl show ?thesis by simp
    next
      case x': (Inr n)
      let ?s2 = "js_go j (Provisioning ?ex off raw []) w2 s"
      obtain t w3 where t: "run_state (Now (sw_runtime S)) w2 = (t, w3)" by (meson surj_pair)
      with assms(2) l Inr q x x' have "w = w3" by (simp add: UserSweeper_sweepOnce_def)
      with sweep_ends [of ?s2 j ?ex off raw S t w3 G others] t last have "job_step S G others ?s2 (js_go j Resting w s)" by simp
      with s2 x' show ?thesis by simp
    qed
  qed
qed

section \<open>What the jobs rely on\<close>

text \<open>
  For one name: while Zitadel has an account of that name there is a User; the account does not come back; and a User
  without an account does not either.
\<close>

definition covered :: "('w \<Rightarrow> string set) \<Rightarrow> ('w \<Rightarrow> string \<Rightarrow> user option) \<Rightarrow> string \<Rightarrow> 'w \<Rightarrow> bool" where
  "covered accounts users i w \<longleftrightarrow> i \<in> accounts w \<longrightarrow> users w i \<noteq> None"

definition no_account :: "('w \<Rightarrow> string set) \<Rightarrow> string \<Rightarrow> 'w \<Rightarrow> bool" where
  "no_account accounts i w \<longleftrightarrow> i \<notin> accounts w"

definition gone :: "('w \<Rightarrow> string set) \<Rightarrow> ('w \<Rightarrow> string \<Rightarrow> user option) \<Rightarrow> string \<Rightarrow> 'w \<Rightarrow> bool" where
  "gone accounts users i w \<longleftrightarrow> i \<notin> accounts w \<and> users w i = None"

definition gc_reads :: "'w gc \<Rightarrow> ('w \<Rightarrow> 'v) \<Rightarrow> bool" where
  "gc_reads G view \<longleftrightarrow>
     (\<forall>off lim. silent view (ListHumanUsers (gc_Zitadel G) off lim)) \<and> (\<forall>n. silent view (ListAuthMethodTypes (gc_Zitadel G) n)) \<and>
     (\<forall>n. silent view (ListIDPLinks (gc_Zitadel G) n)) \<and> silent view (gc_clock G)"

definition job_law :: "'w sweeper \<Rightarrow> 'w gc \<Rightarrow> ('w \<Rightarrow> 'w \<Rightarrow> bool) \<Rightarrow> ('w \<Rightarrow> string set) \<Rightarrow> ('w \<Rightarrow> string \<Rightarrow> user option) \<Rightarrow>
    string \<Rightarrow> bool" where
  "job_law S G others accounts users i \<longleftrightarrow>
     sweep_reads S (\<lambda>w. (accounts w, users w)) \<and> sweep_writes_elsewhere S accounts \<and>
     create_user_law (sw_Client S) users \<and> get_user_law (sw_Client S) users \<and> update_status_law (sw_Client S) users \<and>
     (\<forall>w items w'. run_state (ListUsers (sw_Client S)) w = (Inr items, w') \<longrightarrow> dom (users w) \<subseteq> user_name ` set items) \<and>
     (\<forall>off lim w us raw w'. run_state (ListHumanUsers (sw_Zitadel S) off lim) w = (Inr (us, raw), w') \<longrightarrow>
        zu_ID ` set us \<subseteq> accounts w) \<and>
     gc_reads G (\<lambda>w. (accounts w, users w)) \<and>
     (\<forall>n w r w'. run_state (DeleteZitadelUser (gc_Zitadel G) n) w = (r, w') \<longrightarrow>
        users w' = users w \<and> accounts w' \<subseteq> accounts w \<and> accounts w - {n} \<subseteq> accounts w' \<and> (r = None \<longrightarrow> n \<notin> accounts w')) \<and>
     (\<forall>n w r w'. run_state (DeleteUserObject (gc_Client G) n) w = (r, w') \<longrightarrow>
        accounts w' = accounts w \<and> (\<forall>m. m \<noteq> n \<longrightarrow> users w' m = users w m) \<and> (users w n = None \<longrightarrow> users w' n = None)) \<and>
     retry_law (sw_retry S) others \<and>
     (\<forall>w w'. others w w' \<longrightarrow> (covered accounts users i w \<longrightarrow> covered accounts users i w') \<and>
        (no_account accounts i w \<longrightarrow> no_account accounts i w') \<and> (gone accounts users i w \<longrightarrow> gone accounts users i w'))"

text \<open>An action after which the three still hold.\<close>

definition calm :: "('w \<Rightarrow> string set) \<Rightarrow> ('w \<Rightarrow> string \<Rightarrow> user option) \<Rightarrow> string \<Rightarrow> 'w \<Rightarrow> 'w \<Rightarrow> bool" where
  "calm accounts users i w w' \<longleftrightarrow> (covered accounts users i w \<longrightarrow> covered accounts users i w') \<and>
     (no_account accounts i w \<longrightarrow> no_account accounts i w') \<and> (gone accounts users i w \<longrightarrow> gone accounts users i w')"

lemma calm_same: "accounts w' = accounts w \<Longrightarrow> users w' i = None \<longleftrightarrow> users w i = None \<Longrightarrow> calm accounts users i w w'"
  by (simp add: calm_def covered_def no_account_def gone_def)

lemma calm_trans: "calm accounts users i a b \<Longrightarrow> calm accounts users i b c \<Longrightarrow> calm accounts users i a c"
  by (simp add: calm_def)

lemma calm_silent:
  assumes "silent (\<lambda>w. (accounts w, users w)) m" and "run_state m w = (r, w')"
  shows "calm accounts users i w w'"
  using silent_run [OF assms] by (auto intro: calm_same)

lemma job_law_parts:
  assumes "job_law S G others accounts users i"
  shows "sweep_reads S (\<lambda>w. (accounts w, users w))"
    and "sweep_writes_elsewhere S accounts"
    and "create_user_law (sw_Client S) users"
    and "get_user_law (sw_Client S) users"
    and "update_status_law (sw_Client S) users"
    and "run_state (ListUsers (sw_Client S)) w = (Inr items, w') \<Longrightarrow> dom (users w) \<subseteq> user_name ` set items"
    and "run_state (ListHumanUsers (sw_Zitadel S) off lim) w = (Inr (us, raw), w') \<Longrightarrow> zu_ID ` set us \<subseteq> accounts w"
    and "gc_reads G (\<lambda>w. (accounts w, users w))"
    and "run_state (DeleteZitadelUser (gc_Zitadel G) n) w = (d, w') \<Longrightarrow>
      users w' = users w \<and> accounts w' \<subseteq> accounts w \<and> accounts w - {n} \<subseteq> accounts w' \<and> (d = None \<longrightarrow> n \<notin> accounts w')"
    and "run_state (DeleteUserObject (gc_Client G) n) w = (d, w') \<Longrightarrow>
      accounts w' = accounts w \<and> (\<forall>m. m \<noteq> n \<longrightarrow> users w' m = users w m) \<and> (users w n = None \<longrightarrow> users w' n = None)"
    and "retry_law (sw_retry S) others"
    and "others w w' \<Longrightarrow> calm accounts users i w w'"
proof -
  note law = assms [unfolded job_law_def]
  note lists = law [THEN conjunct2, THEN conjunct2, THEN conjunct2, THEN conjunct2, THEN conjunct2]
  note deletes = lists [THEN conjunct2, THEN conjunct2, THEN conjunct2]
  show "sweep_reads S (\<lambda>w. (accounts w, users w))" "sweep_writes_elsewhere S accounts" "create_user_law (sw_Client S) users"
    "get_user_law (sw_Client S) users" "update_status_law (sw_Client S) users"
    using law by simp_all
  show "run_state (ListUsers (sw_Client S)) w = (Inr items, w') \<Longrightarrow> dom (users w) \<subseteq> user_name ` set items"
    using lists [THEN conjunct1] by blast
  show "run_state (ListHumanUsers (sw_Zitadel S) off lim) w = (Inr (us, raw), w') \<Longrightarrow> zu_ID ` set us \<subseteq> accounts w"
    using lists [THEN conjunct2, THEN conjunct1] by blast
  show "gc_reads G (\<lambda>w. (accounts w, users w))"
    using lists [THEN conjunct2, THEN conjunct2, THEN conjunct1] by blast
  show "run_state (DeleteZitadelUser (gc_Zitadel G) n) w = (d, w') \<Longrightarrow>
      users w' = users w \<and> accounts w' \<subseteq> accounts w \<and> accounts w - {n} \<subseteq> accounts w' \<and> (d = None \<longrightarrow> n \<notin> accounts w')"
    using deletes [THEN conjunct1] by blast
  show "run_state (DeleteUserObject (gc_Client G) n) w = (d, w') \<Longrightarrow>
      accounts w' = accounts w \<and> (\<forall>m. m \<noteq> n \<longrightarrow> users w' m = users w m) \<and> (users w n = None \<longrightarrow> users w' n = None)"
    using deletes [THEN conjunct2, THEN conjunct1] by blast
  show "retry_law (sw_retry S) others"
    using deletes [THEN conjunct2, THEN conjunct2, THEN conjunct1] by blast
  show "others w w' \<Longrightarrow> calm accounts users i w w'"
    using deletes [THEN conjunct2, THEN conjunct2, THEN conjunct2] unfolding calm_def by blast
qed

lemma gc_reads_quiet:
  assumes "gc_reads G view"
  shows "silent view (gc_clock G)" and "silent view (ListHumanUsers (gc_Zitadel G) off lim)"
    and "silent view (lacks_credential G u n)" and "silent view (hasIDPLink G j)"
  using assms unfolding gc_reads_def lacks_credential_def hasIDPLink_def
  by (auto intro!: silent_if silent_bind silent_return)

lemma calm_attempt:
  assumes law: "job_law S G others accounts users i" and run: "run_state (Set_attempt (sw_Client S) n v) w = (r, w')"
  shows "calm accounts users i w w'"
proof (rule calm_same)
  have "silent accounts (GetUser (sw_Client S) m)" for m
    using job_law_parts(1) [OF law] unfolding sweep_reads_def silent_def by (metis fst_conv)
  moreover have "silent accounts (UpdateUserStatus (sw_Client S) u)" for u
    using job_law_parts(2) [OF law] by (simp add: sweep_writes_elsewhere_def)
  ultimately have "silent accounts (Set_attempt (sw_Client S) n v)"
    unfolding Set_attempt_def by (intro silent_bind silent_cases silent_if silent_return)
  then show "accounts w' = accounts w" by (rule silent_run [OF _ run])
  note law = Set_attempt_run [OF job_law_parts(4,5) [OF law] run]
  show "users w' i = None \<longleftrightarrow> users w i = None"
  proof (cases r)
    case (Inr b)
    then show ?thesis using law(1,2) by (cases b) (auto split: if_splits)
  qed (use law(3) in simp)
qed

lemma calm_retry:
  assumes "conflict_runs others m w r w'" and "\<And>w r w'. run_state m w = (r, w') \<Longrightarrow> calm accounts users i w w'"
    and "\<And>w w'. others w w' \<Longrightarrow> calm accounts users i w w'"
  shows "calm accounts users i w w'"
  using assms(1)
proof (induction rule: conflict_runs.induct)
  case (run_again w e w1 w2 r w')
  then show ?case by (meson assms(2,3) calm_trans)
qed (rule assms(2))

lemma calm_existing:
  assumes law: "job_law S G others accounts users i" and run: "run_state (sweep_existing S v u n) w = (n', w')"
  shows "calm accounts users i w w'"
proof (cases "NeedsUpdate v (zu_IsEmailVerified u)")
  case True
  then obtain r where "run_state (Set_verified (sw_retry S) (sw_Client S) (zu_ID u) (zu_IsEmailVerified u)) w = (r, w')"
    using run by (auto simp: sweep_existing_def split: prod.splits)
  with job_law_parts(11) [OF law]
  have "conflict_runs others (Set_attempt (sw_Client S) (zu_ID u) (zu_IsEmailVerified u)) w r w'"
    unfolding retry_law_def Set_verified_def by blast
  then show ?thesis by (rule calm_retry) (rule calm_attempt [OF law] job_law_parts(12) [OF law], assumption)+
next
  case False
  with run show ?thesis by (simp add: sweep_existing_def calm_def)
qed

lemma calm_missing:
  assumes law: "job_law S G others accounts users i" and run: "run_state (sweep_missing S u n) w = (r, w')" and "zu_ID u \<noteq> i"
  shows "calm accounts users i w w'"
proof -
  let ?u = "NewUser (zu_ID u) (zu_Email u) (zu_GivenName u) (zu_FamilyName u)"
  obtain c w1 where c: "run_state (EnsureUser (sw_Client S) ?u) w = (c, w1)" by (meson surj_pair)
  have "silent accounts (EnsureUser (sw_Client S) ?u)"
    using job_law_parts(2) [OF law] unfolding EnsureUser_def sweep_writes_elsewhere_def
    by (intro silent_bind silent_return) blast
  from silent_run [OF this c] have "accounts w1 = accounts w" .
  moreover have "users w1 i = None \<longleftrightarrow> users w i = None"
  proof (cases c)
    case (Inr x)
    then show ?thesis using EnsureUser_run(1,2) [OF job_law_parts(3) [OF law] c] assms(3)
      by (cases x) (auto simp: NewUser_def)
  qed (use EnsureUser_run(3) [OF job_law_parts(3) [OF law] c] in simp)
  ultimately have w1: "calm accounts users i w w1" by (rule calm_same)
  have quiet: "silent (\<lambda>w. (accounts w, users w)) (RecordEvent (sw_runtime S) (sw_Client S) a b d e)" for a b d e
    using job_law_parts(1) [OF law] unfolding RecordEvent_def sweep_reads_def by (intro silent_bind silent_return) blast+
  have "w' = w1 \<or> (\<exists>a b d e x. run_state (RecordEvent (sw_runtime S) (sw_Client S) a b d e) w1 = (x, w'))"
    using run c by (auto simp: sweep_missing_def Let_def split: sum.splits option.splits prod.splits)
  then show ?thesis using w1 calm_trans calm_silent [OF quiet] by metis
qed

section \<open>The invariant\<close>

fun job_pc_ok :: "('w \<Rightarrow> string set) \<Rightarrow> string \<Rightarrow> 'w \<Rightarrow> job_pc \<Rightarrow> bool" where
  "job_pc_ok accounts i w (Diffing ex off) \<longleftrightarrow> ex i \<noteq> None \<or> i \<notin> accounts w"
| "job_pc_ok accounts i w (Provisioning ex off raw us) \<longleftrightarrow> (ex i \<noteq> None \<or> i \<notin> accounts w) \<and> (ex i = None \<longrightarrow> i \<notin> zu_ID ` set us)"
| "job_pc_ok accounts i w (Orphaning c off raw n us) \<longleftrightarrow> n = i \<longrightarrow> i \<notin> accounts w"
| "job_pc_ok accounts i w _ \<longleftrightarrow> True"

definition job_ok :: "('w \<Rightarrow> string set) \<Rightarrow> ('w \<Rightarrow> string \<Rightarrow> user option) \<Rightarrow> string \<Rightarrow> 'w job_sys \<Rightarrow> bool" where
  "job_ok accounts users i s \<longleftrightarrow> covered accounts users i (js_world s) \<and> (\<forall>j. job_pc_ok accounts i (js_world s) (js_pc s j))"

lemma job_pc_ok_calm: "calm accounts users i w w' \<Longrightarrow> job_pc_ok accounts i w p \<Longrightarrow> job_pc_ok accounts i w' p"
  by (cases p) (auto simp: calm_def no_account_def)

lemma job_ok_go:
  "job_ok accounts users i s \<Longrightarrow> calm accounts users i (js_world s) w \<Longrightarrow> job_pc_ok accounts i w p \<Longrightarrow>
   job_ok accounts users i (js_go j p w s)"
  by (auto simp: job_ok_def calm_def intro: job_pc_ok_calm [unfolded calm_def])

text \<open>
  The order of the two lists: a name of which the listed Users have none has no account any more, and so no later page
  names it.
\<close>

lemma calm_list_users:
  assumes law: "job_law S G others accounts users i" and run: "run_state (ListUsers (sw_Client S)) w = (r, w')"
  shows "calm accounts users i w w'" and "covered accounts users i w \<Longrightarrow> r = Inr items \<Longrightarrow>
    existing_users items i \<noteq> None \<or> i \<notin> accounts w'"
proof -
  have quiet: "silent (\<lambda>w. (accounts w, users w)) (ListUsers (sw_Client S))"
    using job_law_parts(1) [OF law] by (simp add: sweep_reads_def)
  show "calm accounts users i w w'" by (rule calm_silent [OF quiet run])
  assume "covered accounts users i w" and "r = Inr items"
  moreover from this have "dom (users w) \<subseteq> dom (existing_users items)"
    using job_law_parts(6) [OF law] run by (simp add: dom_existing_users)
  ultimately show "existing_users items i \<noteq> None \<or> i \<notin> accounts w'"
    using silent_run [OF quiet run] unfolding covered_def by blast
qed

lemma calm_list_page:
  assumes law: "job_law S G others accounts users i" and run: "run_state (ListHumanUsers (sw_Zitadel S) off lim) w = (r, w')"
  shows "calm accounts users i w w'" and "accounts w' = accounts w"
    and "r = Inr (us, raw) \<Longrightarrow> i \<notin> accounts w \<Longrightarrow> i \<notin> zu_ID ` set us"
proof -
  have quiet: "silent (\<lambda>w. (accounts w, users w)) (ListHumanUsers (sw_Zitadel S) off lim)"
    using job_law_parts(1) [OF law] by (simp add: sweep_reads_def)
  show "calm accounts users i w w'" "accounts w' = accounts w"
    using calm_silent [OF quiet run] silent_run [OF quiet run] by simp_all
  show "r = Inr (us, raw) \<Longrightarrow> i \<notin> accounts w \<Longrightarrow> i \<notin> zu_ID ` set us"
    using job_law_parts(7) [OF law] run by blast
qed

lemma job_step_calm:
  assumes law: "job_law S G others accounts users i" and step: "job_step S G others s s'" and ok: "job_ok accounts users i s"
  shows "calm accounts users i (js_world s) (js_world s') \<and> job_ok accounts users i s'"
proof -
  have pc: "job_pc_ok accounts i (js_world s) (js_pc s j)" for j using ok by (simp add: job_ok_def)
  have go: "calm accounts users i (js_world s) w \<Longrightarrow> job_pc_ok accounts i w p \<Longrightarrow>
      calm accounts users i (js_world s) (js_world (js_go j p w s)) \<and> job_ok accounts users i (js_go j p w s)" for j p w
    using job_ok_go [OF ok] by simp
  have stay: "calm accounts users i (js_world s) (js_world s)" by (simp add: calm_def)
  note gc_quiet = gc_reads_quiet [OF job_law_parts(8) [OF law]]
  show ?thesis using step
  proof cases
    case (list_users j r w)
    from calm_list_users [OF law list_users(3)] ok show ?thesis
      unfolding list_users(1) by (intro go) (auto simp: job_ok_def split: sum.split)
  next
    case (list_page j ex off r w)
    from calm_list_page [OF law list_page(3)] pc [of j] list_page(2) show ?thesis
      unfolding list_page(1) by (intro go) (auto split: sum.split)
  next
    case (reconcile j ex off raw u us v n n' w)
    note c = calm_existing [OF law reconcile(4)]
    from job_pc_ok_calm [OF c pc [of j]] reconcile(2) c show ?thesis unfolding reconcile(1) by (intro go) auto
  next
    case (provision j ex off raw u us n r w)
    have "zu_ID u \<noteq> i" using pc [of j] provision(2,3) by auto
    note c = calm_missing [OF law provision(4) this]
    from job_pc_ok_calm [OF c pc [of j]] provision(2) c show ?thesis unfolding provision(1) by (intro go) (auto split: sum.split)
  next
    case (next_page j ex off raw)
    with pc [of j] stay show ?thesis unfolding next_page(1) by (intro go) auto
  next
    case (sweep_ends j ex off raw t w)
    have "silent (\<lambda>w. (accounts w, users w)) (Now (sw_runtime S))" using job_law_parts(1) [OF law] by (simp add: sweep_reads_def)
    from calm_silent [OF this sweep_ends(4)] show ?thesis unfolding sweep_ends(1) by (intro go) auto
  next
    case (read_clock j now w)
    from calm_silent [OF gc_quiet(1) read_clock(3)] show ?thesis unfolding read_clock(1) by (intro go) auto
  next
    case (list_accounts j c off r w)
    from calm_silent [OF gc_quiet(2) list_accounts(3)] show ?thesis unfolding list_accounts(1)
      by (intro go) (auto split: sum.split)
  next
    case (measure_account j c off raw u us n n' w)
    from calm_silent [OF gc_quiet(3) measure_account(3)] show ?thesis unfolding measure_account(1) by (intro go) auto
  next
    case (check_links j c off raw u us l w)
    from calm_silent [OF gc_quiet(4) check_links(3)] show ?thesis unfolding check_links(1) by (intro go) auto
  next
    case (delete_account j c off raw n us e w)
    note d = job_law_parts(9) [OF law delete_account(3)]
    then have "calm accounts users i (js_world s) w" by (auto simp: calm_def covered_def no_account_def gone_def)
    with d show ?thesis unfolding delete_account(1) by (intro go) (auto split: option.split)
  next
    case (delete_user j c off raw n us e w)
    note d = job_law_parts(10) [OF law delete_user(3)]
    have "calm accounts users i (js_world s) w"
      using d pc [of j] delete_user(2) by (cases "n = i") (auto simp: calm_def covered_def no_account_def gone_def)
    then show ?thesis unfolding delete_user(1) by (intro go) auto
  next
    case (other w)
    with ok job_law_parts(12) [OF law other(2)] show ?thesis
      by (auto simp: job_ok_def calm_def intro: job_pc_ok_calm [unfolded calm_def])
  qed (use go [OF stay] stay in simp_all)
qed

lemma job_ok_reachable:
  assumes "job_law S G others accounts users i" and "covered accounts users i w0" and "jobs S G others (job_start w0) s"
  shows "job_ok accounts users i s"
proof (rule step_invariant.inv_steps [OF _ assms(3)])
  show "step_invariant (job_step S G others) (job_ok accounts users i)"
    by unfold_locales (use job_step_calm [OF assms(1)] in blast)
  show "job_ok accounts users i (job_start w0)" using assms(2) by (simp add: job_ok_def job_start_def)
qed

lemma gone_reachable:
  assumes "job_law S G others accounts users i" and "job_ok accounts users i s" and "gone accounts users i (js_world s)"
    and "jobs S G others s s'"
  shows "gone accounts users i (js_world s')"
proof -
  have "step_invariant (job_step S G others) (\<lambda>s. job_ok accounts users i s \<and> gone accounts users i (js_world s))"
    by unfold_locales (use job_step_calm [OF assms(1)] in \<open>auto simp: calm_def\<close>)
  from step_invariant.inv_steps [OF this assms(4)] assms(2,3) show ?thesis by blast
qed


section \<open>A collection during a sweep\<close>

text \<open>The accounts of Zitadel beside the API server in memory.\<close>

type_synonym both_world = "zuser list \<times> mem_world"

definition in_mem :: "(mem_world, 'a) state \<Rightarrow> (both_world, 'a) state" where
  "in_mem m = State (\<lambda>(A, w). case run_state m w of (r, w') \<Rightarrow> (r, (A, w')))"

lemma run_in_mem [simp]: "run_state (in_mem m) (A, w) = (case run_state m w of (r, w') \<Rightarrow> (r, (A, w')))"
  by (simp add: in_mem_def)

definition both_kube :: "both_world kube" where
  "both_kube = \<lparr>GetUser = (\<lambda>n. in_mem (GetUser mem_kube n)), ListUsers = in_mem (ListUsers mem_kube),
     CreateUser = (\<lambda>u. in_mem (CreateUser mem_kube u)), UpdateUser = (\<lambda>u. in_mem (UpdateUser mem_kube u)),
     UpdateUserStatus = (\<lambda>u. in_mem (UpdateUserStatus mem_kube u)),
     PatchUserStatus = (\<lambda>a b m. in_mem (PatchUserStatus mem_kube a b m)),
     DeleteUserObject = (\<lambda>n. in_mem (DeleteUserObject mem_kube n)), CreateEmail = (\<lambda>e. in_mem (CreateEmail mem_kube e)),
     ListEmails = (\<lambda>n l. in_mem (ListEmails mem_kube n l)), CreateEvent = (\<lambda>e. in_mem (CreateEvent mem_kube e))\<rparr>"

definition both_api :: "both_world zitadel_api" where
  "both_api = (down_api not_found)
     \<lparr>ListHumanUsers := (\<lambda>off lim. State (\<lambda>(A, w). (Inr (take lim (drop off A), length (take lim (drop off A))), (A, w)))),
      ListIDPLinks := (\<lambda>i. State_Monad.return (Inr [])),
      DeleteZitadelUser := (\<lambda>i. State (\<lambda>(A, w). (None, (filter (\<lambda>u. zu_ID u \<noteq> i) A, w))))\<rparr>"

definition both_sweeper :: "both_world sweeper" where
  "both_sweeper = \<lparr>sw_Client = both_kube, sw_Zitadel = both_api,
     sw_runtime = \<lparr>Now = in_mem (Now mem_runtime), NewUUID = in_mem (NewUUID mem_runtime), Sleep = (\<lambda>d. in_mem (Sleep mem_runtime d))\<rparr>,
     sw_retry = (\<lambda>m. m), sw_Interval = Hour\<rparr>"

definition both_gc :: "both_world gc" where
  "both_gc = \<lparr>gc_Client = both_kube, gc_Zitadel = both_api, gc_Interval = DefaultAbandonedGCInterval,
     gc_Retention = DefaultAbandonedRetention, gc_DryRun = False, gc_clock = State_Monad.return (60 * 24 * Hour)\<rparr>"

definition both_accounts :: "both_world \<Rightarrow> string set" where
  "both_accounts p = zu_ID ` set (fst p)"

definition both_users :: "both_world \<Rightarrow> string \<Rightarrow> user option" where
  "both_users p = mem_find (snd p)"

lemma both_user_laws:
  "create_user_law both_kube both_users" "get_user_law both_kube both_users" "update_status_law both_kube both_users"
  using mem_create_user_law mem_get_user_law mem_update_status_law
  unfolding create_user_law_def get_user_law_def update_status_law_def both_kube_def both_users_def
  by (auto split: prod.splits)

lemma mem_find_filter: "find (\<lambda>u. user_name u = m) (filter (\<lambda>u. user_name u \<noteq> n) us) =
    (if m = n then None else find (\<lambda>u. user_name u = m) us)"
  by (induction us) auto

lemma mem_delete_user:
  assumes "run_state (DeleteUserObject mem_kube n) w = (r, w')"
  shows "mem_find w' m = (if m = n then None else mem_find w m)"
  using assms by (auto simp: mem_kube_def mem_find_def mem_find_filter split: option.splits)

lemma both_job_law: "job_law both_sweeper both_gc (\<lambda>_ _. False) both_accounts both_users i"
  unfolding job_law_def
proof (intro conjI allI impI)
  show "sweep_reads both_sweeper (\<lambda>w. (both_accounts w, both_users w))" "sweep_writes_elsewhere both_sweeper both_accounts"
    by (auto simp: sweep_reads_def sweep_writes_elsewhere_def silent_def both_sweeper_def both_kube_def both_api_def both_users_def
        both_accounts_def mem_kube_def mem_runtime_def mem_find_def fun_eq_iff split: prod.splits)
  show "create_user_law (sw_Client both_sweeper) both_users" "get_user_law (sw_Client both_sweeper) both_users"
    "update_status_law (sw_Client both_sweeper) both_users"
    using both_user_laws by (simp_all add: both_sweeper_def)
  show "retry_law (sw_retry both_sweeper) (\<lambda>_ _. False)"
    by (auto simp: retry_law_def both_sweeper_def intro: last_run)
  show "dom (both_users w) \<subseteq> user_name ` set items"
    if "run_state (ListUsers (sw_Client both_sweeper)) w = (Inr items, w')" for w items w'
    using that by (cases w) (auto simp: both_sweeper_def both_kube_def both_users_def mem_kube_def mem_find_def find_Some_iff)
  show "zu_ID ` set us \<subseteq> both_accounts w"
    if "run_state (ListHumanUsers (sw_Zitadel both_sweeper) off lim) w = (Inr (us, raw), w')" for off lim w us raw w'
    using that by (cases w) (auto simp: both_sweeper_def both_api_def both_accounts_def dest!: in_set_takeD in_set_dropD)
  show "gc_reads both_gc (\<lambda>w. (both_accounts w, both_users w))"
    by (auto simp: gc_reads_def silent_def both_gc_def both_api_def down_api_def split: prod.splits)
  fix n w r w'
  show "both_users w' = both_users w" "both_accounts w' \<subseteq> both_accounts w" "both_accounts w - {n} \<subseteq> both_accounts w'"
    "r = None \<Longrightarrow> n \<notin> both_accounts w'" if "run_state (DeleteZitadelUser (gc_Zitadel both_gc) n) w = (r, w')"
    using that by (cases w, auto simp: both_gc_def both_api_def both_users_def both_accounts_def)+
  have "both_accounts w' = both_accounts w \<and> (\<forall>m. both_users w' m = (if m = n then None else both_users w m))"
    if "run_state (DeleteUserObject (gc_Client both_gc) n) w = (r, w')"
    using that mem_delete_user [of n "snd w" r "snd w'"]
    by (cases w) (auto simp: both_gc_def both_kube_def both_users_def both_accounts_def split: prod.splits)
  then show "both_accounts w' = both_accounts w" "m \<noteq> n \<Longrightarrow> both_users w' m = both_users w m"
    "both_users w n = None \<Longrightarrow> both_users w' n = None" if "run_state (DeleteUserObject (gc_Client both_gc) n) w = (r, w')" for m
    using that by auto
qed auto

definition race_world :: both_world where
  "race_world = ([stale ''1''], empty_world\<lparr>mem_users := [NewUser ''1'' ''a@x'' [] []]\<rparr>)"

definition two_jobs :: "job_pc \<Rightarrow> job_pc \<Rightarrow> both_world \<Rightarrow> both_world job_sys" where
  "two_jobs p q w = \<lparr>js_world = w, js_pc = (\<lambda>_. Resting)(0 := p, 1 := q)\<rparr>"

lemma two_jobs_simps [simp]:
  "js_world (two_jobs p q w) = w" "js_pc (two_jobs p q w) 0 = p" "js_pc (two_jobs p q w) (Suc 0) = q"
  "js_go 0 p' w' (two_jobs p q w) = two_jobs p' q w'" "js_go (Suc 0) q' w' (two_jobs p q w) = two_jobs p q' w'"
  "job_start w = two_jobs Resting Resting w"
  by (auto simp: two_jobs_def js_go_def job_start_def fun_eq_iff)

definition snapshot :: "string \<Rightarrow> user option" where
  "snapshot = existing_users [NewUser ''1'' ''a@x'' [] []]"

definition race_cutoff :: int where
  "race_cutoff = 60 * 24 * Hour - gc_Retention both_gc"

lemma race_calls:
  "run_state (ListUsers (sw_Client both_sweeper)) race_world = (Inr [NewUser ''1'' ''a@x'' [] []], race_world)"
  "run_state (ListHumanUsers (sw_Zitadel both_sweeper) 0 sweepPageSize) race_world = (Inr ([stale ''1''], 1), race_world)"
  "run_state (gc_clock both_gc) race_world = (60 * 24 * Hour, race_world)"
  "run_state (lacks_credential both_gc (stale ''1'') no_gc) race_world = (no_gc, race_world)"
  "run_state (hasIDPLink both_gc (zu_ID (stale ''1''))) race_world = (Inr False, race_world)" "\<not> gc_DryRun both_gc"
  "isAbandoned (stale ''1'') (60 * 24 * Hour - gc_Retention both_gc)"
  "run_state (ListHumanUsers (gc_Zitadel both_gc) 0 sweepPageSize) race_world = (Inr ([stale ''1''], 1), race_world)"
  "run_state (DeleteZitadelUser (gc_Zitadel both_gc) (zu_ID (stale ''1''))) race_world = (None, ([], snd race_world))"
  "run_state (DeleteUserObject (gc_Client both_gc) ''1'') ([], snd race_world) = (None, ([], empty_world))"
  "snapshot (zu_ID (stale ''1'')) = Some (NewUser ''1'' ''a@x'' [] [])"
  "\<exists>n. run_state (sweep_existing both_sweeper (NewUser ''1'' ''a@x'' [] []) (stale ''1'') no_sweep) ([], empty_world) = (n, ([], empty_world))"
  by (simp_all add: both_sweeper_def both_gc_def both_kube_def both_api_def race_world_def mem_kube_def mem_find_def
      sweepPageSize_def stale_def NewUser_def empty_world_def snapshot_def existing_users_def sweep_existing_def
      Set_verified_def Set_attempt_def lacks_credential_def hasIDPLink_def isAbandoned_def IsZero_def zero_time_def DefaultAbandonedRetention_def)

lemma race_run:
  "jobs both_sweeper both_gc (\<lambda>_ _. False) (job_start race_world)
     (two_jobs (Provisioning snapshot 0 1 [stale ''1'']) (Collecting race_cutoff 0 1 []) ([], empty_world))"
proof -
  let ?R = "job_step both_sweeper both_gc (\<lambda>_ _. False)" and ?s = "job_start race_world" and ?w = race_world
  let ?u = "stale ''1''" and ?p = "Provisioning snapshot 0 1 [stale ''1'']" and ?c = race_cutoff
  note step = rtranclp.rtrancl_into_rtrancl [where r = ?R and a = ?s]
  have "?R\<^sup>*\<^sup>* ?s (two_jobs Resting Resting ?w)" by simp
  from step [OF this list_users [of _ 0]] race_calls(1)
  have "?R\<^sup>*\<^sup>* ?s (two_jobs (Diffing snapshot 0) Resting ?w)" by (simp add: snapshot_def)
  from step [OF this list_page [of _ 0 snapshot 0 _ "Inr ([?u], 1)"]] race_calls(2)
  have "?R\<^sup>*\<^sup>* ?s (two_jobs ?p Resting ?w)" by simp
  from step [OF this read_clock [of _ 1]] race_calls(3)
  have "?R\<^sup>*\<^sup>* ?s (two_jobs ?p (Scanning ?c 0) ?w)" by (simp add: race_cutoff_def)
  from step [OF this list_accounts [of _ 1 ?c 0 _ "Inr ([?u], 1)"]] race_calls(8)
  have "?R\<^sup>*\<^sup>* ?s (two_jobs ?p (Collecting ?c 0 1 [?u]) ?w)" by simp
  from step [OF this measure_account [of _ 1 ?c 0 1 ?u "[]" _ no_gc]] race_calls(4,7)
  have "?R\<^sup>*\<^sup>* ?s (two_jobs ?p (Suspecting ?c 0 1 ?u []) ?w)" by (simp add: race_cutoff_def)
  from step [OF this check_links [of _ 1 ?c 0 1 ?u "[]" _ "Inr False"]] race_calls(5,6)
  have "?R\<^sup>*\<^sup>* ?s (two_jobs ?p (Condemning ?c 0 1 (zu_ID ?u) []) ?w)" by simp
  from step [OF this delete_account [of _ 1 ?c 0 1 "zu_ID ?u" "[]"]] race_calls(9)
  have "?R\<^sup>*\<^sup>* ?s (two_jobs ?p (Orphaning ?c 0 1 (zu_ID ?u) []) ([], snd ?w))" by simp
  from step [OF this delete_user [of _ 1 ?c 0 1 "zu_ID ?u" "[]"]] race_calls(10) show ?thesis by (simp add: stale_def)
qed


end
