(* ===== verification/Config_Copies.thy ===== *)
theory Config_Copies
  imports Controller_Command
begin

text \<open>
  internal/config/zz_generated.deepcopy.go and groupversion_info.go: the copies of the configuration
  types, over an explicit store because what a copy is worth depends on aliasing, and the
  registration of the file's type with a scheme.
\<close>

section \<open>Structs in memory\<close>

text \<open>
  The structs of one type: cells and the next address that \<^verbatim>\<open>new\<close> gives out. A pointer is an address
  or nil, and to dereference nil is a panic, \<^const>\<open>None\<close>.
\<close>

record 'a cells =
  ce_at :: "nat \<rightharpoonup> 'a"
  ce_next :: nat

type_synonym pointer = "nat option"

definition deref :: "pointer \<Rightarrow> 'a cells \<Rightarrow> 'a option" where
  "deref p h = (case p of None \<Rightarrow> None | Some a \<Rightarrow> ce_at h a)"

definition assign :: "pointer \<Rightarrow> 'a \<Rightarrow> 'a cells \<Rightarrow> 'a cells option" where
  "assign p v h = (case p of None \<Rightarrow> None | Some a \<Rightarrow>
     (if a \<in> dom (ce_at h) then Some (h\<lparr>ce_at := (ce_at h)(a \<mapsto> v)\<rparr>) else None))"

definition allocate :: "'a \<Rightarrow> 'a cells \<Rightarrow> pointer \<times> 'a cells" where
  "allocate zero h = (Some (ce_next h), h\<lparr>ce_at := (ce_at h)(ce_next h \<mapsto> zero), ce_next := Suc (ce_next h)\<rparr>)"

text \<open>Only addresses that were given out are in use.\<close>

definition good_cells :: "'a cells \<Rightarrow> bool" where
  "good_cells h \<longleftrightarrow> (\<forall>a \<in> dom (ce_at h). a < ce_next h)"

lemma allocate_good: "good_cells h \<Longrightarrow> good_cells (snd (allocate zero h))"
  by (auto simp: allocate_def good_cells_def less_Suc_eq)

lemma assign_good: "good_cells h \<Longrightarrow> assign p v h = Some h' \<Longrightarrow> good_cells h'"
  by (auto simp: assign_def good_cells_def split: option.splits if_splits)

lemma assign_frame:
  assumes "assign p v h = Some h'"
  shows "deref p h' = Some v" and "q \<noteq> p \<Longrightarrow> deref q h' = deref q h" and "ce_next h' = ce_next h"
  using assms by (auto simp: assign_def deref_def split: option.splits if_splits)

section \<open>The types\<close>

record downstream_config =
  ds_KubeconfigPath :: string

record type_meta =
  tm_Kind :: string
  tm_APIVersion :: string

record auth_provider =
  ap_TypeMeta :: type_meta
  ap_Discovery :: discovery_config
  ap_DownstreamResourceManagement :: downstream_config

text \<open>The zero values that \<^verbatim>\<open>new\<close> fills a cell with.\<close>

definition zero_discovery :: discovery_config where
  "zero_discovery = \<lparr>dc_Mode = ModeUnset, dc_InternalServiceDiscovery = False, dc_DiscoveryKubeconfigPath = [], dc_ProjectKubeconfigPath = []\<rparr>"

definition zero_downstream :: downstream_config where
  "zero_downstream = \<lparr>ds_KubeconfigPath = []\<rparr>"

definition zero_zitadel :: zitadel_config where
  "zero_zitadel = \<lparr>zc_BaseURL = [], zc_MachineAccountKeyPath = [], zc_SDKDomain = [], zc_SDKIssuer = [], zc_DefaultMachineKeyExpiration = 0\<rparr>"

definition zero_auth_provider :: auth_provider where
  "zero_auth_provider = \<lparr>ap_TypeMeta = \<lparr>tm_Kind = [], tm_APIVersion = []\<rparr>, ap_Discovery = zero_discovery,
     ap_DownstreamResourceManagement = zero_downstream\<rparr>"

section \<open>zz_generated.deepcopy.go\<close>

text \<open>\<^verbatim>\<open>*out = *in\<close>.\<close>

definition copy_struct :: "pointer \<Rightarrow> pointer \<Rightarrow> 'a cells \<Rightarrow> 'a cells option" where
  "copy_struct src out h = (case deref src h of None \<Rightarrow> None | Some v \<Rightarrow> assign out v h)"

text \<open>\<^verbatim>\<open>out.f = in.f\<close>, for a field given by how it is read and written.\<close>

definition copy_field :: "('a \<Rightarrow> 'f) \<Rightarrow> ('f \<Rightarrow> 'a \<Rightarrow> 'a) \<Rightarrow> pointer \<Rightarrow> pointer \<Rightarrow> 'a cells \<Rightarrow> 'a cells option" where
  "copy_field get put src out h = (case deref src h of None \<Rightarrow> None | Some v \<Rightarrow>
     (case deref out h of None \<Rightarrow> None | Some u \<Rightarrow> assign out (put (get v) u) h))"

definition AuthProviderZitadel_DeepCopyInto :: "pointer \<Rightarrow> pointer \<Rightarrow> auth_provider cells \<Rightarrow> auth_provider cells option" where
  "AuthProviderZitadel_DeepCopyInto src out h =
     Option.bind (copy_struct src out h) (\<lambda>h.
     Option.bind (copy_field ap_TypeMeta (\<lambda>f. ap_TypeMeta_update (\<lambda>_. f)) src out h) (\<lambda>h.
     Option.bind (copy_field ap_Discovery (\<lambda>f. ap_Discovery_update (\<lambda>_. f)) src out h) (\<lambda>h.
     copy_field ap_DownstreamResourceManagement (\<lambda>f. ap_DownstreamResourceManagement_update (\<lambda>_. f)) src out h)))"

definition DiscoveryConfig_DeepCopyInto :: "pointer \<Rightarrow> pointer \<Rightarrow> discovery_config cells \<Rightarrow> discovery_config cells option" where
  "DiscoveryConfig_DeepCopyInto src out h = copy_struct src out h"

definition DownstreamConfig_DeepCopyInto :: "pointer \<Rightarrow> pointer \<Rightarrow> downstream_config cells \<Rightarrow> downstream_config cells option" where
  "DownstreamConfig_DeepCopyInto src out h = copy_struct src out h"

definition ZitadelConfig_DeepCopyInto :: "pointer \<Rightarrow> pointer \<Rightarrow> zitadel_config cells \<Rightarrow> zitadel_config cells option" where
  "ZitadelConfig_DeepCopyInto src out h = copy_struct src out h"

text \<open>The common shape of the \<^verbatim>\<open>DeepCopy\<close> methods: nil for nil, else a new struct that is copied into.\<close>

definition deep_copy ::
  "'a \<Rightarrow> (pointer \<Rightarrow> pointer \<Rightarrow> 'a cells \<Rightarrow> 'a cells option) \<Rightarrow> pointer \<Rightarrow> 'a cells \<Rightarrow> (pointer \<times> 'a cells) option" where
  "deep_copy zero into src h =
     (if src = None then Some (None, h)
      else case allocate zero h of (out, h) \<Rightarrow>
        (case into src out h of None \<Rightarrow> None | Some h \<Rightarrow> Some (out, h)))"

definition AuthProviderZitadel_DeepCopy :: "pointer \<Rightarrow> auth_provider cells \<Rightarrow> (pointer \<times> auth_provider cells) option" where
  "AuthProviderZitadel_DeepCopy = deep_copy zero_auth_provider AuthProviderZitadel_DeepCopyInto"

definition DiscoveryConfig_DeepCopy :: "pointer \<Rightarrow> discovery_config cells \<Rightarrow> (pointer \<times> discovery_config cells) option" where
  "DiscoveryConfig_DeepCopy = deep_copy zero_discovery DiscoveryConfig_DeepCopyInto"

definition DownstreamConfig_DeepCopy :: "pointer \<Rightarrow> downstream_config cells \<Rightarrow> (pointer \<times> downstream_config cells) option" where
  "DownstreamConfig_DeepCopy = deep_copy zero_downstream DownstreamConfig_DeepCopyInto"

definition ZitadelConfig_DeepCopy :: "pointer \<Rightarrow> zitadel_config cells \<Rightarrow> (pointer \<times> zitadel_config cells) option" where
  "ZitadelConfig_DeepCopy = deep_copy zero_zitadel ZitadelConfig_DeepCopyInto"

text \<open>
  A \<^verbatim>\<open>runtime.Object\<close> that is nil, or one with a pointer of this type. The method returns the nil
  interface for a nil pointer and never an interface that holds one.
\<close>

datatype runtime_object = NilObject | AuthProviderObject pointer

definition AuthProviderZitadel_DeepCopyObject :: "pointer \<Rightarrow> auth_provider cells \<Rightarrow> (runtime_object \<times> auth_provider cells) option" where
  "AuthProviderZitadel_DeepCopyObject src h =
     (case AuthProviderZitadel_DeepCopy src h of
        None \<Rightarrow> None
      | Some (c, h) \<Rightarrow> Some (if c \<noteq> None then AuthProviderObject c else NilObject, h))"

section \<open>groupversion_info.go\<close>

definition config_GroupVersion :: "string \<times> string" where
  "config_GroupVersion = (''apiserver.config.miloapis.com'', ''v1alpha1'')"

text \<open>
  A scheme is a list of registered kinds with their group and version; what
  \<^verbatim>\<open>metav1.AddToGroupVersion\<close> registers for a group and version is an argument.
\<close>

type_synonym scheme_types = "((string \<times> string) \<times> string) list"

definition addKnownTypes :: "(string \<times> string \<Rightarrow> scheme_types) \<Rightarrow> scheme_types \<Rightarrow> scheme_types" where
  "addKnownTypes meta s = s @ [(config_GroupVersion, ''AuthProviderZitadel'')] @ meta config_GroupVersion"

section \<open>What a copy is worth\<close>

text \<open>
  The contract of a method that copies a struct into another: it writes the value of the source
  into the target and nothing else.
\<close>

locale struct_copy =
  fixes zero :: 'a and into :: "pointer \<Rightarrow> pointer \<Rightarrow> 'a cells \<Rightarrow> 'a cells option"
  assumes into_copies: "\<lbrakk>deref src h = Some v; deref out h = Some u\<rbrakk> \<Longrightarrow> into src out h = assign out v h"
begin

text \<open>
  A copy of a struct in memory never panics, is a struct of its own with the value of the source,
  and leaves every struct that was there; a later write through one of the two does not reach the
  other.
\<close>

lemma copy_is_independent:
  assumes good: "good_cells h" and src: "deref (Some a) h = Some v"
  shows "\<exists>b h'. deep_copy zero into (Some a) h = Some (Some b, h') \<and> b \<notin> dom (ce_at h) \<and> good_cells h' \<and>
    deref (Some b) h' = Some v \<and> (\<forall>q. q \<noteq> Some b \<longrightarrow> deref q h' = deref q h) \<and>
    (\<forall>u h''. (assign (Some b) u h' = Some h'' \<longrightarrow> deref (Some a) h'' = Some v) \<and>
             (assign (Some a) u h' = Some h'' \<longrightarrow> deref (Some b) h'' = Some v))"
proof -
  let ?b = "ce_next h" and ?h = "snd (allocate zero h)"
  have old: "a \<in> dom (ce_at h)" using src by (auto simp: deref_def)
  then have apart: "a \<noteq> ?b" and fresh: "?b \<notin> dom (ce_at h)" using good by (auto simp: good_cells_def)
  have there: "deref (Some a) ?h = Some v" "deref (Some ?b) ?h = Some zero"
    using src apart by (auto simp: allocate_def deref_def)
  have kept: "deref q ?h = deref q h" if "q \<noteq> Some ?b" for q
    using that by (auto simp: allocate_def deref_def split: option.splits)
  obtain h' where h': "assign (Some ?b) v ?h = Some h'" by (auto simp: assign_def allocate_def)
  have run: "deep_copy zero into (Some a) h = Some (Some ?b, h')"
    using into_copies[OF there] h' by (auto simp: deep_copy_def allocate_def)
  note frame = assign_frame[OF h']
  have same: "deref q h' = deref q h" if "q \<noteq> Some ?b" for q
    using frame(2)[OF that] kept[OF that] by simp
  have a': "deref (Some a) h' = Some v" using same[of "Some a"] apart src by simp
  have one: "deref (Some a) h'' = Some v" if "assign (Some ?b) u h' = Some h''" for u h''
    using assign_frame(2)[OF that, of "Some a"] apart a' by simp
  have other: "deref (Some ?b) h'' = Some v" if "assign (Some a) u h' = Some h''" for u h''
    using assign_frame(2)[OF that, of "Some ?b"] apart frame(1) by simp
  show ?thesis
    using run fresh assign_good[OF allocate_good[OF good] h'] frame(1) same one other by blast
qed

lemma copy_of_nil: "deep_copy zero into None h = Some (None, h)"
  by (simp add: deep_copy_def)

end

lemma copy_struct_copies: "deref src h = Some v \<Longrightarrow> copy_struct src out h = assign out v h"
  by (simp add: copy_struct_def)

text \<open>A field that is copied after its struct has the value already.\<close>

lemma copy_field_idle:
  assumes "deref src h = Some v" and "deref out h = Some v" and "put (get v) v = v"
  shows "copy_field get put src out h = Some h"
proof -
  obtain a where "out = Some a" "ce_at h a = Some v"
    using assms(2) by (auto simp: deref_def split: option.splits)
  then show ?thesis using assms by (auto simp: copy_field_def assign_def fun_upd_idem)
qed

lemma auth_provider_into:
  assumes src: "deref src h = Some v" and out: "deref out h = Some u"
  shows "AuthProviderZitadel_DeepCopyInto src out h = assign out v h"
proof -
  obtain h' where h': "assign out v h = Some h'"
    using out by (cases out) (auto simp: deref_def assign_def domI)
  have "deref out h' = Some v" using assign_frame(1)[OF h'] .
  moreover have "deref src h' = Some v" using assign_frame(1)[OF h'] assign_frame(2)[OF h', of src] src by (cases "src = out") auto
  ultimately show ?thesis
    using h' by (simp add: AuthProviderZitadel_DeepCopyInto_def copy_struct_copies[OF src] copy_field_idle)
qed

interpretation apz: struct_copy zero_auth_provider AuthProviderZitadel_DeepCopyInto
  by unfold_locales (rule auth_provider_into)

interpretation dcz: struct_copy zero_discovery DiscoveryConfig_DeepCopyInto
  by unfold_locales (simp add: DiscoveryConfig_DeepCopyInto_def copy_struct_copies)

interpretation dsz: struct_copy zero_downstream DownstreamConfig_DeepCopyInto
  by unfold_locales (simp add: DownstreamConfig_DeepCopyInto_def copy_struct_copies)

interpretation zcz: struct_copy zero_zitadel ZitadelConfig_DeepCopyInto
  by unfold_locales (simp add: ZitadelConfig_DeepCopyInto_def copy_struct_copies)

lemmas discovery_copy_is_independent = dcz.copy_is_independent[folded DiscoveryConfig_DeepCopy_def]
lemmas downstream_copy_is_independent = dsz.copy_is_independent[folded DownstreamConfig_DeepCopy_def]
lemmas zitadel_copy_is_independent = zcz.copy_is_independent[folded ZitadelConfig_DeepCopy_def]

text \<open>
  The object that a copy of the configuration file's type gives is a new struct of equal value;
  nil gives the nil interface, so that the caller's comparison with nil holds.
\<close>

lemma copied_object:
  assumes "good_cells h" and "deref (Some a) h = Some v"
  obtains b h' where "AuthProviderZitadel_DeepCopyObject (Some a) h = Some (AuthProviderObject (Some b), h')"
    "b \<notin> dom (ce_at h)" "deref (Some b) h' = Some v" "deref (Some a) h' = Some v"
proof -
  from apz.copy_is_independent[OF assms] obtain b h'
    where run: "deep_copy zero_auth_provider AuthProviderZitadel_DeepCopyInto (Some a) h = Some (Some b, h')"
      and fresh: "b \<notin> dom (ce_at h)" and new: "deref (Some b) h' = Some v"
      and same: "\<forall>q. q \<noteq> Some b \<longrightarrow> deref q h' = deref q h" by blast
  have "a \<noteq> b" using fresh assms(2) by (auto simp: deref_def)
  then have "deref (Some a) h' = Some v" using same assms(2) by auto
  then show thesis
    using that[of b h'] run fresh new by (simp add: AuthProviderZitadel_DeepCopyObject_def AuthProviderZitadel_DeepCopy_def)
qed

lemma copied_nil: "AuthProviderZitadel_DeepCopyObject None h = Some (NilObject, h)"
  by (simp add: AuthProviderZitadel_DeepCopyObject_def AuthProviderZitadel_DeepCopy_def apz.copy_of_nil)

end
