(* ===== verification/Entry_Point.thy ===== *)
theory Entry_Point
  imports Api_Command
begin

text \<open>
  cmd/main.go: the root command with its subcommands, the initialisation before each of them and the
  exit status of the process. The parser of the command line is cobra's, an argument with what it
  documents as a law.
\<close>

type_synonym 'w run_e = "string list \<Rightarrow> ('w, go_error option) state"

text \<open>How a process ends: \<^verbatim>\<open>os.Exit\<close> in the initialisation, or what the command returned.\<close>

datatype execution = Exited nat | Returned "go_error option"

text \<open>\<^verbatim>\<open>initConfig\<close>: the status with which it ends the process, if it does.\<close>

definition initConfig :: "bool \<Rightarrow> global_config \<Rightarrow> nat option" where
  "initConfig verbose cfg = (case snd (InitializeLogging verbose cfg) of Some e \<Rightarrow> Some 1 | None \<Rightarrow> None)"

text \<open>
  \<^verbatim>\<open>NewVersionCommand\<close>: what the subcommand runs. The arguments are the parser of the option
  \<^verbatim>\<open>output\<close> with its default, and where the text is printed.
\<close>

definition NewVersionCommand ::
  "(string \<Rightarrow> string list \<Rightarrow> string) \<Rightarrow> (string \<Rightarrow> ('w, unit) state) \<Rightarrow> (version_info \<Rightarrow> go_error + string) \<Rightarrow>
   version_info \<Rightarrow> 'w run_e" where
  "NewVersionCommand output print MarshalIndent info args =
     (case runVersion MarshalIndent info (output ''text'' args) of
        Inl e \<Rightarrow> State_Monad.return (Some e)
      | Inr line \<Rightarrow> State_Monad.bind (print line) (\<lambda>_. State_Monad.return None))"

text \<open>The subcommands of \<^verbatim>\<open>execute\<close> in their order, for what the five constructors give them to run.\<close>

definition subcommands :: "'w run_e \<Rightarrow> 'w run_e \<Rightarrow> 'w run_e \<Rightarrow> 'w run_e \<Rightarrow> 'w run_e \<Rightarrow> (string \<times> 'w run_e) list" where
  "subcommands controller version actions webhook api =
     [(''controller'', controller), (''version'', version), (''actions-server'', actions),
      (''authn-webhook'', webhook), (''apiserver'', api)]"

text \<open>
  \<^verbatim>\<open>rootCmd.Execute\<close>: from the hook of \<^verbatim>\<open>OnInitialize\<close>, the global options with their defaults, the
  subcommands and the arguments of the process.
\<close>

type_synonym 'w cobra =
  "(global_config \<Rightarrow> nat option) \<Rightarrow> global_config \<Rightarrow> (string \<times> 'w run_e) list \<Rightarrow> string list \<Rightarrow> ('w, execution) state"

definition execute :: "'w cobra \<Rightarrow> bool \<Rightarrow> (string \<times> 'w run_e) list \<Rightarrow> string list \<Rightarrow> ('w, execution) state" where
  "execute cobra verbose cmds args = cobra (initConfig verbose) global_flags cmds args"

definition main_exit :: "'w cobra \<Rightarrow> bool \<Rightarrow> (string \<times> 'w run_e) list \<Rightarrow> string list \<Rightarrow> ('w, nat) state" where
  "main_exit cobra verbose cmds args =
     State_Monad.bind (execute cobra verbose cmds args) (\<lambda>r.
       State_Monad.return (case r of Exited n \<Rightarrow> n | Returned err \<Rightarrow> main_status err))"

text \<open>
  What cobra documents, for a parser of the global options: a name that is no subcommand is an error
  before anything runs; else the hooks run after the options were read, then the command.
\<close>

definition cobra_law :: "(global_config \<Rightarrow> string list \<Rightarrow> global_config) \<Rightarrow> 'w cobra \<Rightarrow> bool" where
  "cobra_law parse cobra \<longleftrightarrow> (\<forall>hook cfg cmds name args.
     case map_of cmds name of
       None \<Rightarrow> (\<exists>e. cobra hook cfg cmds (name # args) = State_Monad.return (Returned (Some e)))
     | Some run \<Rightarrow> cobra hook cfg cmds (name # args) =
         (case hook (parse cfg args) of
            Some n \<Rightarrow> State_Monad.return (Exited n)
          | None \<Rightarrow> State_Monad.bind (run args) (\<lambda>err. State_Monad.return (Returned err))))"

text \<open>Logging is always initialised, whatever level and format are named.\<close>

lemma initConfig_goes_on [simp]: "initConfig verbose cfg = None"
  by (simp add: initConfig_def InitializeLogging_def)

text \<open>
  The process ends with status 0 exactly when its first argument names a subcommand and that
  returned no error; an unknown name runs nothing.
\<close>

lemma main_exit_status:
  assumes law: "cobra_law parse cobra"
  shows "case map_of cmds name of
      None \<Rightarrow> run_state (main_exit cobra verbose cmds (name # args)) w = (1, w)
    | Some run \<Rightarrow> run_state (main_exit cobra verbose cmds (name # args)) w =
        (case run_state (run args) w of (err, w') \<Rightarrow> (if err = None then 0 else 1, w'))"
proof (cases "map_of cmds name")
  case None
  then obtain e where "cobra (initConfig verbose) global_flags cmds (name # args) = State_Monad.return (Returned (Some e))"
    using law[unfolded cobra_law_def, rule_format, of "initConfig verbose" global_flags cmds name args] by auto
  then show ?thesis using None by (simp add: main_exit_def execute_def main_status_def)
next
  case (Some run)
  then have "cobra (initConfig verbose) global_flags cmds (name # args) =
      State_Monad.bind (run args) (\<lambda>err. State_Monad.return (Returned err))"
    using law[unfolded cobra_law_def, rule_format, of "initConfig verbose" global_flags cmds name args] by simp
  then show ?thesis
    using Some by (auto simp: main_exit_def execute_def main_status_def split: prod.splits option.splits)
qed

text \<open>The law has a model: look the name up, read the options, run the hook and the command.\<close>

definition plain_cobra :: "'w cobra" where
  "plain_cobra hook cfg cmds args =
     (case args of
        [] \<Rightarrow> State_Monad.return (Returned None)
      | name # rest \<Rightarrow>
          (case map_of cmds name of
             None \<Rightarrow> State_Monad.return (Returned (Some (errorf (''unknown command '' @ name))))
           | Some run \<Rightarrow>
               (case hook cfg of
                  Some n \<Rightarrow> State_Monad.return (Exited n)
                | None \<Rightarrow> State_Monad.bind (run rest) (\<lambda>err. State_Monad.return (Returned err)))))"

lemma plain_cobra_law: "cobra_law (\<lambda>cfg args. cfg) plain_cobra"
  by (auto simp: cobra_law_def plain_cobra_def split: option.splits)

text \<open>An output format that is not known prints nothing and is an error.\<close>

lemma version_unknown_output:
  assumes "output ''text'' args \<notin> {''json'', ''text''}"
  shows "NewVersionCommand output print MarshalIndent info args =
    State_Monad.return (Some (errorf (''unsupported output format: '' @ output ''text'' args)))"
  using assms by (simp add: NewVersionCommand_def runVersion_def)

lemma every_subcommand_runs:
  "map fst (subcommands c v a h s) = [''controller'', ''version'', ''actions-server'', ''authn-webhook'', ''apiserver'']"
  "distinct (map fst (subcommands c v a h s))"
  by (simp_all add: subcommands_def)

end
