(* ===== verification/Spec2Isabelle.thy ===== *)
theory Spec2Isabelle
  imports Delivery_Properties Mail_Properties Assertion_Races Avatar_Races GC_Skips Access_Properties
    Command_Properties Actions_Command Start_Properties Api_Start_Properties Budget_Races Mail_Types GC_Metrics
    Collect_Races Config_Copies Entry_Point
begin

text \<open>
  Verification of auth-provider-zitadel, the service that connects the identity provider Zitadel with
  the Milo control plane.

  \<^bold>\<open>The program.\<close> One binary with four servers. The actions server receives signed webhooks of Zitadel
  (an account was created, an address verified, a session or a passkey added or removed) and keeps
  the User objects of Milo and the notification Emails in step. The webhook server answers the
  TokenReviews of the API server by introspecting tokens at Zitadel, and sends verification and
  account recovery mails for the login pages. The controller manager reconciles Users, Projects,
  ServiceAccounts and the platform access of Users with Zitadel, provisions missing Users in sweeps
  and collects abandoned accounts. The identity API server serves sessions, passkeys, identities,
  service account keys and the recovery links of support. All of them share the Zitadel client, the
  construction of Users and the recovery mail.

  \<^bold>\<open>How it is modelled.\<close> Every definition is a function that computes. Code with effects is an action
  of the state monad over a world of any type \<^verbatim>\<open>'w\<close>; the state the program itself keeps is explicit in
  it (the server state of the actions server with its pending avatars and its client, the cache of
  the client assertion). Where goroutines share state, or run side by side, the model is an inductive step
  relation over their program points. A Go error is a value with its text and what the predicates of the
  libraries can find in it; fallible code returns a sum or an option, and an interface value that
  holds a nil pointer is distinguished from nil, because the code confuses the two. Durations and
  instants are integers of nanoseconds; products of durations wrap at 64 bits where the code
  multiplies them.

  What is not in the repository is an argument: the Kubernetes client (record \<^verbatim>\<open>kube\<close> and
  \<^verbatim>\<open>object_client\<close>), the gRPC calls of Zitadel (\<^verbatim>\<open>grpc\<close>), HTTP round trips, the JSON scanner, SHA-256,
  URL and key parsing (\<^verbatim>\<open>golib\<close>, \<^verbatim>\<open>token_lib\<close>), the finalizer and condition helpers of
  controller-runtime, \<^verbatim>\<open>errgroup\<close>, clusters and managers, \<^verbatim>\<open>retry.RetryOnConflict\<close>, clock, timer and random identifiers. What the theorems
  need of them are named laws (for example \<^verbatim>\<open>get_user_law\<close>, \<^verbatim>\<open>create_user_law\<close>, \<^verbatim>\<open>update_status_law\<close>, \<^verbatim>\<open>gc_law\<close>,
  \<^verbatim>\<open>listing_law\<close>, \<^verbatim>\<open>finalizer_law\<close>, \<^verbatim>\<open>condition_law\<close>, \<^verbatim>\<open>errgroup_law\<close>), over a view of the world; each law is shown to hold of a
  concrete implementation in memory, with which the witnesses run the code.

  \<^bold>\<open>Theories.\<close>
  \<^item> \<^verbatim>\<open>Prelude\<close>: Go's strings, errors, HTTP values and time; triples, preserved and silent actions.
    \<^verbatim>\<open>Go_Url\<close>, \<^verbatim>\<open>Go_Json\<close>: query strings and struct decoding. \<^verbatim>\<open>Polling\<close>, \<^verbatim>\<open>Paging\<close>: locales for the retry
    loops and the page loops of the sweeps, interpreted on each loop.
    \<^verbatim>\<open>Step_Systems\<close>: locales for systems of steps (an invariant; a measure), interpreted on each system.
  \<^item> \<^verbatim>\<open>Milo_Api\<close>: User, Email, Event and the client; \<^verbatim>\<open>Zitadel_Api\<close>: pkg/zitadel/api.go; \<^verbatim>\<open>Zitadel_Sdk\<close>:
    pkg/zitadel/sdk\_client.go and session\_meta.go; \<^verbatim>\<open>Zitadel_Rest\<close>: internal/zitadel.
  \<^item> \<^verbatim>\<open>User_Provision\<close>: internal/userprovision and internal/emailverified.
  \<^item> \<^verbatim>\<open>Actions_Base\<close>, \<^verbatim>\<open>Actions_Handlers\<close>, \<^verbatim>\<open>Suspicious_Login\<close>, \<^verbatim>\<open>Passkey_Handlers\<close>, \<^verbatim>\<open>Actions_Server\<close>:
    internal/httpactionsserver, pkg/gateway and the client initialisation of cmd/actionsserver.
    \<^verbatim>\<open>Actions_Command\<close>: the rest of that command, the HTTP client and the listener, pkg/zitadel-actions.
  \<^item> \<^verbatim>\<open>Recovery_Mail\<close>, \<^verbatim>\<open>Webhook_Mail\<close>, \<^verbatim>\<open>Token_Review\<close>: internal/recoverymail, internal/webhook, pkg/token and
    pkg/private-key.
  \<^item> \<^verbatim>\<open>User_Sweep\<close>, \<^verbatim>\<open>Abandoned_GC\<close>: the two periodic jobs of internal/controller. \<^verbatim>\<open>Finalizing\<close>,
    \<^verbatim>\<open>Object_Controllers\<close>, \<^verbatim>\<open>Service_Account\<close>, \<^verbatim>\<open>Platform_Access\<close>: its reconcilers; the locale \<^verbatim>\<open>finalizing\<close> is
    what three of them share and is interpreted on each.
  \<^item> \<^verbatim>\<open>Identity_Api\<close>, \<^verbatim>\<open>Registration_Links\<close>, \<^verbatim>\<open>Service_Keys\<close>: internal/apiserver/identity.
  \<^item> \<^verbatim>\<open>Server_Commands\<close>, \<^verbatim>\<open>Controller_Command\<close>: cmd/webhookserver, the configuration, leader election and
    discovery of cmd/controller, and internal/config. \<^verbatim>\<open>Run_Group\<close>: \<^verbatim>\<open>runUntilManagerStops\<close>, the goroutines of the
    controller process. \<^verbatim>\<open>Controller_Start\<close>: \<^verbatim>\<open>runController\<close> block by block with the \<^verbatim>\<open>SetupWithManager\<close>
    methods. \<^verbatim>\<open>Api_Command\<close>: cmd/apiserver, logging, pkg/apis/identity and pkg/version. \<^verbatim>\<open>Entry_Point\<close>: cmd/main.go and the
    version command. \<^verbatim>\<open>Config_Copies\<close>: the generated copies and the registration of internal/config, over an explicit store.
  \<^item> \<^verbatim>\<open>Assertion_Races\<close>: pkg/token again, with any number of requests that share the client assertion. \<^verbatim>\<open>Avatar_Races\<close>: avatar\_sync.go
    with any number of requests that share the pending avatars. \<^verbatim>\<open>Budget_Races\<close>: accountrecovery.go with requests that
    share the mail budget. \<^verbatim>\<open>Collect_Races\<close>: the sweeper and the collector at the same time. In each of these systems a
    step is one call of the code, and a request or sweep that runs alone is shown to take the steps of its definition.

  \<^bold>\<open>What is shown.\<close>
  \<^item> \<^verbatim>\<open>Actions_Properties\<close>, \<^verbatim>\<open>Delivery_Properties\<close>, \<^verbatim>\<open>Login_Properties\<close>, \<^verbatim>\<open>Notification_Properties\<close>: nothing happens
    without a valid signature; the invariant and the round trip of pending avatars; when a request
    can panic and that a failed initialisation makes it do so; redelivery; the write of the
    verification state loses no update; when a login is suspicious; whom the mails are addressed to.
    \<^verbatim>\<open>Avatar_Races\<close>: concurrent requests neither mix the avatars of addresses nor lose the avatar of one.
    \<^verbatim>\<open>Actions_Command\<close>: when the server starts, and that a server it starts checks signatures with a key.
  \<^item> \<^verbatim>\<open>Mail_Properties\<close>, \<^verbatim>\<open>Token_Properties\<close>, \<^verbatim>\<open>Assertion_Races\<close>: the gates of account recovery and its budget, where the code
    of a recovery mail is, that a repeated verification sends once; authenticated means active, and
    the freshness of the cached assertion, also under concurrent requests, of which one at a time signs; a
    request that runs alone takes the steps of the sequential definition. \<^verbatim>\<open>Budget_Races\<close>: what is left of the mail
    budget when requests arrive together, and that the bound is reached: two requests at once are sent two mails
    under a cap of one. \<^verbatim>\<open>Mail_Types\<close>: every Email that any part of the program stores is well-formed.
  \<^item> \<^verbatim>\<open>Sweep_Properties\<close>, \<^verbatim>\<open>GC_Properties\<close>, \<^verbatim>\<open>GC_Skips\<close>: the sweeps end, what they create, change and delete, that
    an account with a login name is never collected, and that the collector passes over as many accounts
    as it has deleted. \<^verbatim>\<open>GC_Metrics\<close>: what the counters of a sweep say, and that a dry run reports exactly what
    a sweep would delete. \<^verbatim>\<open>Collect_Races\<close>: under every interleaving the sweeper brings back no User that was collected.
  \<^item> \<^verbatim>\<open>Controller_Properties\<close>, \<^verbatim>\<open>Service_Properties\<close>, \<^verbatim>\<open>Access_Properties\<close>: the order of finalizer and
    account, what a successful reconciliation has achieved, a refinement of the treatment of
    account states by an abstract table, that a reconciled object is left alone, and two errors.
  \<^item> \<^verbatim>\<open>Identity_Properties\<close>: who may list whose entries (one locale, interpreted on the three
    resources), that deleting a session ignores its owner, the gates of the support link, and that
    key operations stay in the organization of the project.
  \<^item> \<^verbatim>\<open>Command_Properties\<close>, \<^verbatim>\<open>Start_Properties\<close>, \<^verbatim>\<open>Api_Start_Properties\<close>, \<^verbatim>\<open>Run_Group\<close>: what a started webhook
    server exposes, that the default configuration of the collector deletes nothing, how a started
    controller is configured, what an identity API server can do with and without a configuration for
    Milo, which selectors reach its storages, and that the controller process ends with its manager.
  \<^item> \<^verbatim>\<open>Config_Copies\<close>: a copy is a struct of its own with the value of its source (one locale, interpreted on the four
    types). \<^verbatim>\<open>Entry_Point\<close>: the exit status of the process.

  \<^bold>\<open>Loops and fuel.\<close> The retry loops have the number of attempts as their measure. The page loops of
  the two sweeps take fuel, one unit for a page; a sweep over a listing of \<^verbatim>\<open>n\<close> accounts needs one more
  than \<^verbatim>\<open>n div 100\<close>, and that this is enough is part of the theorems. The background retry of the client
  runs until it succeeds; its theorem takes fuel for the number of failures and one more. The
  tickers of the periodic jobs are a number of ticks.

  The run of the controller's goroutines has the number of those that have not returned as its measure.

  \<^bold>\<open>Not modelled.\<close> Log output, and the registration of the Prometheus metrics: of the metrics of the two sweeps the model
  has what a sweep adds to them. Listening, TLS, flag parsing, the managers of
  controller-runtime and the generic API server: library code, of which the options the program gives
  it are modelled. The helpers of the end-to-end tests, which run kubectl, are no part of the program. Of the state that
  requests share, the client assertion, the pending avatars, the mail budget, and the Users and accounts of the two sweeps
  are modelled with concurrent steps; the
  handlers of the actions server are otherwise run one after the other, since its mutex guards single reads
  and writes of the client. What
  another process does between two calls is covered where the theorem is about it (the conflict-retried write, the
  systems of steps).
\<close>

end
